(* ===== verification/Inbox_Prelude.thy ===== *)
theory Inbox_Prelude
  imports Main "HOL-Library.Word"
begin

unbundle bit_operations_syntax

text \<open>
  Shared vocabulary of the development: machine integers and byte strings, the
  state-and-error computations in which the C functions are written, a small
  Hoare-style calculus for them, and generic list and word lemmas.
\<close>

section \<open>Machine integers and C strings\<close>

type_synonym u8 = "8 word"
type_synonym u16 = "16 word"
type_synonym u32 = "32 word"
type_synonym u64 = "64 word"
type_synonym bytes = "u8 list"

text \<open>The bytes of a string literal of the source (without its terminating NUL).\<close>

definition lit :: "string \<Rightarrow> bytes" where
  "lit s = map (\<lambda>c. word_of_nat (of_char c)) s"

text \<open>What a \<open>char *\<close> that points at these bytes (followed by a NUL) denotes: everything
  up to the first NUL.\<close>

definition cstr :: "bytes \<Rightarrow> bytes" where
  "cstr bs = takeWhile (\<lambda>b. b \<noteq> 0) bs"

lemma cstr_no_nul [simp]: "0 \<notin> set bs \<Longrightarrow> cstr bs = bs"
  by (auto simp: cstr_def takeWhile_eq_all_conv)

lemma cstr_trailing_nul [simp]: "0 \<notin> set bs \<Longrightarrow> cstr (bs @ 0 # cs) = bs"
  unfolding cstr_def by (subst takeWhile_append2) auto

lemma nul_notin_cstr [simp]: "0 \<notin> set (cstr bs)"
  by (auto simp: cstr_def dest: set_takeWhileD)

lemma length_cstr_le: "length (cstr bs) \<le> length bs"
  by (simp add: cstr_def length_takeWhile_le)

section \<open>Computations with state and errors\<close>

text \<open>
  A C function that updates a structure through a pointer and reports an error code is a
  function from the structure to an error or a result, together with the structure it
  leaves behind. An error keeps the state reached so far, as the C code does.
\<close>

type_synonym ('s, 'e, 'a) est = "'s \<Rightarrow> ('e + 'a) \<times> 's"

definition returnE :: "'a \<Rightarrow> ('s, 'e, 'a) est" where
  "returnE x = (\<lambda>s. (Inr x, s))"

definition throwE :: "'e \<Rightarrow> ('s, 'e, 'a) est" where
  "throwE e = (\<lambda>s. (Inl e, s))"

definition bindE :: "('s, 'e, 'a) est \<Rightarrow> ('a \<Rightarrow> ('s, 'e, 'b) est) \<Rightarrow> ('s, 'e, 'b) est" where
  "bindE m f = (\<lambda>s. case m s of (Inl e, t) \<Rightarrow> (Inl e, t) | (Inr x, t) \<Rightarrow> f x t)"

definition getsE :: "('s \<Rightarrow> 'a) \<Rightarrow> ('s, 'e, 'a) est" where
  "getsE f = (\<lambda>s. (Inr (f s), s))"

definition modifyE :: "('s \<Rightarrow> 's) \<Rightarrow> ('s, 'e, unit) est" where
  "modifyE f = (\<lambda>s. (Inr (), f s))"

text \<open>The same computation with another error.\<close>

definition mapE :: "('e \<Rightarrow> 'f) \<Rightarrow> ('s, 'e, 'a) est \<Rightarrow> ('s, 'f, 'a) est" where
  "mapE h m s = (case m s of (Inl e, t) \<Rightarrow> (Inl (h e), t) | (Inr x, t) \<Rightarrow> (Inr x, t))"

lemmas est_defs = returnE_def throwE_def bindE_def getsE_def modifyE_def

lemma bindE_returnE [simp]: "bindE (returnE x) f = f x"
  by (simp add: est_defs)

lemma bindE_throwE [simp]: "bindE (throwE e) f = throwE e"
  by (simp add: est_defs)

lemma bindE_assoc: "bindE (bindE m f) g = bindE m (\<lambda>x. bindE (f x) g)"
  by (rule ext) (simp add: bindE_def split: prod.splits sum.splits)

lemma bindE_Inr: "m s = (Inr x, t) \<Longrightarrow> bindE m f s = f x t"
  by (simp add: bindE_def)

lemma bindE_Inl: "m s = (Inl e, t) \<Longrightarrow> bindE m f s = (Inl e, t)"
  by (simp add: bindE_def)

lemma bindE_InrE:
  assumes "bindE m f s = (Inr y, u)"
  obtains x t where "m s = (Inr x, t)" and "f x t = (Inr y, u)"
  using assms by (auto simp: bindE_def split: prod.splits sum.splits)

lemma bindE_getsE [simp]: "bindE (getsE f) g s = g (f s) s"
  by (simp add: est_defs)

lemma bindE_modifyE [simp]: "bindE (modifyE f) g s = g () (f s)"
  by (simp add: est_defs)

lemma est_apply [simp]:
  "returnE x s = (Inr x, s)" "throwE e s = (Inl e, s)"
  "getsE f s = (Inr (f s), s)" "modifyE h s = (Inr (), h s)"
  by (simp_all add: est_defs)

subsection \<open>Triples\<close>

text \<open>
  \<open>hoare P m Q E\<close>: started in a state satisfying \<open>P\<close>, the computation returns
  with \<open>Q\<close> or fails with \<open>E\<close>. Computations are total functions, so this is total
  correctness up to the errors that \<open>E\<close> admits.
\<close>

definition hoare ::
  "('s \<Rightarrow> bool) \<Rightarrow> ('s, 'e, 'a) est \<Rightarrow> ('a \<Rightarrow> 's \<Rightarrow> bool) \<Rightarrow> ('e \<Rightarrow> 's \<Rightarrow> bool) \<Rightarrow> bool" where
  "hoare P m Q E \<longleftrightarrow>
     (\<forall>s. P s \<longrightarrow> (case m s of (Inl e, t) \<Rightarrow> E e t | (Inr x, t) \<Rightarrow> Q x t))"

named_theorems hoare_rules

lemma hoareI:
  assumes "\<And>s x t. P s \<Longrightarrow> m s = (Inr x, t) \<Longrightarrow> Q x t"
    and "\<And>s e t. P s \<Longrightarrow> m s = (Inl e, t) \<Longrightarrow> E e t"
  shows "hoare P m Q E"
  using assms by (auto simp: hoare_def split: prod.splits sum.splits)

lemma hoare_Inr: "hoare P m Q E \<Longrightarrow> P s \<Longrightarrow> m s = (Inr x, t) \<Longrightarrow> Q x t"
  by (auto simp: hoare_def)

lemma hoare_Inl: "hoare P m Q E \<Longrightarrow> P s \<Longrightarrow> m s = (Inl e, t) \<Longrightarrow> E e t"
  by (auto simp: hoare_def)

lemma hoare_returnE: "hoare (Q x) (returnE x) Q E"
  by (simp add: hoare_def)

lemma hoare_throwE: "hoare (E e) (throwE e) Q E"
  by (simp add: hoare_def)

lemma hoare_getsE: "hoare (\<lambda>s. Q (f s) s) (getsE f) Q E"
  by (simp add: hoare_def)

lemma hoare_modifyE: "hoare (\<lambda>s. Q () (f s)) (modifyE f) Q E"
  by (simp add: hoare_def)

lemma hoare_bindE:
  assumes "hoare P m R E" and "\<And>x. hoare (R x) (f x) Q E"
  shows "hoare P (bindE m f) Q E"
proof (rule hoareI)
  fix s x t
  assume P: "P s" and run: "bindE m f s = (Inr x, t)"
  from run obtain y u where "m s = (Inr y, u)" and "f y u = (Inr x, t)"
    by (rule bindE_InrE)
  then show "Q x t"
    using P assms by (blast dest: hoare_Inr)
next
  fix s e t
  assume P: "P s" and "bindE m f s = (Inl e, t)"
  then consider "m s = (Inl e, t)" | y u where "m s = (Inr y, u)" and "f y u = (Inl e, t)"
    by (auto simp: bindE_def split: prod.splits sum.splits)
  then show "E e t"
    using P assms by cases (blast dest: hoare_Inr hoare_Inl)+
qed

lemma hoare_weaken:
  assumes "hoare P' m Q' E'" and "\<And>s. P s \<Longrightarrow> P' s"
    and "\<And>x s. Q' x s \<Longrightarrow> Q x s" and "\<And>e s. E' e s \<Longrightarrow> E e s"
  shows "hoare P m Q E"
proof (rule hoareI)
  show "P s \<Longrightarrow> m s = (Inr x, t) \<Longrightarrow> Q x t" for s x t
    using assms by (blast dest: hoare_Inr)
  show "P s \<Longrightarrow> m s = (Inl e, t) \<Longrightarrow> E e t" for s e t
    using assms by (blast dest: hoare_Inl)
qed

text \<open>
  An invariant of a computation, kept whether it returns or fails. Most facts about the
  handlers are of this form, and compose without a verification condition.
\<close>

definition keeps :: "('s \<Rightarrow> bool) \<Rightarrow> ('s, 'e, 'a) est \<Rightarrow> bool" where
  "keeps I m \<longleftrightarrow> (\<forall>s. I s \<longrightarrow> I (snd (m s)))"

named_theorems keeps_intros

lemma keepsI: "(\<And>s. I s \<Longrightarrow> I (snd (m s))) \<Longrightarrow> keeps I m"
  by (simp add: keeps_def)

lemma keepsD: "keeps I m \<Longrightarrow> I s \<Longrightarrow> m s = (r, t) \<Longrightarrow> I t"
  by (auto simp: keeps_def)

lemma keeps_returnE [keeps_intros]: "keeps I (returnE x)"
  by (simp add: keeps_def)

lemma keeps_throwE [keeps_intros]: "keeps I (throwE e)"
  by (simp add: keeps_def)

lemma keeps_getsE [keeps_intros]: "keeps I (getsE f)"
  by (simp add: keeps_def)

lemma keeps_bindE [keeps_intros]:
  "keeps I m \<Longrightarrow> (\<And>x. keeps I (f x)) \<Longrightarrow> keeps I (bindE m f)"
  by (auto simp: keeps_def bindE_def split: prod.splits sum.splits)

lemma keeps_if [keeps_intros]:
  "(b \<Longrightarrow> keeps I m) \<Longrightarrow> (\<not> b \<Longrightarrow> keeps I n) \<Longrightarrow> keeps I (if b then m else n)"
  by simp

subsection \<open>Simulation\<close>

text \<open>
  \<open>sim I \<alpha> m d\<close>: under the representation invariant \<open>I\<close>, which it keeps, the concrete
  computation \<open>m\<close> does to the abstract value \<open>\<alpha> c\<close> of its state exactly what the
  specification \<open>d\<close> does, result and error included.
\<close>

definition sim ::
  "('c \<Rightarrow> bool) \<Rightarrow> ('c \<Rightarrow> 'a) \<Rightarrow> ('c, 'e, 'r) est \<Rightarrow> ('a, 'e, 'r) est \<Rightarrow> bool" where
  "sim I \<alpha> m d \<longleftrightarrow> (\<forall>c. I c \<longrightarrow> I (snd (m c)) \<and> d (\<alpha> c) = (fst (m c), \<alpha> (snd (m c))))"

named_theorems sim_intros

lemma simI:
  assumes "\<And>c. I c \<Longrightarrow> I (snd (m c))" and "\<And>c. I c \<Longrightarrow> d (\<alpha> c) = (fst (m c), \<alpha> (snd (m c)))"
  shows "sim I \<alpha> m d"
  using assms by (simp add: sim_def)

lemma simD:
  assumes "sim I \<alpha> m d" and "I c" and "m c = (r, c')"
  shows "I c'" and "d (\<alpha> c) = (r, \<alpha> c')"
  using assms by (auto simp: sim_def)

lemma sim_run:
  assumes "sim I \<alpha> m d" and "I c"
  shows "I (snd (m c))" and "d (\<alpha> c) = (fst (m c), \<alpha> (snd (m c)))"
  using assms by (auto simp: sim_def)

lemma sim_returnE [sim_intros]: "sim I \<alpha> (returnE x) (returnE x)"
  by (simp add: sim_def)

lemma sim_throwE [sim_intros]: "sim I \<alpha> (throwE e) (throwE e)"
  by (simp add: sim_def)

lemma sim_bindE [sim_intros]:
  assumes m: "sim I \<alpha> m d" and f: "\<And>x. sim I \<alpha> (f x) (g x)"
  shows "sim I \<alpha> (bindE m f) (bindE d g)"
proof (rule simI)
  fix c assume c: "I c"
  obtain r c' where run: "m c = (r, c')" by fastforce
  note step = simD [OF m c run]
  show "I (snd (bindE m f c))"
    using f step run by (cases r) (auto simp: bindE_def sim_def)
  show "bindE d g (\<alpha> c) = (fst (bindE m f c), \<alpha> (snd (bindE m f c)))"
    using f step run by (cases r) (auto simp: bindE_def sim_def)
qed

lemma sim_if [sim_intros]:
  "(b \<Longrightarrow> sim I \<alpha> m d) \<Longrightarrow> (\<not> b \<Longrightarrow> sim I \<alpha> n e) \<Longrightarrow> sim I \<alpha> (if b then m else n) (if b then d else e)"
  by simp

subsection \<open>Loops over a list\<close>

text \<open>A \<open>for\<close> loop that runs a computation for each element, stopping at the first error.\<close>

fun forE :: "'x list \<Rightarrow> ('x \<Rightarrow> ('s, 'e, unit) est) \<Rightarrow> ('s, 'e, unit) est" where
  "forE [] f = returnE ()"
| "forE (x # xs) f = bindE (f x) (\<lambda>_. forE xs f)"

lemma keeps_forE [keeps_intros]:
  "(\<And>x. x \<in> set xs \<Longrightarrow> keeps I (f x)) \<Longrightarrow> keeps I (forE xs f)"
  by (induction xs) (auto intro!: keeps_intros)

lemma sim_forE [sim_intros]:
  "(\<And>x. x \<in> set xs \<Longrightarrow> sim I \<alpha> (f x) (g x)) \<Longrightarrow> sim I \<alpha> (forE xs f) (forE xs g)"
  by (induction xs) (auto intro!: sim_intros)

section \<open>Writing into a block of memory\<close>

definition write_at :: "'a list \<Rightarrow> nat \<Rightarrow> 'a list \<Rightarrow> 'a list" where
  "write_at mem i xs = take i mem @ xs @ drop (i + length xs) mem"

lemma length_write_at [simp]:
  "i + length xs \<le> length mem \<Longrightarrow> length (write_at mem i xs) = length mem"
  by (simp add: write_at_def)

lemma take_write_at_before [simp]:
  "j \<le> i \<Longrightarrow> i \<le> length mem \<Longrightarrow> take j (write_at mem i xs) = take j mem"
  by (simp add: write_at_def)

lemma take_write_at_end:
  "i \<le> length mem \<Longrightarrow> take (i + length xs) (write_at mem i xs) = take i mem @ xs"
  by (simp add: write_at_def)

lemma write_at_Nil [simp]: "write_at mem i [] = mem"
  by (simp add: write_at_def)

end
