(* ===== verification/Wire.thy ===== *)
theory Wire
  imports Inbox_Prelude
begin

text \<open>
  Big-endian integer codecs: \<open>get_u64\<close>, \<open>get_u32\<close>, \<open>get_u16\<close>, \<open>put_u64\<close>,
  \<open>put_u32\<close>, \<open>put_u16\<close> of \<open>misc.c\<close>, which the \<open>PEEK\<close> and \<open>POKE\<close> macros of
  \<open>sshbuf.h\<close> repeat. A reader takes the bytes its pointer addresses, a writer returns
  the bytes it stores. The lemmas show the two directions of each round trip.
\<close>

definition get_u64 :: "bytes \<Rightarrow> u64" where
  "get_u64 p =
     push_bit 56 (ucast (p ! 0)) OR push_bit 48 (ucast (p ! 1)) OR
     push_bit 40 (ucast (p ! 2)) OR push_bit 32 (ucast (p ! 3)) OR
     push_bit 24 (ucast (p ! 4)) OR push_bit 16 (ucast (p ! 5)) OR
     push_bit 8 (ucast (p ! 6)) OR ucast (p ! 7)"

definition get_u32 :: "bytes \<Rightarrow> u32" where
  "get_u32 p =
     push_bit 24 (ucast (p ! 0)) OR push_bit 16 (ucast (p ! 1)) OR
     push_bit 8 (ucast (p ! 2)) OR ucast (p ! 3)"

definition get_u32_le :: "bytes \<Rightarrow> u32" where
  "get_u32_le p =
     ucast (p ! 0) OR push_bit 8 (ucast (p ! 1)) OR
     push_bit 16 (ucast (p ! 2)) OR push_bit 24 (ucast (p ! 3))"

definition get_u16 :: "bytes \<Rightarrow> u16" where
  "get_u16 p = push_bit 8 (ucast (p ! 0)) OR ucast (p ! 1)"

definition put_u64 :: "u64 \<Rightarrow> bytes" where
  "put_u64 v =
     [ucast (drop_bit 56 v), ucast (drop_bit 48 v), ucast (drop_bit 40 v), ucast (drop_bit 32 v),
      ucast (drop_bit 24 v), ucast (drop_bit 16 v), ucast (drop_bit 8 v), ucast v]"

definition put_u32 :: "u32 \<Rightarrow> bytes" where
  "put_u32 v =
     [ucast (drop_bit 24 v), ucast (drop_bit 16 v), ucast (drop_bit 8 v), ucast v]"

definition put_u32_le :: "u32 \<Rightarrow> bytes" where
  "put_u32_le v =
     [ucast v, ucast (drop_bit 8 v), ucast (drop_bit 16 v), ucast (drop_bit 24 v)]"

definition put_u16 :: "u16 \<Rightarrow> bytes" where
  "put_u16 v = [ucast (drop_bit 8 v), ucast v]"

lemma length_put_u [simp]:
  "length (put_u64 v) = 8" "length (put_u32 w) = 4" "length (put_u32_le w) = 4"
  "length (put_u16 x) = 2"
  by (simp_all add: put_u64_def put_u32_def put_u32_le_def put_u16_def)

lemma put_u_neq_Nil [simp]: "put_u64 v \<noteq> []" "put_u32 w \<noteq> []" "put_u16 x \<noteq> []"
  by (simp_all add: put_u64_def put_u32_def put_u16_def)

lemma u8_bit_ge: "8 \<le> n \<Longrightarrow> \<not> bit (b :: u8) n"
  by (auto dest: bit_imp_le_length)

text \<open>Which byte a bit of a 64-bit value lies in.\<close>

lemma byte_position:
  fixes n :: nat
  assumes "n < 64"
  obtains "n < 8" | "8 \<le> n" "n < 16" | "16 \<le> n" "n < 24" | "24 \<le> n" "n < 32"
  | "32 \<le> n" "n < 40" | "40 \<le> n" "n < 48" | "48 \<le> n" "n < 56" | "56 \<le> n" "n < 64"
  using assms by fastforce

lemma get_put_u16 [simp]: "get_u16 (put_u16 v @ r) = v"
  unfolding get_u16_def put_u16_def
  by (rule bit_word_eqI) (auto simp: bit_simps)

lemma get_put_u32 [simp]: "get_u32 (put_u32 v @ r) = v"
proof (rule bit_word_eqI)
  fix n :: nat
  assume n: "n < LENGTH(32)"
  then have "n < 64" by simp
  then show "bit (get_u32 (put_u32 v @ r)) n = bit v n"
    unfolding get_u32_def put_u32_def using n
    by (cases rule: byte_position) (simp_all add: bit_simps less_diff_conv2)
qed

lemma get_put_u32_le [simp]: "get_u32_le (put_u32_le v @ r) = v"
proof (rule bit_word_eqI)
  fix n :: nat
  assume n: "n < LENGTH(32)"
  then have "n < 64" by simp
  then show "bit (get_u32_le (put_u32_le v @ r)) n = bit v n"
    unfolding get_u32_le_def put_u32_le_def using n
    by (cases rule: byte_position) (simp_all add: bit_simps less_diff_conv2)
qed

lemma get_put_u64 [simp]: "get_u64 (put_u64 v @ r) = v"
proof (rule bit_word_eqI)
  fix n :: nat
  assume "n < LENGTH(64)"
  then have "n < 64" by simp
  then show "bit (get_u64 (put_u64 v @ r)) n = bit v n"
    unfolding get_u64_def put_u64_def
    by (cases rule: byte_position) (simp_all add: bit_simps less_diff_conv2)
qed

lemmas get_put_u_exact [simp] =
  get_put_u16 [where r = "[]", simplified] get_put_u32 [where r = "[]", simplified]
  get_put_u32_le [where r = "[]", simplified] get_put_u64 [where r = "[]", simplified]

lemma put_get_u16: "put_u16 (get_u16 [a, b]) = [a, b]"
  unfolding put_u16_def get_u16_def
  by (intro list_eq_iff_nth_eq [THEN iffD2] conjI) (simp, auto simp: less_Suc_eq bit_simps u8_bit_ge intro!: bit_word_eqI)

lemma put_get_u32: "put_u32 (get_u32 [a, b, c, d]) = [a, b, c, d]"
proof -
  have "ucast (drop_bit 24 (get_u32 [a, b, c, d])) = a"
    unfolding get_u32_def by (rule bit_word_eqI) (simp add: bit_simps u8_bit_ge)
  moreover have "ucast (drop_bit 16 (get_u32 [a, b, c, d])) = b"
    unfolding get_u32_def by (rule bit_word_eqI) (simp add: bit_simps u8_bit_ge)
  moreover have "ucast (drop_bit 8 (get_u32 [a, b, c, d])) = c"
    unfolding get_u32_def by (rule bit_word_eqI) (simp add: bit_simps u8_bit_ge)
  moreover have "ucast (get_u32 [a, b, c, d]) = d"
    unfolding get_u32_def by (rule bit_word_eqI) (simp add: bit_simps u8_bit_ge)
  ultimately show ?thesis by (simp add: put_u32_def)
qed

text \<open>A reader looks at its first bytes only.\<close>

lemma get_u_take [simp]:
  "get_u64 (take 8 p) = get_u64 p" "get_u32 (take 4 p) = get_u32 p" "get_u16 (take 2 p) = get_u16 p"
  by (simp_all add: get_u64_def get_u32_def get_u16_def)

lemma put_get_u32_take:
  assumes "4 \<le> length p"
  shows "put_u32 (get_u32 p) = take 4 p"
proof -
  have "take 4 p = [p ! 0, p ! 1, p ! 2, p ! 3]"
    using assms by (intro nth_equalityI) (auto simp: less_Suc_eq numeral_eq_Suc)
  moreover have "get_u32 p = get_u32 [p ! 0, p ! 1, p ! 2, p ! 3]"
    by (simp add: get_u32_def)
  ultimately show ?thesis by (simp add: put_get_u32)
qed

end
