(* ===== verification/Sshbuf.thy ===== *)
theory Sshbuf
  imports Wire
begin

text \<open>
  The buffer of \<open>src/src/openssh/sshbuf.c\<close>, in which every SSH and SFTP message of the
  inbox is read and written: its \<open>struct sshbuf\<close>, the operations that reserve, write and
  consume bytes, and the invariant that \<open>sshbuf_check_sanity\<close> tests at run time.

  Sizes are natural numbers. The C code computes in \<open>size_t\<close>, and every sum it forms is
  taken after \<open>sshbuf_check_reserve\<close> has bounded its operands by \<open>SSHBUF_SIZE_MAX\<close>,
  below \<open>2\<^sup>2\<^sup>8\<close>, so no such sum wraps. The argument \<open>al\<close> of an operation is the
  allocator: \<open>al n\<close> says whether a block of \<open>n\<close> bytes is granted.
  The pointer field \<open>d\<close> equals \<open>cd\<close> in a writable buffer and is unused in a read-only
  one, so the model keeps the block that \<open>cd\<close> points at.
\<close>

section \<open>The structure\<close>

definition SSHBUF_SIZE_MAX :: nat where "SSHBUF_SIZE_MAX = 0x8000000"
definition SSHBUF_REFS_MAX :: nat where "SSHBUF_REFS_MAX = 0x100000"
definition SSHBUF_SIZE_INIT :: nat where "SSHBUF_SIZE_INIT = 256"
definition SSHBUF_SIZE_INC :: nat where "SSHBUF_SIZE_INC = 256"
definition SSHBUF_PACK_MIN :: nat where "SSHBUF_PACK_MIN = 8192"

lemmas sshbuf_consts =
  SSHBUF_SIZE_MAX_def SSHBUF_REFS_MAX_def SSHBUF_SIZE_INIT_def SSHBUF_SIZE_INC_def
  SSHBUF_PACK_MIN_def

datatype ssh_err =
    SSH_ERR_INTERNAL_ERROR | SSH_ERR_ALLOC_FAIL | SSH_ERR_MESSAGE_INCOMPLETE
  | SSH_ERR_INVALID_FORMAT | SSH_ERR_BIGNUM_IS_NEGATIVE | SSH_ERR_STRING_TOO_LARGE
  | SSH_ERR_BIGNUM_TOO_LARGE | SSH_ERR_NO_BUFFER_SPACE | SSH_ERR_INVALID_ARGUMENT
  | SSH_ERR_BUFFER_READ_ONLY

record sshbuf =
  sb_cd :: bytes
  sb_off :: nat
  sb_size :: nat
  sb_max_size :: nat
  sb_alloc :: nat
  sb_readonly :: bool
  sb_refcount :: nat

type_synonym 'a sb = "(sshbuf, ssh_err, 'a) est"

definition sane :: "sshbuf \<Rightarrow> bool" where
  "sane buf \<longleftrightarrow>
     \<not> (sb_refcount buf < 1 \<or> sb_refcount buf > SSHBUF_REFS_MAX \<or>
        sb_max_size buf > SSHBUF_SIZE_MAX \<or>
        sb_alloc buf > sb_max_size buf \<or>
        sb_size buf > sb_alloc buf \<or>
        sb_off buf > sb_size buf)"

text \<open>The C function raises \<open>SIGSEGV\<close> before it returns the error.\<close>

definition sshbuf_check_sanity :: "unit sb" where
  "sshbuf_check_sanity buf =
     (if \<not> sane buf then (Inl SSH_ERR_INTERNAL_ERROR, buf) else (Inr (), buf))"

text \<open>The live bytes: \<open>sshbuf_len(buf)\<close> bytes from \<open>sshbuf_ptr(buf)\<close> on.\<close>

definition sshbuf_ptr :: "sshbuf \<Rightarrow> bytes" where
  "sshbuf_ptr buf = drop (sb_off buf) (take (sb_size buf) (sb_cd buf))"

definition sshbuf_len :: "sshbuf \<Rightarrow> nat" where
  "sshbuf_len buf = (if \<not> sane buf then 0 else sb_size buf - sb_off buf)"

definition sshbuf_avail :: "sshbuf \<Rightarrow> nat" where
  "sshbuf_avail buf =
     (if \<not> sane buf \<or> sb_readonly buf \<or> sb_refcount buf > 1 then 0
      else sb_max_size buf - (sb_size buf - sb_off buf))"

section \<open>Allocation and packing\<close>

definition ROUNDUP :: "nat \<Rightarrow> nat \<Rightarrow> nat" where
  "ROUNDUP x y = ((x + (y - 1)) div y) * y"

text \<open>\<open>recallocarray\<close>: the old contents, cut or padded with zeros to the new size.\<close>

definition recallocarray :: "bytes \<Rightarrow> nat \<Rightarrow> bytes" where
  "recallocarray mem n = take n mem @ replicate (n - length mem) 0"

definition sshbuf_new :: "(nat \<Rightarrow> bool) \<Rightarrow> sshbuf option" where
  "sshbuf_new al =
     (if al SSHBUF_SIZE_INIT
      then Some \<lparr>sb_cd = replicate SSHBUF_SIZE_INIT 0, sb_off = 0, sb_size = 0,
                 sb_max_size = SSHBUF_SIZE_MAX, sb_alloc = SSHBUF_SIZE_INIT,
                 sb_readonly = False, sb_refcount = 1\<rparr>
      else None)"

definition sshbuf_from :: "bytes \<Rightarrow> sshbuf option" where
  "sshbuf_from blob =
     (if length blob > SSHBUF_SIZE_MAX then None
      else Some \<lparr>sb_cd = blob, sb_off = 0, sb_size = length blob,
                 sb_max_size = length blob, sb_alloc = length blob,
                 sb_readonly = True, sb_refcount = 1\<rparr>)"

definition sshbuf_maybe_pack :: "bool \<Rightarrow> sshbuf \<Rightarrow> sshbuf" where
  "sshbuf_maybe_pack force buf =
     (if sb_off buf = 0 \<or> sb_readonly buf \<or> sb_refcount buf > 1 then buf
      else if force \<or> (sb_off buf \<ge> SSHBUF_PACK_MIN \<and> sb_off buf \<ge> sb_size buf div 2)
      then buf\<lparr>sb_cd := write_at (sb_cd buf) 0
                         (take (sb_size buf - sb_off buf) (drop (sb_off buf) (sb_cd buf))),
               sb_size := sb_size buf - sb_off buf, sb_off := 0\<rparr>
      else buf)"

definition sshbuf_reset :: "(nat \<Rightarrow> bool) \<Rightarrow> sshbuf \<Rightarrow> sshbuf" where
  "sshbuf_reset al buf =
     (if sb_readonly buf \<or> sb_refcount buf > 1 then buf\<lparr>sb_off := sb_size buf\<rparr>
      else
        let b = buf\<lparr>sb_off := 0, sb_size := 0\<rparr>;
            b' = (if sb_alloc b \<noteq> SSHBUF_SIZE_INIT \<and> al SSHBUF_SIZE_INIT
                  then b\<lparr>sb_cd := recallocarray (sb_cd b) SSHBUF_SIZE_INIT,
                         sb_alloc := SSHBUF_SIZE_INIT\<rparr>
                  else b)
        in b'\<lparr>sb_cd := write_at (sb_cd b') 0 (replicate SSHBUF_SIZE_INIT 0)\<rparr>)"

definition sshbuf_set_max_size :: "(nat \<Rightarrow> bool) \<Rightarrow> nat \<Rightarrow> unit sb" where
  "sshbuf_set_max_size al max_size =
     bindE sshbuf_check_sanity (\<lambda>_ buf.
       if max_size = sb_max_size buf then (Inr (), buf)
       else if sb_readonly buf \<or> sb_refcount buf > 1 then (Inl SSH_ERR_BUFFER_READ_ONLY, buf)
       else if max_size > SSHBUF_SIZE_MAX then (Inl SSH_ERR_NO_BUFFER_SPACE, buf)
       else
         let b = sshbuf_maybe_pack (max_size < sb_size buf) buf;
             grow = (max_size < sb_alloc b \<and> max_size > sb_size b);
             rlen0 = (if sb_size b < SSHBUF_SIZE_INIT then SSHBUF_SIZE_INIT
                      else ROUNDUP (sb_size b) SSHBUF_SIZE_INC);
             rlen = (if rlen0 > max_size then max_size else rlen0)
         in if grow \<and> \<not> al rlen then (Inl SSH_ERR_ALLOC_FAIL, b)
            else
              let b' = (if grow then b\<lparr>sb_cd := recallocarray (sb_cd b) rlen, sb_alloc := rlen\<rparr>
                        else b)
              in if max_size < sb_alloc b' then (Inl SSH_ERR_NO_BUFFER_SPACE, b')
                 else (Inr (), b'\<lparr>sb_max_size := max_size\<rparr>))"

definition sshbuf_check_reserve :: "nat \<Rightarrow> unit sb" where
  "sshbuf_check_reserve len =
     bindE sshbuf_check_sanity (\<lambda>_ buf.
       if sb_readonly buf \<or> sb_refcount buf > 1 then (Inl SSH_ERR_BUFFER_READ_ONLY, buf)
       else if len > sb_max_size buf \<or> sb_max_size buf - len < sb_size buf - sb_off buf
       then (Inl SSH_ERR_NO_BUFFER_SPACE, buf)
       else (Inr (), buf))"

definition sshbuf_allocate :: "(nat \<Rightarrow> bool) \<Rightarrow> nat \<Rightarrow> unit sb" where
  "sshbuf_allocate al len =
     bindE (sshbuf_check_reserve len) (\<lambda>_ buf.
       let b = sshbuf_maybe_pack (sb_size buf + len > sb_max_size buf) buf
       in if len + sb_size b \<le> sb_alloc b then (Inr (), b)
          else
            let need = len + sb_size b - sb_alloc b;
                rlen0 = ROUNDUP (sb_alloc b + need) SSHBUF_SIZE_INC;
                rlen = (if rlen0 > sb_max_size b then sb_alloc b + need else rlen0)
            in if \<not> al rlen then (Inl SSH_ERR_ALLOC_FAIL, b)
               else sshbuf_check_reserve len
                      (b\<lparr>sb_alloc := rlen, sb_cd := recallocarray (sb_cd b) rlen\<rparr>))"

text \<open>\<open>sshbuf_reserve\<close> yields the pointer \<open>dp\<close>, here its index in the block.\<close>

definition sshbuf_reserve :: "(nat \<Rightarrow> bool) \<Rightarrow> nat \<Rightarrow> nat sb" where
  "sshbuf_reserve al len =
     bindE (sshbuf_allocate al len) (\<lambda>_ buf.
       (Inr (sb_size buf), buf\<lparr>sb_size := sb_size buf + len\<rparr>))"

definition sshbuf_consume :: "nat \<Rightarrow> unit sb" where
  "sshbuf_consume len =
     bindE sshbuf_check_sanity (\<lambda>_ buf.
       if len = 0 then (Inr (), buf)
       else if len > sshbuf_len buf then (Inl SSH_ERR_MESSAGE_INCOMPLETE, buf)
       else
         let b = buf\<lparr>sb_off := sb_off buf + len\<rparr>
         in (Inr (), if sb_off b = sb_size b then b\<lparr>sb_off := 0, sb_size := 0\<rparr> else b))"

definition sshbuf_consume_end :: "nat \<Rightarrow> unit sb" where
  "sshbuf_consume_end len =
     bindE sshbuf_check_sanity (\<lambda>_ buf.
       if len = 0 then (Inr (), buf)
       else if len > sshbuf_len buf then (Inl SSH_ERR_MESSAGE_INCOMPLETE, buf)
       else (Inr (), buf\<lparr>sb_size := sb_size buf - len\<rparr>))"

section \<open>The invariant\<close>

text \<open>
  A well-formed buffer passes the run-time check and its block has the size it claims. A
  writable one is in addition neither read-only nor shared with a child buffer.
\<close>

definition sb_wf :: "sshbuf \<Rightarrow> bool" where
  "sb_wf buf \<longleftrightarrow> sane buf \<and> length (sb_cd buf) = sb_alloc buf"

definition sb_writable :: "sshbuf \<Rightarrow> bool" where
  "sb_writable buf \<longleftrightarrow> sb_wf buf \<and> \<not> sb_readonly buf \<and> sb_refcount buf = 1"

lemma sb_writable_wf [simp]: "sb_writable buf \<Longrightarrow> sb_wf buf"
  by (simp add: sb_writable_def)

lemma sb_wf_sane [simp]: "sb_wf buf \<Longrightarrow> sane buf"
  by (simp add: sb_wf_def)

lemma sshbuf_check_sanity_ok [simp]: "sane buf \<Longrightarrow> sshbuf_check_sanity buf = (Inr (), buf)"
  by (simp add: sshbuf_check_sanity_def)

lemma length_sshbuf_ptr [simp]: "sb_wf buf \<Longrightarrow> length (sshbuf_ptr buf) = sb_size buf - sb_off buf"
  by (auto simp: sshbuf_ptr_def sb_wf_def sane_def)

lemma sshbuf_len_ptr: "sb_wf buf \<Longrightarrow> sshbuf_len buf = length (sshbuf_ptr buf)"
  by (simp add: sshbuf_len_def)

lemma length_recallocarray [simp]: "length (recallocarray mem n) = n"
  by (simp add: recallocarray_def)

lemma take_recallocarray [simp]: "k \<le> n \<Longrightarrow> k \<le> length mem \<Longrightarrow> take k (recallocarray mem n) = take k mem"
  by (simp add: recallocarray_def)

lemma ROUNDUP_ge:
  assumes "0 < y"
  shows "x \<le> ROUNDUP x y"
proof -
  have "ROUNDUP x y = (x + (y - 1)) - (x + (y - 1)) mod y"
    by (simp add: ROUNDUP_def minus_mod_eq_div_mult)
  moreover have "(x + (y - 1)) mod y \<le> y - 1"
    using assms mod_less_divisor [of y "x + (y - 1)"] by linarith
  ultimately show ?thesis by linarith
qed

lemma sshbuf_new_writable: "sshbuf_new al = Some buf \<Longrightarrow> sb_writable buf \<and> sshbuf_ptr buf = []"
  by (auto simp: sshbuf_new_def sb_writable_def sb_wf_def sane_def sshbuf_ptr_def sshbuf_consts
      split: if_splits)

lemma sshbuf_from_wf: "sshbuf_from blob = Some buf \<Longrightarrow> sb_wf buf \<and> sshbuf_ptr buf = blob"
  by (auto simp: sshbuf_from_def sb_wf_def sane_def sshbuf_ptr_def sshbuf_consts
      split: if_splits)

section \<open>What the operations do to the live bytes\<close>

text \<open>Two buffers that differ only in how the live bytes are laid out.\<close>

definition sb_same :: "sshbuf \<Rightarrow> sshbuf \<Rightarrow> bool" where
  "sb_same b b' \<longleftrightarrow>
     sshbuf_ptr b' = sshbuf_ptr b \<and> sb_max_size b' = sb_max_size b \<and>
     sb_readonly b' = sb_readonly b \<and> sb_refcount b' = sb_refcount b"

lemma sb_same_refl [simp]: "sb_same b b"
  by (simp add: sb_same_def)

lemma drop_take_swap: "drop m (take n xs) = take (n - m) (drop m xs)"
  by (simp add: drop_take)

lemma sshbuf_maybe_pack_wf:
  assumes "sb_wf b"
  shows "sb_wf (sshbuf_maybe_pack f b)"
    and "sb_same b (sshbuf_maybe_pack f b)"
    and "sb_alloc (sshbuf_maybe_pack f b) = sb_alloc b"
  using assms
  by (auto simp: sshbuf_maybe_pack_def sb_wf_def sane_def sb_same_def sshbuf_ptr_def
      write_at_def drop_take)

lemma sshbuf_maybe_pack_writable:
  assumes "sb_writable b"
  shows "sb_writable (sshbuf_maybe_pack f b)"
  using assms sshbuf_maybe_pack_wf [of b f] by (simp add: sb_writable_def sb_same_def)

lemma sshbuf_maybe_pack_off:
  "sb_writable b \<Longrightarrow> sb_off (sshbuf_maybe_pack True b) = 0"
  by (auto simp: sshbuf_maybe_pack_def sb_writable_def)

lemma sb_size_off: "sb_wf b \<Longrightarrow> sb_size b = sb_off b + length (sshbuf_ptr b)"
  by (auto simp: sb_wf_def sane_def)

subsection \<open>Consuming\<close>

lemma sshbuf_consume_ok:
  assumes "sb_wf b" and "n \<le> length (sshbuf_ptr b)"
  shows "\<exists>b'. sshbuf_consume n b = (Inr (), b') \<and> sb_wf b' \<and>
           sshbuf_ptr b' = drop n (sshbuf_ptr b) \<and> sb_max_size b' = sb_max_size b \<and>
           sb_readonly b' = sb_readonly b \<and> sb_refcount b' = sb_refcount b \<and>
           sb_cd b' = sb_cd b"
  using assms
  by (auto simp: sshbuf_consume_def bindE_def Let_def sshbuf_len_def sb_wf_def sane_def
      sshbuf_ptr_def add.commute)

lemma sshbuf_consume_fail:
  assumes "sb_wf b" and "length (sshbuf_ptr b) < n"
  shows "sshbuf_consume n b = (Inl SSH_ERR_MESSAGE_INCOMPLETE, b)"
  using assms by (auto simp: sshbuf_consume_def bindE_def sshbuf_len_def)

lemma sshbuf_consume_end_ok:
  assumes "sb_wf b" and "n \<le> length (sshbuf_ptr b)"
  shows "\<exists>b'. sshbuf_consume_end n b = (Inr (), b') \<and> sb_wf b' \<and>
           sshbuf_ptr b' = take (length (sshbuf_ptr b) - n) (sshbuf_ptr b) \<and>
           sb_max_size b' = sb_max_size b \<and>
           sb_readonly b' = sb_readonly b \<and> sb_refcount b' = sb_refcount b"
proof -
  have le: "n \<le> sb_size b - sb_off b"
    using assms by simp
  then have "take (sb_size b - n) (sb_cd b) = take (sb_size b - n) (take (sb_size b) (sb_cd b))"
    by (simp add: min_def)
  then have "drop (sb_off b) (take (sb_size b - n) (sb_cd b)) =
      take (sb_size b - sb_off b - n) (sshbuf_ptr b)"
    using le by (simp add: sshbuf_ptr_def drop_take min_def add.commute)
  then show ?thesis
    using assms le
    by (auto simp: sshbuf_consume_end_def bindE_def sshbuf_len_def sb_wf_def sane_def
        sshbuf_ptr_def)
qed

subsection \<open>Reserving and writing\<close>

lemma sshbuf_check_reserve_writable:
  assumes "sb_writable b"
  shows "sshbuf_check_reserve n b =
    (if length (sshbuf_ptr b) + n \<le> sb_max_size b then (Inr (), b)
     else (Inl SSH_ERR_NO_BUFFER_SPACE, b))"
  using assms
  by (auto simp: sshbuf_check_reserve_def bindE_def sb_writable_def sb_wf_def sane_def)

lemma sshbuf_check_reserve_shared:
  assumes "sb_wf b" and "sb_readonly b \<or> sb_refcount b > 1"
  shows "sshbuf_check_reserve n b = (Inl SSH_ERR_BUFFER_READ_ONLY, b)"
  using assms by (auto simp: sshbuf_check_reserve_def bindE_def)

text \<open>Growing the block of a writable buffer to at most its maximum size.\<close>

lemma sb_grow_writable:
  assumes "sb_writable b" and "sb_size b \<le> n" and "n \<le> sb_max_size b"
  shows "sb_writable (b\<lparr>sb_alloc := n, sb_cd := recallocarray (sb_cd b) n\<rparr>)"
    and "sb_same b (b\<lparr>sb_alloc := n, sb_cd := recallocarray (sb_cd b) n\<rparr>)"
  using assms
  by (auto simp: sb_writable_def sb_wf_def sane_def sb_same_def sshbuf_ptr_def)

lemma sshbuf_allocate_space:
  assumes wr: "sb_writable b" and fit: "length (sshbuf_ptr b) + n \<le> sb_max_size b"
  obtains (ok) b' where "sshbuf_allocate al n b = (Inr (), b')" "sb_writable b'" "sb_same b b'"
      "sb_size b' + n \<le> sb_alloc b'"
  | (nomem) b' where "sshbuf_allocate al n b = (Inl SSH_ERR_ALLOC_FAIL, b')" "sb_writable b'"
      "sb_same b b'" "\<exists>k. \<not> al k"
proof -
  define p where "p = sshbuf_maybe_pack (sb_size b + n > sb_max_size b) b"
  define need where "need = n + sb_size p - sb_alloc p"
  define rlen where "rlen = (if ROUNDUP (sb_alloc p + need) SSHBUF_SIZE_INC > sb_max_size p
    then sb_alloc p + need else ROUNDUP (sb_alloc p + need) SSHBUF_SIZE_INC)"
  have wp: "sb_writable p" and same: "sb_same b p"
    unfolding p_def using wr by (simp_all add: sshbuf_maybe_pack_writable sshbuf_maybe_pack_wf)
  have room: "sb_size p + n \<le> sb_max_size p"
  proof (cases "sb_size b + n > sb_max_size b")
    case True
    then have "sb_off p = 0"
      unfolding p_def using wr sshbuf_maybe_pack_off by simp
    then show ?thesis
      using length_sshbuf_ptr [of p] wp same fit by (metis diff_zero sb_same_def sb_writable_wf)
  next
    case False
    then have "sb_size p \<le> sb_size b"
      unfolding p_def by (simp add: sshbuf_maybe_pack_def)
    with False same show ?thesis by (simp add: sb_same_def)
  qed
  have run: "sshbuf_allocate al n b =
      (if n + sb_size p \<le> sb_alloc p then (Inr (), p)
       else if \<not> al rlen then (Inl SSH_ERR_ALLOC_FAIL, p)
       else sshbuf_check_reserve n (p\<lparr>sb_alloc := rlen, sb_cd := recallocarray (sb_cd p) rlen\<rparr>))"
    using wr fit
    by (simp add: sshbuf_allocate_def bindE_def sshbuf_check_reserve_writable Let_def
        p_def [symmetric] need_def [symmetric] rlen_def)
  consider "n + sb_size p \<le> sb_alloc p" | "n + sb_size p > sb_alloc p" "\<not> al rlen"
    | "n + sb_size p > sb_alloc p" "al rlen"
    by linarith
  then show thesis
  proof cases
    case 1
    then show ?thesis using run wp same by (intro ok [of p]) simp_all
  next
    case 2
    then show ?thesis using run wp same by (intro nomem [of p]) auto
  next
    case 3
    then have "sb_alloc p + need = n + sb_size p"
      by (simp add: need_def)
    moreover have "sb_alloc p + need \<le> ROUNDUP (sb_alloc p + need) SSHBUF_SIZE_INC"
      by (rule ROUNDUP_ge) (simp add: sshbuf_consts)
    ultimately have rlen: "n + sb_size p \<le> rlen" "rlen \<le> sb_max_size p"
      using room by (auto simp: rlen_def)
    let ?g = "p\<lparr>sb_alloc := rlen, sb_cd := recallocarray (sb_cd p) rlen\<rparr>"
    have g: "sb_writable ?g" "sb_same p ?g"
      using sb_grow_writable [OF wp _ rlen(2)] rlen(1) by simp_all
    then have "sshbuf_check_reserve n ?g = (Inr (), ?g)"
      using fit same by (simp add: sshbuf_check_reserve_writable sb_same_def)
    with 3 run have "sshbuf_allocate al n b = (Inr (), ?g)" by simp
    then show ?thesis
      using g same rlen by (intro ok [of ?g]) (simp_all add: sb_same_def)
  qed
qed

lemma sshbuf_allocate_nospace:
  assumes "sb_writable b" and "length (sshbuf_ptr b) + n > sb_max_size b"
  shows "sshbuf_allocate al n b = (Inl SSH_ERR_NO_BUFFER_SPACE, b)"
  using assms by (simp add: sshbuf_allocate_def bindE_def sshbuf_check_reserve_writable)

subsection \<open>Resetting and resizing\<close>

lemma sshbuf_reset_writable:
  assumes "sb_writable b" and "SSHBUF_SIZE_INIT \<le> sb_max_size b"
    and "al SSHBUF_SIZE_INIT \<or> SSHBUF_SIZE_INIT \<le> sb_alloc b"
  shows "sb_writable (sshbuf_reset al b) \<and> sshbuf_ptr (sshbuf_reset al b) = [] \<and>
         sb_max_size (sshbuf_reset al b) = sb_max_size b"
  using assms
  by (auto simp: sshbuf_reset_def Let_def sb_writable_def sb_wf_def sane_def sshbuf_ptr_def
      write_at_def)

lemma sshbuf_reset_shared:
  assumes "sb_wf b" and "sb_readonly b \<or> sb_refcount b > 1"
  shows "sb_wf (sshbuf_reset al b) \<and> sshbuf_ptr (sshbuf_reset al b) = [] \<and>
         sb_cd (sshbuf_reset al b) = sb_cd b"
  using assms by (auto simp: sshbuf_reset_def sb_wf_def sane_def sshbuf_ptr_def)

lemma sshbuf_reset_small_insane:
  assumes "sb_writable b" and "sb_max_size b < SSHBUF_SIZE_INIT" and "al SSHBUF_SIZE_INIT"
  shows "\<not> sane (sshbuf_reset al b)"
  using assms
  by (auto simp: sshbuf_reset_def Let_def sb_writable_def sb_wf_def sane_def)

lemma sshbuf_set_max_size_wf:
  assumes wf: "sb_wf b" and run: "sshbuf_set_max_size al n b = (r, b')"
  shows "sb_wf b' \<and> sshbuf_ptr b' = sshbuf_ptr b \<and>
         sb_max_size b' = (case r of Inl _ \<Rightarrow> sb_max_size b | Inr _ \<Rightarrow> n)"
proof -
  define p where "p = sshbuf_maybe_pack (n < sb_size b) b"
  have p: "sb_wf p" "sb_same b p"
    unfolding p_def using wf by (simp_all add: sshbuf_maybe_pack_wf)
  have resized: "sb_wf (p\<lparr>sb_cd := recallocarray (sb_cd p) k, sb_alloc := k\<rparr>)"
      "sshbuf_ptr (p\<lparr>sb_cd := recallocarray (sb_cd p) k, sb_alloc := k\<rparr>) = sshbuf_ptr b"
    if "sb_size p \<le> k" "k \<le> sb_max_size p" for k
    using p that by (auto simp: sb_wf_def sane_def sb_same_def sshbuf_ptr_def)
  have new_max: "sb_wf (q\<lparr>sb_max_size := n\<rparr>)" "sshbuf_ptr (q\<lparr>sb_max_size := n\<rparr>) = sshbuf_ptr q"
    if "sb_wf q" "sb_alloc q \<le> n" "n \<le> SSHBUF_SIZE_MAX" for q
    using that by (auto simp: sb_wf_def sane_def sshbuf_ptr_def)
  define k where "k = (let rlen0 = (if sb_size p < SSHBUF_SIZE_INIT then SSHBUF_SIZE_INIT
                      else ROUNDUP (sb_size p) SSHBUF_SIZE_INC)
     in if rlen0 > n then n else rlen0)"
  have k: "sb_size p \<le> k \<and> k \<le> n" if "sb_size p < n"
    using that ROUNDUP_ge [of SSHBUF_SIZE_INC "sb_size p"]
    by (auto simp: k_def Let_def sshbuf_consts)
  have max: "sb_max_size p = sb_max_size b" "n < sb_alloc p \<Longrightarrow> n \<le> sb_max_size p"
    using p by (auto simp: sb_same_def sb_wf_def sane_def)
  define grow where "grow \<longleftrightarrow> n < sb_alloc p \<and> n > sb_size p"
  define q where "q = (if grow then p\<lparr>sb_cd := recallocarray (sb_cd p) k, sb_alloc := k\<rparr> else p)"
  have q: "sb_wf q" "sshbuf_ptr q = sshbuf_ptr b" "sb_max_size q = sb_max_size b"
    using p resized [of k] k max by (auto simp: q_def grow_def sb_same_def)
  have "sshbuf_set_max_size al n b =
      (if n = sb_max_size b then (Inr (), b)
       else if sb_readonly b \<or> sb_refcount b > 1 then (Inl SSH_ERR_BUFFER_READ_ONLY, b)
       else if n > SSHBUF_SIZE_MAX then (Inl SSH_ERR_NO_BUFFER_SPACE, b)
       else if grow \<and> \<not> al k then (Inl SSH_ERR_ALLOC_FAIL, p)
       else if n < sb_alloc q then (Inl SSH_ERR_NO_BUFFER_SPACE, q)
       else (Inr (), q\<lparr>sb_max_size := n\<rparr>))"
    unfolding sshbuf_set_max_size_def using wf
    by (simp only: bindE_def sshbuf_check_sanity_ok sb_wf_sane p_def [symmetric] Let_def
        prod.case sum.case k_def [unfolded Let_def, symmetric] grow_def [symmetric]
        q_def [symmetric])
  then show ?thesis
    using run wf p q max new_max [OF q(1)]
    by (auto simp: sb_same_def split: if_splits)
qed

end
