(* ===== verification/Byte_Queue.thy ===== *)
theory Byte_Queue
  imports Sshbuf
begin

text \<open>
  What a message buffer promises: a queue of bytes with a capacity. Bytes are appended as
  long as they fit and consumed from the front as long as they are there; a refused
  operation changes nothing. The readers and writers of \<open>sshbuf-getput-basic.c\<close> are
  specified on this queue, and the locale \<open>byte_queue\<close> is the interface through which
  clients of a buffer reason.
\<close>

record bq =
  bq_bytes :: bytes
  bq_cap :: nat

type_synonym 'a bqm = "(bq, ssh_err, 'a) est"

definition bq_consume :: "nat \<Rightarrow> unit bqm" where
  "bq_consume n q =
     (if n \<le> length (bq_bytes q) then (Inr (), q\<lparr>bq_bytes := drop n (bq_bytes q)\<rparr>)
      else (Inl SSH_ERR_MESSAGE_INCOMPLETE, q))"

definition bq_put :: "bytes \<Rightarrow> unit bqm" where
  "bq_put v q =
     (if length (bq_bytes q) + length v \<le> bq_cap q
      then (Inr (), q\<lparr>bq_bytes := bq_bytes q @ v\<rparr>)
      else (Inl SSH_ERR_NO_BUFFER_SPACE, q))"

definition bq_get :: "nat \<Rightarrow> bytes bqm" where
  "bq_get n = bindE (getsE bq_bytes) (\<lambda>p. bindE (bq_consume n) (\<lambda>_. returnE (take n p)))"

definition bq_get_u64 :: "u64 bqm" where
  "bq_get_u64 = bindE (getsE bq_bytes) (\<lambda>p. bindE (bq_consume 8) (\<lambda>_. returnE (get_u64 p)))"

definition bq_get_u32 :: "u32 bqm" where
  "bq_get_u32 = bindE (getsE bq_bytes) (\<lambda>p. bindE (bq_consume 4) (\<lambda>_. returnE (get_u32 p)))"

definition bq_get_u16 :: "u16 bqm" where
  "bq_get_u16 = bindE (getsE bq_bytes) (\<lambda>p. bindE (bq_consume 2) (\<lambda>_. returnE (get_u16 p)))"

definition bq_get_u8 :: "u8 bqm" where
  "bq_get_u8 = bindE (getsE bq_bytes) (\<lambda>p. bindE (bq_consume 1) (\<lambda>_. returnE (p ! 0)))"

text \<open>The length-prefixed string at the front of a byte sequence.\<close>

definition front_string :: "bytes \<Rightarrow> ssh_err + bytes" where
  "front_string p =
     (if length p < 4 then Inl SSH_ERR_MESSAGE_INCOMPLETE
      else if unat (get_u32 p) > SSHBUF_SIZE_MAX - 4 then Inl SSH_ERR_STRING_TOO_LARGE
      else if length p - 4 < unat (get_u32 p) then Inl SSH_ERR_MESSAGE_INCOMPLETE
      else Inr (take (unat (get_u32 p)) (drop 4 p)))"

definition bq_peek_string :: "bytes bqm" where
  "bq_peek_string q = (front_string (bq_bytes q), q)"

definition bq_get_string :: "bytes bqm" where
  "bq_get_string =
     bindE bq_peek_string (\<lambda>s. bindE (bq_consume (length s + 4)) (\<lambda>_. returnE s))"

definition bq_get_cstring :: "bytes bqm" where
  "bq_get_cstring =
     bindE bq_peek_string (\<lambda>s.
       if 0 \<in> set (butlast s) then throwE SSH_ERR_INVALID_FORMAT
       else bindE (bq_consume (length s + 4)) (\<lambda>_. returnE s))"

definition bq_put_string :: "bytes \<Rightarrow> unit bqm" where
  "bq_put_string v =
     (if length v > SSHBUF_SIZE_MAX - 4 then throwE SSH_ERR_NO_BUFFER_SPACE
      else bq_put (put_u32 (word_of_nat (length v)) @ v))"

section \<open>Queue facts\<close>

lemma bq_get_u32_eq:
  "bq_get_u32 q =
     (if 4 \<le> length (bq_bytes q)
      then (Inr (get_u32 (bq_bytes q)), q\<lparr>bq_bytes := drop 4 (bq_bytes q)\<rparr>)
      else (Inl SSH_ERR_MESSAGE_INCOMPLETE, q))"
  by (simp add: bq_get_u32_def bindE_def bq_consume_def)

lemma bq_get_u64_eq:
  "bq_get_u64 q =
     (if 8 \<le> length (bq_bytes q)
      then (Inr (get_u64 (bq_bytes q)), q\<lparr>bq_bytes := drop 8 (bq_bytes q)\<rparr>)
      else (Inl SSH_ERR_MESSAGE_INCOMPLETE, q))"
  by (simp add: bq_get_u64_def bindE_def bq_consume_def)

lemma bq_get_u16_eq:
  "bq_get_u16 q =
     (if 2 \<le> length (bq_bytes q)
      then (Inr (get_u16 (bq_bytes q)), q\<lparr>bq_bytes := drop 2 (bq_bytes q)\<rparr>)
      else (Inl SSH_ERR_MESSAGE_INCOMPLETE, q))"
  by (simp add: bq_get_u16_def bindE_def bq_consume_def)

lemma bq_get_u8_eq:
  "bq_get_u8 q =
     (case bq_bytes q of [] \<Rightarrow> (Inl SSH_ERR_MESSAGE_INCOMPLETE, q)
      | x # r \<Rightarrow> (Inr x, q\<lparr>bq_bytes := r\<rparr>))"
  by (cases "bq_bytes q") (simp_all add: bq_get_u8_def bindE_def bq_consume_def)

lemma front_string_Inr_length:
  "front_string p = Inr s \<Longrightarrow> length s + 4 \<le> length p \<and> length s = unat (get_u32 p)"
  by (auto simp: front_string_def split: if_splits)

lemma bq_get_string_eq:
  "bq_get_string q =
     (case front_string (bq_bytes q) of Inl e \<Rightarrow> (Inl e, q)
      | Inr s \<Rightarrow> (Inr s, q\<lparr>bq_bytes := drop (length s + 4) (bq_bytes q)\<rparr>))"
  by (auto simp: bq_get_string_def bindE_def bq_peek_string_def bq_consume_def
      dest: front_string_Inr_length split: sum.splits)

lemma bq_get_cstring_eq:
  "bq_get_cstring q =
     (case front_string (bq_bytes q) of Inl e \<Rightarrow> (Inl e, q)
      | Inr s \<Rightarrow> if 0 \<in> set (butlast s) then (Inl SSH_ERR_INVALID_FORMAT, q)
                else (Inr s, q\<lparr>bq_bytes := drop (length s + 4) (bq_bytes q)\<rparr>))"
  by (auto simp: bq_get_cstring_def bindE_def bq_peek_string_def bq_consume_def
      dest: front_string_Inr_length split: sum.splits)

lemmas bq_get_eqs = bq_get_u64_eq bq_get_u32_eq bq_get_u16_eq bq_get_u8_eq bq_get_string_eq
  bq_get_cstring_eq

text \<open>The encoding of a string, and that it is read back.\<close>

definition enc_string :: "bytes \<Rightarrow> bytes" where
  "enc_string v = put_u32 (word_of_nat (length v)) @ v"

lemma length_enc_string [simp]: "length (enc_string v) = length v + 4"
  by (simp add: enc_string_def)

lemma front_string_enc:
  assumes "length v \<le> SSHBUF_SIZE_MAX - 4"
  shows "front_string (enc_string v @ r) = Inr v"
proof -
  have "unat (word_of_nat (length v) :: u32) = length v"
    using assms by (simp add: unat_of_nat sshbuf_consts)
  then show ?thesis
    using assms by (simp add: front_string_def enc_string_def)
qed

lemma bq_put_string_eq:
  "bq_put_string v q =
     (if length v \<le> SSHBUF_SIZE_MAX - 4 \<and> length (bq_bytes q) + length (enc_string v) \<le> bq_cap q
      then (Inr (), q\<lparr>bq_bytes := bq_bytes q @ enc_string v\<rparr>)
      else (Inl SSH_ERR_NO_BUFFER_SPACE, q))"
  by (auto simp: bq_put_string_def bq_put_def enc_string_def)

section \<open>The interface\<close>

locale byte_queue =
  fixes inv :: "'b \<Rightarrow> bool"
    and abs :: "'b \<Rightarrow> bq"
    and put :: "bytes \<Rightarrow> ('b, ssh_err, unit) est"
    and consume :: "nat \<Rightarrow> ('b, ssh_err, unit) est"
  assumes put_sim: "sim inv abs (put v) (bq_put v)"
    and consume_sim: "sim inv abs (consume n) (bq_consume n)"
begin

lemma put_fits:
  assumes "inv b" and "length (bq_bytes (abs b)) + length v \<le> bq_cap (abs b)"
  obtains b' where "put v b = (Inr (), b')" "inv b'"
    "bq_bytes (abs b') = bq_bytes (abs b) @ v" "bq_cap (abs b') = bq_cap (abs b)"
proof -
  obtain r b' where run: "put v b = (r, b')" by fastforce
  then have "inv b'" and "bq_put v (abs b) = (r, abs b')"
    using simD [OF put_sim assms(1)] by blast+
  moreover have "bq_put v (abs b) = (Inr (), (abs b)\<lparr>bq_bytes := bq_bytes (abs b) @ v\<rparr>)"
    using assms(2) by (simp add: bq_put_def)
  ultimately show thesis
    using that [of b'] run by (metis bq.select_convs bq.surjective bq.update_convs(1) prod.inject)
qed

lemma put_atomic:
  assumes "inv b" and "put v b = (Inl e, b')"
  shows "inv b' \<and> abs b' = abs b \<and> e = SSH_ERR_NO_BUFFER_SPACE"
  using simD [OF put_sim assms] by (auto simp: bq_put_def split: if_splits)

lemma put_many:
  assumes "inv b" and "length (bq_bytes (abs b)) + length (concat vs) \<le> bq_cap (abs b)"
  shows "\<exists>b'. forE vs put b = (Inr (), b') \<and> inv b' \<and>
           bq_bytes (abs b') = bq_bytes (abs b) @ concat vs \<and> bq_cap (abs b') = bq_cap (abs b)"
  using assms
proof (induction vs arbitrary: b)
  case Nil
  then show ?case by simp
next
  case (Cons v vs)
  then have "length (bq_bytes (abs b)) + length v \<le> bq_cap (abs b)" by simp
  with Cons.prems(1) obtain b1 where b1: "put v b = (Inr (), b1)" "inv b1"
      "bq_bytes (abs b1) = bq_bytes (abs b) @ v" "bq_cap (abs b1) = bq_cap (abs b)"
    by (rule put_fits)
  then have "\<exists>b'. forE vs put b1 = (Inr (), b') \<and> inv b' \<and>
           bq_bytes (abs b') = bq_bytes (abs b1) @ concat vs \<and> bq_cap (abs b') = bq_cap (abs b1)"
    using Cons.prems by (intro Cons.IH) simp_all
  with b1 show ?case by (auto simp: bindE_def)
qed

text \<open>First in, first out: what was put first is what is consumed first.\<close>

lemma put_many_consume:
  assumes "inv b" and "bq_bytes (abs b) = []" and "length (concat vs) \<le> bq_cap (abs b)"
  shows "\<exists>b'. bindE (forE vs put) (\<lambda>_. consume (length (concat (take k vs)))) b = (Inr (), b') \<and>
           inv b' \<and> bq_bytes (abs b') = concat (drop k vs)"
proof -
  obtain b1 where b1: "forE vs put b = (Inr (), b1)" "inv b1" "bq_bytes (abs b1) = concat vs"
    using put_many [OF assms(1), of vs] assms(2,3) by auto
  let ?n = "length (concat (take k vs))"
  have split: "concat vs = concat (take k vs) @ concat (drop k vs)"
    by (metis append_take_drop_id concat_append)
  obtain r b2 where run: "consume ?n b1 = (r, b2)" by fastforce
  then have "inv b2" and "bq_consume ?n (abs b1) = (r, abs b2)"
    using simD [OF consume_sim b1(2)] by blast+
  moreover have "bq_consume ?n (abs b1) = (Inr (), (abs b1)\<lparr>bq_bytes := concat (drop k vs)\<rparr>)"
    using b1(3) split by (simp add: bq_consume_def)
  ultimately have "r = Inr ()" and "abs b2 = (abs b1)\<lparr>bq_bytes := concat (drop k vs)\<rparr>"
    by simp_all
  with b1 run \<open>inv b2\<close> show ?thesis by (simp add: bindE_def)
qed

end

end
