(* ===== verification/Sshbuf_Getput.thy ===== *)
theory Sshbuf_Getput
  imports Byte_Queue
begin

text \<open>
  The readers and writers of \<open>src/src/openssh/sshbuf-getput-basic.c\<close> over the buffer of
  \<open>Sshbuf\<close>, and the proof that each of them does to the live bytes what its
  specification in \<open>Byte_Queue\<close> says.
\<close>

section \<open>Reading\<close>

definition sshbuf_get :: "nat \<Rightarrow> bytes sb" where
  "sshbuf_get len =
     bindE (getsE sshbuf_ptr) (\<lambda>p. bindE (sshbuf_consume len) (\<lambda>_. returnE (take len p)))"

definition sshbuf_get_u64 :: "u64 sb" where
  "sshbuf_get_u64 =
     bindE (getsE sshbuf_ptr) (\<lambda>p. bindE (sshbuf_consume 8) (\<lambda>_. returnE (get_u64 p)))"

definition sshbuf_get_u32 :: "u32 sb" where
  "sshbuf_get_u32 =
     bindE (getsE sshbuf_ptr) (\<lambda>p. bindE (sshbuf_consume 4) (\<lambda>_. returnE (get_u32 p)))"

definition sshbuf_get_u16 :: "u16 sb" where
  "sshbuf_get_u16 =
     bindE (getsE sshbuf_ptr) (\<lambda>p. bindE (sshbuf_consume 2) (\<lambda>_. returnE (get_u16 p)))"

definition sshbuf_get_u8 :: "u8 sb" where
  "sshbuf_get_u8 =
     bindE (getsE sshbuf_ptr) (\<lambda>p. bindE (sshbuf_consume 1) (\<lambda>_. returnE (p ! 0)))"

definition sshbuf_peek_string_direct :: "bytes sb" where
  "sshbuf_peek_string_direct buf =
     (let p = sshbuf_ptr buf in
      if sshbuf_len buf < 4 then (Inl SSH_ERR_MESSAGE_INCOMPLETE, buf)
      else
        let len = get_u32 p in
        if unat len > SSHBUF_SIZE_MAX - 4 then (Inl SSH_ERR_STRING_TOO_LARGE, buf)
        else if sshbuf_len buf - 4 < unat len then (Inl SSH_ERR_MESSAGE_INCOMPLETE, buf)
        else (Inr (take (unat len) (drop 4 p)), buf))"

definition sshbuf_get_string_direct :: "bytes sb" where
  "sshbuf_get_string_direct =
     bindE sshbuf_peek_string_direct (\<lambda>p buf.
       case sshbuf_consume (length p + 4) buf of
         (Inl _, b) \<Rightarrow> (Inl SSH_ERR_INTERNAL_ERROR, b)
       | (Inr _, b) \<Rightarrow> (Inr p, b))"

definition sshbuf_get_string :: "(nat \<Rightarrow> bool) \<Rightarrow> bytes sb" where
  "sshbuf_get_string al =
     bindE sshbuf_get_string_direct (\<lambda>val.
       if \<not> al (length val + 1) then throwE SSH_ERR_ALLOC_FAIL else returnE val)"

text \<open>
  The result is the bytes of the string as they are in the message. The C caller sees a
  \<open>char *\<close>, that is \<open>cstr\<close> of them: a single NUL is let through at the end.
\<close>

definition sshbuf_get_cstring :: "(nat \<Rightarrow> bool) \<Rightarrow> bytes sb" where
  "sshbuf_get_cstring al =
     bindE sshbuf_peek_string_direct (\<lambda>p.
       if length p > 0 \<and> 0 \<in> set (take (length p - 1) p) then throwE SSH_ERR_INVALID_FORMAT
       else (\<lambda>buf.
         case sshbuf_get_string_direct buf of
           (Inl _, b) \<Rightarrow> (Inl SSH_ERR_INTERNAL_ERROR, b)
         | (Inr _, b) \<Rightarrow> if \<not> al (length p + 1) then (Inl SSH_ERR_ALLOC_FAIL, b) else (Inr p, b)))"

text \<open>Trimming leading zeros of a big number.\<close>

fun skip_zeros :: "bytes \<Rightarrow> bytes" where
  "skip_zeros [] = []"
| "skip_zeros (x # xs) = (if x = 0 then skip_zeros xs else x # xs)"

definition SSHBUF_MAX_BIGNUM :: nat where "SSHBUF_MAX_BIGNUM = 16384 div 8"

definition sshbuf_get_bignum2_bytes_direct :: "bytes sb" where
  "sshbuf_get_bignum2_bytes_direct =
     bindE sshbuf_peek_string_direct (\<lambda>d.
       if length d \<noteq> 0 \<and> d ! 0 AND 0x80 \<noteq> 0 then throwE SSH_ERR_BIGNUM_IS_NEGATIVE
       else if length d > SSHBUF_MAX_BIGNUM + 1 \<or>
               (length d = SSHBUF_MAX_BIGNUM + 1 \<and> d ! 0 \<noteq> 0)
       then throwE SSH_ERR_BIGNUM_TOO_LARGE
       else (\<lambda>buf.
         case sshbuf_consume (length d + 4) buf of
           (Inl _, b) \<Rightarrow> (Inl SSH_ERR_INTERNAL_ERROR, b)
         | (Inr _, b) \<Rightarrow> (Inr (skip_zeros d), b)))"

section \<open>Writing\<close>

definition sb_poke :: "nat \<Rightarrow> bytes \<Rightarrow> sshbuf \<Rightarrow> sshbuf" where
  "sb_poke p v buf = buf\<lparr>sb_cd := write_at (sb_cd buf) p v\<rparr>"

definition sshbuf_put :: "(nat \<Rightarrow> bool) \<Rightarrow> bytes \<Rightarrow> unit sb" where
  "sshbuf_put al v = bindE (sshbuf_reserve al (length v)) (\<lambda>p. modifyE (sb_poke p v))"

definition sshbuf_putb :: "(nat \<Rightarrow> bool) \<Rightarrow> sshbuf \<Rightarrow> unit sb" where
  "sshbuf_putb al v = sshbuf_put al (take (sshbuf_len v) (sshbuf_ptr v))"

text \<open>\<open>sshbuf_putfv\<close>: \<open>out\<close> is what \<open>vsnprintf\<close> makes of format and arguments,
  \<open>None\<close> where it fails.\<close>

definition sshbuf_putfv :: "(nat \<Rightarrow> bool) \<Rightarrow> bytes option \<Rightarrow> unit sb" where
  "sshbuf_putfv al out =
     (case out of None \<Rightarrow> throwE SSH_ERR_INVALID_ARGUMENT
      | Some text \<Rightarrow>
          if length text = 0 then returnE ()
          else bindE (sshbuf_reserve al (length text + 1)) (\<lambda>p.
                 bindE (modifyE (sb_poke p (text @ [0]))) (\<lambda>_. sshbuf_consume_end 1)))"

definition sshbuf_put_u64 :: "(nat \<Rightarrow> bool) \<Rightarrow> u64 \<Rightarrow> unit sb" where
  "sshbuf_put_u64 al val = bindE (sshbuf_reserve al 8) (\<lambda>p. modifyE (sb_poke p (put_u64 val)))"

definition sshbuf_put_u32 :: "(nat \<Rightarrow> bool) \<Rightarrow> u32 \<Rightarrow> unit sb" where
  "sshbuf_put_u32 al val = bindE (sshbuf_reserve al 4) (\<lambda>p. modifyE (sb_poke p (put_u32 val)))"

definition sshbuf_put_u16 :: "(nat \<Rightarrow> bool) \<Rightarrow> u16 \<Rightarrow> unit sb" where
  "sshbuf_put_u16 al val = bindE (sshbuf_reserve al 2) (\<lambda>p. modifyE (sb_poke p (put_u16 val)))"

definition sshbuf_put_u8 :: "(nat \<Rightarrow> bool) \<Rightarrow> u8 \<Rightarrow> unit sb" where
  "sshbuf_put_u8 al val = bindE (sshbuf_reserve al 1) (\<lambda>p. modifyE (sb_poke p [val]))"

definition sshbuf_put_string :: "(nat \<Rightarrow> bool) \<Rightarrow> bytes \<Rightarrow> unit sb" where
  "sshbuf_put_string al v =
     (if length v > SSHBUF_SIZE_MAX - 4 then throwE SSH_ERR_NO_BUFFER_SPACE
      else bindE (sshbuf_reserve al (length v + 4)) (\<lambda>d.
             bindE (modifyE (sb_poke d (put_u32 (word_of_nat (length v))))) (\<lambda>_.
               if length v \<noteq> 0 then modifyE (sb_poke (d + 4) v) else returnE ())))"

definition sshbuf_put_cstring :: "(nat \<Rightarrow> bool) \<Rightarrow> bytes \<Rightarrow> unit sb" where
  "sshbuf_put_cstring al v = sshbuf_put_string al (cstr v)"

definition sshbuf_put_stringb :: "(nat \<Rightarrow> bool) \<Rightarrow> sshbuf \<Rightarrow> unit sb" where
  "sshbuf_put_stringb al v = sshbuf_put_string al (take (sshbuf_len v) (sshbuf_ptr v))"

definition sshbuf_put_bignum2_bytes :: "(nat \<Rightarrow> bool) \<Rightarrow> bytes \<Rightarrow> unit sb" where
  "sshbuf_put_bignum2_bytes al v =
     (if length v > SSHBUF_SIZE_MAX - 5 then throwE SSH_ERR_NO_BUFFER_SPACE
      else
        let s = skip_zeros v; len = length s;
            prepend = (if len > 0 \<and> s ! 0 AND 0x80 \<noteq> 0 then 1 else 0)
        in bindE (sshbuf_reserve al (len + 4 + prepend)) (\<lambda>d.
             bindE (modifyE (sb_poke d (put_u32 (word_of_nat (len + prepend))))) (\<lambda>_.
             bindE (if prepend = 1 then modifyE (sb_poke (d + 4) [0]) else returnE ()) (\<lambda>_.
               if len \<noteq> 0 then modifyE (sb_poke (d + 4 + prepend) s) else returnE ()))))"

text \<open>
  \<open>sshbuf_get_stringb\<close> moves a string from one buffer to the end of another. The length
  word is consumed before the destination is known to have room.
\<close>

definition sshbuf_get_stringb :: "(nat \<Rightarrow> bool) \<Rightarrow> (sshbuf \<times> sshbuf, ssh_err, unit) est" where
  "sshbuf_get_stringb al s =
     (case s of (buf, v) \<Rightarrow>
       (case sshbuf_peek_string_direct buf of (Inl e, _) \<Rightarrow> (Inl e, (buf, v)) | (Inr _, _) \<Rightarrow>
       (case sshbuf_get_u32 buf of (Inl e, buf1) \<Rightarrow> (Inl e, (buf1, v)) | (Inr len, buf1) \<Rightarrow>
       (case sshbuf_reserve al (unat len) v of (Inl e, v1) \<Rightarrow> (Inl e, (buf1, v1)) | (Inr p, v1) \<Rightarrow>
       (case sshbuf_get (unat len) buf1 of (Inl e, buf2) \<Rightarrow> (Inl e, (buf2, v1))
        | (Inr bs, buf2) \<Rightarrow> (Inr (), (buf2, sb_poke p bs v1)))))))"

section \<open>Refinement of the byte queue\<close>

definition sb_abs :: "sshbuf \<Rightarrow> bq" where
  "sb_abs b = \<lparr>bq_bytes = sshbuf_ptr b, bq_cap = sb_max_size b\<rparr>"

lemma sb_abs_sel [simp]: "bq_bytes (sb_abs b) = sshbuf_ptr b" "bq_cap (sb_abs b) = sb_max_size b"
  by (simp_all add: sb_abs_def)

lemma sshbuf_consume_sim_wf [sim_intros]: "sim sb_wf sb_abs (sshbuf_consume n) (bq_consume n)"
proof (rule simI)
  fix b assume wf: "sb_wf b"
  show "sb_wf (snd (sshbuf_consume n b))"
    using wf sshbuf_consume_ok [OF wf] sshbuf_consume_fail [OF wf]
    by (metis linorder_not_less snd_conv)
  show "bq_consume n (sb_abs b) = (fst (sshbuf_consume n b), sb_abs (snd (sshbuf_consume n b)))"
  proof (cases "n \<le> length (sshbuf_ptr b)")
    case True
    then show ?thesis
      using sshbuf_consume_ok [OF wf True] by (auto simp: bq_consume_def sb_abs_def)
  next
    case False
    then show ?thesis
      using sshbuf_consume_fail [OF wf] by (simp add: bq_consume_def)
  qed
qed

text \<open>Reading never changes whether a buffer is writable.\<close>

lemma sshbuf_consume_sim [sim_intros]: "sim sb_writable sb_abs (sshbuf_consume n) (bq_consume n)"
proof (rule simI)
  fix b assume b: "sb_writable b"
  show "bq_consume n (sb_abs b) = (fst (sshbuf_consume n b), sb_abs (snd (sshbuf_consume n b)))"
    using b sshbuf_consume_sim_wf by (simp add: sim_def)
  show "sb_writable (snd (sshbuf_consume n b))"
    using b sshbuf_consume_ok [of b n] sshbuf_consume_fail [of b n]
    by (cases "n \<le> length (sshbuf_ptr b)") (auto simp: sb_writable_def)
qed

lemma sshbuf_put_raw:
  assumes wr: "sb_writable b" and al: "\<forall>n. al n"
  shows "length (sshbuf_ptr b) + n \<le> sb_max_size b \<Longrightarrow>
      \<exists>b' d. sshbuf_reserve al n b = (Inr d, b') \<and>
        (\<forall>v. length v = n \<longrightarrow>
          sb_writable (sb_poke d v b') \<and> sshbuf_ptr (sb_poke d v b') = sshbuf_ptr b @ v \<and>
          sb_max_size (sb_poke d v b') = sb_max_size b) \<and>
        d + n \<le> length (sb_cd b')"
    and "length (sshbuf_ptr b) + n > sb_max_size b \<Longrightarrow>
      sshbuf_reserve al n b = (Inl SSH_ERR_NO_BUFFER_SPACE, b)"
proof -
  assume fit: "length (sshbuf_ptr b) + n \<le> sb_max_size b"
  from wr fit show "\<exists>b' d. sshbuf_reserve al n b = (Inr d, b') \<and>
        (\<forall>v. length v = n \<longrightarrow>
          sb_writable (sb_poke d v b') \<and> sshbuf_ptr (sb_poke d v b') = sshbuf_ptr b @ v \<and>
          sb_max_size (sb_poke d v b') = sb_max_size b) \<and>
        d + n \<le> length (sb_cd b')"
  proof (cases rule: sshbuf_allocate_space [where al = al])
    case (ok c)
    let ?c' = "c\<lparr>sb_size := sb_size c + n\<rparr>"
    have "sshbuf_reserve al n b = (Inr (sb_size c), ?c')"
      using ok by (simp add: sshbuf_reserve_def bindE_def)
    moreover have "sb_writable (sb_poke (sb_size c) v ?c') \<and>
        sshbuf_ptr (sb_poke (sb_size c) v ?c') = sshbuf_ptr b @ v \<and>
        sb_max_size (sb_poke (sb_size c) v ?c') = sb_max_size b" if "length v = n" for v
      using ok that
      by (auto simp: sb_poke_def sb_writable_def sb_wf_def sane_def sb_same_def sshbuf_ptr_def
          take_write_at_end)
    moreover have "sb_size c + n \<le> length (sb_cd ?c')"
      using ok by (simp add: sb_writable_def sb_wf_def)
    ultimately show ?thesis by blast
  next
    case nomem
    then show ?thesis using al by simp
  qed
next
  assume "length (sshbuf_ptr b) + n > sb_max_size b"
  then show "sshbuf_reserve al n b = (Inl SSH_ERR_NO_BUFFER_SPACE, b)"
    using wr by (simp add: sshbuf_reserve_def bindE_def sshbuf_allocate_nospace)
qed

text \<open>Every writer reserves its bytes and fills them in, whole or in pieces.\<close>

lemma reserve_fill_sim:
  assumes al: "\<forall>n. al n" and len: "length v = n"
    and fill: "\<And>d b. d + n \<le> length (sb_cd b) \<Longrightarrow> f d b = (Inr (), sb_poke d v b)"
  shows "sim sb_writable sb_abs (bindE (sshbuf_reserve al n) f) (bq_put v)"
proof -
  have "sb_writable (snd (bindE (sshbuf_reserve al n) f b)) \<and>
        bq_put v (sb_abs b) = (fst (bindE (sshbuf_reserve al n) f b),
          sb_abs (snd (bindE (sshbuf_reserve al n) f b)))" if b: "sb_writable b" for b
  proof (cases "length (sshbuf_ptr b) + n \<le> sb_max_size b")
    case True
    from sshbuf_put_raw(1) [OF b al True] obtain b' d
      where r: "sshbuf_reserve al n b = (Inr d, b')"
      and poke: "sb_writable (sb_poke d v b')" "sshbuf_ptr (sb_poke d v b') = sshbuf_ptr b @ v"
        "sb_max_size (sb_poke d v b') = sb_max_size b"
      and room: "d + n \<le> length (sb_cd b')"
      using len by blast
    have "bindE (sshbuf_reserve al n) f b = (Inr (), sb_poke d v b')"
      using r fill [OF room] by (simp add: bindE_def)
    then show ?thesis
      using True poke len by (simp add: bq_put_def sb_abs_def)
  next
    case False
    then have "sshbuf_reserve al n b = (Inl SSH_ERR_NO_BUFFER_SPACE, b)"
      using sshbuf_put_raw(2) [OF b al] by simp
    then show ?thesis
      using False b len by (simp add: bindE_def bq_put_def)
  qed
  then show ?thesis by (simp add: sim_def)
qed

lemma sb_poke_poke:
  assumes "d + length h + length v \<le> length (sb_cd b)"
  shows "sb_poke (d + length h) v (sb_poke d h b) = sb_poke d (h @ v) b"
  using assms by (simp add: sb_poke_def write_at_def ac_simps)

lemma sb_poke_Nil [simp]: "sb_poke d [] b = b"
  by (simp add: sb_poke_def)

lemma length_sb_poke [simp]:
  "d + length v \<le> length (sb_cd b) \<Longrightarrow> length (sb_cd (sb_poke d v b)) = length (sb_cd b)"
  by (simp add: sb_poke_def)

subsection \<open>Writers\<close>

lemma sshbuf_put_sim [sim_intros]:
  "\<forall>n. al n \<Longrightarrow> sim sb_writable sb_abs (sshbuf_put al v) (bq_put v)"
  unfolding sshbuf_put_def by (rule reserve_fill_sim) simp_all

lemma sshbuf_put_u64_sim [sim_intros]:
  "\<forall>n. al n \<Longrightarrow> sim sb_writable sb_abs (sshbuf_put_u64 al x) (bq_put (put_u64 x))"
  unfolding sshbuf_put_u64_def by (rule reserve_fill_sim) simp_all

lemma sshbuf_put_u32_sim [sim_intros]:
  "\<forall>n. al n \<Longrightarrow> sim sb_writable sb_abs (sshbuf_put_u32 al x) (bq_put (put_u32 x))"
  unfolding sshbuf_put_u32_def by (rule reserve_fill_sim) simp_all

lemma sshbuf_put_u16_sim [sim_intros]:
  "\<forall>n. al n \<Longrightarrow> sim sb_writable sb_abs (sshbuf_put_u16 al x) (bq_put (put_u16 x))"
  unfolding sshbuf_put_u16_def by (rule reserve_fill_sim) simp_all

lemma sshbuf_put_u8_sim [sim_intros]:
  "\<forall>n. al n \<Longrightarrow> sim sb_writable sb_abs (sshbuf_put_u8 al x) (bq_put [x])"
  unfolding sshbuf_put_u8_def by (rule reserve_fill_sim) simp_all

lemma sshbuf_put_string_sim [sim_intros]:
  assumes al: "\<forall>n. al n"
  shows "sim sb_writable sb_abs (sshbuf_put_string al v) (bq_put_string v)"
proof -
  have "bindE (modifyE (sb_poke d (put_u32 (word_of_nat (length v))))) (\<lambda>_.
          if length v \<noteq> 0 then modifyE (sb_poke (d + 4) v) else returnE ()) b =
        (Inr (), sb_poke d (enc_string v) b)"
    if "d + (length v + 4) \<le> length (sb_cd b)" for d b
    using that sb_poke_poke [of d "put_u32 (word_of_nat (length v))" v b]
    by (simp add: enc_string_def add.commute add.left_commute)
  then show ?thesis
    unfolding sshbuf_put_string_def bq_put_string_def enc_string_def [symmetric]
    by (intro sim_intros reserve_fill_sim al) (simp, blast)
qed

lemma sshbuf_put_cstring_sim [sim_intros]:
  "\<forall>n. al n \<Longrightarrow> sim sb_writable sb_abs (sshbuf_put_cstring al v) (bq_put_string (cstr v))"
  unfolding sshbuf_put_cstring_def by (rule sshbuf_put_string_sim)

lemma sshbuf_put_stringb_sim [sim_intros]:
  assumes "\<forall>n. al n" and "sb_wf v"
  shows "sim sb_writable sb_abs (sshbuf_put_stringb al v) (bq_put_string (sshbuf_ptr v))"
proof -
  have "sshbuf_put_stringb al v = sshbuf_put_string al (sshbuf_ptr v)"
    using assms(2) by (simp add: sshbuf_put_stringb_def sshbuf_len_ptr)
  then show ?thesis
    using sshbuf_put_string_sim [OF assms(1)] by metis
qed

text \<open>The bytes of a non-negative big number as the protocol wants them.\<close>

definition mpint :: "bytes \<Rightarrow> bytes" where
  "mpint v = (let s = skip_zeros v in if s \<noteq> [] \<and> hd s AND 0x80 \<noteq> 0 then 0 # s else s)"

lemma length_skip_zeros: "length (skip_zeros v) \<le> length v"
  by (induction v) auto

lemma skip_zeros_skip_zeros [simp]: "skip_zeros (skip_zeros v) = skip_zeros v"
  by (induction v) auto

lemma skip_zeros_mpint: "skip_zeros (mpint v) = skip_zeros v"
  by (simp add: mpint_def Let_def)

lemma sshbuf_put_bignum2_bytes_sim [sim_intros]:
  assumes al: "\<forall>n. al n" and small: "length v \<le> SSHBUF_SIZE_MAX - 5"
  shows "sim sb_writable sb_abs (sshbuf_put_bignum2_bytes al v) (bq_put (enc_string (mpint v)))"
proof -
  define s where "s = skip_zeros v"
  define pre :: bytes where "pre = (if length s > 0 \<and> s ! 0 AND 0x80 \<noteq> 0 then [0] else [])"
  have mp: "mpint v = pre @ s"
    by (cases s) (simp_all add: mpint_def pre_def s_def [symmetric] Let_def)
  have fill: "bindE (modifyE (sb_poke d (put_u32 (word_of_nat (length s + length pre))))) (\<lambda>_.
           bindE (if length pre = 1 then modifyE (sb_poke (d + 4) [0]) else returnE ()) (\<lambda>_.
             if length s \<noteq> 0 then modifyE (sb_poke (d + 4 + length pre) s) else returnE ())) b =
         (Inr (), sb_poke d (enc_string (mpint v)) b)"
    if "d + (length s + 4 + length pre) \<le> length (sb_cd b)" for d b
  proof -
    let ?h = "put_u32 (word_of_nat (length s + length pre))"
    have 1: "sb_poke (d + 4) pre (sb_poke d ?h b) = sb_poke d (?h @ pre) b"
      using that sb_poke_poke [of d ?h pre b] by simp
    have 2: "sb_poke (d + 4 + length pre) s (sb_poke d (?h @ pre) b) = sb_poke d (?h @ pre @ s) b"
      using that sb_poke_poke [of d "?h @ pre" s b] by (simp add: add.assoc)
    have "enc_string (mpint v) = ?h @ pre @ s"
      by (simp add: enc_string_def mp add.commute)
    then show ?thesis
      using 1 2 by (auto simp: pre_def split: if_splits)
  qed
  have lp: "(if length s > 0 \<and> s ! 0 AND 0x80 \<noteq> 0 then 1 else 0) = length pre"
    by (simp add: pre_def)
  show ?thesis
    unfolding sshbuf_put_bignum2_bytes_def Let_def s_def [symmetric] lp
    using small fill
    by (auto intro!: reserve_fill_sim [OF al] simp: mp)
qed

section \<open>Readers\<close>

text \<open>
  Readers work on any well-formed buffer, read-only ones included, and keep a writable
  buffer writable. Both facts come from one argument over the view \<open>I\<close> of the buffer.
\<close>

locale sb_view =
  fixes I :: "sshbuf \<Rightarrow> bool"
  assumes I_wf: "I b \<Longrightarrow> sb_wf b"
    and consume: "sim I sb_abs (sshbuf_consume n) (bq_consume n)"
begin

lemma ptr: "sim I sb_abs (getsE sshbuf_ptr) (getsE bq_bytes)"
  by (simp add: sim_def)

lemma get: "sim I sb_abs (sshbuf_get n) (bq_get n)"
  unfolding sshbuf_get_def bq_get_def by (intro sim_intros ptr consume)

lemma get_u64: "sim I sb_abs sshbuf_get_u64 bq_get_u64"
  unfolding sshbuf_get_u64_def bq_get_u64_def by (intro sim_intros ptr consume)

lemma get_u32: "sim I sb_abs sshbuf_get_u32 bq_get_u32"
  unfolding sshbuf_get_u32_def bq_get_u32_def by (intro sim_intros ptr consume)

lemma get_u16: "sim I sb_abs sshbuf_get_u16 bq_get_u16"
  unfolding sshbuf_get_u16_def bq_get_u16_def by (intro sim_intros ptr consume)

lemma get_u8: "sim I sb_abs sshbuf_get_u8 bq_get_u8"
  unfolding sshbuf_get_u8_def bq_get_u8_def by (intro sim_intros ptr consume)

lemma peek_eq: "I b \<Longrightarrow> sshbuf_peek_string_direct b = (front_string (sshbuf_ptr b), b)"
  using I_wf [of b]
  by (simp add: sshbuf_peek_string_direct_def front_string_def sshbuf_len_ptr Let_def)

lemma peek_string: "sim I sb_abs sshbuf_peek_string_direct bq_peek_string"
  by (simp add: sim_def peek_eq bq_peek_string_def)

text \<open>The consume after a successful peek cannot fail: its error branch is dead code.\<close>

lemma peek_then_consume:
  assumes "I b" and "front_string (sshbuf_ptr b) = Inr s"
  obtains b' where "sshbuf_consume (length s + 4) b = (Inr (), b')" "I b'"
    "sb_abs b' = (sb_abs b)\<lparr>bq_bytes := drop (length s + 4) (sshbuf_ptr b)\<rparr>"
proof -
  obtain r b' where run: "sshbuf_consume (length s + 4) b = (r, b')" by fastforce
  then have "I b'" "bq_consume (length s + 4) (sb_abs b) = (r, sb_abs b')"
    using simD [OF consume assms(1)] by blast+
  moreover have "length s + 4 \<le> length (sshbuf_ptr b)"
    using assms(2) by (auto dest: front_string_Inr_length)
  ultimately show thesis
    using that [of b'] run by (simp add: bq_consume_def)
qed

lemma get_string_direct_eq:
  assumes "I b"
  shows "sshbuf_get_string_direct b =
    (case front_string (sshbuf_ptr b) of Inl e \<Rightarrow> (Inl e, b)
     | Inr s \<Rightarrow> (Inr s, snd (sshbuf_consume (length s + 4) b)))"
proof (cases "front_string (sshbuf_ptr b)")
  case (Inl e)
  then show ?thesis
    using assms by (simp add: sshbuf_get_string_direct_def bindE_def peek_eq)
next
  case (Inr s)
  with assms obtain b' where "sshbuf_consume (length s + 4) b = (Inr (), b')"
    by (rule peek_then_consume)
  with Inr assms show ?thesis
    by (simp add: sshbuf_get_string_direct_def bindE_def peek_eq)
qed

lemma get_string_direct: "sim I sb_abs sshbuf_get_string_direct bq_get_string"
proof (rule simI)
  fix b assume b: "I b"
  show "I (snd (sshbuf_get_string_direct b))"
    using b by (auto simp: get_string_direct_eq split: sum.splits elim: peek_then_consume)
  show "bq_get_string (sb_abs b) =
      (fst (sshbuf_get_string_direct b), sb_abs (snd (sshbuf_get_string_direct b)))"
    using b by (auto simp: get_string_direct_eq bq_get_string_eq split: sum.splits
        elim: peek_then_consume)
qed

lemma get_string: "\<forall>n. al n \<Longrightarrow> sim I sb_abs (sshbuf_get_string al) bq_get_string"
proof -
  assume al: "\<forall>n. al n"
  then have "sshbuf_get_string al = bindE sshbuf_get_string_direct returnE"
    by (simp add: sshbuf_get_string_def)
  then have "sim I sb_abs (sshbuf_get_string al) (bindE bq_get_string returnE)"
    by (simp only:) (intro sim_intros get_string_direct)
  moreover have "bindE bq_get_string returnE = bq_get_string"
    by (rule ext) (simp add: bindE_def split: prod.splits sum.splits)
  ultimately show ?thesis by simp
qed

lemma get_cstring: "\<forall>n. al n \<Longrightarrow> sim I sb_abs (sshbuf_get_cstring al) bq_get_cstring"
proof (rule simI)
  fix b assume al: "\<forall>n. al n" and b: "I b"
  have run: "sshbuf_get_cstring al b =
      (case front_string (sshbuf_ptr b) of Inl e \<Rightarrow> (Inl e, b)
       | Inr s \<Rightarrow> if 0 \<in> set (butlast s) then (Inl SSH_ERR_INVALID_FORMAT, b)
                 else (Inr s, snd (sshbuf_consume (length s + 4) b)))"
    using al b
    by (auto simp: sshbuf_get_cstring_def bindE_def peek_eq get_string_direct_eq
        butlast_conv_take split: sum.splits)
  show "I (snd (sshbuf_get_cstring al b))"
    using b by (auto simp: run split: sum.splits elim: peek_then_consume)
  show "bq_get_cstring (sb_abs b) =
      (fst (sshbuf_get_cstring al b), sb_abs (snd (sshbuf_get_cstring al b)))"
    using b by (auto simp: run bq_get_cstring_eq split: sum.splits elim: peek_then_consume)
qed

end

interpretation sb_ro: sb_view sb_wf
  by unfold_locales (auto intro: sim_intros)

interpretation sb_rw: sb_view sb_writable
  by unfold_locales (auto intro: sim_intros)

lemmas sb_reader_sims [sim_intros] =
  sb_rw.get sb_rw.get_u64 sb_rw.get_u32 sb_rw.get_u16 sb_rw.get_u8 sb_rw.peek_string
  sb_rw.get_string_direct sb_rw.get_string sb_rw.get_cstring

interpretation sbq: byte_queue sb_writable sb_abs "sshbuf_put (\<lambda>_. True)" sshbuf_consume
  by unfold_locales (auto intro: sim_intros)

end
