(* ===== verification/Sftp_Common.thy ===== *)
theory Sftp_Common
  imports Sshbuf_Getput
begin

text \<open>
  The SFTP vocabulary of \<open>src/src/openssh/sftp.h\<close> and the attribute structure of
  \<open>src/src/openssh/sftp-common.c\<close>: conversion from and to \<open>struct stat\<close>, decoding and
  encoding on a buffer, and that what is encoded is decoded again.
\<close>

section \<open>Protocol constants\<close>

definition SSH2_FILEXFER_VERSION :: u32 where "SSH2_FILEXFER_VERSION = 3"

text \<open>Client to server.\<close>

definition SSH2_FXP_INIT :: u8 where "SSH2_FXP_INIT = 1"
definition SSH2_FXP_OPEN :: u8 where "SSH2_FXP_OPEN = 3"
definition SSH2_FXP_CLOSE :: u8 where "SSH2_FXP_CLOSE = 4"
definition SSH2_FXP_READ :: u8 where "SSH2_FXP_READ = 5"
definition SSH2_FXP_WRITE :: u8 where "SSH2_FXP_WRITE = 6"
definition SSH2_FXP_LSTAT :: u8 where "SSH2_FXP_LSTAT = 7"
definition SSH2_FXP_FSTAT :: u8 where "SSH2_FXP_FSTAT = 8"
definition SSH2_FXP_SETSTAT :: u8 where "SSH2_FXP_SETSTAT = 9"
definition SSH2_FXP_FSETSTAT :: u8 where "SSH2_FXP_FSETSTAT = 10"
definition SSH2_FXP_OPENDIR :: u8 where "SSH2_FXP_OPENDIR = 11"
definition SSH2_FXP_READDIR :: u8 where "SSH2_FXP_READDIR = 12"
definition SSH2_FXP_REMOVE :: u8 where "SSH2_FXP_REMOVE = 13"
definition SSH2_FXP_MKDIR :: u8 where "SSH2_FXP_MKDIR = 14"
definition SSH2_FXP_RMDIR :: u8 where "SSH2_FXP_RMDIR = 15"
definition SSH2_FXP_REALPATH :: u8 where "SSH2_FXP_REALPATH = 16"
definition SSH2_FXP_STAT :: u8 where "SSH2_FXP_STAT = 17"
definition SSH2_FXP_RENAME :: u8 where "SSH2_FXP_RENAME = 18"
definition SSH2_FXP_READLINK :: u8 where "SSH2_FXP_READLINK = 19"
definition SSH2_FXP_SYMLINK :: u8 where "SSH2_FXP_SYMLINK = 20"
definition SSH2_FXP_EXTENDED :: u8 where "SSH2_FXP_EXTENDED = 200"

text \<open>Server to client.\<close>

definition SSH2_FXP_VERSION :: u8 where "SSH2_FXP_VERSION = 2"
definition SSH2_FXP_STATUS :: u8 where "SSH2_FXP_STATUS = 101"
definition SSH2_FXP_HANDLE :: u8 where "SSH2_FXP_HANDLE = 102"
definition SSH2_FXP_DATA :: u8 where "SSH2_FXP_DATA = 103"
definition SSH2_FXP_NAME :: u8 where "SSH2_FXP_NAME = 104"
definition SSH2_FXP_ATTRS :: u8 where "SSH2_FXP_ATTRS = 105"
definition SSH2_FXP_EXTENDED_REPLY :: u8 where "SSH2_FXP_EXTENDED_REPLY = 201"

lemmas fxp_requests =
  SSH2_FXP_INIT_def SSH2_FXP_OPEN_def SSH2_FXP_CLOSE_def SSH2_FXP_READ_def SSH2_FXP_WRITE_def
  SSH2_FXP_LSTAT_def SSH2_FXP_FSTAT_def SSH2_FXP_SETSTAT_def SSH2_FXP_FSETSTAT_def
  SSH2_FXP_OPENDIR_def SSH2_FXP_READDIR_def SSH2_FXP_REMOVE_def SSH2_FXP_MKDIR_def
  SSH2_FXP_RMDIR_def SSH2_FXP_REALPATH_def SSH2_FXP_STAT_def SSH2_FXP_RENAME_def
  SSH2_FXP_READLINK_def SSH2_FXP_SYMLINK_def SSH2_FXP_EXTENDED_def

lemmas fxp_replies =
  SSH2_FXP_VERSION_def SSH2_FXP_STATUS_def SSH2_FXP_HANDLE_def SSH2_FXP_DATA_def
  SSH2_FXP_NAME_def SSH2_FXP_ATTRS_def SSH2_FXP_EXTENDED_REPLY_def

text \<open>Attribute flags, open modes and status codes.\<close>

definition SSH2_FILEXFER_ATTR_SIZE :: u32 where "SSH2_FILEXFER_ATTR_SIZE = 0x00000001"
definition SSH2_FILEXFER_ATTR_UIDGID :: u32 where "SSH2_FILEXFER_ATTR_UIDGID = 0x00000002"
definition SSH2_FILEXFER_ATTR_PERMISSIONS :: u32 where "SSH2_FILEXFER_ATTR_PERMISSIONS = 0x00000004"
definition SSH2_FILEXFER_ATTR_ACMODTIME :: u32 where "SSH2_FILEXFER_ATTR_ACMODTIME = 0x00000008"
definition SSH2_FILEXFER_ATTR_EXTENDED :: u32 where "SSH2_FILEXFER_ATTR_EXTENDED = 0x80000000"

lemmas attr_flags = SSH2_FILEXFER_ATTR_SIZE_def SSH2_FILEXFER_ATTR_UIDGID_def
  SSH2_FILEXFER_ATTR_PERMISSIONS_def SSH2_FILEXFER_ATTR_ACMODTIME_def
  SSH2_FILEXFER_ATTR_EXTENDED_def

definition SSH2_FXF_READ :: u32 where "SSH2_FXF_READ = 0x00000001"
definition SSH2_FXF_WRITE :: u32 where "SSH2_FXF_WRITE = 0x00000002"
definition SSH2_FXF_APPEND :: u32 where "SSH2_FXF_APPEND = 0x00000004"
definition SSH2_FXF_CREAT :: u32 where "SSH2_FXF_CREAT = 0x00000008"
definition SSH2_FXF_TRUNC :: u32 where "SSH2_FXF_TRUNC = 0x00000010"
definition SSH2_FXF_EXCL :: u32 where "SSH2_FXF_EXCL = 0x00000020"

lemmas fxf_flags = SSH2_FXF_READ_def SSH2_FXF_WRITE_def SSH2_FXF_APPEND_def SSH2_FXF_CREAT_def
  SSH2_FXF_TRUNC_def SSH2_FXF_EXCL_def

definition SSH2_FX_OK :: u32 where "SSH2_FX_OK = 0"
definition SSH2_FX_EOF :: u32 where "SSH2_FX_EOF = 1"
definition SSH2_FX_NO_SUCH_FILE :: u32 where "SSH2_FX_NO_SUCH_FILE = 2"
definition SSH2_FX_PERMISSION_DENIED :: u32 where "SSH2_FX_PERMISSION_DENIED = 3"
definition SSH2_FX_FAILURE :: u32 where "SSH2_FX_FAILURE = 4"
definition SSH2_FX_BAD_MESSAGE :: u32 where "SSH2_FX_BAD_MESSAGE = 5"
definition SSH2_FX_NO_CONNECTION :: u32 where "SSH2_FX_NO_CONNECTION = 6"
definition SSH2_FX_CONNECTION_LOST :: u32 where "SSH2_FX_CONNECTION_LOST = 7"
definition SSH2_FX_OP_UNSUPPORTED :: u32 where "SSH2_FX_OP_UNSUPPORTED = 8"
definition SSH2_FX_MAX :: u32 where "SSH2_FX_MAX = 8"

lemmas fx_codes = SSH2_FX_OK_def SSH2_FX_EOF_def SSH2_FX_NO_SUCH_FILE_def
  SSH2_FX_PERMISSION_DENIED_def SSH2_FX_FAILURE_def SSH2_FX_BAD_MESSAGE_def
  SSH2_FX_NO_CONNECTION_def SSH2_FX_CONNECTION_LOST_def SSH2_FX_OP_UNSUPPORTED_def
  SSH2_FX_MAX_def

text \<open>\<open>sftp-common.h\<close>: the largest packet the server accepts.\<close>

definition SFTP_MAX_MSG_LENGTH :: nat where "SFTP_MAX_MSG_LENGTH = 256 * 1024"

section \<open>Attributes\<close>

record Attrib =
  a_flags :: u32
  a_size :: u64
  a_uid :: u32
  a_gid :: u32
  a_perm :: u32
  a_atime :: u32
  a_mtime :: u32

text \<open>The fields of \<open>struct stat\<close> the server reads.\<close>

record stat =
  st_mode :: u32
  st_nlink :: u64
  st_uid :: u32
  st_gid :: u32
  st_size :: u64
  st_atime :: u64
  st_mtime :: u64

definition attrib_clear :: Attrib where
  "attrib_clear = \<lparr>a_flags = 0, a_size = 0, a_uid = 0, a_gid = 0, a_perm = 0, a_atime = 0, a_mtime = 0\<rparr>"

definition stat_to_attrib :: "stat \<Rightarrow> Attrib" where
  "stat_to_attrib st =
     \<lparr>a_flags = SSH2_FILEXFER_ATTR_SIZE OR SSH2_FILEXFER_ATTR_UIDGID OR
                SSH2_FILEXFER_ATTR_PERMISSIONS OR SSH2_FILEXFER_ATTR_ACMODTIME,
      a_size = st_size st, a_uid = st_uid st, a_gid = st_gid st, a_perm = st_mode st,
      a_atime = ucast (st_atime st), a_mtime = ucast (st_mtime st)\<rparr>"

definition attrib_to_stat :: "Attrib \<Rightarrow> stat" where
  "attrib_to_stat a =
     (let st = \<lparr>st_mode = 0, st_nlink = 0, st_uid = 0, st_gid = 0, st_size = 0, st_atime = 0,
                st_mtime = 0\<rparr>;
          st = (if a_flags a AND SSH2_FILEXFER_ATTR_SIZE \<noteq> 0 then st\<lparr>st_size := a_size a\<rparr> else st);
          st = (if a_flags a AND SSH2_FILEXFER_ATTR_UIDGID \<noteq> 0
                then st\<lparr>st_uid := a_uid a, st_gid := a_gid a\<rparr> else st);
          st = (if a_flags a AND SSH2_FILEXFER_ATTR_PERMISSIONS \<noteq> 0
                then st\<lparr>st_mode := a_perm a\<rparr> else st)
      in (if a_flags a AND SSH2_FILEXFER_ATTR_ACMODTIME \<noteq> 0
          then st\<lparr>st_atime := ucast (a_atime a), st_mtime := ucast (a_mtime a)\<rparr> else st))"

section \<open>Decoding\<close>

text \<open>
  \<open>decode_attrib\<close> reports most errors to its caller, but exits through \<open>fatal\<close> where the
  count of extensions is missing.
\<close>

datatype decode_err = Returns ssh_err | Dies ssh_err

type_synonym 'a sbd = "(sshbuf, decode_err, 'a) est"

text \<open>One round of the loop over the vendor extensions; their values are dropped.\<close>

definition skip_extension :: "(nat \<Rightarrow> bool) \<Rightarrow> unit sbd" where
  "skip_extension al =
     bindE (mapE Returns (sshbuf_get_cstring al)) (\<lambda>_.
     bindE (mapE Returns (sshbuf_get_string al)) (\<lambda>_. returnE ()))"

primrec skip_extensions :: "(nat \<Rightarrow> bool) \<Rightarrow> nat \<Rightarrow> unit sbd" where
  "skip_extensions al 0 = returnE ()"
| "skip_extensions al (Suc n) = bindE (skip_extension al) (\<lambda>_. skip_extensions al n)"

definition decode_attrib :: "(nat \<Rightarrow> bool) \<Rightarrow> Attrib sbd" where
  "decode_attrib al =
     bindE (mapE Returns sshbuf_get_u32) (\<lambda>flags.
     bindE (if flags AND SSH2_FILEXFER_ATTR_SIZE \<noteq> 0 then mapE Returns sshbuf_get_u64
            else returnE 0) (\<lambda>sz.
     bindE (if flags AND SSH2_FILEXFER_ATTR_UIDGID \<noteq> 0 then mapE Returns sshbuf_get_u32
            else returnE 0) (\<lambda>uid.
     bindE (if flags AND SSH2_FILEXFER_ATTR_UIDGID \<noteq> 0 then mapE Returns sshbuf_get_u32
            else returnE 0) (\<lambda>gid.
     bindE (if flags AND SSH2_FILEXFER_ATTR_PERMISSIONS \<noteq> 0 then mapE Returns sshbuf_get_u32
            else returnE 0) (\<lambda>perm.
     bindE (if flags AND SSH2_FILEXFER_ATTR_ACMODTIME \<noteq> 0 then mapE Returns sshbuf_get_u32
            else returnE 0) (\<lambda>atime.
     bindE (if flags AND SSH2_FILEXFER_ATTR_ACMODTIME \<noteq> 0 then mapE Returns sshbuf_get_u32
            else returnE 0) (\<lambda>mtime.
     bindE (if flags AND SSH2_FILEXFER_ATTR_EXTENDED \<noteq> 0
            then bindE (mapE Dies sshbuf_get_u32) (\<lambda>count. skip_extensions al (unat count))
            else returnE ()) (\<lambda>_.
     returnE \<lparr>a_flags = flags, a_size = sz, a_uid = uid, a_gid = gid, a_perm = perm,
              a_atime = atime, a_mtime = mtime\<rparr>))))))))"

section \<open>Encoding\<close>

definition encode_attrib :: "(nat \<Rightarrow> bool) \<Rightarrow> Attrib \<Rightarrow> unit sb" where
  "encode_attrib al a =
     bindE (sshbuf_put_u32 al (a_flags a)) (\<lambda>_.
     bindE (if a_flags a AND SSH2_FILEXFER_ATTR_SIZE \<noteq> 0 then sshbuf_put_u64 al (a_size a)
            else returnE ()) (\<lambda>_.
     bindE (if a_flags a AND SSH2_FILEXFER_ATTR_UIDGID \<noteq> 0
            then bindE (sshbuf_put_u32 al (a_uid a)) (\<lambda>_. sshbuf_put_u32 al (a_gid a))
            else returnE ()) (\<lambda>_.
     bindE (if a_flags a AND SSH2_FILEXFER_ATTR_PERMISSIONS \<noteq> 0 then sshbuf_put_u32 al (a_perm a)
            else returnE ()) (\<lambda>_.
     if a_flags a AND SSH2_FILEXFER_ATTR_ACMODTIME \<noteq> 0
     then bindE (sshbuf_put_u32 al (a_atime a)) (\<lambda>_. sshbuf_put_u32 al (a_mtime a))
     else returnE ()))))"

definition fx2txt :: "u32 \<Rightarrow> string" where
  "fx2txt status =
     (if status = SSH2_FX_OK then ''No error''
      else if status = SSH2_FX_EOF then ''End of file''
      else if status = SSH2_FX_NO_SUCH_FILE then ''No such file or directory''
      else if status = SSH2_FX_PERMISSION_DENIED then ''Permission denied''
      else if status = SSH2_FX_FAILURE then ''Failure''
      else if status = SSH2_FX_BAD_MESSAGE then ''Bad message''
      else if status = SSH2_FX_NO_CONNECTION then ''No connection''
      else if status = SSH2_FX_CONNECTION_LOST then ''Connection lost''
      else if status = SSH2_FX_OP_UNSUPPORTED then ''Operation unsupported''
      else ''Unknown status'')"

section \<open>The encoding as bytes\<close>

text \<open>What \<open>encode_attrib\<close> appends.\<close>

definition enc_attrib :: "Attrib \<Rightarrow> bytes" where
  "enc_attrib a =
     put_u32 (a_flags a) @
     (if a_flags a AND SSH2_FILEXFER_ATTR_SIZE \<noteq> 0 then put_u64 (a_size a) else []) @
     (if a_flags a AND SSH2_FILEXFER_ATTR_UIDGID \<noteq> 0
      then put_u32 (a_uid a) @ put_u32 (a_gid a) else []) @
     (if a_flags a AND SSH2_FILEXFER_ATTR_PERMISSIONS \<noteq> 0 then put_u32 (a_perm a) else []) @
     (if a_flags a AND SSH2_FILEXFER_ATTR_ACMODTIME \<noteq> 0
      then put_u32 (a_atime a) @ put_u32 (a_mtime a) else [])"

lemma length_enc_attrib: "length (enc_attrib a) \<le> 32"
  by (simp add: enc_attrib_def)

text \<open>
  Appending in pieces is appending at once as long as everything fits. If it does not, the
  pieces written before the one that fails stay, which the server answers by exiting.
\<close>

definition appends :: "unit sb \<Rightarrow> bytes \<Rightarrow> bool" where
  "appends m v \<longleftrightarrow>
     (\<forall>b. sb_writable b \<longrightarrow>
        sb_writable (snd (m b)) \<and> sb_max_size (snd (m b)) = sb_max_size b \<and>
        (if length (sshbuf_ptr b) + length v \<le> sb_max_size b
         then fst (m b) = Inr () \<and> sshbuf_ptr (snd (m b)) = sshbuf_ptr b @ v
         else \<exists>e. fst (m b) = Inl e))"

named_theorems appends_intros

lemma appendsD:
  assumes "appends m v" "sb_writable b" "length (sshbuf_ptr b) + length v \<le> sb_max_size b"
  obtains b' where "m b = (Inr (), b')" "sb_writable b'" "sshbuf_ptr b' = sshbuf_ptr b @ v"
    "sb_max_size b' = sb_max_size b"
  using assms by (cases "m b") (auto simp: appends_def)

lemma appends_sim:
  assumes "sim sb_writable sb_abs m (bq_put v)"
  shows "appends m v"
  unfolding appends_def
proof (intro allI impI)
  fix b assume b: "sb_writable b"
  obtain r b' where run: "m b = (r, b')" by fastforce
  note st = simD [OF assms b run]
  then show "sb_writable (snd (m b)) \<and> sb_max_size (snd (m b)) = sb_max_size b \<and>
        (if length (sshbuf_ptr b) + length v \<le> sb_max_size b
         then fst (m b) = Inr () \<and> sshbuf_ptr (snd (m b)) = sshbuf_ptr b @ v
         else \<exists>e. fst (m b) = Inl e)"
    using run by (auto simp: bq_put_def sb_abs_def split: if_splits)
qed

lemma appends_returnE [appends_intros]: "appends (returnE ()) []"
  by (auto simp: appends_def sb_writable_def sb_wf_def sane_def sshbuf_ptr_def)

lemma appends_bindE [appends_intros]:
  assumes m: "appends m v" and n: "appends n w"
  shows "appends (bindE m (\<lambda>_. n)) (v @ w)"
  unfolding appends_def
proof (intro allI impI)
  fix b assume b: "sb_writable b"
  obtain r b1 where run: "m b = (r, b1)" by fastforce
  note mb = m [unfolded appends_def, rule_format, OF b, unfolded run fst_conv snd_conv]
  have b1: "sb_writable b1" "sb_max_size b1 = sb_max_size b"
    using mb by simp_all
  show "sb_writable (snd (bindE m (\<lambda>_. n) b)) \<and>
        sb_max_size (snd (bindE m (\<lambda>_. n) b)) = sb_max_size b \<and>
        (if length (sshbuf_ptr b) + length (v @ w) \<le> sb_max_size b
         then fst (bindE m (\<lambda>_. n) b) = Inr () \<and>
              sshbuf_ptr (snd (bindE m (\<lambda>_. n) b)) = sshbuf_ptr b @ v @ w
         else \<exists>e. fst (bindE m (\<lambda>_. n) b) = Inl e)"
  proof (cases "length (sshbuf_ptr b) + length v \<le> sb_max_size b")
    case True
    then have "r = Inr ()" "sshbuf_ptr b1 = sshbuf_ptr b @ v"
      using mb by (simp_all del: length_sshbuf_ptr)
    moreover have "bindE m (\<lambda>_. n) b = n b1"
      using run \<open>r = Inr ()\<close> by (simp add: bindE_def)
    ultimately show ?thesis
      using n [unfolded appends_def, rule_format, OF b1(1)] b1(2)
      by (simp del: length_sshbuf_ptr add: add.assoc split: if_splits)
  next
    case False
    then obtain e where "r = Inl e" using mb by (auto simp del: length_sshbuf_ptr)
    then show ?thesis using False run b1 by (simp add: bindE_def)
  qed
qed

lemma appends_if [appends_intros]:
  "(b \<Longrightarrow> appends m v) \<Longrightarrow> (\<not> b \<Longrightarrow> appends n w) \<Longrightarrow>
     appends (if b then m else n) (if b then v else w)"
  by simp

lemma appends_puts [appends_intros]:
  assumes "\<forall>n. al n"
  shows "appends (sshbuf_put al v) v" "appends (sshbuf_put_u64 al x) (put_u64 x)"
    "appends (sshbuf_put_u32 al y) (put_u32 y)" "appends (sshbuf_put_u8 al z) [z]"
  using assms by (auto intro!: appends_sim sim_intros)

lemma appends_put_string [appends_intros]:
  assumes "\<forall>n. al n" and "length v \<le> SSHBUF_SIZE_MAX - 4"
  shows "appends (sshbuf_put_string al v) (enc_string v)"
proof -
  have "bq_put_string v = bq_put (enc_string v)"
    using assms(2) by (simp add: bq_put_string_def enc_string_def)
  then show ?thesis
    using appends_sim [of "sshbuf_put_string al v"] sshbuf_put_string_sim [OF assms(1), of v]
    by metis
qed

lemma appends_put_cstring [appends_intros]:
  assumes "\<forall>n. al n" and "length v \<le> SSHBUF_SIZE_MAX - 4"
  shows "appends (sshbuf_put_cstring al v) (enc_string (cstr v))"
  unfolding sshbuf_put_cstring_def using assms length_cstr_le [of v]
  by (intro appends_intros) simp_all

lemma appends_encode_attrib [appends_intros]:
  assumes "\<forall>n. al n"
  shows "appends (encode_attrib al a) (enc_attrib a)"
  unfolding encode_attrib_def enc_attrib_def using assms by (intro appends_intros)

section \<open>Decoding the encoding\<close>

lemma mapE_sim [sim_intros]: "sim I \<alpha> m d \<Longrightarrow> sim I \<alpha> (mapE h m) (mapE h d)"
  by (auto simp: sim_def mapE_def split: prod.splits sum.splits)

definition bq_skip_extension :: "(bq, decode_err, unit) est" where
  "bq_skip_extension =
     bindE (mapE Returns bq_get_cstring) (\<lambda>_. bindE (mapE Returns bq_get_string) (\<lambda>_. returnE ()))"

primrec bq_skip_extensions :: "nat \<Rightarrow> (bq, decode_err, unit) est" where
  "bq_skip_extensions 0 = returnE ()"
| "bq_skip_extensions (Suc n) = bindE bq_skip_extension (\<lambda>_. bq_skip_extensions n)"

definition bq_decode_attrib :: "(bq, decode_err, Attrib) est" where
  "bq_decode_attrib =
     bindE (mapE Returns bq_get_u32) (\<lambda>flags.
     bindE (if flags AND SSH2_FILEXFER_ATTR_SIZE \<noteq> 0 then mapE Returns bq_get_u64
            else returnE 0) (\<lambda>sz.
     bindE (if flags AND SSH2_FILEXFER_ATTR_UIDGID \<noteq> 0 then mapE Returns bq_get_u32
            else returnE 0) (\<lambda>uid.
     bindE (if flags AND SSH2_FILEXFER_ATTR_UIDGID \<noteq> 0 then mapE Returns bq_get_u32
            else returnE 0) (\<lambda>gid.
     bindE (if flags AND SSH2_FILEXFER_ATTR_PERMISSIONS \<noteq> 0 then mapE Returns bq_get_u32
            else returnE 0) (\<lambda>perm.
     bindE (if flags AND SSH2_FILEXFER_ATTR_ACMODTIME \<noteq> 0 then mapE Returns bq_get_u32
            else returnE 0) (\<lambda>atime.
     bindE (if flags AND SSH2_FILEXFER_ATTR_ACMODTIME \<noteq> 0 then mapE Returns bq_get_u32
            else returnE 0) (\<lambda>mtime.
     bindE (if flags AND SSH2_FILEXFER_ATTR_EXTENDED \<noteq> 0
            then bindE (mapE Dies bq_get_u32) (\<lambda>count. bq_skip_extensions (unat count))
            else returnE ()) (\<lambda>_.
     returnE \<lparr>a_flags = flags, a_size = sz, a_uid = uid, a_gid = gid, a_perm = perm,
              a_atime = atime, a_mtime = mtime\<rparr>))))))))"

lemma skip_extensions_sim [sim_intros]:
  assumes "\<forall>n. al n"
  shows "sim sb_writable sb_abs (skip_extensions al n) (bq_skip_extensions n)"
  using assms
  by (induction n) (auto simp: skip_extension_def bq_skip_extension_def intro!: sim_intros)

lemma decode_attrib_sim [sim_intros]:
  "\<forall>n. al n \<Longrightarrow> sim sb_writable sb_abs (decode_attrib al) bq_decode_attrib"
  unfolding decode_attrib_def bq_decode_attrib_def by (intro sim_intros)

text \<open>An attribute structure that decoding can return: fields whose flag is not set are zero.\<close>

definition attrib_normal :: "Attrib \<Rightarrow> bool" where
  "attrib_normal a \<longleftrightarrow>
     a_flags a AND SSH2_FILEXFER_ATTR_EXTENDED = 0 \<and>
     (a_flags a AND SSH2_FILEXFER_ATTR_SIZE = 0 \<longrightarrow> a_size a = 0) \<and>
     (a_flags a AND SSH2_FILEXFER_ATTR_UIDGID = 0 \<longrightarrow> a_uid a = 0 \<and> a_gid a = 0) \<and>
     (a_flags a AND SSH2_FILEXFER_ATTR_PERMISSIONS = 0 \<longrightarrow> a_perm a = 0) \<and>
     (a_flags a AND SSH2_FILEXFER_ATTR_ACMODTIME = 0 \<longrightarrow> a_atime a = 0 \<and> a_mtime a = 0)"

lemma bq_get_u32_front:
  "bq_bytes q = put_u32 x @ r \<Longrightarrow> bq_get_u32 q = (Inr x, q\<lparr>bq_bytes := r\<rparr>)"
  by (simp add: bq_get_u32_eq)

lemma bq_get_u64_front:
  "bq_bytes q = put_u64 x @ r \<Longrightarrow> bq_get_u64 q = (Inr x, q\<lparr>bq_bytes := r\<rparr>)"
  by (simp add: bq_get_u64_eq)

text \<open>A reader that takes exactly the bytes \<open>v\<close> off the front and returns \<open>x\<close>.\<close>

definition takes :: "bytes \<Rightarrow> (bq, 'e, 'a) est \<Rightarrow> 'a \<Rightarrow> bool" where
  "takes v m x \<longleftrightarrow> (\<forall>q r. bq_bytes q = v @ r \<longrightarrow> m q = (Inr x, q\<lparr>bq_bytes := r\<rparr>))"

named_theorems takes_intros

lemma takesD: "takes v m x \<Longrightarrow> bq_bytes q = v @ r \<Longrightarrow> m q = (Inr x, q\<lparr>bq_bytes := r\<rparr>)"
  by (simp add: takes_def)

lemma takes_returnE [takes_intros]: "x = y \<Longrightarrow> takes [] (returnE x) y"
  by (auto simp: takes_def)

lemma takes_bindE [takes_intros]:
  "takes v m x \<Longrightarrow> takes w (f x) y \<Longrightarrow> takes (v @ w) (bindE m f) y"
  by (auto simp: takes_def bindE_def)

lemma takes_if [takes_intros]:
  "(b \<Longrightarrow> takes v m x) \<Longrightarrow> (\<not> b \<Longrightarrow> takes w n x) \<Longrightarrow>
     takes (if b then v else w) (if b then m else n) x"
  by simp

lemma takes_opt:
  "takes v m x \<Longrightarrow> (\<not> b \<Longrightarrow> z = x) \<Longrightarrow>
     takes (if b then v else []) (if b then m else returnE z) x"
  by (auto intro: takes_returnE)

lemma takes_mapE [takes_intros]: "takes v m x \<Longrightarrow> takes v (mapE h m) x"
  by (auto simp: takes_def mapE_def)

lemma takes_ints [takes_intros]:
  "takes (put_u32 a) bq_get_u32 a" "takes (put_u64 b) bq_get_u64 b"
  by (auto simp: takes_def bq_get_u32_front bq_get_u64_front)

lemma takes_string [takes_intros]:
  "length s \<le> SSHBUF_SIZE_MAX - 4 \<Longrightarrow> takes (enc_string s) bq_get_string s"
  by (auto simp: takes_def bq_get_string_eq front_string_enc)

lemma takes_cstring [takes_intros]:
  "length s \<le> SSHBUF_SIZE_MAX - 4 \<Longrightarrow> 0 \<notin> set (butlast s) \<Longrightarrow> takes (enc_string s) bq_get_cstring s"
  by (auto simp: takes_def bq_get_cstring_eq front_string_enc)

lemma takes_attrib [takes_intros]:
  assumes "attrib_normal a"
  shows "takes (enc_attrib a) bq_decode_attrib a"
proof -
  have split: "enc_attrib a =
     put_u32 (a_flags a) @
     (if a_flags a AND SSH2_FILEXFER_ATTR_SIZE \<noteq> 0 then put_u64 (a_size a) else []) @
     (if a_flags a AND SSH2_FILEXFER_ATTR_UIDGID \<noteq> 0 then put_u32 (a_uid a) else []) @
     (if a_flags a AND SSH2_FILEXFER_ATTR_UIDGID \<noteq> 0 then put_u32 (a_gid a) else []) @
     (if a_flags a AND SSH2_FILEXFER_ATTR_PERMISSIONS \<noteq> 0 then put_u32 (a_perm a) else []) @
     (if a_flags a AND SSH2_FILEXFER_ATTR_ACMODTIME \<noteq> 0 then put_u32 (a_atime a) else []) @
     (if a_flags a AND SSH2_FILEXFER_ATTR_ACMODTIME \<noteq> 0 then put_u32 (a_mtime a) else []) @
     [] @ []"
    by (simp add: enc_attrib_def)
  have noext: "a_flags a AND SSH2_FILEXFER_ATTR_EXTENDED = 0"
    using assms by (simp add: attrib_normal_def)
  note field32 = takes_bindE [OF takes_opt [OF takes_mapE [OF takes_ints(1)]]]
  note field64 = takes_bindE [OF takes_opt [OF takes_mapE [OF takes_ints(2)]]]
  show ?thesis
    unfolding split bq_decode_attrib_def
    using assms
    by (intro takes_bindE [OF takes_mapE [OF takes_ints(1)]] field32 field64
        takes_bindE [of "[]" _ "()" "[]"])
      (simp_all add: attrib_normal_def takes_returnE noext)
qed

section \<open>Buffers of strings\<close>

text \<open>Reading \<open>n\<close> strings, one after the other.\<close>

primrec get_strings :: "(nat \<Rightarrow> bool) \<Rightarrow> nat \<Rightarrow> bytes list sb" where
  "get_strings al 0 = returnE []"
| "get_strings al (Suc n) =
     bindE (sshbuf_get_string al) (\<lambda>v. bindE (get_strings al n) (\<lambda>vs. returnE (v # vs)))"

primrec bq_get_strings :: "nat \<Rightarrow> bytes list bqm" where
  "bq_get_strings 0 = returnE []"
| "bq_get_strings (Suc n) = bindE bq_get_string (\<lambda>v. bindE (bq_get_strings n) (\<lambda>vs. returnE (v # vs)))"

lemma get_strings_sim: "\<forall>n. al n \<Longrightarrow> sim sb_writable sb_abs (get_strings al n) (bq_get_strings n)"
  by (induction n) (auto simp only: get_strings.simps bq_get_strings.simps intro!: sim_intros)

lemma takes_strings:
  "\<forall>v \<in> set vs. length v \<le> SSHBUF_SIZE_MAX - 4 \<Longrightarrow>
     takes (concat (map enc_string vs)) (bq_get_strings (length vs)) vs"
proof (induction vs)
  case Nil
  show ?case by (simp only: list.map concat.simps list.size bq_get_strings.simps takes_returnE)
next
  case (Cons v vs)
  then have v: "takes (enc_string v) bq_get_string v" and
      vs: "takes (concat (map enc_string vs)) (bq_get_strings (length vs)) vs"
    by (simp_all add: takes_string)
  have "takes (enc_string v @ concat (map enc_string vs) @ []) (bq_get_strings (length (v # vs))) (v # vs)"
    unfolding list.size bq_get_strings.simps add_Suc_right add_0_right
    by (rule takes_bindE [OF v takes_bindE [OF vs takes_returnE]]) simp
  then show ?case by simp
qed

lemma appends_for:
  "(\<And>x. x \<in> set xs \<Longrightarrow> appends (f x) (g x)) \<Longrightarrow> appends (forE xs f) (concat (map g xs))"
  by (induction xs) (auto intro: appends_intros)

lemma strings_fifo:
  assumes al: "\<forall>n. al n" and b: "sb_writable b" "sshbuf_ptr b = concat (map enc_string us)"
    and small: "\<forall>v \<in> set (us @ vs). length v \<le> SSHBUF_SIZE_MAX - 4"
    and fit: "length (concat (map enc_string (us @ vs))) \<le> sb_max_size b"
  shows "fst (bindE (forE vs (sshbuf_put_string al)) (\<lambda>_. get_strings al (length (us @ vs))) b) = Inr (us @ vs)"
proof -
  have "appends (forE vs (sshbuf_put_string al)) (concat (map enc_string vs))"
    using small by (intro appends_for appends_put_string al) simp
  moreover have "length (sshbuf_ptr b) + length (concat (map enc_string vs)) \<le> sb_max_size b"
    using fit unfolding b(2) by simp
  ultimately obtain b' where put: "forE vs (sshbuf_put_string al) b = (Inr (), b')" "sb_writable b'"
      "sshbuf_ptr b' = sshbuf_ptr b @ concat (map enc_string vs)"
    using appendsD b(1) by metis
  obtain r c where get: "get_strings al (length (us @ vs)) b' = (r, c)" by fastforce
  have "bq_bytes (sb_abs b') = concat (map enc_string (us @ vs)) @ []" using put(3) b(2) by simp
  from takesD [OF takes_strings [OF small] this]
    simD(2) [OF get_strings_sim [OF al] put(2) get]
  have "r = Inr (us @ vs)" by simp
  then show ?thesis using put(1) get by (simp add: bindE_def)
qed

end
