(* ===== verification/Sftp_Handles.thy ===== *)
theory Sftp_Handles
  imports Sftp_Common
begin

text \<open>
  The table of open files and directories of \<open>src/src/openssh/sftp-server.c\<close> (section
  \<open>handle handles\<close>): an array whose unused slots are linked into a free list. The type
  \<open>'md\<close> is that of a checksum context. Slots are read and written at \<open>int\<close> indices, as
  the code does; a new slot holds what the allocator left there, the parameter \<open>fresh\<close>.
\<close>

section \<open>The table\<close>

datatype handle_use = HANDLE_UNUSED | HANDLE_DIR | HANDLE_FILE

record 'md Handle =
  h_use :: handle_use
  h_dirp :: "nat option"
  h_fd :: int
  h_flags :: u32
  h_name :: bytes
  h_bytes_read :: u64
  h_bytes_write :: u64
  h_next_unused :: int
  h_md :: 'md

record 'md htab =
  handles :: "'md Handle list"
  num_handles :: u32
  first_unused_handle :: int

definition ht_init :: "'md htab" where
  "ht_init = \<lparr>handles = [], num_handles = 0, first_unused_handle = -1\<rparr>"

definition upd_handle :: "int \<Rightarrow> ('md Handle \<Rightarrow> 'md Handle) \<Rightarrow> 'md htab \<Rightarrow> 'md htab" where
  "upd_handle i f t = t\<lparr>handles := (handles t)[nat i := f (handles t ! nat i)]\<rparr>"

definition handle_unused :: "int \<Rightarrow> 'md htab \<Rightarrow> 'md htab" where
  "handle_unused i t =
     (upd_handle i (\<lambda>h. h\<lparr>h_use := HANDLE_UNUSED, h_next_unused := first_unused_handle t\<rparr>) t)
       \<lparr>first_unused_handle := i\<rparr>"

definition handle_new ::
  "'md Handle \<Rightarrow> handle_use \<Rightarrow> bytes \<Rightarrow> int \<Rightarrow> u32 \<Rightarrow> nat option \<Rightarrow> 'md htab \<Rightarrow> int \<times> 'md htab" where
  "handle_new fresh use name fd flags dirp t =
     (let grown =
        (if first_unused_handle t = -1 then
           if num_handles t + 1 \<le> num_handles t then None
           else
             let n = num_handles t + 1
             in Some (handle_unused (sint (n - 1))
                       (t\<lparr>num_handles := n, handles := handles t @ [fresh]\<rparr>))
         else Some t)
      in case grown of None \<Rightarrow> (-1, t)
         | Some t1 \<Rightarrow>
             let i = first_unused_handle t1;
                 t2 = t1\<lparr>first_unused_handle := h_next_unused (handles t1 ! nat i)\<rparr>
             in (i, upd_handle i (\<lambda>h. h\<lparr>h_use := use, h_dirp := dirp, h_fd := fd, h_flags := flags,
                        h_name := name, h_bytes_read := 0, h_bytes_write := 0\<rparr>) t2))"

text \<open>\<open>(u_int)i\<close> is \<open>i\<close> where \<open>i\<close> is not negative.\<close>

definition handle_is_ok :: "int \<Rightarrow> handle_use \<Rightarrow> 'md htab \<Rightarrow> bool" where
  "handle_is_ok i use t \<longleftrightarrow>
     i \<ge> 0 \<and> i < uint (num_handles t) \<and> h_use (handles t ! nat i) = use"

definition handle_to_string :: "int \<Rightarrow> bytes" where
  "handle_to_string handle = put_u32 (word_of_int handle)"

definition handle_from_string :: "bytes \<Rightarrow> 'md htab \<Rightarrow> int" where
  "handle_from_string handle t =
     (if length handle \<noteq> 4 then -1
      else
        let val = sint (get_u32 handle)
        in if handle_is_ok val HANDLE_FILE t \<or> handle_is_ok val HANDLE_DIR t then val else -1)"

definition handle_to_name :: "int \<Rightarrow> 'md htab \<Rightarrow> bytes option" where
  "handle_to_name handle t =
     (if handle_is_ok handle HANDLE_DIR t \<or> handle_is_ok handle HANDLE_FILE t
      then Some (h_name (handles t ! nat handle)) else None)"

definition handle_to_dir :: "int \<Rightarrow> 'md htab \<Rightarrow> nat option" where
  "handle_to_dir handle t =
     (if handle_is_ok handle HANDLE_DIR t then h_dirp (handles t ! nat handle) else None)"

definition handle_to_fd :: "int \<Rightarrow> 'md htab \<Rightarrow> int" where
  "handle_to_fd handle t =
     (if handle_is_ok handle HANDLE_FILE t then h_fd (handles t ! nat handle) else -1)"

definition handle_to_flags :: "int \<Rightarrow> 'md htab \<Rightarrow> u32" where
  "handle_to_flags handle t =
     (if handle_is_ok handle HANDLE_FILE t then h_flags (handles t ! nat handle) else 0)"

definition handle_update_read :: "int \<Rightarrow> int \<Rightarrow> 'md htab \<Rightarrow> 'md htab" where
  "handle_update_read handle n t =
     (if handle_is_ok handle HANDLE_FILE t \<and> n > 0
      then upd_handle handle (\<lambda>h. h\<lparr>h_bytes_read := h_bytes_read h + word_of_int n\<rparr>) t else t)"

definition handle_update_write :: "int \<Rightarrow> int \<Rightarrow> 'md htab \<Rightarrow> 'md htab" where
  "handle_update_write handle n t =
     (if handle_is_ok handle HANDLE_FILE t \<and> n > 0
      then upd_handle handle (\<lambda>h. h\<lparr>h_bytes_write := h_bytes_write h + word_of_int n\<rparr>) t else t)"

text \<open>\<open>checksum_add\<close> is \<open>SHA256_Update\<close> of the crypto library, the parameter \<open>add\<close>.\<close>

definition handle_update_checksum ::
  "('md \<Rightarrow> bytes \<Rightarrow> 'md) \<Rightarrow> int \<Rightarrow> bytes \<Rightarrow> int \<Rightarrow> 'md htab \<Rightarrow> 'md htab" where
  "handle_update_checksum add handle data len t =
     (if handle_is_ok handle HANDLE_FILE t \<and> len > 0
      then upd_handle handle (\<lambda>h. h\<lparr>h_md := add (h_md h) (take (nat len) data)\<rparr>) t else t)"

definition handle_bytes_read :: "int \<Rightarrow> 'md htab \<Rightarrow> u64" where
  "handle_bytes_read handle t =
     (if handle_is_ok handle HANDLE_FILE t then h_bytes_read (handles t ! nat handle) else 0)"

definition handle_bytes_write :: "int \<Rightarrow> 'md htab \<Rightarrow> u64" where
  "handle_bytes_write handle t =
     (if handle_is_ok handle HANDLE_FILE t then h_bytes_write (handles t ! nat handle) else 0)"

section \<open>Invariant\<close>

text \<open>The indices on the free list that starts at \<open>i\<close>.\<close>

fun free_chain :: "'md Handle list \<Rightarrow> int \<Rightarrow> nat list \<Rightarrow> bool" where
  "free_chain hs i [] = (i = -1)"
| "free_chain hs i (j # js) = (i = int j \<and> j < length hs \<and> free_chain hs (h_next_unused (hs ! j)) js)"

definition unused_slots :: "'md Handle list \<Rightarrow> nat set" where
  "unused_slots hs = {j. j < length hs \<and> h_use (hs ! j) = HANDLE_UNUSED}"

definition ht_free :: "'md htab \<Rightarrow> nat list \<Rightarrow> bool" where
  "ht_free t js \<longleftrightarrow>
     free_chain (handles t) (first_unused_handle t) js \<and> distinct js \<and>
     set js = unused_slots (handles t)"

definition ht_wf :: "'md htab \<Rightarrow> bool" where
  "ht_wf t \<longleftrightarrow>
     num_handles t = word_of_nat (length (handles t)) \<and> length (handles t) < 2 ^ 31 \<and>
     (\<exists>js. ht_free t js)"

text \<open>What the table stands for: the handles in use.\<close>

definition ht_live :: "'md htab \<Rightarrow> int \<rightharpoonup> 'md Handle" where
  "ht_live t i =
     (if 0 \<le> i \<and> i < int (length (handles t)) \<and> h_use (handles t ! nat i) \<noteq> HANDLE_UNUSED
      then Some (handles t ! nat i) else None)"

lemma ht_init_wf: "ht_wf ht_init"
  by (auto simp: ht_wf_def ht_init_def ht_free_def unused_slots_def intro!: exI [of _ "[]"])

lemma handles_upd [simp]:
  "length (handles (upd_handle i f t)) = length (handles t)"
  "num_handles (upd_handle i f t) = num_handles t"
  "first_unused_handle (upd_handle i f t) = first_unused_handle t"
  by (simp_all add: upd_handle_def)

lemma length_handle_unused [simp]: "length (handles (handle_unused i t)) = length (handles t)"
  by (simp add: handle_unused_def)

lemma sint_of_nat_small: "n < 2 ^ 31 \<Longrightarrow> sint (word_of_nat n :: u32) = int n"
  by (simp add: signed_of_nat signed_take_bit_int_eq_self)

lemma ht_wf_num: "ht_wf t \<Longrightarrow> unat (num_handles t) = length (handles t)"
  by (simp add: ht_wf_def unat_of_nat)

lemma handle_is_ok_iff:
  assumes "ht_wf t"
  shows "handle_is_ok i use t \<longleftrightarrow>
    0 \<le> i \<and> i < int (length (handles t)) \<and> h_use (handles t ! nat i) = use"
  using ht_wf_num [OF assms] by (auto simp: handle_is_ok_def uint_nat)

lemma handle_is_ok_live:
  assumes "ht_wf t"
  shows "handle_is_ok i HANDLE_FILE t \<or> handle_is_ok i HANDLE_DIR t \<longleftrightarrow> i \<in> dom (ht_live t)"
  unfolding handle_is_ok_iff [OF assms]
  by (cases "h_use (handles t ! nat i)") (auto simp: ht_live_def dom_def split: if_splits)

lemma handle_is_ok_Some:
  assumes "ht_wf t" and "handle_is_ok i use t" and "use \<noteq> HANDLE_UNUSED"
  shows "ht_live t i = Some (handles t ! nat i)"
  using assms(2,3) unfolding handle_is_ok_iff [OF assms(1)] by (simp add: ht_live_def)

lemma ht_live_bound: "ht_wf t \<Longrightarrow> ht_live t i = Some h \<Longrightarrow> 0 \<le> i \<and> i < 2 ^ 31"
  by (auto simp: ht_wf_def ht_live_def split: if_splits)

text \<open>Changing a slot outside the chain does not change the chain.\<close>

lemma free_chain_update:
  "j \<notin> set js \<Longrightarrow> free_chain (hs[j := h]) i js \<longleftrightarrow> free_chain hs i js"
  by (induction js arbitrary: i) auto

lemma free_chain_append:
  "free_chain hs i js \<Longrightarrow> free_chain (hs @ [h]) i js"
  by (induction js arbitrary: i) (auto simp: nth_append)

lemma free_chain_next_cong:
  "(\<And>j. j < length hs \<Longrightarrow> h_next_unused (hs' ! j) = h_next_unused (hs ! j)) \<Longrightarrow>
     length hs' = length hs \<Longrightarrow> free_chain hs' i js = free_chain hs i js"
  by (induction js arbitrary: i) auto

section \<open>Releasing\<close>

lemma handle_unused_free:
  assumes "ht_free t js" and "j < length (handles t)" and "j \<notin> set js"
  shows "ht_free (handle_unused (int j) t) (j # js)"
proof -
  let ?h = "(handles t ! j)\<lparr>h_use := HANDLE_UNUSED, h_next_unused := first_unused_handle t\<rparr>"
  have hs: "handles (handle_unused (int j) t) = (handles t)[j := ?h]"
    by (simp add: handle_unused_def upd_handle_def)
  have "unused_slots ((handles t)[j := ?h]) = insert j (unused_slots (handles t))"
    using assms(2) by (auto simp: unused_slots_def nth_list_update)
  moreover have "first_unused_handle (handle_unused (int j) t) = int j"
    by (simp add: handle_unused_def)
  ultimately show ?thesis
    using assms by (simp add: ht_free_def hs free_chain_update)
qed

lemma handle_unused_wf:
  assumes "ht_wf t" and "ht_live t i = Some h"
  shows "ht_wf (handle_unused i t)" and "ht_live (handle_unused i t) = (ht_live t)(i := None)"
proof -
  from assms(2) have i: "0 \<le> i" "nat i < length (handles t)"
      "h_use (handles t ! nat i) \<noteq> HANDLE_UNUSED"
    by (auto simp: ht_live_def split: if_splits)
  from assms(1) obtain js where js: "ht_free t js" by (auto simp: ht_wf_def)
  with i have "nat i \<notin> set js" by (auto simp: ht_free_def unused_slots_def)
  with js i have "ht_free (handle_unused i t) (nat i # js)"
    using handle_unused_free [of t js "nat i"] by simp
  then show "ht_wf (handle_unused i t)"
    using assms(1) by (auto simp: ht_wf_def handle_unused_def)
  show "ht_live (handle_unused i t) = (ht_live t)(i := None)"
    using i by (auto simp: ht_live_def handle_unused_def upd_handle_def fun_eq_iff nth_list_update
        split: if_splits)
qed

section \<open>Allocating\<close>

text \<open>The two halves of \<open>handle_new\<close>: growing the table, and taking the first free slot.\<close>

definition ht_grow :: "'md Handle \<Rightarrow> 'md htab \<Rightarrow> 'md htab" where
  "ht_grow fresh t =
     handle_unused (sint (num_handles t)) (t\<lparr>num_handles := num_handles t + 1, handles := handles t @ [fresh]\<rparr>)"

lemma ht_grow_free:
  assumes "ht_wf t" and "first_unused_handle t = -1" and "length (handles t) < 2 ^ 31 - 1"
  shows "ht_wf (ht_grow fresh t)" "ht_free (ht_grow fresh t) [length (handles t)]"
    "ht_live (ht_grow fresh t) = ht_live t"
proof -
  let ?n = "length (handles t)"
  let ?t = "t\<lparr>num_handles := num_handles t + 1, handles := handles t @ [fresh]\<rparr>"
  from assms(1) obtain js where js: "ht_free t js" by (auto simp: ht_wf_def)
  with assms(2) have "js = []" by (cases js) (auto simp: ht_free_def)
  with js have none: "unused_slots (handles t) = {}" by (simp add: ht_free_def)
  have idx: "sint (num_handles t) = int ?n"
    using assms(1) by (simp add: ht_wf_def sint_of_nat_small)
  let ?h = "fresh\<lparr>h_use := HANDLE_UNUSED, h_next_unused := first_unused_handle t\<rparr>"
  have hs: "handles (ht_grow fresh t) = handles t @ [?h]"
    by (simp add: ht_grow_def handle_unused_def upd_handle_def idx)
  have "unused_slots (handles t @ [?h]) = {?n}"
    using none by (auto simp: unused_slots_def nth_append less_Suc_eq)
  then show free: "ht_free (ht_grow fresh t) [?n]"
    using assms(2) by (simp add: ht_free_def hs) (simp add: ht_grow_def handle_unused_def idx)
  show "ht_wf (ht_grow fresh t)"
    using assms(1,3) free by (auto simp: ht_wf_def hs) (simp add: ht_grow_def handle_unused_def)
  show "ht_live (ht_grow fresh t) = ht_live t"
    by (auto simp: ht_live_def hs fun_eq_iff nth_append)
qed

lemma handle_new_taken:
  assumes "ht_wf t" and "ht_free t (j # js)" and "use \<noteq> HANDLE_UNUSED"
  shows "\<exists>h t'. handle_new fresh use name fd flags dirp t = (int j, t') \<and>
     ht_wf t' \<and> ht_live t (int j) = None \<and> ht_live t' = (ht_live t)(int j \<mapsto> h) \<and>
     h_use h = use \<and> h_name h = name \<and> h_fd h = fd \<and> h_flags h = flags \<and> h_dirp h = dirp \<and>
     h_bytes_read h = 0 \<and> h_bytes_write h = 0 \<and> length (handles t') = length (handles t)"
proof -
  from assms(2) have j: "first_unused_handle t = int j" "j < length (handles t)" "j \<notin> set js"
      "h_use (handles t ! j) = HANDLE_UNUSED"
      "free_chain (handles t) (h_next_unused (handles t ! j)) js" "distinct js"
    by (auto simp: ht_free_def unused_slots_def)
  let ?h = "(handles t ! j)\<lparr>h_use := use, h_dirp := dirp, h_fd := fd, h_flags := flags,
     h_name := name, h_bytes_read := 0, h_bytes_write := 0\<rparr>"
  let ?t' = "t\<lparr>first_unused_handle := h_next_unused (handles t ! j), handles := (handles t)[j := ?h]\<rparr>"
  have run: "handle_new fresh use name fd flags dirp t = (int j, ?t')"
    using j by (simp add: handle_new_def Let_def upd_handle_def)
  have "unused_slots ((handles t)[j := ?h]) = unused_slots (handles t) - {j}"
    using assms(3) j(2) by (auto simp: unused_slots_def nth_list_update split: if_splits)
  then have "ht_free ?t' js"
    using assms(2) j by (auto simp: ht_free_def free_chain_update)
  then have "ht_wf ?t'"
    using assms(1) by (auto simp: ht_wf_def)
  moreover have "ht_live ?t' = (ht_live t)(int j \<mapsto> ?h)"
    using assms(3) j by (auto simp: ht_live_def fun_eq_iff nth_list_update)
  moreover have "ht_live t (int j) = None"
    using j by (simp add: ht_live_def)
  ultimately show ?thesis
    using run by auto
qed

lemma handle_new_grow:
  assumes "ht_wf t" and "first_unused_handle t = -1" and "length (handles t) < 2 ^ 31 - 1"
  shows "handle_new fresh use name fd flags dirp t =
         handle_new fresh use name fd flags dirp (ht_grow fresh t)"
proof -
  have "\<not> num_handles t + 1 \<le> num_handles t"
  proof -
    have "unat (num_handles t + 1) = length (handles t) + 1"
      using assms(1,3) ht_wf_num [OF assms(1)] by (simp add: unat_word_ariths)
    then show ?thesis by (simp add: word_le_nat_alt ht_wf_num [OF assms(1)])
  qed
  moreover have "first_unused_handle (ht_grow fresh t) \<noteq> -1"
    using ht_grow_free(2) [OF assms] by (auto simp: ht_free_def)
  ultimately show ?thesis
    using assms(2) by (simp add: handle_new_def Let_def ht_grow_def)
qed

text \<open>
  A new handle is one that was not in use, and no other handle changes; the table grows
  only where every slot is in use.
\<close>

lemma handle_new_spec:
  assumes "ht_wf t" and "use \<noteq> HANDLE_UNUSED" and "length (handles t) < 2 ^ 31 - 1"
  obtains i h t' where "handle_new fresh use name fd flags dirp t = (i, t')"
    "ht_wf t'" "0 \<le> i" "i < 2 ^ 31" "ht_live t i = None" "ht_live t' = (ht_live t)(i \<mapsto> h)"
    "h_use h = use" "h_name h = name" "h_fd h = fd" "h_flags h = flags" "h_dirp h = dirp"
    "h_bytes_read h = 0" "h_bytes_write h = 0" "length (handles t') \<le> Suc (length (handles t))"
proof -
  from assms(1) obtain js where js: "ht_free t js" by (auto simp: ht_wf_def)
  show thesis
  proof (cases js)
    case (Cons j js')
    then have "int j < 2 ^ 31"
      using assms(1) js by (auto simp: ht_wf_def ht_free_def)
    moreover obtain h t' where "handle_new fresh use name fd flags dirp t = (int j, t')" "ht_wf t'"
        "ht_live t (int j) = None" "ht_live t' = (ht_live t)(int j \<mapsto> h)" "h_use h = use"
        "h_name h = name" "h_fd h = fd" "h_flags h = flags" "h_dirp h = dirp"
        "h_bytes_read h = 0" "h_bytes_write h = 0" "length (handles t') = length (handles t)"
      using handle_new_taken [OF assms(1) js [unfolded Cons] assms(2), of fresh name fd flags dirp]
      by blast
    ultimately show thesis by (intro that [of "int j" t' h]) simp_all
  next
    case Nil
    then have m1: "first_unused_handle t = -1" using js by (simp add: ht_free_def)
    note g = ht_grow_free [OF assms(1) m1 assms(3), of fresh]
    have len: "length (handles (ht_grow fresh t)) = Suc (length (handles t))"
      by (simp add: ht_grow_def handle_unused_def)
    have "int (length (handles t)) < 2 ^ 31" using assms(3) by simp
    moreover obtain h t' where "handle_new fresh use name fd flags dirp (ht_grow fresh t) =
          (int (length (handles t)), t')" "ht_wf t'"
        "ht_live t (int (length (handles t))) = None"
        "ht_live t' = (ht_live t)(int (length (handles t)) \<mapsto> h)" "h_use h = use"
        "h_name h = name" "h_fd h = fd" "h_flags h = flags" "h_dirp h = dirp"
        "h_bytes_read h = 0" "h_bytes_write h = 0" "length (handles t') = Suc (length (handles t))"
      using handle_new_taken [OF g(1,2) assms(2), of fresh name fd flags dirp]
      unfolding g(3) len by blast
    ultimately show thesis
      by (intro that [of "int (length (handles t))" t' h])
        (simp_all add: handle_new_grow [OF assms(1) m1 assms(3)])
  qed
qed

section \<open>Updating\<close>

lemma upd_handle_live:
  assumes "ht_wf t" and "ht_live t i = Some h" and "h_use (f h) = h_use h"
    and "h_next_unused (f h) = h_next_unused h"
  shows "ht_wf (upd_handle i f t)" and "ht_live (upd_handle i f t) = (ht_live t)(i \<mapsto> f h)"
proof -
  from assms(2) have i: "0 \<le> i" "nat i < length (handles t)" "handles t ! nat i = h"
      "h_use h \<noteq> HANDLE_UNUSED"
    by (auto simp: ht_live_def split: if_splits)
  have hs: "handles (upd_handle i f t) = (handles t)[nat i := f h]"
    using i by (simp add: upd_handle_def)
  have use: "h_use ((handles t)[nat i := f h] ! k) = h_use (handles t ! k)"
    and nxt: "h_next_unused ((handles t)[nat i := f h] ! k) = h_next_unused (handles t ! k)" for k
    using i assms(3,4) by (cases "k = nat i"; simp)+
  have "unused_slots ((handles t)[nat i := f h]) = unused_slots (handles t)"
    by (simp only: unused_slots_def use length_list_update)
  moreover have "free_chain ((handles t)[nat i := f h]) k js = free_chain (handles t) k js" for k js
    by (rule free_chain_next_cong) (simp_all only: nxt length_list_update)
  ultimately show "ht_wf (upd_handle i f t)"
    using assms(1) unfolding ht_wf_def ht_free_def hs by simp
  have "ht_live (upd_handle i f t) k = ((ht_live t)(i \<mapsto> f h)) k" for k
  proof (cases "k = i")
    case True
    then show ?thesis using i assms(3) by (simp add: ht_live_def hs)
  next
    case False
    then have "0 \<le> k \<Longrightarrow> (handles t)[nat i := f h] ! nat k = handles t ! nat k" using i by simp
    then show ?thesis using False by (cases "0 \<le> k") (simp_all add: ht_live_def hs)
  qed
  then show "ht_live (upd_handle i f t) = (ht_live t)(i \<mapsto> f h)" by blast
qed

section \<open>The interface\<close>

text \<open>Taking a slot for each element of a list.\<close>

fun open_all :: "('a \<Rightarrow> 't \<Rightarrow> int \<times> 't) \<Rightarrow> 'a list \<Rightarrow> 't \<Rightarrow> int list \<times> 't" where
  "open_all new [] t = ([], t)"
| "open_all new (a # as) t = (case new a t of (i, t1) \<Rightarrow>
     case open_all new as t1 of (is, t2) \<Rightarrow> (i # is, t2))"

text \<open>What the request handlers rely on: a store from which a slot is taken and to which
  it is given back.\<close>

locale handle_store =
  fixes inv :: "'t \<Rightarrow> bool"
    and room :: "'t \<Rightarrow> nat"
    and live :: "'t \<Rightarrow> int \<rightharpoonup> 'h"
    and new :: "'a \<Rightarrow> 't \<Rightarrow> int \<times> 't"
    and release :: "int \<Rightarrow> 't \<Rightarrow> 't"
  assumes new_ok: "inv t \<Longrightarrow> room t > 0 \<Longrightarrow> \<exists>i h t'. new a t = (i, t') \<and> inv t' \<and>
      0 \<le> i \<and> live t i = None \<and> live t' = (live t)(i \<mapsto> h) \<and> room t \<le> Suc (room t')"
    and release_ok: "inv t \<Longrightarrow> live t i = Some h \<Longrightarrow>
      inv (release i t) \<and> live (release i t) = (live t)(i := None) \<and> room (release i t) = room t"
begin

text \<open>Opening several times gives handles that differ from each other and from all that
  were open before.\<close>

lemma open_all_fresh:
  assumes "inv t" and "length as \<le> room t" and "open_all new as t = (is, t')"
  shows "inv t' \<and> distinct is \<and> set is \<inter> dom (live t) = {} \<and>
         dom (live t') = dom (live t) \<union> set is \<and> length is = length as \<and>
         (\<forall>i \<in> dom (live t). live t' i = live t i)"
  using assms
proof (induction as arbitrary: t "is" t')
  case Nil
  then show ?case by simp
next
  case (Cons a as)
  from Cons.prems(1,2) new_ok [of t a] obtain i h t1 where 1: "new a t = (i, t1)" "inv t1"
      "live t i = None" "live t1 = (live t)(i \<mapsto> h)" "room t \<le> Suc (room t1)"
    by auto
  obtain js t2 where 2: "open_all new as t1 = (js, t2)" by fastforce
  have "length as \<le> room t1" using Cons.prems(2) 1(5) by simp
  note IH = Cons.IH [OF 1(2) this 2]
  have d: "dom (live t1) = insert i (dom (live t))" using 1(4) by simp
  have "is = i # js" "t2 = t'" using 1 2 Cons.prems(3) by simp_all
  moreover have "i \<notin> dom (live t)" using 1(3) by auto
  moreover have "\<forall>k \<in> dom (live t). live t' k = live t k"
  proof
    fix k assume k: "k \<in> dom (live t)"
    then have "live t2 k = live t1 k" using IH d by blast
    moreover have "k \<noteq> i" using k \<open>i \<notin> dom (live t)\<close> by blast
    ultimately show "live t' k = live t k" using \<open>t2 = t'\<close> 1(4) by simp
  qed
  ultimately show ?case using IH unfolding d by auto
qed

text \<open>A handle that was given back can be given out again, but not before.\<close>

lemma release_new:
  assumes "inv t" and "live t i = Some h" and "room t > 0"
  shows "\<exists>j h' t'. new a (release i t) = (j, t') \<and> inv t' \<and>
           live t' = (live t)(i := None, j \<mapsto> h') \<and> (j = i \<or> live t j = None)"
proof -
  from release_ok [OF assms(1,2)] assms(3)
  have "inv (release i t)" "live (release i t) = (live t)(i := None)" "room (release i t) > 0"
    by simp_all
  then show ?thesis using new_ok [of "release i t" a] by (auto split: if_splits)
qed

end

text \<open>The slots the table can still grow by.\<close>

definition ht_room :: "'md htab \<Rightarrow> nat" where
  "ht_room t = 2 ^ 31 - 1 - length (handles t)"

definition new_file :: "'md Handle \<Rightarrow> bytes \<times> int \<times> u32 \<Rightarrow> 'md htab \<Rightarrow> int \<times> 'md htab" where
  "new_file fresh = (\<lambda>(name, fd, flags). handle_new fresh HANDLE_FILE name fd flags None)"

lemma new_file_ok:
  assumes wf: "ht_wf t" and room: "ht_room t > 0"
  shows "\<exists>i h t'. new_file fresh a t = (i, t') \<and> ht_wf t' \<and> 0 \<le> i \<and>
      ht_live t i = None \<and> ht_live t' = (ht_live t)(i \<mapsto> h) \<and> ht_room t \<le> Suc (ht_room t')"
proof -
  obtain name fd flags where a: "a = (name, fd, flags)" by (cases a)
  from room have "length (handles t) < 2 ^ 31 - 1" unfolding ht_room_def by linarith
  then obtain i h t' where new: "handle_new fresh HANDLE_FILE name fd flags None t = (i, t')"
    "ht_wf t'" "0 \<le> i" "ht_live t i = None" "ht_live t' = (ht_live t)(i \<mapsto> h)"
    "length (handles t') \<le> Suc (length (handles t))"
    using handle_new_spec [OF wf, of HANDLE_FILE fresh name fd flags None] by blast
  moreover have "ht_room t \<le> Suc (ht_room t')"
    using new(6) unfolding ht_room_def by linarith
  moreover have "new_file fresh a t = (i, t')"
    unfolding new_file_def a split by (rule new(1))
  ultimately show ?thesis by blast
qed

lemma release_file_ok:
  assumes "ht_wf t" and "ht_live t i = Some h"
  shows "ht_wf (handle_unused i t) \<and> ht_live (handle_unused i t) = (ht_live t)(i := None) \<and>
      ht_room (handle_unused i t) = ht_room t"
  using handle_unused_wf [OF assms] by (simp only: ht_room_def length_handle_unused simp_thms)

interpretation files: handle_store ht_wf ht_room ht_live "new_file fresh" handle_unused
  for fresh :: "'md Handle"
  by unfold_locales (rule new_file_ok release_file_ok, assumption+)+

section \<open>Handle strings\<close>

lemma handle_from_string_live:
  assumes "ht_wf t" and "handle_from_string s t = i" and "i \<noteq> -1"
  shows "\<exists>h. ht_live t i = Some h"
  using assms handle_is_ok_live [OF assms(1), of "sint (get_u32 s)"]
  by (auto simp: handle_from_string_def Let_def dom_def split: if_splits)

lemma handle_string_roundtrip:
  assumes "ht_wf t" and "ht_live t i = Some h"
  shows "handle_from_string (handle_to_string i) t = i"
proof -
  from ht_live_bound [OF assms] have "sint (word_of_int i :: u32) = i"
    by (simp add: signed_of_int signed_take_bit_int_eq_self)
  then show ?thesis
    using handle_is_ok_live [OF assms(1), of i] assms(2)
    by (auto simp: handle_from_string_def handle_to_string_def Let_def)
qed

section \<open>Tables of any size\<close>

text \<open>
  The table of a server that would have used up all its handle numbers is not described
  further; until then it is well-formed.
\<close>

definition ht_ok :: "'md htab \<Rightarrow> bool" where
  "ht_ok t \<longleftrightarrow> ht_wf t \<or> 2 ^ 31 - 1 \<le> length (handles t)"

lemma length_handle_new:
  "length (handles t) \<le> length (handles (snd (handle_new fresh use name fd flags dirp t)))"
  by (simp add: handle_new_def Let_def split: option.splits)

lemma handle_new_ok:
  assumes "ht_ok t" and "use \<noteq> HANDLE_UNUSED"
  shows "ht_ok (snd (handle_new fresh use name fd flags dirp t))"
proof (cases "length (handles t) < 2 ^ 31 - 1")
  case True
  with assms(1) have "ht_wf t" unfolding ht_ok_def by linarith
  from handle_new_spec [OF this assms(2) True, of fresh name fd flags dirp]
  have "ht_wf (snd (handle_new fresh use name fd flags dirp t))" by (metis snd_conv)
  then show ?thesis by (simp only: ht_ok_def simp_thms)
next
  case False
  then have "2 ^ 31 - 1 \<le> length (handles (snd (handle_new fresh use name fd flags dirp t)))"
    using length_handle_new [of t fresh use name fd flags dirp] by linarith
  then show ?thesis by (simp only: ht_ok_def simp_thms)
qed

lemma upd_handle_ok:
  assumes "ht_ok t" and "\<And>h. h_use (f h) = h_use h" and "\<And>h. h_next_unused (f h) = h_next_unused h"
  shows "ht_ok (upd_handle i f t)"
proof -
  have nth: "h_use (handles (upd_handle i f t) ! k) = h_use (handles t ! k)"
      "h_next_unused (handles (upd_handle i f t) ! k) = h_next_unused (handles t ! k)"
    if "k < length (handles t)" for k
    using that assms(2,3) by (cases "k = nat i"; simp add: upd_handle_def)+
  have "unused_slots (handles (upd_handle i f t)) = unused_slots (handles t)"
    using nth(1) by (auto simp: unused_slots_def)
  moreover have "free_chain (handles (upd_handle i f t)) k js = free_chain (handles t) k js" for k js
    by (rule free_chain_next_cong) (simp_all add: nth)
  ultimately show ?thesis
    using assms(1) unfolding ht_ok_def ht_wf_def ht_free_def by simp
qed

lemma handle_unused_ok:
  assumes "ht_ok t" and "handle_is_ok i use t" and "use \<noteq> HANDLE_UNUSED"
  shows "ht_ok (handle_unused i t)"
proof (cases "ht_wf t")
  case True
  then show ?thesis
    using handle_unused_wf(1) [OF True handle_is_ok_Some [OF True assms(2,3)]] by (simp add: ht_ok_def)
next
  case False
  then show ?thesis using assms(1) by (simp add: ht_ok_def)
qed

lemma handle_update_ok:
  assumes "ht_ok t"
  shows "ht_ok (handle_update_read i k t)" "ht_ok (handle_update_write i k t)"
    "ht_ok (handle_update_checksum add i d k t)"
  using assms
  by (simp_all add: handle_update_read_def handle_update_write_def handle_update_checksum_def
      upd_handle_ok)

end
