(* ===== verification/Ls_File.thy ===== *)
theory Ls_File
  imports Sftp_Common
begin

text \<open>
  The long name of a directory entry, as in the output of \<open>ls -l\<close>: \<open>ls_file\<close> of
  \<open>src/src/openssh/sftp-common.c\<close> with \<open>strmode\<close> and \<open>fmt_scaled\<close> of
  \<open>src/src/openssh/openbsd-compat\<close>. The user database, the clock and \<open>strftime\<close> are
  parameters.
\<close>

section \<open>Formatting\<close>

text \<open>\<open>%u\<close> and \<open>%lld\<close>.\<close>

fun dec_nat :: "nat \<Rightarrow> bytes" where
  "dec_nat n = (if n < 10 then [48 + word_of_nat n] else dec_nat (n div 10) @ [48 + word_of_nat (n mod 10)])"

declare dec_nat.simps [simp del]

definition dec_int :: "int \<Rightarrow> bytes" where
  "dec_int n = (if n < 0 then 45 # dec_nat (nat (- n)) else dec_nat (nat n))"

definition SPACE :: u8 where "SPACE = 32"

definition pad_left :: "nat \<Rightarrow> bytes \<Rightarrow> bytes" where
  "pad_left w s = replicate (w - length s) SPACE @ s"

definition pad_right :: "nat \<Rightarrow> bytes \<Rightarrow> bytes" where
  "pad_right w s = s @ replicate (w - length s) SPACE"

text \<open>\<open>snprintf\<close> into a buffer of \<open>sz\<close> bytes.\<close>

definition snprintf :: "nat \<Rightarrow> bytes \<Rightarrow> bytes" where
  "snprintf sz s = take (sz - 1) s"

section \<open>Mode strings\<close>

definition S_IFMT :: u32 where "S_IFMT = 0xF000"
definition S_IFDIR :: u32 where "S_IFDIR = 0x4000"
definition S_IFCHR :: u32 where "S_IFCHR = 0x2000"
definition S_IFBLK :: u32 where "S_IFBLK = 0x6000"
definition S_IFREG :: u32 where "S_IFREG = 0x8000"
definition S_IFLNK :: u32 where "S_IFLNK = 0xA000"
definition S_IFSOCK :: u32 where "S_IFSOCK = 0xC000"
definition S_IFIFO :: u32 where "S_IFIFO = 0x1000"

lemmas s_if = S_IFMT_def S_IFDIR_def S_IFCHR_def S_IFBLK_def S_IFREG_def S_IFLNK_def S_IFSOCK_def
  S_IFIFO_def

definition S_ISREG :: "u32 \<Rightarrow> bool" where
  "S_ISREG m \<longleftrightarrow> m AND S_IFMT = S_IFREG"

definition strmode_type :: "u32 \<Rightarrow> char" where
  "strmode_type mode =
     (let t = mode AND S_IFMT in
      if t = S_IFDIR then CHR ''d''
      else if t = S_IFCHR then CHR ''c''
      else if t = S_IFBLK then CHR ''b''
      else if t = S_IFREG then CHR ''-''
      else if t = S_IFLNK then CHR ''l''
      else if t = S_IFSOCK then CHR ''s''
      else if t = S_IFIFO then CHR ''p''
      else CHR ''?'')"

text \<open>One of the three groups: read, write, and execute joined with a special bit, printed
  as \<open>lower\<close> or \<open>upper\<close> where the special bit is set.\<close>

definition strmode_triple :: "u32 \<Rightarrow> u32 \<Rightarrow> u32 \<Rightarrow> u32 \<Rightarrow> u32 \<Rightarrow> char \<Rightarrow> char \<Rightarrow> string" where
  "strmode_triple mode r w x special lower upper =
     [if mode AND r \<noteq> 0 then CHR ''r'' else CHR ''-'',
      if mode AND w \<noteq> 0 then CHR ''w'' else CHR ''-'',
      let m = mode AND (x OR special) in
      if m = 0 then CHR ''-'' else if m = x then CHR ''x'' else if m = special then upper else lower]"

definition strmode :: "u32 \<Rightarrow> bytes" where
  "strmode mode =
     lit (strmode_type mode #
          strmode_triple mode 0x100 0x80 0x40 0x800 CHR ''s'' CHR ''S'' @
          strmode_triple mode 0x20 0x10 0x8 0x400 CHR ''s'' CHR ''S'' @
          strmode_triple mode 0x4 0x2 0x1 0x200 CHR ''t'' CHR ''T'' @ '' '')"

section \<open>Scaled sizes\<close>

definition scale_chars :: string where "scale_chars = ''BKMGTPE''"

definition scale_factors :: "int list" where
  "scale_factors = map (\<lambda>i. 1024 ^ i) [0..<7]"

definition SCALE_LENGTH :: nat where "SCALE_LENGTH = 7"

definition FMT_SCALED_STRSIZE :: nat where "FMT_SCALED_STRSIZE = 7"

text \<open>Division of C, which rounds towards zero.\<close>

definition cdiv :: "int \<Rightarrow> int \<Rightarrow> int" where
  "cdiv a b = (if a < 0 then - ((- a) div b) else a div b)"

text \<open>The loop that finds the unit: the first one whose number has at most four digits.\<close>

fun find_scale :: "int \<Rightarrow> nat list \<Rightarrow> nat option" where
  "find_scale abval [] = None"
| "find_scale abval (i # is) =
     (if abval div 1024 < scale_factors ! i then Some i else find_scale abval is)"

text \<open>\<open>number\<close> is a \<open>long long\<close>; \<open>llabs\<close> of the least one is negative.\<close>

definition fmt_scaled :: "int \<Rightarrow> bytes option" where
  "fmt_scaled number =
     (if number = - (2 ^ 63) \<or> abs number div 1024 \<ge> scale_factors ! (SCALE_LENGTH - 1) then None
      else
        let abval = abs number;
            i = (case find_scale abval [0..<SCALE_LENGTH] of None \<Rightarrow> 0 | Some i \<Rightarrow> i);
            fract = (if i = 0 then 0
                     else (abval mod scale_factors ! i) div scale_factors ! (i - 1));
            number = cdiv number (scale_factors ! i);
            fract = (10 * fract + 512) div 1024;
            up = (\<lambda>n. if n \<ge> 0 then n + 1 else n - 1);
            (number, fract) = (if fract \<ge> 10 then (up number, 0) else (number, fract));
            unit = of_char (scale_chars ! i)
        in Some (
          if number = 0 then lit ''0B''
          else if i = 0 \<or> number \<ge> 100 \<or> number \<le> -100 then
            snprintf FMT_SCALED_STRSIZE
              (dec_int (if fract \<ge> 5 then up number else number) @ [word_of_nat unit])
          else
            snprintf FMT_SCALED_STRSIZE
              (dec_int number @ 46 # dec_int fract @ [word_of_nat unit])))"

section \<open>Long names\<close>

record ls_env =
  le_user :: "u32 \<Rightarrow> bytes"
  le_group :: "u32 \<Rightarrow> bytes"
  le_now :: int
  le_recent_time :: "int \<Rightarrow> bytes option"
  le_old_time :: "int \<Rightarrow> bytes option"
  le_sbuf :: bytes

text \<open>
  \<open>le_recent_time\<close> and \<open>le_old_time\<close> are \<open>strftime\<close> of the local time with the two formats
  of the code, \<open>None\<close> where there is no local time or \<open>strftime\<close> returns 0; \<open>le_sbuf\<close>
  is what an unset \<open>sbuf\<close> holds. The times are signed.
\<close>

definition ls_file :: "ls_env \<Rightarrow> bytes \<Rightarrow> stat \<Rightarrow> bool \<Rightarrow> bool \<Rightarrow> bytes" where
  "ls_file E name st remote si_units =
     (let mode = strmode (st_mode st);
          user = (if remote then snprintf 12 (dec_nat (unat (st_uid st))) else le_user E (st_uid st));
          group = (if remote then snprintf 12 (dec_nat (unat (st_gid st))) else le_group E (st_gid st));
          lc = (if remote then lit ''?''
                else snprintf 8 (dec_nat (unat (ucast (st_nlink st) :: u32))));
          mtime = sint (st_mtime st);
          tbuf = (case (if le_now E - (365 * 24 * 60 * 60) div 2 < mtime \<and> le_now E \<ge> mtime
                        then le_recent_time E mtime else le_old_time E mtime)
                  of None \<Rightarrow> [] | Some t \<Rightarrow> t);
          ulen = max (length user) 8;
          glen = max (length group) 8;
          sz = (if si_units
                then (case fmt_scaled (sint (st_size st)) of Some s \<Rightarrow> s | None \<Rightarrow> le_sbuf E)
                else dec_nat (unat (st_size st)))
      in snprintf 1024
           (mode @ [SPACE] @ pad_left 3 lc @ [SPACE] @ pad_right ulen user @ [SPACE] @
            pad_right glen group @ [SPACE] @ pad_left 8 sz @ [SPACE] @ tbuf @ [SPACE] @ name))"

section \<open>Facts\<close>

lemma length_ls_file: "length (ls_file E name st remote si_units) \<le> 1023"
  by (simp add: ls_file_def snprintf_def Let_def)

lemma length_strmode [simp]: "length (strmode m) = 11"
  by (simp add: strmode_def strmode_triple_def lit_def)

text \<open>The digits of a number, and its value back.\<close>

fun dec_value :: "bytes \<Rightarrow> nat" where
  "dec_value ds = foldl (\<lambda>n d. 10 * n + unat (d - 48)) 0 ds"

lemma dec_value_snoc: "dec_value (ds @ [d]) = 10 * dec_value ds + unat (d - 48)"
  by simp

lemma dec_value_dec_nat: "dec_value (dec_nat n) = n"
proof (induction n rule: dec_nat.induct)
  case (1 n)
  show ?case
  proof (cases "n < 10")
    case True
    then show ?thesis by (subst dec_nat.simps) (simp add: unat_of_nat)
  next
    case False
    have "unat (word_of_nat (n mod 10) :: u8) = n mod 10"
      by (simp add: unat_of_nat)
    moreover have "dec_value (dec_nat (n div 10)) = n div 10"
      using 1 False by simp
    ultimately have "dec_value (dec_nat (n div 10) @ [48 + word_of_nat (n mod 10)]) = n"
      unfolding dec_value_snoc by simp
    then show ?thesis using False by (subst dec_nat.simps) simp
  qed
qed

text \<open>The mode string shows the nine permission bits and the three special ones.\<close>

lemma and_single_bits:
  fixes m :: u32
  assumes "x = 2 ^ i" "s = 2 ^ j" "i \<noteq> j" "i < 32" "j < 32"
  shows "m AND (x OR s) = (if bit m i then x else 0) OR (if bit m j then s else 0)"
  using assms by (auto simp: bit_simps intro!: bit_word_eqI)

end
