(* ===== verification/Evolution.thy ===== *)
theory Evolution
  imports Inbox_Prelude
begin

text \<open>
  Facts about what a computation may do to its state, whether it returns or fails: under an
  invariant \<open>I\<close>, which it keeps, the state before and after are related by a preorder \<open>R\<close>.
  Sequences of steps compose, so a walk over a handler needs only its primitive steps.
\<close>

definition evolves :: "('s \<Rightarrow> bool) \<Rightarrow> ('s \<Rightarrow> 's \<Rightarrow> bool) \<Rightarrow> ('s, 'e, 'a) est \<Rightarrow> bool" where
  "evolves I R m \<longleftrightarrow> (\<forall>s. I s \<longrightarrow> I (snd (m s)) \<and> R s (snd (m s)))"

lemma evolvesI: "(\<And>s. I s \<Longrightarrow> I (snd (m s)) \<and> R s (snd (m s))) \<Longrightarrow> evolves I R m"
  by (simp add: evolves_def)

lemma evolvesD:
  assumes "evolves I R m" "I s" "m s = (r, t)"
  shows "I t" "R s t"
  using assms by (auto simp: evolves_def)

text \<open>Invariants are the case where \<open>R\<close> says nothing.\<close>

lemma evolves_keeps: "evolves I (\<lambda>_ _. True) m \<longleftrightarrow> keeps I m"
  by (simp add: evolves_def keeps_def)

locale evolution =
  fixes I :: "'s \<Rightarrow> bool" and R :: "'s \<Rightarrow> 's \<Rightarrow> bool"
  assumes R_refl: "R s s"
    and R_trans: "R s t \<Longrightarrow> R t u \<Longrightarrow> R s u"
begin

lemma ev_return: "evolves I R (returnE x)"
  by (simp add: evolves_def R_refl)

lemma ev_throw: "evolves I R (throwE e)"
  by (simp add: evolves_def R_refl)

lemma ev_gets: "evolves I R (getsE f)"
  by (simp add: evolves_def R_refl)

lemma ev_bind:
  assumes "evolves I R m" and "\<And>x. evolves I R (f x)"
  shows "evolves I R (bindE m f)"
proof (rule evolvesI)
  fix s assume s: "I s"
  obtain r t where run: "m s = (r, t)" by fastforce
  note step = evolvesD [OF assms(1) s run]
  show "I (snd (bindE m f s)) \<and> R s (snd (bindE m f s))"
  proof (cases r)
    case (Inl e)
    then show ?thesis using run step by (simp add: bindE_def)
  next
    case (Inr x)
    moreover have "I (snd (f x t)) \<and> R t (snd (f x t))"
      using assms(2) step(1) by (simp add: evolves_def)
    ultimately show ?thesis using run step(2) R_trans by (auto simp: bindE_def)
  qed
qed

text \<open>A field that the invariant determines.\<close>

lemma ev_gets_known:
  assumes "\<And>s. I s \<Longrightarrow> f s = c" and "evolves I R (g c)"
  shows "evolves I R (bindE (getsE f) g)"
  using assms by (auto simp: evolves_def)

lemma ev_if:
  "(b \<Longrightarrow> evolves I R m) \<Longrightarrow> (\<not> b \<Longrightarrow> evolves I R n) \<Longrightarrow> evolves I R (if b then m else n)"
  by simp

lemma ev_sum:
  "(\<And>e. r = Inl e \<Longrightarrow> evolves I R (f e)) \<Longrightarrow> (\<And>x. r = Inr x \<Longrightarrow> evolves I R (g x)) \<Longrightarrow>
     evolves I R (case r of Inl e \<Rightarrow> f e | Inr x \<Rightarrow> g x)"
  by (cases r) simp_all

lemma ev_option:
  "(r = None \<Longrightarrow> evolves I R m) \<Longrightarrow> (\<And>x. r = Some x \<Longrightarrow> evolves I R (g x)) \<Longrightarrow>
     evolves I R (case r of None \<Rightarrow> m | Some x \<Rightarrow> g x)"
  by (cases r) simp_all

lemma ev_pair:
  "(\<And>x y. p = (x, y) \<Longrightarrow> evolves I R (f x y)) \<Longrightarrow> evolves I R (case p of (x, y) \<Rightarrow> f x y)"
  by (cases p) simp_all

lemma ev_let: "(\<And>x. x = t \<Longrightarrow> evolves I R (f x)) \<Longrightarrow> evolves I R (let x = t in f x)"
  by simp

lemma ev_for:
  "(\<And>x. x \<in> set xs \<Longrightarrow> evolves I R (f x)) \<Longrightarrow> evolves I R (forE xs f)"
  by (induction xs) (auto intro: ev_return ev_bind)

lemmas ev_rules = ev_return ev_throw ev_gets ev_bind ev_if ev_sum ev_option ev_pair ev_let ev_for

end

end
