(* ===== verification/Mq_Notify.thy ===== *)
theory Mq_Notify
  imports Evolution
begin

text \<open>
  Notifications to the message broker: \<open>src/src/mq-notify.c\<close> and the option structure of
  \<open>src/src/mq-config.h\<close>. The AMQP client, the JSON printer and the UUID generator are
  parameters: records of operations over a state \<open>'w\<close> of the world outside the process.
\<close>

section \<open>Pointers and outcomes\<close>

text \<open>A \<open>char *\<close>: the null pointer, a field that was never assigned, or a string.\<close>

datatype cptr = Null | Uninit | Str bytes

text \<open>
  How a computation may stop the process: with an exit status, through \<open>fatal\<close>, or by using
  a pointer that is not one. \<open>OutOfFuel\<close> stands for a loop still running.
\<close>

datatype halt = Exit int | Fatal | Crash | OutOfFuel

section \<open>Options\<close>

record mq_options_t =
  mo_cfgfile :: cptr
  mo_dsn :: cptr
  mo_conn :: "nat option"
  mo_socket :: "nat option"
  mo_connection_opened :: bool
  mo_ssl :: int
  mo_verify_hostname :: int
  mo_verify_peer :: int
  mo_cacert :: cptr
  mo_host :: cptr
  mo_ip :: cptr
  mo_port :: int
  mo_vhost :: cptr
  mo_username :: cptr
  mo_password :: cptr
  mo_exchange :: cptr
  mo_routing_key :: cptr
  mo_heartbeat :: int

section \<open>The AMQP client, as used\<close>

datatype amqp_response_type =
  AMQP_RESPONSE_NONE | AMQP_RESPONSE_NORMAL | AMQP_RESPONSE_LIBRARY_EXCEPTION
| AMQP_RESPONSE_SERVER_EXCEPTION

definition AMQP_STATUS_OK :: int where "AMQP_STATUS_OK = 0"
definition AMQP_DEFAULT_FRAME_SIZE :: int where "AMQP_DEFAULT_FRAME_SIZE = 131072"
definition AMQP_REPLY_SUCCESS :: int where "AMQP_REPLY_SUCCESS = 200"

text \<open>The three properties that \<open>do_send_message\<close> sets; its flag word says that no other
  is present.\<close>

record mq_props =
  p_content_type :: bytes
  p_delivery_mode :: u8
  p_correlation_id :: bytes

record 'w amqp_ops =
  amqp_new_connection :: "'w \<Rightarrow> nat option \<times> 'w"
  amqp_tcp_socket_new :: "nat option \<Rightarrow> 'w \<Rightarrow> nat option \<times> 'w"
  amqp_ssl_socket_new :: "nat option \<Rightarrow> 'w \<Rightarrow> nat option \<times> 'w"
  amqp_ssl_socket_set_cacert :: "nat \<Rightarrow> cptr \<Rightarrow> 'w \<Rightarrow> 'w"
  amqp_ssl_socket_set_verify_peer :: "nat \<Rightarrow> int \<Rightarrow> 'w \<Rightarrow> 'w"
  amqp_ssl_socket_set_verify_hostname :: "nat \<Rightarrow> int \<Rightarrow> 'w \<Rightarrow> 'w"
  amqp_socket_open :: "nat \<Rightarrow> cptr \<Rightarrow> int \<Rightarrow> 'w \<Rightarrow> int \<times> 'w"
  amqp_login :: "nat option \<Rightarrow> cptr \<Rightarrow> int \<Rightarrow> int \<Rightarrow> int \<Rightarrow> cptr \<Rightarrow> cptr \<Rightarrow> 'w \<Rightarrow> amqp_response_type \<times> 'w"
  amqp_channel_open :: "nat option \<Rightarrow> nat \<Rightarrow> 'w \<Rightarrow> 'w"
  amqp_get_rpc_reply :: "nat option \<Rightarrow> 'w \<Rightarrow> amqp_response_type \<times> 'w"
  amqp_basic_publish ::
    "nat option \<Rightarrow> nat \<Rightarrow> bytes \<Rightarrow> bytes \<Rightarrow> bool \<Rightarrow> bool \<Rightarrow> mq_props \<Rightarrow> bytes \<Rightarrow> 'w \<Rightarrow> int \<times> 'w"
  amqp_channel_close :: "nat \<Rightarrow> nat \<Rightarrow> int \<Rightarrow> 'w \<Rightarrow> amqp_response_type \<times> 'w"
  amqp_connection_close :: "nat \<Rightarrow> int \<Rightarrow> 'w \<Rightarrow> amqp_response_type \<times> 'w"
  amqp_uninitialize_ssl_library :: "'w \<Rightarrow> int \<times> 'w"
  amqp_destroy_connection :: "nat \<Rightarrow> 'w \<Rightarrow> int \<times> 'w"
  uuid_generate_unparse :: "'w \<Rightarrow> bytes \<times> 'w"

section \<open>Computations on the options and the world\<close>

type_synonym ('w, 'a) mq = "(mq_options_t option \<times> 'w, halt, 'a) est"

text \<open>Reading and writing through the global pointer \<open>mq_options\<close>.\<close>

definition mq_get :: "(mq_options_t \<Rightarrow> 'a) \<Rightarrow> ('w, 'a) mq" where
  "mq_get f = (\<lambda>(m, w). case m of None \<Rightarrow> (Inl Crash, (m, w)) | Some opts \<Rightarrow> (Inr (f opts), (m, w)))"

definition mq_set :: "(mq_options_t \<Rightarrow> mq_options_t) \<Rightarrow> ('w, unit) mq" where
  "mq_set f = (\<lambda>(m, w). case m of None \<Rightarrow> (Inl Crash, (m, w)) | Some opts \<Rightarrow> (Inr (), (Some (f opts), w)))"

definition wcall :: "('w \<Rightarrow> 'a \<times> 'w) \<Rightarrow> ('w, 'a) mq" where
  "wcall f = (\<lambda>(m, w). case f w of (x, w') \<Rightarrow> (Inr x, (m, w')))"

definition wdo :: "('w \<Rightarrow> 'w) \<Rightarrow> ('w, unit) mq" where
  "wdo f = (\<lambda>(m, w). (Inr (), (m, f w)))"

text \<open>\<open>amqp_cstring_bytes\<close> takes the length of its argument.\<close>

definition amqp_cstring_bytes :: "cptr \<Rightarrow> ('w, bytes) mq" where
  "amqp_cstring_bytes p = (case p of Str s \<Rightarrow> returnE s | _ \<Rightarrow> throwE Crash)"

section \<open>Broker connection\<close>

definition mq_init_amqp :: "'w amqp_ops \<Rightarrow> ('w, int) mq" where
  "mq_init_amqp A =
     bindE (wcall (amqp_new_connection A)) (\<lambda>c.
     bindE (mq_set (\<lambda>m. m\<lparr>mo_conn := c\<rparr>)) (\<lambda>_.
     bindE (wcall (amqp_tcp_socket_new A c)) (\<lambda>sock.
     bindE (mq_set (\<lambda>m. m\<lparr>mo_socket := sock\<rparr>)) (\<lambda>_.
     if sock = None then returnE 1 else returnE 0))))"

definition mq_init_amqps :: "'w amqp_ops \<Rightarrow> ('w, int) mq" where
  "mq_init_amqps A =
     bindE (wcall (amqp_new_connection A)) (\<lambda>c.
     bindE (mq_set (\<lambda>m. m\<lparr>mo_conn := c\<rparr>)) (\<lambda>_.
     bindE (wcall (amqp_ssl_socket_new A c)) (\<lambda>sock.
     bindE (mq_set (\<lambda>m. m\<lparr>mo_socket := sock\<rparr>)) (\<lambda>_.
     case sock of None \<Rightarrow> returnE 1
     | Some s \<Rightarrow>
         bindE (mq_get mo_verify_peer) (\<lambda>peer.
         bindE (mq_get mo_cacert) (\<lambda>ca.
         bindE (if peer \<noteq> 0 \<and> ca \<noteq> Null then wdo (amqp_ssl_socket_set_cacert A s ca)
                else returnE ()) (\<lambda>_.
         bindE (wdo (amqp_ssl_socket_set_verify_peer A s peer)) (\<lambda>_.
         bindE (mq_get mo_verify_hostname) (\<lambda>vh.
         bindE (wdo (amqp_ssl_socket_set_verify_hostname A s vh)) (\<lambda>_.
         returnE 0)))))))))) "

definition mq_init :: "'w amqp_ops \<Rightarrow> ('w, int) mq" where
  "mq_init A = bindE (mq_get mo_ssl) (\<lambda>ssl. if ssl \<noteq> 0 then mq_init_amqps A else mq_init_amqp A)"

definition mq_clean :: "'w amqp_ops \<Rightarrow> ('w, int) mq" where
  "mq_clean A =
     bindE (mq_get mo_conn) (\<lambda>conn.
     case conn of None \<Rightarrow> returnE 0
     | Some c \<Rightarrow>
         bindE (wcall (amqp_channel_close A c 1 AMQP_REPLY_SUCCESS)) (\<lambda>r1.
         if r1 \<noteq> AMQP_RESPONSE_NORMAL then returnE 1 else
         bindE (wcall (amqp_connection_close A c AMQP_REPLY_SUCCESS)) (\<lambda>r2.
         if r2 \<noteq> AMQP_RESPONSE_NORMAL then returnE 2 else
         bindE (mq_get mo_ssl) (\<lambda>ssl.
         bindE (if ssl \<noteq> 0 then wcall (amqp_uninitialize_ssl_library A) else returnE 0) (\<lambda>rc3.
         if ssl \<noteq> 0 \<and> rc3 < 0 then returnE 3 else
         bindE (wcall (amqp_destroy_connection A c)) (\<lambda>rc4.
         if rc4 < 0 then returnE 4 else
         bindE (mq_set (\<lambda>m. m\<lparr>mo_connection_opened := False, mo_conn := None\<rparr>)) (\<lambda>_.
         returnE 0)))))))"

definition mq_open_connection :: "'w amqp_ops \<Rightarrow> ('w, int) mq" where
  "mq_open_connection A =
     bindE (mq_get mo_socket) (\<lambda>sock.
     bindE (mq_get mo_ip) (\<lambda>ip.
     case sock of None \<Rightarrow> returnE 1
     | Some s \<Rightarrow> if ip = Null then returnE 1 else
         bindE (mq_get mo_port) (\<lambda>port.
         bindE (wcall (amqp_socket_open A s ip port)) (\<lambda>rc.
         if rc \<noteq> 0 then returnE 2 else
         bindE (mq_get id) (\<lambda>m.
         bindE (wcall (amqp_login A (mo_conn m) (mo_vhost m) 0 AMQP_DEFAULT_FRAME_SIZE
                         (mo_heartbeat m) (mo_username m) (mo_password m))) (\<lambda>r1.
         if r1 \<noteq> AMQP_RESPONSE_NORMAL then returnE 3 else
         bindE (wdo (amqp_channel_open A (mo_conn m) 1)) (\<lambda>_.
         bindE (wcall (amqp_get_rpc_reply A (mo_conn m))) (\<lambda>r2.
         if r2 \<noteq> AMQP_RESPONSE_NORMAL then returnE 4 else
         bindE (mq_set (\<lambda>m. m\<lparr>mo_connection_opened := True\<rparr>)) (\<lambda>_.
         returnE 0)))))))))"

section \<open>Messages\<close>

text \<open>JSON objects keep the order in which keys are added; adding a key again replaces its
  value.\<close>

datatype json = JStr bytes | JInt int | JArr "json list" | JObj "(bytes \<times> json) list"

fun alist_add :: "'k \<Rightarrow> 'v \<Rightarrow> ('k \<times> 'v) list \<Rightarrow> ('k \<times> 'v) list" where
  "alist_add k v [] = [(k, v)]"
| "alist_add k v ((k', v') # kvs) = (if k = k' then (k, v) # kvs else (k', v') # alist_add k v kvs)"

fun json_object_object_add :: "bytes \<Rightarrow> json \<Rightarrow> json \<Rightarrow> json" where
  "json_object_object_add k v (JObj kvs) = JObj (alist_add k v kvs)"
| "json_object_object_add k v j = j"

fun json_object_array_add :: "json \<Rightarrow> json \<Rightarrow> json" where
  "json_object_array_add v (JArr vs) = JArr (vs @ [v])"
| "json_object_array_add v j = j"

definition MQ_OP_UPLOAD :: int where "MQ_OP_UPLOAD = 1"
definition MQ_OP_REMOVE :: int where "MQ_OP_REMOVE = 2"
definition MQ_OP_RENAME :: int where "MQ_OP_RENAME = 3"

definition MQ_CHECKSUM_SIZE :: nat where "MQ_CHECKSUM_SIZE = 32"

text \<open>\<open>sprintf(\<dots>, "%02x", b)\<close>.\<close>

definition hex_digit :: "u8 \<Rightarrow> u8" where
  "hex_digit d = (if d < 10 then 48 + d else 87 + d)"

definition hex_byte :: "u8 \<Rightarrow> bytes" where
  "hex_byte b = [hex_digit (drop_bit 4 b), hex_digit (b AND 0xf)]"

definition hexdigest :: "bytes \<Rightarrow> bytes" where
  "hexdigest digest = concat (map hex_byte (take MQ_CHECKSUM_SIZE digest))"

definition message_object ::
  "int \<Rightarrow> bytes \<Rightarrow> bytes \<Rightarrow> bytes \<Rightarrow> int \<Rightarrow> int \<Rightarrow> bytes \<Rightarrow> json option" where
  "message_object operation username filepath digest filesize modified oldpath =
     (let obj = JObj [];
          obj = json_object_object_add (lit ''user'') (JStr username) obj;
          obj = json_object_object_add (lit ''filepath'') (JStr filepath) obj
      in if operation = MQ_OP_UPLOAD then
           let obj = json_object_object_add (lit ''operation'') (JStr (lit ''upload'')) obj;
               jchecksum = JObj [];
               jchecksum = json_object_object_add (lit ''type'') (JStr (lit ''sha256'')) jchecksum;
               jchecksum = json_object_object_add (lit ''value'') (JStr (hexdigest digest)) jchecksum;
               jarray = json_object_array_add jchecksum (JArr []);
               obj = json_object_object_add (lit ''encrypted_checksums'') jarray obj;
               obj = json_object_object_add (lit ''filesize'') (JInt filesize) obj;
               obj = json_object_object_add (lit ''file_last_modified'') (JInt modified) obj
           in Some obj
         else if operation = MQ_OP_REMOVE then
           Some (json_object_object_add (lit ''operation'') (JStr (lit ''remove'')) obj)
         else if operation = MQ_OP_RENAME then
           let obj = json_object_object_add (lit ''operation'') (JStr (lit ''rename'')) obj
           in Some (json_object_object_add (lit ''oldpath'') (JStr oldpath) obj)
         else None)"

text \<open>\<open>js\<close> prints an object (\<open>json_object_to_json_string_ext\<close>); \<open>NULL\<close> for an unknown
  operation.\<close>

definition build_message ::
  "(json \<Rightarrow> bytes) \<Rightarrow> int \<Rightarrow> bytes \<Rightarrow> bytes \<Rightarrow> bytes \<Rightarrow> int \<Rightarrow> int \<Rightarrow> bytes \<Rightarrow> cptr" where
  "build_message js operation username filepath digest filesize modified oldpath =
     (case message_object operation username filepath digest filesize modified oldpath of
        None \<Rightarrow> Null | Some obj \<Rightarrow> Str (js obj))"

definition mq_message_props :: "bytes \<Rightarrow> mq_props" where
  "mq_message_props correlation_id =
     \<lparr>p_content_type = lit ''application/json'', p_delivery_mode = 2,
      p_correlation_id = correlation_id\<rparr>"

definition do_send_message :: "'w amqp_ops \<Rightarrow> cptr \<Rightarrow> ('w, int) mq" where
  "do_send_message A message =
     bindE (wcall (uuid_generate_unparse A)) (\<lambda>correlation_id.
     bindE (mq_get id) (\<lambda>m.
     bindE (amqp_cstring_bytes (mo_exchange m)) (\<lambda>exchange.
     bindE (amqp_cstring_bytes (mo_routing_key m)) (\<lambda>routing_key.
     bindE (amqp_cstring_bytes message) (\<lambda>body.
     wcall (amqp_basic_publish A (mo_conn m) 1 exchange routing_key False False
              (mq_message_props correlation_id) body))))))"

text \<open>What the three \<open>mq_send_\<dots>\<close> functions have in common: log in on first use, then
  publish.\<close>

definition ensure_open :: "'w amqp_ops \<Rightarrow> ('w, bool) mq" where
  "ensure_open A =
     bindE (mq_get mo_connection_opened) (\<lambda>opened.
     if opened then returnE True
     else bindE (mq_open_connection A) (\<lambda>rc. returnE (rc = 0)))"

definition open_and_send :: "'w amqp_ops \<Rightarrow> cptr \<Rightarrow> ('w, int) mq" where
  "open_and_send A msg =
     bindE (ensure_open A) (\<lambda>ok.
     if \<not> ok then returnE 1
     else bindE (do_send_message A msg) (\<lambda>rc. returnE (if rc = AMQP_STATUS_OK then 0 else 2)))"

definition mq_send_upload ::
  "'w amqp_ops \<Rightarrow> (json \<Rightarrow> bytes) \<Rightarrow> bytes \<Rightarrow> bytes \<Rightarrow> bytes \<Rightarrow> int \<Rightarrow> int \<Rightarrow> ('w, int) mq" where
  "mq_send_upload A js username filepath digest filesize modified =
     open_and_send A (build_message js MQ_OP_UPLOAD username filepath digest filesize modified [])"

definition mq_send_remove :: "'w amqp_ops \<Rightarrow> (json \<Rightarrow> bytes) \<Rightarrow> bytes \<Rightarrow> bytes \<Rightarrow> ('w, int) mq" where
  "mq_send_remove A js username filepath =
     open_and_send A (build_message js MQ_OP_REMOVE username filepath [] 0 0 [])"

definition mq_send_rename ::
  "'w amqp_ops \<Rightarrow> (json \<Rightarrow> bytes) \<Rightarrow> bytes \<Rightarrow> bytes \<Rightarrow> bytes \<Rightarrow> ('w, int) mq" where
  "mq_send_rename A js username oldpath newpath =
     open_and_send A (build_message js MQ_OP_RENAME username newpath [] 0 0 oldpath)"

text \<open>\<open>clean_mq_config\<close> of \<open>mq-config.c\<close>, the last thing before the process exits. It
  frees the options without clearing the pointer to them.\<close>

definition clean_mq_config :: "'w amqp_ops \<Rightarrow> ('w, unit) mq" where
  "clean_mq_config A =
     (\<lambda>(m, w). case m of None \<Rightarrow> (Inr (), (m, w))
      | Some _ \<Rightarrow> bindE (mq_clean A) (\<lambda>_. returnE ()) (m, w))"

section \<open>What a notification does to the world\<close>

text \<open>
  The operations of the AMQP client that a notification uses, for an invariant and a preorder
  on options and world, and what follows for the functions above.
\<close>

locale mq_evolution = evolution I R
  for I :: "mq_options_t option \<times> 'w \<Rightarrow> bool"
    and R :: "mq_options_t option \<times> 'w \<Rightarrow> mq_options_t option \<times> 'w \<Rightarrow> bool" +
  fixes A :: "'w amqp_ops"
  assumes ev_opened: "evolves I R (mq_set (\<lambda>m. m\<lparr>mo_connection_opened := True\<rparr>))"
    and ev_closed: "evolves I R (mq_set (\<lambda>m. m\<lparr>mo_connection_opened := False, mo_conn := None\<rparr>))"
    and ev_socket_open: "evolves I R (wcall (amqp_socket_open A sock ip port))"
    and ev_login: "evolves I R (wcall (amqp_login A conn vhost cmax fmax hb user pass))"
    and ev_channel_open: "evolves I R (wdo (amqp_channel_open A conn ch))"
    and ev_rpc_reply: "evolves I R (wcall (amqp_get_rpc_reply A conn))"
    and ev_publish: "evolves I R (wcall (amqp_basic_publish A conn ch ex rk mand imm props body))"
    and ev_channel_close: "evolves I R (wcall (amqp_channel_close A c ch code))"
    and ev_connection_close: "evolves I R (wcall (amqp_connection_close A c code))"
    and ev_uninit_ssl: "evolves I R (wcall (amqp_uninitialize_ssl_library A))"
    and ev_destroy: "evolves I R (wcall (amqp_destroy_connection A c))"
    and ev_uuid: "evolves I R (wcall (uuid_generate_unparse A))"
begin

lemma ev_mq_get: "evolves I R (mq_get f)"
  by (auto simp: evolves_def mq_get_def R_refl split: option.splits prod.splits)

lemma ev_cstring_bytes: "evolves I R (amqp_cstring_bytes p)"
  by (cases p) (simp_all add: amqp_cstring_bytes_def ev_return ev_throw)

lemmas ev_ops = ev_rules ev_mq_get ev_cstring_bytes ev_opened ev_closed ev_socket_open ev_login
  ev_channel_open ev_rpc_reply ev_publish ev_channel_close ev_connection_close ev_uninit_ssl
  ev_destroy ev_uuid

lemma ev_mq_open_connection: "evolves I R (mq_open_connection A)"
  unfolding mq_open_connection_def by (intro ev_ops)

lemma ev_do_send_message: "evolves I R (do_send_message A msg)"
  unfolding do_send_message_def by (intro ev_ops)

lemma ev_ensure_open: "evolves I R (ensure_open A)"
  unfolding ensure_open_def by (intro ev_ops ev_mq_open_connection)

lemma ev_mq_send:
  "evolves I R (mq_send_upload A js username path digest sz mtime)"
  "evolves I R (mq_send_remove A js username path)"
  "evolves I R (mq_send_rename A js username path path')"
  unfolding mq_send_upload_def mq_send_remove_def mq_send_rename_def open_and_send_def
  by (intro ev_ops ev_ensure_open ev_do_send_message)+

lemma ev_mq_clean: "evolves I R (mq_clean A)"
  unfolding mq_clean_def by (intro ev_ops)

lemma ev_clean_mq_config: "evolves I R (clean_mq_config A)"
proof -
  have "evolves I R (bindE (mq_clean A) (\<lambda>_. returnE ()))"
    by (intro ev_ops ev_mq_clean)
  then show ?thesis
    by (auto simp: evolves_def clean_mq_config_def R_refl split: option.splits)
qed

end

text \<open>The configuration is fixed once it is loaded; only the state of the connection changes.\<close>

definition config_of :: "mq_options_t \<Rightarrow> mq_options_t" where
  "config_of m = m\<lparr>mo_connection_opened := False, mo_conn := None\<rparr>"

definition same_config :: "mq_options_t option \<times> 'w \<Rightarrow> mq_options_t option \<times> 'w \<Rightarrow> bool" where
  "same_config p q \<longleftrightarrow> map_option config_of (fst q) = map_option config_of (fst p)"

interpretation mq_cfg: mq_evolution "\<lambda>_. True" same_config A
  for A :: "'w amqp_ops"
  by unfold_locales
    (auto simp: evolves_def same_config_def config_of_def mq_set_def wcall_def wdo_def
      split: option.splits prod.splits)

section \<open>Publishing\<close>

text \<open>
  \<open>records A log\<close>: \<open>log\<close> is a view of the world that lists the messages handed to
  \<open>amqp_basic_publish\<close>, with the result of the call; nothing else changes it.
\<close>

record published =
  pub_rc :: int
  pub_exchange :: bytes
  pub_routing_key :: bytes
  pub_props :: mq_props
  pub_body :: bytes

definition unlogged :: "('w \<Rightarrow> 'l) \<Rightarrow> ('w \<Rightarrow> 'a \<times> 'w) \<Rightarrow> bool" where
  "unlogged log f \<longleftrightarrow> (\<forall>w. log (snd (f w)) = log w)"

definition records :: "'w amqp_ops \<Rightarrow> ('w \<Rightarrow> published list) \<Rightarrow> bool" where
  "records A log \<longleftrightarrow>
     (\<forall>sock ip port. unlogged log (amqp_socket_open A sock ip port)) \<and>
     (\<forall>c v x y h u p. unlogged log (amqp_login A c v x y h u p)) \<and>
     (\<forall>c ch w. log (amqp_channel_open A c ch w) = log w) \<and>
     (\<forall>c. unlogged log (amqp_get_rpc_reply A c)) \<and>
     unlogged log (uuid_generate_unparse A) \<and>
     (\<forall>c ch ex rk mand imm props body w.
        log (snd (amqp_basic_publish A c ch ex rk mand imm props body w)) =
        log w @ [\<lparr>pub_rc = fst (amqp_basic_publish A c ch ex rk mand imm props body w),
                  pub_exchange = ex, pub_routing_key = rk, pub_props = props, pub_body = body\<rparr>])"

text \<open>A configuration with which messages can be addressed.\<close>

definition addressed :: "mq_options_t \<Rightarrow> bytes \<Rightarrow> bytes \<Rightarrow> bool" where
  "addressed m ex rk \<longleftrightarrow> mo_exchange m = Str ex \<and> mo_routing_key m = Str rk"

lemma mq_monad [simp]:
  "mq_get f (Some m, w) = (Inr (f m), (Some m, w))"
  "mq_set h (Some m, w) = (Inr (), (Some (h m), w))"
  "wdo k (x, w) = (Inr (), (x, k w))"
  by (simp_all add: mq_get_def mq_set_def wdo_def)

lemma wcall_apply: "wcall f (x, w) = (Inr (fst (f w)), (x, snd (f w)))"
  by (simp add: wcall_def split: prod.splits)

text \<open>Opening the connection changes only the flag, and only on success.\<close>

lemma mq_open_connection_run:
  assumes "records A log"
  obtains rc w' where
    "mq_open_connection A (Some m, w) =
       (Inr rc, (Some (if rc = 0 then m\<lparr>mo_connection_opened := True\<rparr> else m), w'))"
    "log w' = log w" "0 \<le> rc" "rc \<le> 4"
proof -
  define post :: "(halt + int) \<times> mq_options_t option \<times> 'a \<Rightarrow> bool" where
    "post = (\<lambda>(r, mo, w'). log w' = log w \<and> (case r of Inl _ \<Rightarrow> False
       | Inr rc \<Rightarrow> mo = Some (if rc = 0 then m\<lparr>mo_connection_opened := True\<rparr> else m) \<and>
                  0 \<le> rc \<and> rc \<le> 4))"
  have "post (mq_open_connection A (Some m, w))"
    using assms
    by (simp add: mq_open_connection_def bindE_def wcall_apply records_def unlogged_def post_def
        split: option.splits)
  then show thesis using that
    by (cases "mq_open_connection A (Some m, w)") (auto simp: post_def split: sum.splits)
qed

lemma ensure_open_run:
  assumes "records A log"
  obtains ok m' w' where
    "ensure_open A (Some m, w) = (Inr ok, (Some m', w'))" "log w' = log w"
    "mo_connection_opened m' = ok" "m'\<lparr>mo_connection_opened := mo_connection_opened m\<rparr> = m"
    "mo_connection_opened m \<Longrightarrow> ok \<and> m' = m \<and> w' = w"
proof (cases "mo_connection_opened m")
  case True
  then show thesis using that [of True m w] by (simp add: ensure_open_def bindE_def)
next
  case False
  obtain rc w' where run: "mq_open_connection A (Some m, w) =
       (Inr rc, (Some (if rc = 0 then m\<lparr>mo_connection_opened := True\<rparr> else m), w'))"
       "log w' = log w"
    using mq_open_connection_run [OF assms, of m w] by blast
  with False show thesis
    using that [of "rc = 0" "if rc = 0 then m\<lparr>mo_connection_opened := True\<rparr> else m" w']
    by (simp add: ensure_open_def bindE_def)
qed

lemma do_send_message_run:
  assumes "records A log" and "addressed m ex rk"
  obtains rc cid w' where
    "do_send_message A (Str body) (Some m, w) = (Inr rc, (Some m, w'))"
    "log w' = log w @ [\<lparr>pub_rc = rc, pub_exchange = ex, pub_routing_key = rk,
                       pub_props = mq_message_props cid, pub_body = body\<rparr>]"
proof -
  obtain cid w1 where u: "uuid_generate_unparse A w = (cid, w1)" by fastforce
  then have "log w1 = log w"
    using assms(1) by (auto simp: records_def unlogged_def dest!: spec [of _ w])
  moreover obtain rc w2 where p: "amqp_basic_publish A (mo_conn m) 1 ex rk False False
      (mq_message_props cid) body w1 = (rc, w2)" by fastforce
  ultimately have "log w2 = log w @ [\<lparr>pub_rc = rc, pub_exchange = ex, pub_routing_key = rk,
                       pub_props = mq_message_props cid, pub_body = body\<rparr>]"
    using assms(1) unfolding records_def by (metis fst_conv snd_conv)
  moreover have "do_send_message A (Str body) (Some m, w) = (Inr rc, (Some m, w2))"
    using assms(2) u p
    by (simp add: do_send_message_def bindE_def wcall_apply amqp_cstring_bytes_def addressed_def)
  ultimately show thesis using that by blast
qed

text \<open>
  The three notifications have one shape: no message where the connection cannot be opened
  (result 1), else exactly one message, with result 0 or 2.
\<close>

definition sends ::
  "'w amqp_ops \<Rightarrow> ('w \<Rightarrow> published list) \<Rightarrow> bytes \<Rightarrow> ('w, int) mq \<Rightarrow> bool" where
  "sends A log body send \<longleftrightarrow>
     (\<forall>m ex rk w. addressed m ex rk \<longrightarrow>
        (\<exists>rc m' w'. send (Some m, w) = (Inr rc, (Some m', w')) \<and>
           m'\<lparr>mo_connection_opened := mo_connection_opened m\<rparr> = m \<and>
           (if mo_connection_opened m'
            then \<exists>cid prc. log w' = log w @ [\<lparr>pub_rc = prc, pub_exchange = ex, pub_routing_key = rk,
                              pub_props = mq_message_props cid, pub_body = body\<rparr>] \<and>
                   rc = (if prc = AMQP_STATUS_OK then 0 else 2)
            else rc = 1 \<and> log w' = log w)))"

lemma send_shape:
  assumes "records A log"
  shows "sends A log body (open_and_send A (Str body))"
  unfolding sends_def
proof (intro allI impI)
  fix m ex rk w assume addr: "addressed m ex rk"
  obtain ok m' w' where o: "ensure_open A (Some m, w) = (Inr ok, (Some m', w'))" "log w' = log w"
      "mo_connection_opened m' = ok" "m'\<lparr>mo_connection_opened := mo_connection_opened m\<rparr> = m"
    using ensure_open_run [OF assms, of m w] by blast
  have addr': "addressed m' ex rk"
    using addr arg_cong [OF o(4), of mo_exchange] arg_cong [OF o(4), of mo_routing_key]
    by (simp add: addressed_def)
  show "\<exists>rc m' w'. open_and_send A (Str body) (Some m, w) = (Inr rc, (Some m', w')) \<and>
           m'\<lparr>mo_connection_opened := mo_connection_opened m\<rparr> = m \<and>
           (if mo_connection_opened m'
            then \<exists>cid prc. log w' = log w @ [\<lparr>pub_rc = prc, pub_exchange = ex, pub_routing_key = rk,
                              pub_props = mq_message_props cid, pub_body = body\<rparr>] \<and>
                   rc = (if prc = AMQP_STATUS_OK then 0 else 2)
            else rc = 1 \<and> log w' = log w)"
  proof (cases ok)
    case False
    then have "open_and_send A (Str body) (Some m, w) = (Inr 1, (Some m', w'))"
      using o(1) by (simp add: open_and_send_def bindE_def)
    with False o show ?thesis by auto
  next
    case True
    obtain prc cid w2 where d: "do_send_message A (Str body) (Some m', w') = (Inr prc, (Some m', w2))"
        "log w2 = log w' @ [\<lparr>pub_rc = prc, pub_exchange = ex, pub_routing_key = rk,
                       pub_props = mq_message_props cid, pub_body = body\<rparr>]"
      by (rule do_send_message_run [OF assms addr'])
    have "open_and_send A (Str body) (Some m, w) =
        (Inr (if prc = AMQP_STATUS_OK then 0 else 2), (Some m', w2))"
      using o(1) True d(1) by (simp add: open_and_send_def bindE_def)
    with True o d(2) show ?thesis by auto
  qed
qed

text \<open>The objects that are sent.\<close>

definition upload_object :: "bytes \<Rightarrow> bytes \<Rightarrow> bytes \<Rightarrow> int \<Rightarrow> int \<Rightarrow> json" where
  "upload_object user path digest sz mtime =
     JObj [(lit ''user'', JStr user), (lit ''filepath'', JStr path),
           (lit ''operation'', JStr (lit ''upload'')),
           (lit ''encrypted_checksums'',
              JArr [JObj [(lit ''type'', JStr (lit ''sha256'')), (lit ''value'', JStr (hexdigest digest))]]),
           (lit ''filesize'', JInt sz), (lit ''file_last_modified'', JInt mtime)]"

definition remove_object :: "bytes \<Rightarrow> bytes \<Rightarrow> json" where
  "remove_object user path =
     JObj [(lit ''user'', JStr user), (lit ''filepath'', JStr path),
           (lit ''operation'', JStr (lit ''remove''))]"

definition rename_object :: "bytes \<Rightarrow> bytes \<Rightarrow> bytes \<Rightarrow> json" where
  "rename_object user oldpath newpath =
     JObj [(lit ''user'', JStr user), (lit ''filepath'', JStr newpath),
           (lit ''operation'', JStr (lit ''rename'')), (lit ''oldpath'', JStr oldpath)]"

lemma message_object_eqs:
  "message_object MQ_OP_UPLOAD u f d n t p = Some (upload_object u f d n t)"
  "message_object MQ_OP_REMOVE u f d n t p = Some (remove_object u f)"
  "message_object MQ_OP_RENAME u f d n t p = Some (rename_object u p f)"
  by (simp_all add: message_object_def MQ_OP_UPLOAD_def MQ_OP_REMOVE_def MQ_OP_RENAME_def Let_def
      upload_object_def remove_object_def rename_object_def lit_def)

lemma mq_send_run:
  assumes "records A log"
  shows "sends A log (js (upload_object user path digest sz mtime))
           (mq_send_upload A js user path digest sz mtime)"
    and "sends A log (js (remove_object user path)) (mq_send_remove A js user path)"
    and "sends A log (js (rename_object user path path')) (mq_send_rename A js user path path')"
  unfolding mq_send_upload_def mq_send_remove_def mq_send_rename_def build_message_def
    message_object_eqs option.case
  by (rule send_shape [OF assms])+

section \<open>Digests\<close>

lemma hex_digit_range: "d < 16 \<Longrightarrow> 48 \<le> hex_digit d \<and> hex_digit d \<le> 57 \<or> 97 \<le> hex_digit d \<and> hex_digit d \<le> 102"
  unfolding hex_digit_def word_less_nat_alt word_le_nat_alt
  by (auto simp: unat_word_ariths)

lemma hex_digit_inj: "d < 16 \<Longrightarrow> e < 16 \<Longrightarrow> hex_digit d = hex_digit e \<Longrightarrow> d = e"
  unfolding hex_digit_def word_less_nat_alt word_unat_eq_iff
  by (auto simp: unat_word_ariths split: if_splits)

lemma nibbles: "drop_bit 4 (b :: u8) < 16" "(b AND 0xf) < 16"
proof -
  have "unat (drop_bit 4 b) < 16" using unsigned_less [of b, where 'a = nat] by (simp add: drop_bit_eq_div unat_div)
  then show "drop_bit 4 b < 16" by (simp add: word_less_nat_alt)
  have "b AND 0xf = take_bit 4 b" by (simp add: take_bit_eq_mask mask_numeral)
  moreover have "unat (take_bit 4 b) < 16" by (simp add: take_bit_eq_mod unat_mod)
  ultimately show "(b AND 0xf) < 16" by (simp add: word_less_nat_alt)
qed

lemma hex_byte_inj: "hex_byte b = hex_byte c \<Longrightarrow> b = c"
proof -
  assume "hex_byte b = hex_byte c"
  then have "drop_bit 4 b = drop_bit 4 c" "take_bit 4 b = take_bit 4 c"
    using nibbles hex_digit_inj by (auto simp: hex_byte_def take_bit_eq_mask mask_numeral)
  then show "b = c" by (metis bits_ident)
qed

lemma hex_bytes_inj: "concat (map hex_byte d) = concat (map hex_byte e) \<Longrightarrow> d = e"
proof (induction d arbitrary: e)
  case Nil
  then show ?case by (cases e) (auto simp: hex_byte_def)
next
  case (Cons b d)
  then obtain c e' where e: "e = c # e'" by (cases e) (auto simp: hex_byte_def)
  have "length (hex_byte b) = length (hex_byte c)" by (simp add: hex_byte_def)
  with Cons.prems have "hex_byte b = hex_byte c" "concat (map hex_byte d) = concat (map hex_byte e')"
    unfolding e by simp_all
  then show ?case using Cons.IH hex_byte_inj e by simp
qed

lemma length_hex_bytes: "length (concat (map hex_byte d)) = 2 * length d"
  by (induction d) (simp_all add: hex_byte_def)

lemma hexdigest_digits:
  assumes "length d = MQ_CHECKSUM_SIZE"
  shows "length (hexdigest d) = 64" "c \<in> set (hexdigest d) \<Longrightarrow> 48 \<le> c \<and> c \<le> 57 \<or> 97 \<le> c \<and> c \<le> 102"
proof -
  show "length (hexdigest d) = 64"
    using assms unfolding hexdigest_def by (simp only: length_hex_bytes) (simp add: MQ_CHECKSUM_SIZE_def)
  show "48 \<le> c \<and> c \<le> 57 \<or> 97 \<le> c \<and> c \<le> 102" if "c \<in> set (hexdigest d)"
    using that hex_digit_range [OF nibbles(1)] hex_digit_range [OF nibbles(2)]
    by (auto simp: hexdigest_def hex_byte_def)
qed

lemma hexdigest_inj:
  assumes "length d = MQ_CHECKSUM_SIZE" and "length e = MQ_CHECKSUM_SIZE"
  shows "hexdigest d = hexdigest e \<longleftrightarrow> d = e"
  using assms hex_bytes_inj [of d e] by (auto simp: hexdigest_def)

end
