(* ===== verification/Match.thy ===== *)
theory Match
  imports Inbox_Prelude
begin

text \<open>
  Pattern and list matching of \<open>src/src/openssh/match.c\<close>, by which the server decides
  which SFTP requests, algorithms, users and hosts it accepts. Strings are the bytes
  before the terminating NUL.
\<close>

definition STAR :: u8 where "STAR = 42"
definition QUEST :: u8 where "QUEST = 63"
definition COMMA :: u8 where "COMMA = 44"
definition BANG :: u8 where "BANG = 33"

lemmas match_chars = STAR_def QUEST_def COMMA_def BANG_def

section \<open>Wildcard patterns\<close>

text \<open>
  \<open>match_pattern\<close> with its two inner loops: \<open>scan_known\<close> looks for the next character
  of the pattern, \<open>scan_any\<close> tries the rest of the pattern at each character left.
\<close>

function (sequential)
  match_pattern :: "bytes \<Rightarrow> bytes \<Rightarrow> bool" and
  scan_known :: "bytes \<Rightarrow> u8 \<Rightarrow> bytes \<Rightarrow> bool" and
  scan_any :: "bytes \<Rightarrow> bytes \<Rightarrow> bool"
where
  "match_pattern s [] = (s = [])"
| "match_pattern s (p # ps) =
     (if p = STAR then
        (case ps of [] \<Rightarrow> True
         | q # qs \<Rightarrow> if q \<noteq> QUEST \<and> q \<noteq> STAR then scan_known s q qs else scan_any s (q # qs))
      else
        (case s of [] \<Rightarrow> False
         | c # cs \<Rightarrow> if p \<noteq> QUEST \<and> p \<noteq> c then False else match_pattern cs ps))"
| "scan_known [] q qs = False"
| "scan_known (c # cs) q qs = ((c = q \<and> match_pattern cs qs) \<or> scan_known cs q qs)"
| "scan_any [] ps = False"
| "scan_any (c # cs) ps = (match_pattern (c # cs) ps \<or> scan_any cs ps)"
  by pat_completeness auto
termination
  by (relation "measures [\<lambda>x. case x of Inl (s, p) \<Rightarrow> length p
                             | Inr (Inl (s, q, qs)) \<Rightarrow> Suc (length qs)
                             | Inr (Inr (s, p)) \<Rightarrow> length p,
                           \<lambda>x. case x of Inl (s, p) \<Rightarrow> 2 * length s
                             | Inr (Inl (s, q, qs)) \<Rightarrow> 2 * length s + 1
                             | Inr (Inr (s, p)) \<Rightarrow> 2 * length s + 1]") auto

text \<open>What the comment of the C function describes: \<open>?\<close> stands for one character and
  \<open>*\<close> for any number of them.\<close>

fun glob :: "bytes \<Rightarrow> bytes \<Rightarrow> bool" where
  "glob [] s = (s = [])"
| "glob (p # ps) s =
     (if p = STAR then (\<exists>k \<in> set [0..<Suc (length s)]. glob ps (drop k s))
      else (case s of [] \<Rightarrow> False | c # cs \<Rightarrow> (p = QUEST \<or> p = c) \<and> glob ps cs))"

text \<open>Whether a pattern has two asterisks in a row.\<close>

fun double_star :: "bytes \<Rightarrow> bool" where
  "double_star (p # q # ps) = ((p = STAR \<and> q = STAR) \<or> double_star (q # ps))"
| "double_star _ = False"

section \<open>Pattern lists\<close>

definition isupper :: "u8 \<Rightarrow> bool" where
  "isupper c \<longleftrightarrow> 65 \<le> c \<and> c \<le> 90"

definition tolower :: "u8 \<Rightarrow> u8" where
  "tolower c = (if isupper c then c + 32 else c)"

text \<open>The subpattern buffer \<open>sub[1024]\<close> takes at most 1023 characters.\<close>

definition SUB_MAX :: nat where "SUB_MAX = 1023"

definition subpattern :: "bytes \<Rightarrow> bytes" where
  "subpattern pat = take SUB_MAX (takeWhile (\<lambda>c. c \<noteq> COMMA) pat)"

definition skip_comma :: "bytes \<Rightarrow> bytes" where
  "skip_comma pat = (case pat of c # cs \<Rightarrow> if c = COMMA then cs else pat | [] \<Rightarrow> [])"

definition unnegated :: "bytes \<Rightarrow> bytes" where
  "unnegated pat = (if hd pat = BANG then tl pat else pat)"

definition next_pattern :: "bytes \<Rightarrow> bytes" where
  "next_pattern pat = skip_comma (drop (length (subpattern (unnegated pat))) (unnegated pat))"

lemma length_skip_comma: "length (skip_comma pat) \<le> length pat"
  by (simp add: skip_comma_def split: list.splits)

lemma length_next_pattern:
  assumes "pat \<noteq> []"
  shows "length (next_pattern pat) < length pat"
proof -
  obtain c cs where pat: "pat = c # cs" using assms by (cases pat) auto
  consider "c = BANG" | "c \<noteq> BANG" "c = COMMA" | "c \<noteq> BANG" "c \<noteq> COMMA" by blast
  then show ?thesis
  proof cases
    case 1
    have "length (drop (length (subpattern cs)) cs) \<le> length cs" by simp
    with 1 show ?thesis
      by (simp add: pat next_pattern_def unnegated_def less_Suc_eq_le
          order.trans [OF length_skip_comma])
  next
    case 2
    then show ?thesis
      by (simp add: pat next_pattern_def unnegated_def subpattern_def skip_comma_def)
  next
    case 3
    then have "0 < length (subpattern pat)"
      by (simp add: pat subpattern_def SUB_MAX_def)
    then have "length (drop (length (subpattern pat)) pat) < length pat"
      using pat by simp
    with 3 show ?thesis
      by (simp add: next_pattern_def unnegated_def pat le_less_trans [OF length_skip_comma])
  qed
qed

function pattern_list_loop :: "bytes \<Rightarrow> bool \<Rightarrow> bytes \<Rightarrow> int \<Rightarrow> int" where
  "pattern_list_loop string dolower pat got_positive =
     (if pat = [] then got_positive
      else
        let negated = (hd pat = BANG);
            sub = subpattern (unnegated pat);
            sub' = (if dolower then map tolower sub else sub)
        in if length sub \<ge> SUB_MAX then 0
           else if match_pattern string sub'
           then (if negated then -1 else pattern_list_loop string dolower (next_pattern pat) 1)
           else pattern_list_loop string dolower (next_pattern pat) got_positive)"
  by pat_completeness auto
termination
  by (relation "measure (\<lambda>(s, d, pat, g). length pat)") (simp_all add: length_next_pattern)

declare pattern_list_loop.simps [simp del]

definition match_pattern_list :: "bytes \<Rightarrow> bytes \<Rightarrow> bool \<Rightarrow> int" where
  "match_pattern_list string pat dolower = pattern_list_loop string dolower pat 0"

definition match_hostname :: "bytes \<Rightarrow> bytes \<Rightarrow> int" where
  "match_hostname host pat = match_pattern_list (map tolower host) pat True"

section \<open>Proposal lists\<close>

text \<open>The tokens that repeated \<open>strsep(\<dots>, ",")\<close> returns, empty ones included.\<close>

fun strsep_all :: "bytes \<Rightarrow> bytes list" where
  "strsep_all [] = [[]]"
| "strsep_all (c # cs) =
     (if c = COMMA then [] # strsep_all cs
      else (case strsep_all cs of t # ts \<Rightarrow> (c # t) # ts | [] \<Rightarrow> [[c]]))"

definition MAX_PROP :: nat where "MAX_PROP = 40"

text \<open>The first loop stores the server's items up to the first empty one.\<close>

definition sproposals :: "bytes \<Rightarrow> bytes list" where
  "sproposals server = take MAX_PROP (takeWhile (\<lambda>p. p \<noteq> []) (strsep_all server))"

text \<open>
  The second loop. \<open>pos\<close> is the offset of the token in the copy \<open>c\<close> of the client list.
  \<open>*next\<close> is the offset behind the comma after the match, or \<open>strlen(c)\<close>; by then
  \<open>strsep\<close> has overwritten the commas of \<open>c\<close> with NULs, so \<open>strlen(c)\<close> is the length
  \<open>first\<close> of the first token.
\<close>

fun match_list_loop :: "bytes list \<Rightarrow> bytes list \<Rightarrow> nat \<Rightarrow> nat \<Rightarrow> (bytes \<times> nat) option \<times> nat" where
  "match_list_loop [] sprops first pos = (None, first)"
| "match_list_loop (p # ts) sprops first pos =
     (if p = [] then (None, first)
      else if p \<in> set sprops
      then (let next = (if ts = [] then first else pos + length p + 1) in (Some (p, next), next))
      else match_list_loop ts sprops first (pos + length p + 1))"

definition match_list :: "bytes \<Rightarrow> bytes \<Rightarrow> bytes option \<times> nat" where
  "match_list client server =
     (case match_list_loop (strsep_all client) (sproposals server) (length (hd (strsep_all client))) 0
      of (r, next) \<Rightarrow> (map_option fst r, next))"

definition strlcat :: "bytes \<Rightarrow> bytes \<Rightarrow> nat \<Rightarrow> bytes" where
  "strlcat dst src sz = dst @ take (sz - 1 - length dst) src"

fun filter_loop :: "bytes list \<Rightarrow> bytes \<Rightarrow> bool \<Rightarrow> nat \<Rightarrow> bytes \<Rightarrow> bytes" where
  "filter_loop [] flt blacklist len fix_prop = fix_prop"
| "filter_loop (cp # ts) flt blacklist len fix_prop =
     (let r = match_pattern_list cp flt False in
      if (blacklist \<and> r \<noteq> 1) \<or> (\<not> blacklist \<and> r = 1)
      then
        let f = (if fix_prop \<noteq> [] then strlcat fix_prop [COMMA] len else fix_prop)
        in filter_loop ts flt blacklist len (strlcat f cp len)
      else filter_loop ts flt blacklist len fix_prop)"

text \<open>\<open>None\<close> where one of the two allocations fails.\<close>

definition filter_list :: "(nat \<Rightarrow> bool) \<Rightarrow> bytes \<Rightarrow> bytes \<Rightarrow> bool \<Rightarrow> bytes option" where
  "filter_list al proposal flt blacklist =
     (let len = length proposal + 1 in
      if \<not> al len then None
      else Some (filter_loop (strsep_all proposal) flt blacklist len []))"

definition match_filter_blacklist :: "(nat \<Rightarrow> bool) \<Rightarrow> bytes \<Rightarrow> bytes \<Rightarrow> bytes option" where
  "match_filter_blacklist al proposal flt = filter_list al proposal flt True"

definition match_filter_whitelist :: "(nat \<Rightarrow> bool) \<Rightarrow> bytes \<Rightarrow> bytes \<Rightarrow> bytes option" where
  "match_filter_whitelist al proposal flt = filter_list al proposal flt False"

section \<open>Wildcards against their specification\<close>

lemma glob_star: "glob (STAR # ps) s \<longleftrightarrow> (\<exists>k \<le> length s. glob ps (drop k s))"
  by (simp add: Bex_def less_Suc_eq_le conj_commute del: upt_Suc)

lemma glob_star_Cons:
  "glob (STAR # ps) (c # cs) \<longleftrightarrow> glob ps (c # cs) \<or> glob (STAR # ps) cs"
proof -
  have "(\<exists>k \<le> Suc (length cs). glob ps (drop k (c # cs))) \<longleftrightarrow>
        glob ps (c # cs) \<or> (\<exists>k \<le> length cs. glob ps (drop k cs))" (is "?l \<longleftrightarrow> ?r")
  proof
    assume ?l
    then obtain k where "k \<le> Suc (length cs)" "glob ps (drop k (c # cs))" by blast
    then show ?r by (cases k) auto
  next
    assume ?r
    then show ?l
      by (metis Suc_le_mono drop0 drop_Suc_Cons le0)
  qed
  then show ?thesis unfolding glob_star by simp
qed

lemma glob_star_Nil: "glob (STAR # ps) [] \<longleftrightarrow> glob ps []"
  unfolding glob_star by auto

lemma glob_Cons: "p \<noteq> STAR \<Longrightarrow>
  glob (p # ps) s \<longleftrightarrow> (case s of [] \<Rightarrow> False | c # cs \<Rightarrow> (p = QUEST \<or> p = c) \<and> glob ps cs)"
  by simp

declare glob.simps(2) [simp del]

lemmas glob_rules = glob_star_Cons glob_star_Nil glob_Cons

lemma glob_all_star [simp]: "glob [STAR] s"
  unfolding glob_star by (rule exI [of _ "length s"]) simp

lemma match_sound_aux:
  "match_pattern s p \<longrightarrow> glob p s"
  "scan_known s q qs \<longrightarrow> q \<noteq> QUEST \<longrightarrow> q \<noteq> STAR \<longrightarrow> glob (STAR # q # qs) s"
  "scan_any s p \<longrightarrow> glob (STAR # p) s"
proof (induction s p and s q qs and s p rule: match_pattern_scan_known_scan_any.induct)
  case (1 s)
  then show ?case by simp
next
  case (2 s p ps)
  show ?case
  proof (cases "p = STAR")
    case True
    show ?thesis
    proof (cases ps)
      case (Cons q qs)
      then show ?thesis using 2(1) [OF True Cons] 2(2) [OF True Cons] True by simp
    qed (simp add: True)
  next
    case False
    then show ?thesis using 2(3) by (auto simp: glob_Cons split: list.splits if_splits)
  qed
next
  case (4 c cs q qs)
  then show ?case by (auto simp: glob_star_Cons glob_Cons)
next
  case (6 c cs ps)
  then show ?case by (auto simp: glob_star_Cons)
qed simp_all

lemma match_complete_aux:
  "glob p s \<longrightarrow> \<not> double_star p \<longrightarrow> match_pattern s p"
  "glob (STAR # q # qs) s \<longrightarrow> q \<noteq> QUEST \<longrightarrow> q \<noteq> STAR \<longrightarrow> \<not> double_star (q # qs) \<longrightarrow>
     scan_known s q qs"
  "glob (STAR # p) s \<longrightarrow> p \<noteq> [] \<longrightarrow> hd p = QUEST \<longrightarrow> \<not> double_star p \<longrightarrow> scan_any s p"
proof (induction s p and s q qs and s p rule: match_pattern_scan_known_scan_any.induct)
  case (1 s)
  then show ?case by simp
next
  case (2 s p ps)
  show ?case
  proof (cases "p = STAR")
    case True
    show ?thesis
    proof (cases ps)
      case (Cons q qs)
      then show ?thesis using 2(1) [OF True Cons] 2(2) [OF True Cons] True by auto
    qed (simp add: True)
  next
    case False
    then have "double_star ps \<Longrightarrow> double_star (p # ps)" by (cases ps) simp_all
    with False show ?thesis using 2(3) by (auto simp: glob_Cons split: list.splits)
  qed
next
  case (3 q qs)
  then show ?case by (auto simp: glob_star_Nil glob_Cons)
next
  case (4 c cs q qs)
  have "double_star qs \<Longrightarrow> double_star (q # qs)" by (cases qs) simp_all
  with 4 show ?case by (auto simp: glob_star_Cons glob_Cons)
next
  case (5 p)
  have "QUEST \<noteq> STAR" by (simp add: match_chars)
  then show ?case by (cases p) (auto simp: glob_star_Nil glob_Cons)
next
  case (6 c cs p)
  then show ?case by (auto simp: glob_star_Cons)
qed

section \<open>Tokens\<close>

lemma strsep_all_neq_Nil [simp]: "strsep_all s \<noteq> []"
  by (induction s) (auto split: list.splits)

lemma strsep_all_rec:
  "strsep_all s = takeWhile (\<lambda>c. c \<noteq> COMMA) s #
     (case dropWhile (\<lambda>c. c \<noteq> COMMA) s of [] \<Rightarrow> [] | _ # r \<Rightarrow> strsep_all r)"
  by (induction s) (auto split: list.splits)

lemma strsep_all_no_comma [simp]: "COMMA \<notin> set s \<Longrightarrow> strsep_all s = [s]"
  by (induction s) auto

lemma strsep_all_append: "COMMA \<notin> set t \<Longrightarrow> strsep_all (t @ COMMA # r) = t # strsep_all r"
  by (induction t) auto

lemma strsep_all_tokens: "t \<in> set (strsep_all s) \<Longrightarrow> COMMA \<notin> set t"
  by (induction s arbitrary: t) (auto split: list.splits if_splits)

text \<open>The items of a pattern list: its tokens, without an empty one behind a final comma,
  each with its negation mark split off.\<close>

definition list_tokens :: "bytes \<Rightarrow> bytes list" where
  "list_tokens pat =
     (if pat = [] \<or> last pat = COMMA then butlast (strsep_all pat) else strsep_all pat)"

definition pattern_item :: "bytes \<Rightarrow> bool \<times> bytes" where
  "pattern_item t = (if t \<noteq> [] \<and> hd t = BANG then (True, tl t) else (False, t))"

lemma hd_strsep_all: "hd (strsep_all s) = takeWhile (\<lambda>c. c \<noteq> COMMA) s"
  by (subst strsep_all_rec) (simp only: list.sel)

lemma strsep_all_two: "COMMA \<in> set s \<Longrightarrow> \<exists>t u us. strsep_all s = t # u # us"
  by (induction s) (auto split: list.splits simp: neq_Nil_conv)

lemma first_list_token:
  assumes "pat \<noteq> []"
  shows "takeWhile (\<lambda>c. c \<noteq> COMMA) pat \<in> set (list_tokens pat)"
proof (cases "last pat = COMMA")
  case True
  then have "COMMA \<in> set pat" using assms last_in_set by metis
  then obtain t u us where "strsep_all pat = t # u # us" using strsep_all_two by blast
  then show ?thesis
    using True hd_strsep_all [of pat] by (simp add: list_tokens_def)
next
  case False
  then show ?thesis
    using assms hd_strsep_all [of pat] list.set_sel(1) [OF strsep_all_neq_Nil, of pat]
    by (simp add: list_tokens_def)
qed

lemma list_tokens_Nil [simp]: "list_tokens [] = []"
  by (simp add: list_tokens_def)

lemma takeWhile_comma_unnegated:
  "pat \<noteq> [] \<Longrightarrow> hd pat = BANG \<Longrightarrow>
     takeWhile (\<lambda>c. c \<noteq> COMMA) pat = BANG # takeWhile (\<lambda>c. c \<noteq> COMMA) (tl pat)"
  by (cases pat) (auto simp: match_chars)

lemma list_tokens_step:
  assumes "pat \<noteq> []" and short: "length (subpattern (unnegated pat)) < SUB_MAX"
  shows "list_tokens pat = takeWhile (\<lambda>c. c \<noteq> COMMA) pat # list_tokens (next_pattern pat)"
    and "pattern_item (takeWhile (\<lambda>c. c \<noteq> COMMA) pat) =
           (hd pat = BANG, subpattern (unnegated pat))"
proof -
  let ?tw = "takeWhile (\<lambda>c. c \<noteq> COMMA)" and ?dw = "dropWhile (\<lambda>c. c \<noteq> COMMA)"
  have sub: "subpattern (unnegated pat) = ?tw (unnegated pat)"
    using short by (simp add: subpattern_def)
  have "drop (length (subpattern (unnegated pat))) (unnegated pat) = ?dw (unnegated pat)"
    by (simp add: sub dropWhile_eq_drop)
  also have "\<dots> = ?dw pat"
    using assms(1) by (cases pat) (auto simp: unnegated_def match_chars)
  finally have nxt: "next_pattern pat = skip_comma (?dw pat)"
    by (simp add: next_pattern_def)
  show "pattern_item (?tw pat) = (hd pat = BANG, subpattern (unnegated pat))"
    using assms(1) unfolding sub
    by (cases pat) (auto simp: pattern_item_def unnegated_def match_chars)
  show "list_tokens pat = ?tw pat # list_tokens (next_pattern pat)"
  proof (cases "?dw pat")
    case Nil
    then have "COMMA \<notin> set pat" by (auto simp: dropWhile_eq_Nil_conv)
    then have "last pat \<noteq> COMMA" using assms(1) last_in_set [of pat] by metis
    moreover from \<open>COMMA \<notin> set pat\<close> have "?tw pat = pat" by auto
    moreover have "next_pattern pat = []" by (simp only: nxt Nil skip_comma_def list.case)
    ultimately show ?thesis using \<open>COMMA \<notin> set pat\<close> assms(1)
      by (simp only: list_tokens_def strsep_all_no_comma simp_thms if_False if_True strsep_all.simps
          butlast.simps)
  next
    case (Cons c r)
    then have c: "c = COMMA" using hd_dropWhile [of "\<lambda>c. c \<noteq> COMMA" pat] by auto
    have pat: "pat = ?tw pat @ COMMA # r"
      using Cons c takeWhile_dropWhile_id [of "\<lambda>c. c \<noteq> COMMA" pat] by simp
    have "last pat = (if r = [] then COMMA else last r)"
      by (subst pat) simp
    moreover have "strsep_all pat = ?tw pat # strsep_all r"
      using Cons by (subst strsep_all_rec) simp
    ultimately show ?thesis
      using assms(1) Cons c by (auto simp: nxt skip_comma_def list_tokens_def)
  qed
qed

section \<open>Pattern lists against their specification\<close>

text \<open>A negated item that matches decides; otherwise any other item that matches.\<close>

definition list_verdict :: "(bytes \<Rightarrow> bool) \<Rightarrow> (bool \<times> bytes) list \<Rightarrow> bool \<Rightarrow> int" where
  "list_verdict hit items got =
     (if \<exists>i \<in> set items. fst i \<and> hit (snd i) then -1
      else if got \<or> (\<exists>i \<in> set items. \<not> fst i \<and> hit (snd i)) then 1 else 0)"

definition sub_hit :: "bytes \<Rightarrow> bool \<Rightarrow> bytes \<Rightarrow> bool" where
  "sub_hit s dolower p = match_pattern s (if dolower then map tolower p else p)"

lemma list_verdict_Cons:
  "list_verdict hit ((neg, p) # items) got =
     (if hit p then if neg then -1 else list_verdict hit items True
      else list_verdict hit items got)"
  by (cases "hit p"; cases neg) (simp_all add: list_verdict_def)

lemma pattern_list_loop_verdict:
  assumes "\<forall>t \<in> set (list_tokens pat). length t < SUB_MAX"
  shows "pattern_list_loop s d pat (if got then 1 else 0) =
         list_verdict (sub_hit s d) (map pattern_item (list_tokens pat)) got"
  using assms
proof (induction "length pat" arbitrary: pat got rule: less_induct)
  case less
  show ?case
  proof (cases "pat = []")
    case True
    then show ?thesis
      by (subst pattern_list_loop.simps) (simp add: list_verdict_def)
  next
    case False
    let ?t = "takeWhile (\<lambda>c. c \<noteq> COMMA) pat"
    have "?t \<in> set (list_tokens pat)" using False by (rule first_list_token)
    then have "length ?t < SUB_MAX" using less.prems by blast
    moreover have "length (takeWhile (\<lambda>c. c \<noteq> COMMA) (unnegated pat)) \<le> length ?t"
      using False by (cases pat) (auto simp: unnegated_def match_chars)
    ultimately have short: "length (subpattern (unnegated pat)) < SUB_MAX"
      by (simp add: subpattern_def)
    note step = list_tokens_step [OF False short]
    have IH: "pattern_list_loop s d (next_pattern pat) (if g then 1 else 0) =
        list_verdict (sub_hit s d) (map pattern_item (list_tokens (next_pattern pat))) g" for g
    proof (rule less.hyps [OF length_next_pattern [OF False]])
      show "\<forall>t \<in> set (list_tokens (next_pattern pat)). length t < SUB_MAX"
        using less.prems unfolding step(1) by (auto simp only: list.set ball_simps)
    qed
    let ?rest = "map pattern_item (list_tokens (next_pattern pat))"
    let ?sub = "subpattern (unnegated pat)"
    let ?hit = "sub_hit s d ?sub"
    have run: "pattern_list_loop s d pat (if got then 1 else 0) =
        (if ?hit then if hd pat = BANG then -1 else list_verdict (sub_hit s d) ?rest True
         else list_verdict (sub_hit s d) ?rest got)"
      unfolding pattern_list_loop.simps [of s d pat] Let_def sub_hit_def
      using IH [of got, unfolded sub_hit_def] IH [of True, unfolded sub_hit_def] short False
      by (simp only: if_False if_True simp_thms not_le [symmetric] if_cancel cong: if_cong)
    have items: "map pattern_item (list_tokens pat) = (hd pat = BANG, ?sub) # ?rest"
      by (simp only: step list.map)
    show ?thesis
      unfolding run items by (simp add: list_verdict_Cons)
  qed
qed

section \<open>Proposal lists against their specification\<close>

lemma match_list_loop_find:
  "map_option fst (fst (match_list_loop ts sps f pos)) =
     List.find (\<lambda>p. p \<in> set sps) (takeWhile (\<lambda>p. p \<noteq> []) ts)"
  by (induction ts arbitrary: pos) (auto simp: Let_def)

lemma match_list_find:
  "fst (match_list client server) =
     List.find (\<lambda>p. p \<in> set (sproposals server)) (takeWhile (\<lambda>p. p \<noteq> []) (strsep_all client))"
  using match_list_loop_find [of "strsep_all client" "sproposals server"
      "length (hd (strsep_all client))" 0]
  by (auto simp: match_list_def split: prod.splits)

lemma match_list_single:
  assumes "name \<noteq> []" and "COMMA \<notin> set name"
  shows "fst (match_list name server) = (if name \<in> set (sproposals server) then Some name else None)"
  using assms by (simp add: match_list_find)

text \<open>Joining tokens with commas, as the filter does.\<close>

fun join :: "bytes list \<Rightarrow> bytes" where
  "join [] = []"
| "join [t] = t"
| "join (t # u # ts) = t @ COMMA # join (u # ts)"

lemma join_Cons: "join (t # ts) = t @ (if ts = [] then [] else COMMA # join ts)"
  by (cases ts) simp_all

lemma join_strsep_all [simp]: "join (strsep_all s) = s"
  by (induction s) (auto simp: join_Cons split: list.splits)

lemma strsep_all_join:
  "ts \<noteq> [] \<Longrightarrow> \<forall>t \<in> set ts. COMMA \<notin> set t \<Longrightarrow> strsep_all (join ts) = ts"
  by (induction ts) (auto simp: join_Cons strsep_all_append)

lemma join_snoc: "join (ts @ [t]) = (if ts = [] then t else join ts @ COMMA # t)"
  by (induction ts) (auto simp: join_Cons)

lemma join_eq_Nil: "[] \<notin> set ts \<Longrightarrow> join ts = [] \<longleftrightarrow> ts = []"
  by (cases ts) (auto simp: join_Cons)

lemma strlcat_fits: "length dst + length src < sz \<Longrightarrow> strlcat dst src sz = dst @ src"
  by (simp add: strlcat_def)

text \<open>The items a filter keeps.\<close>

definition filter_keeps :: "bytes \<Rightarrow> bool \<Rightarrow> bytes \<Rightarrow> bool" where
  "filter_keeps flt blacklist cp \<longleftrightarrow> (match_pattern_list cp flt False = 1) = (\<not> blacklist)"

lemma length_join_append:
  "length (join (xs @ ys)) \<ge> length (join xs)"
  by (induction xs) (auto simp: join_Cons)

lemma length_join_filter_le:
  "length (join (filter P xs @ ys)) \<le> length (join (xs @ ys))"
proof (induction xs)
  case (Cons x xs)
  then show ?case by (auto simp: join_Cons)
qed simp

lemma filter_loop_join:
  assumes "[] \<notin> set ts" "[] \<notin> set done" "length (join (done @ ts)) < len"
  shows "filter_loop ts flt bl len (join done) = join (done @ filter (filter_keeps flt bl) ts)"
  using assms
proof (induction ts arbitrary: "done")
  case (Cons t ts)
  have le: "length (join (done @ [t])) < len"
    using Cons.prems(3) length_join_append [of "done @ [t]" ts] by simp
  have empty: "join done = [] \<longleftrightarrow> done = []" using Cons.prems by (simp add: join_eq_Nil)
  have app: "strlcat (if join done \<noteq> [] then strlcat (join done) [COMMA] len else join done) t len =
      join (done @ [t])"
    using le by (auto simp: empty join_snoc strlcat_fits)
  show ?case
  proof (cases "filter_keeps flt bl t")
    case True
    then show ?thesis
      using Cons.IH [of "done @ [t]"] Cons.prems app
      by (auto simp: filter_keeps_def Let_def)
  next
    case False
    have "length (join (done @ ts)) \<le> length (join (done @ t # ts))"
      by (induction "done") (auto simp: join_Cons)
    then show ?thesis
      using Cons.IH [of "done"] Cons.prems False
      by (auto simp: filter_keeps_def Let_def)
  qed
qed simp

lemma filter_list_join:
  assumes "al (length proposal + 1)" "[] \<notin> set (strsep_all proposal)"
  shows "filter_list al proposal flt bl =
         Some (join (filter (filter_keeps flt bl) (strsep_all proposal)))"
  using filter_loop_join [of "strsep_all proposal" "[]" "length proposal + 1" flt bl] assms
  by (simp add: filter_list_def)

end
