(* ===== verification/Sftp_Env.thy ===== *)
theory Sftp_Env
  imports Sftp_Handles Ls_File Mq_Notify Match
begin

text \<open>
  The state of the SFTP server (the global variables of
  \<open>src/src/openssh/sftp-server.c\<close>), its environment (system calls, crypto library,
  message broker) and its replies to the client.
\<close>

section \<open>Environment\<close>

text \<open>Error numbers and open flags of Linux.\<close>

definition EPERM :: int where "EPERM = 1"
definition ENOENT :: int where "ENOENT = 2"
definition EINTR :: int where "EINTR = 4"
definition EBADF :: int where "EBADF = 9"
definition EACCES :: int where "EACCES = 13"
definition EFAULT :: int where "EFAULT = 14"
definition EXDEV :: int where "EXDEV = 18"
definition ENOTDIR :: int where "ENOTDIR = 20"
definition EINVAL :: int where "EINVAL = 22"
definition ENAMETOOLONG :: int where "ENAMETOOLONG = 36"
definition ENOSYS :: int where "ENOSYS = 38"
definition ELOOP :: int where "ELOOP = 40"
definition EOPNOTSUPP :: int where "EOPNOTSUPP = 95"

lemmas errnos = EPERM_def ENOENT_def EINTR_def EBADF_def EACCES_def EFAULT_def EXDEV_def ENOTDIR_def
  EINVAL_def ENAMETOOLONG_def ENOSYS_def ELOOP_def EOPNOTSUPP_def

definition O_RDONLY :: u32 where "O_RDONLY = 0"
definition O_WRONLY :: u32 where "O_WRONLY = 1"
definition O_RDWR :: u32 where "O_RDWR = 2"
definition O_ACCMODE :: u32 where "O_ACCMODE = 3"
definition O_CREAT :: u32 where "O_CREAT = 0x40"
definition O_EXCL :: u32 where "O_EXCL = 0x80"
definition O_TRUNC :: u32 where "O_TRUNC = 0x200"
definition O_APPEND :: u32 where "O_APPEND = 0x400"

lemmas o_flags = O_RDONLY_def O_WRONLY_def O_RDWR_def O_ACCMODE_def O_CREAT_def O_EXCL_def
  O_TRUNC_def O_APPEND_def

definition PATH_MAX :: nat where "PATH_MAX = 4096"

text \<open>The fields of \<open>struct statvfs\<close>.\<close>

record statvfs =
  f_bsize :: u64
  f_frsize :: u64
  f_blocks :: u64
  f_bfree :: u64
  f_bavail :: u64
  f_files :: u64
  f_ffree :: u64
  f_favail :: u64
  f_fsid :: u64
  f_flag :: u64
  f_namemax :: u64

definition ST_RDONLY :: u64 where "ST_RDONLY = 1"
definition ST_NOSUID :: u64 where "ST_NOSUID = 2"

type_synonym ('os, 'a) syscall = "'os \<Rightarrow> (int + 'a) \<times> 'os"

text \<open>
  A system call takes and returns the state \<open>'os\<close> of the world; \<open>Inl\<close> is a failure with its
  error number. Unused results are dropped. \<open>e_fresh\<close>, \<open>e_stat0\<close> are the contents of
  fresh memory; \<open>e_fuel\<close> bounds the loop over a directory.
\<close>

record ('md, 'os) env =
  e_al :: "nat \<Rightarrow> bool"
  e_fresh :: "'md Handle"
  e_stat0 :: stat
  e_fuel :: nat
  e_ls :: "'os \<Rightarrow> ls_env"
  e_sha_init :: 'md
  e_sha_update :: "'md \<Rightarrow> bytes \<Rightarrow> 'md"
  e_sha_final :: "'md \<Rightarrow> bytes"
  e_amqp :: "'os amqp_ops"
  e_json :: "json \<Rightarrow> bytes"
  sys_open :: "bytes \<Rightarrow> u32 \<Rightarrow> u32 \<Rightarrow> ('os, int) syscall"
  sys_close :: "int \<Rightarrow> ('os, unit) syscall"
  sys_lseek :: "int \<Rightarrow> u64 \<Rightarrow> ('os, unit) syscall"
  sys_read :: "int \<Rightarrow> nat \<Rightarrow> ('os, bytes) syscall"
  sys_write :: "int \<Rightarrow> bytes \<Rightarrow> ('os, nat) syscall"
  sys_stat :: "bytes \<Rightarrow> ('os, stat) syscall"
  sys_lstat :: "bytes \<Rightarrow> ('os, stat) syscall"
  sys_fstat :: "int \<Rightarrow> ('os, stat) syscall"
  sys_truncate :: "bytes \<Rightarrow> u64 \<Rightarrow> ('os, unit) syscall"
  sys_ftruncate :: "int \<Rightarrow> u64 \<Rightarrow> ('os, unit) syscall"
  sys_chmod :: "bytes \<Rightarrow> u32 \<Rightarrow> ('os, unit) syscall"
  sys_fchmod :: "int \<Rightarrow> u32 \<Rightarrow> ('os, unit) syscall"
  sys_utimes :: "bytes \<Rightarrow> (u32 \<times> u32) \<times> (u32 \<times> u32) \<Rightarrow> ('os, unit) syscall"
  sys_futimes :: "int \<Rightarrow> (u32 \<times> u32) \<times> (u32 \<times> u32) \<Rightarrow> ('os, unit) syscall"
  sys_chown :: "bytes \<Rightarrow> u32 \<Rightarrow> u32 \<Rightarrow> ('os, unit) syscall"
  sys_fchown :: "int \<Rightarrow> u32 \<Rightarrow> u32 \<Rightarrow> ('os, unit) syscall"
  sys_opendir :: "bytes \<Rightarrow> ('os, nat) syscall"
  sys_closedir :: "nat option \<Rightarrow> ('os, unit) syscall"
  sys_readdir :: "nat \<Rightarrow> 'os \<Rightarrow> bytes option \<times> 'os"
  sys_unlink :: "bytes \<Rightarrow> ('os, unit) syscall"
  sys_mkdir :: "bytes \<Rightarrow> u32 \<Rightarrow> ('os, unit) syscall"
  sys_rmdir :: "bytes \<Rightarrow> ('os, unit) syscall"
  sys_realpath :: "bytes \<Rightarrow> ('os, bytes) syscall"
  sys_rename :: "bytes \<Rightarrow> bytes \<Rightarrow> ('os, unit) syscall"
  sys_link :: "bytes \<Rightarrow> bytes \<Rightarrow> ('os, unit) syscall"
  sys_readlink :: "bytes \<Rightarrow> nat \<Rightarrow> ('os, bytes) syscall"
  sys_symlink :: "bytes \<Rightarrow> bytes \<Rightarrow> ('os, unit) syscall"
  sys_statvfs :: "bytes \<Rightarrow> ('os, statvfs) syscall"
  sys_fstatvfs :: "int \<Rightarrow> ('os, statvfs) syscall"
  sys_fsync :: "int \<Rightarrow> ('os, unit) syscall"
  sys_select :: "bool \<Rightarrow> bool \<Rightarrow> ('os, bool \<times> bool) syscall"

section \<open>State\<close>

record ('md, 'os) srv =
  iqueue :: sshbuf
  oqueue :: sshbuf
  version :: u32
  init_done :: bool
  readonly :: bool
  request_whitelist :: "bytes option"
  request_blacklist :: "bytes option"
  ht :: "'md htab"
  mq_options :: "mq_options_t option"
  pw_name :: bytes
  os :: 'os

type_synonym ('md, 'os, 'a) sv = "(('md, 'os) srv, halt, 'a) est"

text \<open>\<open>fatal\<close> does not return; what its exit hook does belongs to the program the server is
  linked into.\<close>

definition fatal :: "('md, 'os, 'a) sv" where
  "fatal = throwE Fatal"

definition call :: "('os \<Rightarrow> 'a \<times> 'os) \<Rightarrow> ('md, 'os, 'a) sv" where
  "call f s = (case f (os s) of (x, w) \<Rightarrow> (Inr x, s\<lparr>os := w\<rparr>))"

definition mqrun :: "('os, 'a) mq \<Rightarrow> ('md, 'os, 'a) sv" where
  "mqrun m s = (case m (mq_options s, os s) of (r, (mo, w)) \<Rightarrow> (r, s\<lparr>mq_options := mo, os := w\<rparr>))"

definition sftp_server_cleanup_exit :: "('md, 'os) env \<Rightarrow> int \<Rightarrow> ('md, 'os, 'a) sv" where
  "sftp_server_cleanup_exit E i =
     bindE (mqrun (clean_mq_config (e_amqp E))) (\<lambda>_. throwE (Exit i))"

text \<open>A reader on the input queue whose failure is answered by \<open>fatal\<close>.\<close>

definition iq :: "(sshbuf, 'e, 'a) est \<Rightarrow> ('md, 'os, 'a) sv" where
  "iq m s = (case m (iqueue s) of (Inl _, b) \<Rightarrow> (Inl Fatal, s\<lparr>iqueue := b\<rparr>)
             | (Inr x, b) \<Rightarrow> (Inr x, s\<lparr>iqueue := b\<rparr>))"

text \<open>A path of a request, as the C code sees it.\<close>

definition get_path :: "('md, 'os) env \<Rightarrow> ('md, 'os, bytes) sv" where
  "get_path E = bindE (iq (sshbuf_get_cstring (e_al E))) (\<lambda>p. returnE (cstr p))"

definition get_handle :: "('md, 'os) env \<Rightarrow> ('md, 'os, int) sv" where
  "get_handle E =
     bindE (iq (sshbuf_get_string (e_al E))) (\<lambda>h.
     bindE (getsE ht) (\<lambda>t. returnE (if length h < 256 then handle_from_string h t else -1)))"

definition errno_to_portable :: "int \<Rightarrow> u32" where
  "errno_to_portable unixerrno =
     (if unixerrno = 0 then SSH2_FX_OK
      else if unixerrno \<in> {ENOENT, ENOTDIR, EBADF, ELOOP} then SSH2_FX_NO_SUCH_FILE
      else if unixerrno \<in> {EPERM, EACCES, EFAULT} then SSH2_FX_PERMISSION_DENIED
      else if unixerrno \<in> {ENAMETOOLONG, EINVAL} then SSH2_FX_BAD_MESSAGE
      else if unixerrno = ENOSYS then SSH2_FX_OP_UNSUPPORTED
      else SSH2_FX_FAILURE)"

text \<open>\<open>(r == -1) ? errno_to_portable(errno) : SSH2_FX_OK\<close>.\<close>

definition status_of :: "int + 'a \<Rightarrow> u32" where
  "status_of r = (case r of Inl e \<Rightarrow> errno_to_portable e | Inr _ \<Rightarrow> SSH2_FX_OK)"

section \<open>Replies\<close>

definition send_msg :: "('md, 'os) env \<Rightarrow> sshbuf \<Rightarrow> ('md, 'os, unit) sv" where
  "send_msg E m s =
     (case sshbuf_put_stringb (e_al E) m (oqueue s) of
        (Inl _, b) \<Rightarrow> (Inl Fatal, s\<lparr>oqueue := b\<rparr>)
      | (Inr _, b) \<Rightarrow> (Inr (), s\<lparr>oqueue := b\<rparr>))"

text \<open>
  Every reply is put together in a new buffer, which \<open>send_msg\<close> copies to the output queue;
  the buffer is reset and freed behind that.
\<close>

definition with_msg :: "('md, 'os) env \<Rightarrow> unit sb \<Rightarrow> ('md, 'os, unit) sv" where
  "with_msg E puts =
     (case sshbuf_new (e_al E) of None \<Rightarrow> fatal
      | Some msg \<Rightarrow> (case puts msg of (Inl _, _) \<Rightarrow> fatal | (Inr _, m) \<Rightarrow> send_msg E m))"

definition status_messages :: "string list" where
  "status_messages =
     [''Success'', ''End of file'', ''No such file'', ''Permission denied'', ''Failure'',
      ''Bad message'', ''No connection'', ''Connection lost'', ''Operation unsupported'',
      ''Unknown error'']"

definition status_to_message :: "u32 \<Rightarrow> string" where
  "status_to_message status = status_messages ! unat (min status SSH2_FX_MAX)"

definition send_status :: "('md, 'os) env \<Rightarrow> u32 \<Rightarrow> u32 \<Rightarrow> ('md, 'os, unit) sv" where
  "send_status E rid status =
     bindE (getsE version) (\<lambda>v.
     with_msg E
       (bindE (sshbuf_put_u8 (e_al E) SSH2_FXP_STATUS) (\<lambda>_.
        bindE (sshbuf_put_u32 (e_al E) rid) (\<lambda>_.
        bindE (sshbuf_put_u32 (e_al E) status) (\<lambda>_.
        if v \<ge> 3
        then bindE (sshbuf_put_cstring (e_al E) (lit (status_to_message status))) (\<lambda>_.
             sshbuf_put_cstring (e_al E) [])
        else returnE ())))))"

definition send_data_or_handle :: "('md, 'os) env \<Rightarrow> u8 \<Rightarrow> u32 \<Rightarrow> bytes \<Rightarrow> ('md, 'os, unit) sv" where
  "send_data_or_handle E type rid data =
     with_msg E
       (bindE (sshbuf_put_u8 (e_al E) type) (\<lambda>_.
        bindE (sshbuf_put_u32 (e_al E) rid) (\<lambda>_.
        sshbuf_put_string (e_al E) data)))"

definition send_data :: "('md, 'os) env \<Rightarrow> u32 \<Rightarrow> bytes \<Rightarrow> ('md, 'os, unit) sv" where
  "send_data E rid data = send_data_or_handle E SSH2_FXP_DATA rid data"

definition send_handle :: "('md, 'os) env \<Rightarrow> u32 \<Rightarrow> int \<Rightarrow> ('md, 'os, unit) sv" where
  "send_handle E rid handle = send_data_or_handle E SSH2_FXP_HANDLE rid (handle_to_string handle)"

text \<open>\<open>struct Stat\<close>: name, long name and attributes of an entry.\<close>

record Stat =
  s_name :: bytes
  s_long_name :: bytes
  s_attrib :: Attrib

definition put_stat :: "('md, 'os) env \<Rightarrow> Stat \<Rightarrow> unit sb" where
  "put_stat E st =
     bindE (sshbuf_put_cstring (e_al E) (s_name st)) (\<lambda>_.
     bindE (sshbuf_put_cstring (e_al E) (s_long_name st)) (\<lambda>_.
     encode_attrib (e_al E) (s_attrib st)))"

definition send_names :: "('md, 'os) env \<Rightarrow> u32 \<Rightarrow> Stat list \<Rightarrow> ('md, 'os, unit) sv" where
  "send_names E rid stats =
     with_msg E
       (bindE (sshbuf_put_u8 (e_al E) SSH2_FXP_NAME) (\<lambda>_.
        bindE (sshbuf_put_u32 (e_al E) rid) (\<lambda>_.
        bindE (sshbuf_put_u32 (e_al E) (word_of_nat (length stats))) (\<lambda>_.
        forE stats (put_stat E)))))"

definition send_attrib :: "('md, 'os) env \<Rightarrow> u32 \<Rightarrow> Attrib \<Rightarrow> ('md, 'os, unit) sv" where
  "send_attrib E rid a =
     with_msg E
       (bindE (sshbuf_put_u8 (e_al E) SSH2_FXP_ATTRS) (\<lambda>_.
        bindE (sshbuf_put_u32 (e_al E) rid) (\<lambda>_.
        encode_attrib (e_al E) a)))"

definition statvfs_words :: "statvfs \<Rightarrow> u64 list" where
  "statvfs_words st =
     (let flag = (if f_flag st AND ST_RDONLY \<noteq> 0 then 1 else 0) OR
                 (if f_flag st AND ST_NOSUID \<noteq> 0 then 2 else 0)
      in [f_bsize st, f_frsize st, f_blocks st, f_bfree st, f_bavail st, f_files st, f_ffree st,
          f_favail st, f_fsid st, flag, f_namemax st])"

definition send_statvfs :: "('md, 'os) env \<Rightarrow> u32 \<Rightarrow> statvfs \<Rightarrow> ('md, 'os, unit) sv" where
  "send_statvfs E rid st =
     with_msg E
       (bindE (sshbuf_put_u8 (e_al E) SSH2_FXP_EXTENDED_REPLY) (\<lambda>_.
        bindE (sshbuf_put_u32 (e_al E) rid) (\<lambda>_.
        forE (statvfs_words st) (sshbuf_put_u64 (e_al E)))))"

end
