(* ===== verification/Sftp_Server.thy ===== *)
theory Sftp_Server
  imports Sftp_Env
begin

text \<open>
  The request handlers of \<open>src/src/openssh/sftp-server.c\<close>, the dispatcher \<open>process\<close> and
  one round of the main loop. Logging is left out. Memory is granted to the functions of the
  \<open>xmalloc\<close> family, which exit otherwise.
\<close>

section \<open>Open flags\<close>

definition flags_from_portable :: "u32 \<Rightarrow> u32" where
  "flags_from_portable pflags =
     (let flags = (if pflags AND SSH2_FXF_READ \<noteq> 0 \<and> pflags AND SSH2_FXF_WRITE \<noteq> 0 then O_RDWR
                   else if pflags AND SSH2_FXF_READ \<noteq> 0 then O_RDONLY
                   else if pflags AND SSH2_FXF_WRITE \<noteq> 0 then O_WRONLY
                   else 0);
          flags = (if pflags AND SSH2_FXF_APPEND \<noteq> 0 then flags OR O_APPEND else flags);
          flags = (if pflags AND SSH2_FXF_CREAT \<noteq> 0 then flags OR O_CREAT else flags);
          flags = (if pflags AND SSH2_FXF_TRUNC \<noteq> 0 then flags OR O_TRUNC else flags)
      in if pflags AND SSH2_FXF_EXCL \<noteq> 0 then flags OR O_EXCL else flags)"

section \<open>Handles\<close>

definition new_handle ::
  "('md, 'os) env \<Rightarrow> handle_use \<Rightarrow> bytes \<Rightarrow> int \<Rightarrow> u32 \<Rightarrow> nat option \<Rightarrow> ('md, 'os, int) sv" where
  "new_handle E use name fd flags dirp s =
     (case handle_new (e_fresh E) use name fd flags dirp (ht s) of
        (i, t) \<Rightarrow> (Inr i, s\<lparr>ht := t\<rparr>))"

definition modify_ht :: "('md htab \<Rightarrow> 'md htab) \<Rightarrow> ('md, 'os, unit) sv" where
  "modify_ht f = modifyE (\<lambda>s. s\<lparr>ht := f (ht s)\<rparr>)"

text \<open>The condition under which closing a file announces an upload.\<close>

definition is_upload :: "u32 \<Rightarrow> bool" where
  "is_upload flags \<longleftrightarrow>
     flags AND (O_CREAT OR O_TRUNC OR O_APPEND) \<noteq> 0 \<and> \<not> (flags AND O_RDONLY \<noteq> 0)"

definition handle_close :: "('md, 'os) env \<Rightarrow> int \<Rightarrow> ('md, 'os, int + unit) sv" where
  "handle_close E handle =
     bindE (getsE pw_name) (\<lambda>pwname.
     bindE (getsE ht) (\<lambda>t.
     if handle_is_ok handle HANDLE_FILE t then
       let h = handles t ! nat handle in
       bindE (call (sys_fstat E (h_fd h))) (\<lambda>r.
       let st = (case r of Inl _ \<Rightarrow> e_stat0 E | Inr st \<Rightarrow> st) in
       bindE (call (sys_close E (h_fd h))) (\<lambda>ret.
       bindE (if ret = Inr () \<and> is_upload (h_flags h)
              then mqrun (bindE (mq_send_upload (e_amqp E) (e_json E)
                                   pwname (h_name h) (e_sha_final E (h_md h))
                                   (sint (st_size st)) (sint (st_mtime st))) (\<lambda>_. returnE ()))
              else returnE ()) (\<lambda>_.
       bindE (modify_ht (handle_unused handle)) (\<lambda>_.
       returnE ret))))
     else if handle_is_ok handle HANDLE_DIR t then
       bindE (call (sys_closedir E (h_dirp (handles t ! nat handle)))) (\<lambda>ret.
       bindE (modify_ht (handle_unused handle)) (\<lambda>_.
       returnE ret))
     else returnE (Inl ENOENT)))"

section \<open>Version\<close>

definition process_init :: "('md, 'os) env \<Rightarrow> ('md, 'os, unit) sv" where
  "process_init E =
     bindE (iq sshbuf_get_u32) (\<lambda>v.
     bindE (modifyE (\<lambda>s. s\<lparr>version := v\<rparr>)) (\<lambda>_.
     with_msg E
       (bindE (sshbuf_put_u8 (e_al E) SSH2_FXP_VERSION) (\<lambda>_.
        bindE (sshbuf_put_u32 (e_al E) SSH2_FILEXFER_VERSION) (\<lambda>_.
        forE [''posix-rename@openssh.com'', ''1'', ''statvfs@openssh.com'', ''2'',
              ''fstatvfs@openssh.com'', ''2'', ''hardlink@openssh.com'', ''1'',
              ''fsync@openssh.com'', ''1'']
          (\<lambda>x. sshbuf_put_cstring (e_al E) (lit x)))))))"

section \<open>Files\<close>

definition process_open :: "('md, 'os) env \<Rightarrow> u32 \<Rightarrow> ('md, 'os, unit) sv" where
  "process_open E rid =
     bindE (get_path E) (\<lambda>name.
     bindE (iq sshbuf_get_u32) (\<lambda>pflags.
     bindE (iq (decode_attrib (e_al E))) (\<lambda>a.
     let flags = flags_from_portable pflags;
         mode = (if a_flags a AND SSH2_FILEXFER_ATTR_PERMISSIONS \<noteq> 0 then a_perm a else 0x1B6) in
     bindE (getsE readonly) (\<lambda>ro.
     bindE (if ro \<and> (flags AND O_ACCMODE \<noteq> O_RDONLY \<or> flags AND (O_CREAT OR O_TRUNC) \<noteq> 0)
            then returnE SSH2_FX_PERMISSION_DENIED
            else
              bindE (call (sys_open E name flags mode)) (\<lambda>r.
              case r of Inl e \<Rightarrow> returnE (errno_to_portable e)
              | Inr fd \<Rightarrow>
                  bindE (new_handle E HANDLE_FILE name fd flags None) (\<lambda>handle.
                  if handle < 0
                  then bindE (call (sys_close E fd)) (\<lambda>_. returnE SSH2_FX_FAILURE)
                  else
                    bindE (modify_ht (upd_handle handle (\<lambda>h. h\<lparr>h_md := e_sha_init E\<rparr>))) (\<lambda>_.
                    bindE (send_handle E rid handle) (\<lambda>_.
                    returnE SSH2_FX_OK))))) (\<lambda>status.
     if status \<noteq> SSH2_FX_OK then send_status E rid status else returnE ())))))"

definition process_close :: "('md, 'os) env \<Rightarrow> u32 \<Rightarrow> ('md, 'os, unit) sv" where
  "process_close E rid =
     bindE (get_handle E) (\<lambda>handle.
     bindE (handle_close E handle) (\<lambda>ret.
     send_status E rid (status_of ret)))"

definition READ_MAX :: nat where "READ_MAX = 64 * 1024"

definition process_read :: "('md, 'os) env \<Rightarrow> u32 \<Rightarrow> ('md, 'os, unit) sv" where
  "process_read E rid =
     bindE (get_handle E) (\<lambda>handle.
     bindE (iq sshbuf_get_u64) (\<lambda>off.
     bindE (iq sshbuf_get_u32) (\<lambda>len0.
     let len = (if unat len0 > READ_MAX then READ_MAX else unat len0) in
     bindE (getsE (\<lambda>s. handle_to_fd handle (ht s))) (\<lambda>fd.
     bindE (if fd \<ge> 0 then
              bindE (call (sys_lseek E fd off)) (\<lambda>r.
              case r of Inl e \<Rightarrow> returnE (errno_to_portable e)
              | Inr _ \<Rightarrow>
                  bindE (call (sys_read E fd len)) (\<lambda>ret.
                  case ret of Inl e \<Rightarrow> returnE (errno_to_portable e)
                  | Inr data \<Rightarrow>
                      if data = [] then returnE SSH2_FX_EOF
                      else
                        bindE (send_data E rid data) (\<lambda>_.
                        bindE (modify_ht (handle_update_read handle (int (length data)))) (\<lambda>_.
                        returnE SSH2_FX_OK))))
            else returnE SSH2_FX_FAILURE) (\<lambda>status.
     if status \<noteq> SSH2_FX_OK then send_status E rid status else returnE ())))))"

definition process_write :: "('md, 'os) env \<Rightarrow> u32 \<Rightarrow> ('md, 'os, unit) sv" where
  "process_write E rid =
     bindE (get_handle E) (\<lambda>handle.
     bindE (iq sshbuf_get_u64) (\<lambda>off.
     bindE (iq (sshbuf_get_string (e_al E))) (\<lambda>data.
     bindE (getsE ht) (\<lambda>t.
     let fd = handle_to_fd handle t in
     bindE (if fd < 0 then returnE SSH2_FX_FAILURE
            else
              bindE (if handle_to_flags handle t AND O_APPEND = 0 then call (sys_lseek E fd off)
                     else returnE (Inr ())) (\<lambda>r.
              case r of Inl e \<Rightarrow> returnE (errno_to_portable e)
              | Inr _ \<Rightarrow>
                  bindE (call (sys_write E fd data)) (\<lambda>ret.
                  case ret of Inl e \<Rightarrow> returnE (errno_to_portable e)
                  | Inr n \<Rightarrow>
                      if n = length data then
                        bindE (modify_ht (handle_update_write handle (int n))) (\<lambda>_.
                        bindE (modify_ht (handle_update_checksum (e_sha_update E) handle data (int n))) (\<lambda>_.
                        returnE SSH2_FX_OK))
                      else returnE SSH2_FX_FAILURE))) (\<lambda>status.
     send_status E rid status)))))"

definition process_do_stat :: "('md, 'os) env \<Rightarrow> u32 \<Rightarrow> bool \<Rightarrow> ('md, 'os, unit) sv" where
  "process_do_stat E rid do_lstat =
     bindE (get_path E) (\<lambda>name.
     bindE (call (if do_lstat then sys_lstat E name else sys_stat E name)) (\<lambda>r.
     bindE (case r of Inl e \<Rightarrow> returnE (errno_to_portable e)
            | Inr st \<Rightarrow> bindE (send_attrib E rid (stat_to_attrib st)) (\<lambda>_. returnE SSH2_FX_OK)) (\<lambda>status.
     if status \<noteq> SSH2_FX_OK then send_status E rid status else returnE ())))"

definition process_stat :: "('md, 'os) env \<Rightarrow> u32 \<Rightarrow> ('md, 'os, unit) sv" where
  "process_stat E rid = process_do_stat E rid False"

definition process_lstat :: "('md, 'os) env \<Rightarrow> u32 \<Rightarrow> ('md, 'os, unit) sv" where
  "process_lstat E rid = process_do_stat E rid True"

definition process_fstat :: "('md, 'os) env \<Rightarrow> u32 \<Rightarrow> ('md, 'os, unit) sv" where
  "process_fstat E rid =
     bindE (get_handle E) (\<lambda>handle.
     bindE (getsE (\<lambda>s. handle_to_fd handle (ht s))) (\<lambda>fd.
     bindE (if fd \<ge> 0 then
              bindE (call (sys_fstat E fd)) (\<lambda>r.
              case r of Inl e \<Rightarrow> returnE (errno_to_portable e)
              | Inr st \<Rightarrow> bindE (send_attrib E rid (stat_to_attrib st)) (\<lambda>_. returnE SSH2_FX_OK))
            else returnE SSH2_FX_FAILURE) (\<lambda>status.
     if status \<noteq> SSH2_FX_OK then send_status E rid status else returnE ())))"

definition attrib_to_tv :: "Attrib \<Rightarrow> (u32 \<times> u32) \<times> (u32 \<times> u32)" where
  "attrib_to_tv a = ((a_atime a, 0), (a_mtime a, 0))"

text \<open>One of the four optional steps of \<open>setstat\<close>: a failure sets the status, a success
  leaves it.\<close>

definition attempt :: "bool \<Rightarrow> ('os, unit) syscall \<Rightarrow> u32 \<Rightarrow> ('md, 'os, u32) sv" where
  "attempt wanted f status =
     (if wanted
      then bindE (call f) (\<lambda>r. returnE (case r of Inl e \<Rightarrow> errno_to_portable e | Inr _ \<Rightarrow> status))
      else returnE status)"

definition process_setstat :: "('md, 'os) env \<Rightarrow> u32 \<Rightarrow> ('md, 'os, unit) sv" where
  "process_setstat E rid =
     bindE (get_path E) (\<lambda>name.
     bindE (iq (decode_attrib (e_al E))) (\<lambda>a.
     bindE (attempt (a_flags a AND SSH2_FILEXFER_ATTR_SIZE \<noteq> 0)
              (sys_truncate E name (a_size a)) SSH2_FX_OK) (\<lambda>st1.
     bindE (attempt (a_flags a AND SSH2_FILEXFER_ATTR_PERMISSIONS \<noteq> 0)
              (sys_chmod E name (a_perm a AND 0xFFF)) st1) (\<lambda>st2.
     bindE (attempt (a_flags a AND SSH2_FILEXFER_ATTR_ACMODTIME \<noteq> 0)
              (sys_utimes E name (attrib_to_tv a)) st2) (\<lambda>st3.
     bindE (attempt (a_flags a AND SSH2_FILEXFER_ATTR_UIDGID \<noteq> 0)
              (sys_chown E name (a_uid a) (a_gid a)) st3) (\<lambda>status.
     send_status E rid status))))))"

definition process_fsetstat :: "('md, 'os) env \<Rightarrow> u32 \<Rightarrow> ('md, 'os, unit) sv" where
  "process_fsetstat E rid =
     bindE (get_handle E) (\<lambda>handle.
     bindE (iq (decode_attrib (e_al E))) (\<lambda>a.
     bindE (getsE (\<lambda>s. handle_to_fd handle (ht s))) (\<lambda>fd.
     bindE (if fd < 0 then returnE SSH2_FX_FAILURE
            else
              bindE (attempt (a_flags a AND SSH2_FILEXFER_ATTR_SIZE \<noteq> 0)
                       (sys_ftruncate E fd (a_size a)) SSH2_FX_OK) (\<lambda>st1.
              bindE (attempt (a_flags a AND SSH2_FILEXFER_ATTR_PERMISSIONS \<noteq> 0)
                       (sys_fchmod E fd (a_perm a AND 0xFFF)) st1) (\<lambda>st2.
              bindE (attempt (a_flags a AND SSH2_FILEXFER_ATTR_ACMODTIME \<noteq> 0)
                       (sys_futimes E fd (attrib_to_tv a)) st2) (\<lambda>st3.
              attempt (a_flags a AND SSH2_FILEXFER_ATTR_UIDGID \<noteq> 0)
                       (sys_fchown E fd (a_uid a) (a_gid a)) st3)))) (\<lambda>status.
     send_status E rid status))))"

section \<open>Directories\<close>

definition process_opendir :: "('md, 'os) env \<Rightarrow> u32 \<Rightarrow> ('md, 'os, unit) sv" where
  "process_opendir E rid =
     bindE (get_path E) (\<lambda>path.
     bindE (call (sys_opendir E path)) (\<lambda>r.
     bindE (case r of Inl e \<Rightarrow> returnE (errno_to_portable e)
            | Inr dirp \<Rightarrow>
                bindE (new_handle E HANDLE_DIR path 0 0 (Some dirp)) (\<lambda>handle.
                if handle < 0
                then bindE (call (sys_closedir E (Some dirp))) (\<lambda>_. returnE SSH2_FX_FAILURE)
                else bindE (send_handle E rid handle) (\<lambda>_. returnE SSH2_FX_OK))) (\<lambda>status.
     if status \<noteq> SSH2_FX_OK then send_status E rid status else returnE ())))"

definition SLASH :: u8 where "SLASH = 47"

definition entry_path :: "bytes \<Rightarrow> bytes \<Rightarrow> bytes" where
  "entry_path path d_name =
     snprintf PATH_MAX (path @ (if path \<noteq> [SLASH] then [SLASH] else []) @ d_name)"

text \<open>The loop of \<open>process_readdir\<close>: entries that cannot be examined are skipped, and at most
  100 are collected.\<close>

fun readdir_loop ::
  "('md, 'os) env \<Rightarrow> nat \<Rightarrow> bytes \<Rightarrow> nat \<Rightarrow> Stat list \<Rightarrow> ('md, 'os, Stat list) sv" where
  "readdir_loop E dirp path 0 stats = throwE OutOfFuel"
| "readdir_loop E dirp path (Suc n) stats =
     bindE (call (sys_readdir E dirp)) (\<lambda>dp.
     case dp of None \<Rightarrow> returnE stats
     | Some d_name \<Rightarrow>
         bindE (call (sys_lstat E (entry_path path d_name))) (\<lambda>r.
         case r of Inl _ \<Rightarrow> readdir_loop E dirp path n stats
         | Inr st \<Rightarrow>
             bindE (getsE (\<lambda>s. e_ls E (os s))) (\<lambda>le.
             let stats' = stats @ [\<lparr>s_name = d_name, s_long_name = ls_file le d_name st False False,
                                    s_attrib = stat_to_attrib st\<rparr>] in
             if length stats' = 100 then returnE stats'
             else readdir_loop E dirp path n stats')))"

definition process_readdir :: "('md, 'os) env \<Rightarrow> u32 \<Rightarrow> ('md, 'os, unit) sv" where
  "process_readdir E rid =
     bindE (get_handle E) (\<lambda>handle.
     bindE (getsE ht) (\<lambda>t.
     case (handle_to_dir handle t, handle_to_name handle t) of
       (Some dirp, Some path) \<Rightarrow>
         bindE (readdir_loop E dirp path (e_fuel E) []) (\<lambda>stats.
         if stats \<noteq> [] then send_names E rid stats else send_status E rid SSH2_FX_EOF)
     | _ \<Rightarrow> send_status E rid SSH2_FX_FAILURE))"

section \<open>Names\<close>

definition process_remove :: "('md, 'os) env \<Rightarrow> u32 \<Rightarrow> ('md, 'os, unit) sv" where
  "process_remove E rid =
     bindE (get_path E) (\<lambda>name.
     bindE (call (sys_unlink E name)) (\<lambda>r.
     let status = status_of r in
     bindE (send_status E rid status) (\<lambda>_.
     bindE (getsE pw_name) (\<lambda>pwname.
     if status = SSH2_FX_OK
     then mqrun (bindE (mq_send_remove (e_amqp E) (e_json E) pwname name) (\<lambda>_. returnE ()))
     else returnE ()))))"

definition process_mkdir :: "('md, 'os) env \<Rightarrow> u32 \<Rightarrow> ('md, 'os, unit) sv" where
  "process_mkdir E rid =
     bindE (get_path E) (\<lambda>name.
     bindE (iq (decode_attrib (e_al E))) (\<lambda>a.
     let mode = (if a_flags a AND SSH2_FILEXFER_ATTR_PERMISSIONS \<noteq> 0 then a_perm a AND 0xFFF
                 else 0x1FF) in
     bindE (call (sys_mkdir E name mode)) (\<lambda>r.
     send_status E rid (status_of r))))"

definition process_rmdir :: "('md, 'os) env \<Rightarrow> u32 \<Rightarrow> ('md, 'os, unit) sv" where
  "process_rmdir E rid =
     bindE (get_path E) (\<lambda>name.
     bindE (call (sys_rmdir E name)) (\<lambda>r.
     send_status E rid (status_of r)))"

definition process_realpath :: "('md, 'os) env \<Rightarrow> u32 \<Rightarrow> ('md, 'os, unit) sv" where
  "process_realpath E rid =
     bindE (get_path E) (\<lambda>path0.
     let path = (if path0 = [] then lit ''.'' else path0) in
     bindE (call (sys_realpath E path)) (\<lambda>r.
     case r of Inl e \<Rightarrow> send_status E rid (errno_to_portable e)
     | Inr resolvedname \<Rightarrow>
         send_names E rid
           [\<lparr>s_name = resolvedname, s_long_name = resolvedname, s_attrib = attrib_clear\<rparr>]))"

text \<open>The errors of \<open>link\<close> that mean that the file system has no hard links; \<open>EPERM\<close> is the
  configured \<open>LINK_OPNOTSUPP_ERRNO\<close>.\<close>

definition link_unsupported :: "int \<Rightarrow> bool" where
  "link_unsupported e \<longleftrightarrow> e \<in> {EOPNOTSUPP, ENOSYS, EXDEV, EPERM}"

text \<open>\<open>stat(newpath) == -1\<close>, then \<open>rename\<close>; the status stays a failure where the target exists.\<close>

definition rename_if_absent :: "('md, 'os) env \<Rightarrow> bytes \<Rightarrow> bytes \<Rightarrow> ('md, 'os, u32) sv" where
  "rename_if_absent E oldpath newpath =
     bindE (call (sys_stat E newpath)) (\<lambda>r.
     case r of Inr _ \<Rightarrow> returnE SSH2_FX_FAILURE
     | Inl _ \<Rightarrow> bindE (call (sys_rename E oldpath newpath)) (\<lambda>r. returnE (status_of r)))"

definition do_rename :: "('md, 'os) env \<Rightarrow> bytes \<Rightarrow> bytes \<Rightarrow> ('md, 'os, u32) sv" where
  "do_rename E oldpath newpath =
     bindE (call (sys_lstat E oldpath)) (\<lambda>r.
     case r of Inl e \<Rightarrow> returnE (errno_to_portable e)
     | Inr sb \<Rightarrow>
         if S_ISREG (st_mode sb) then
           bindE (call (sys_link E oldpath newpath)) (\<lambda>r.
           case r of
             Inl e \<Rightarrow> if link_unsupported e then rename_if_absent E oldpath newpath
                      else returnE (errno_to_portable e)
           | Inr _ \<Rightarrow>
               bindE (call (sys_unlink E oldpath)) (\<lambda>r.
               case r of
                 Inl e \<Rightarrow> bindE (call (sys_unlink E newpath)) (\<lambda>_. returnE (errno_to_portable e))
               | Inr _ \<Rightarrow> returnE SSH2_FX_OK))
         else rename_if_absent E oldpath newpath)"

definition process_rename :: "('md, 'os) env \<Rightarrow> u32 \<Rightarrow> ('md, 'os, unit) sv" where
  "process_rename E rid =
     bindE (get_path E) (\<lambda>oldpath.
     bindE (get_path E) (\<lambda>newpath.
     bindE (do_rename E oldpath newpath) (\<lambda>status.
     bindE (send_status E rid status) (\<lambda>_.
     bindE (getsE pw_name) (\<lambda>pwname.
     if status = SSH2_FX_OK
     then mqrun (bindE (mq_send_rename (e_amqp E) (e_json E) pwname oldpath newpath) (\<lambda>_. returnE ()))
     else returnE ())))))"

definition process_readlink :: "('md, 'os) env \<Rightarrow> u32 \<Rightarrow> ('md, 'os, unit) sv" where
  "process_readlink E rid =
     bindE (get_path E) (\<lambda>path.
     bindE (call (sys_readlink E path (PATH_MAX - 1))) (\<lambda>r.
     case r of Inl e \<Rightarrow> send_status E rid (errno_to_portable e)
     | Inr buf \<Rightarrow>
         send_names E rid [\<lparr>s_name = buf, s_long_name = buf, s_attrib = attrib_clear\<rparr>]))"

definition process_symlink :: "('md, 'os) env \<Rightarrow> u32 \<Rightarrow> ('md, 'os, unit) sv" where
  "process_symlink E rid =
     bindE (get_path E) (\<lambda>oldpath.
     bindE (get_path E) (\<lambda>newpath.
     bindE (call (sys_symlink E oldpath newpath)) (\<lambda>r.
     send_status E rid (status_of r))))"

section \<open>Extended requests\<close>

definition process_extended_posix_rename :: "('md, 'os) env \<Rightarrow> u32 \<Rightarrow> ('md, 'os, unit) sv" where
  "process_extended_posix_rename E rid =
     bindE (get_path E) (\<lambda>oldpath.
     bindE (get_path E) (\<lambda>newpath.
     bindE (call (sys_rename E oldpath newpath)) (\<lambda>r.
     let status = status_of r in
     bindE (send_status E rid status) (\<lambda>_.
     bindE (getsE pw_name) (\<lambda>pwname.
     if status = SSH2_FX_OK
     then mqrun (bindE (mq_send_rename (e_amqp E) (e_json E) pwname oldpath newpath) (\<lambda>_. returnE ()))
     else returnE ())))))"

definition process_extended_statvfs :: "('md, 'os) env \<Rightarrow> u32 \<Rightarrow> ('md, 'os, unit) sv" where
  "process_extended_statvfs E rid =
     bindE (get_path E) (\<lambda>path.
     bindE (call (sys_statvfs E path)) (\<lambda>r.
     case r of Inl e \<Rightarrow> send_status E rid (errno_to_portable e)
     | Inr st \<Rightarrow> send_statvfs E rid st))"

definition process_extended_fstatvfs :: "('md, 'os) env \<Rightarrow> u32 \<Rightarrow> ('md, 'os, unit) sv" where
  "process_extended_fstatvfs E rid =
     bindE (get_handle E) (\<lambda>handle.
     bindE (getsE (\<lambda>s. handle_to_fd handle (ht s))) (\<lambda>fd.
     if fd < 0 then send_status E rid SSH2_FX_FAILURE
     else
       bindE (call (sys_fstatvfs E fd)) (\<lambda>r.
       case r of Inl e \<Rightarrow> send_status E rid (errno_to_portable e)
       | Inr st \<Rightarrow> send_statvfs E rid st)))"

definition process_extended_hardlink :: "('md, 'os) env \<Rightarrow> u32 \<Rightarrow> ('md, 'os, unit) sv" where
  "process_extended_hardlink E rid =
     bindE (get_path E) (\<lambda>oldpath.
     bindE (get_path E) (\<lambda>newpath.
     bindE (call (sys_link E oldpath newpath)) (\<lambda>r.
     send_status E rid (status_of r))))"

definition process_extended_fsync :: "('md, 'os) env \<Rightarrow> u32 \<Rightarrow> ('md, 'os, unit) sv" where
  "process_extended_fsync E rid =
     bindE (get_handle E) (\<lambda>handle.
     bindE (getsE ht) (\<lambda>t.
     let fd = handle_to_fd handle t in
     bindE (if fd < 0 then returnE SSH2_FX_NO_SUCH_FILE
            else if handle_is_ok handle HANDLE_FILE t
            then bindE (call (sys_fsync E fd)) (\<lambda>r. returnE (status_of r))
            else returnE SSH2_FX_OP_UNSUPPORTED) (\<lambda>status.
     send_status E rid status)))"

section \<open>Dispatch\<close>

record ('md, 'os) sftp_handler =
  sh_name :: string
  sh_ext_name :: string
  sh_type :: u8
  sh_handler :: "u32 \<Rightarrow> ('md, 'os, unit) sv"
  sh_does_write :: bool

definition handler ::
  "string \<Rightarrow> u8 \<Rightarrow> (u32 \<Rightarrow> ('md, 'os, unit) sv) \<Rightarrow> bool \<Rightarrow> ('md, 'os) sftp_handler" where
  "handler name type f does_write =
     \<lparr>sh_name = name, sh_ext_name = [], sh_type = type, sh_handler = f, sh_does_write = does_write\<rparr>"

definition handlers_table :: "('md, 'os) env \<Rightarrow> ('md, 'os) sftp_handler list" where
  "handlers_table E =
     [handler ''open'' SSH2_FXP_OPEN (process_open E) False,
      handler ''close'' SSH2_FXP_CLOSE (process_close E) False,
      handler ''read'' SSH2_FXP_READ (process_read E) False,
      handler ''write'' SSH2_FXP_WRITE (process_write E) True,
      handler ''lstat'' SSH2_FXP_LSTAT (process_lstat E) False,
      handler ''fstat'' SSH2_FXP_FSTAT (process_fstat E) False,
      handler ''setstat'' SSH2_FXP_SETSTAT (process_setstat E) True,
      handler ''fsetstat'' SSH2_FXP_FSETSTAT (process_fsetstat E) True,
      handler ''opendir'' SSH2_FXP_OPENDIR (process_opendir E) False,
      handler ''readdir'' SSH2_FXP_READDIR (process_readdir E) False,
      handler ''remove'' SSH2_FXP_REMOVE (process_remove E) True,
      handler ''mkdir'' SSH2_FXP_MKDIR (process_mkdir E) True,
      handler ''rmdir'' SSH2_FXP_RMDIR (process_rmdir E) True,
      handler ''realpath'' SSH2_FXP_REALPATH (process_realpath E) False,
      handler ''stat'' SSH2_FXP_STAT (process_stat E) False,
      handler ''rename'' SSH2_FXP_RENAME (process_rename E) True,
      handler ''readlink'' SSH2_FXP_READLINK (process_readlink E) False,
      handler ''symlink'' SSH2_FXP_SYMLINK (process_symlink E) True]"

definition ext_handler ::
  "string \<Rightarrow> string \<Rightarrow> (u32 \<Rightarrow> ('md, 'os, unit) sv) \<Rightarrow> bool \<Rightarrow> ('md, 'os) sftp_handler" where
  "ext_handler name ext_name f does_write =
     \<lparr>sh_name = name, sh_ext_name = ext_name, sh_type = 0, sh_handler = f, sh_does_write = does_write\<rparr>"

definition extended_handlers :: "('md, 'os) env \<Rightarrow> ('md, 'os) sftp_handler list" where
  "extended_handlers E =
     [ext_handler ''posix-rename'' ''posix-rename@openssh.com'' (process_extended_posix_rename E) True,
      ext_handler ''statvfs'' ''statvfs@openssh.com'' (process_extended_statvfs E) False,
      ext_handler ''fstatvfs'' ''fstatvfs@openssh.com'' (process_extended_fstatvfs E) False,
      ext_handler ''hardlink'' ''hardlink@openssh.com'' (process_extended_hardlink E) True,
      ext_handler ''fsync'' ''fsync@openssh.com'' (process_extended_fsync E) True]"

definition request_permitted :: "('md, 'os) sftp_handler \<Rightarrow> ('md, 'os) srv \<Rightarrow> bool" where
  "request_permitted h s =
     (let listed = (\<lambda>l. case l of None \<Rightarrow> False | Some l \<Rightarrow> fst (match_list (lit (sh_name h)) l) \<noteq> None)
      in if readonly s \<and> sh_does_write h then False
         else if listed (request_blacklist s) then False
         else if listed (request_whitelist s) then True
         else if request_whitelist s \<noteq> None then False
         else True)"

text \<open>The body of both dispatch loops, once a handler is found.\<close>

definition run_handler :: "('md, 'os) env \<Rightarrow> ('md, 'os) sftp_handler \<Rightarrow> u32 \<Rightarrow> ('md, 'os, unit) sv" where
  "run_handler E h rid =
     bindE (getsE (request_permitted h)) (\<lambda>ok.
     if \<not> ok then send_status E rid SSH2_FX_PERMISSION_DENIED else sh_handler h rid)"

definition process_extended :: "('md, 'os) env \<Rightarrow> u32 \<Rightarrow> ('md, 'os, unit) sv" where
  "process_extended E rid =
     bindE (get_path E) (\<lambda>request.
     case List.find (\<lambda>h. request = lit (sh_ext_name h)) (extended_handlers E) of
       Some h \<Rightarrow> run_handler E h rid
     | None \<Rightarrow> send_status E rid SSH2_FX_OP_UNSUPPORTED)"

definition dispatch :: "('md, 'os) env \<Rightarrow> u8 \<Rightarrow> ('md, 'os, unit) sv" where
  "dispatch E type =
     (if type = SSH2_FXP_INIT then
        bindE (process_init E) (\<lambda>_. modifyE (\<lambda>s. s\<lparr>init_done := True\<rparr>))
      else
        bindE (getsE init_done) (\<lambda>inited.
        if \<not> inited then fatal
        else
          bindE (iq sshbuf_get_u32) (\<lambda>rid.
          if type = SSH2_FXP_EXTENDED then process_extended E rid
          else
            case List.find (\<lambda>h. type = sh_type h) (handlers_table E) of
              Some h \<Rightarrow> run_handler E h rid
            | None \<Rightarrow> returnE ())))"

text \<open>The end of \<open>process\<close>: what the handler left of the packet is discarded.\<close>

definition discard_rest :: "('md, 'os) env \<Rightarrow> nat \<Rightarrow> nat \<Rightarrow> ('md, 'os, unit) sv" where
  "discard_rest E buf_len msg_len =
     bindE (getsE (\<lambda>s. sshbuf_len (iqueue s))) (\<lambda>left.
     if buf_len < left then sftp_server_cleanup_exit E 255
     else
       let consumed = buf_len - left in
       if msg_len < consumed then sftp_server_cleanup_exit E 255
       else if msg_len > consumed then iq (sshbuf_consume (msg_len - consumed))
       else returnE ())"

definition process :: "('md, 'os) env \<Rightarrow> ('md, 'os, unit) sv" where
  "process E =
     bindE (getsE iqueue) (\<lambda>q.
     let buf_len = sshbuf_len q; msg_len = unat (get_u32 (sshbuf_ptr q)) in
     if buf_len < 5 then returnE ()
     else if msg_len > SFTP_MAX_MSG_LENGTH then sftp_server_cleanup_exit E 11
     else if buf_len < msg_len + 4 then returnE ()
     else
       bindE (iq (sshbuf_consume 4)) (\<lambda>_.
       bindE (iq sshbuf_get_u8) (\<lambda>type.
       bindE (dispatch E type) (\<lambda>_.
       discard_rest E (buf_len - 4) msg_len))))"

section \<open>Main loop\<close>

definition IOBUF :: nat where "IOBUF = 4 * 4096"

definition STDIN_FILENO :: int where "STDIN_FILENO = 0"
definition STDOUT_FILENO :: int where "STDOUT_FILENO = 1"

definition oq_consume :: "nat \<Rightarrow> ('md, 'os, unit) sv" where
  "oq_consume n s =
     (case sshbuf_consume n (oqueue s) of (Inl _, b) \<Rightarrow> (Inl Fatal, s\<lparr>oqueue := b\<rparr>)
      | (Inr _, b) \<Rightarrow> (Inr (), s\<lparr>oqueue := b\<rparr>))"

text \<open>Whether both queues have room for another packet and its answer.\<close>

definition want_input :: "('md, 'os, bool) sv" where
  "want_input s =
     (case fst (sshbuf_check_reserve IOBUF (iqueue s)) of
        Inl e \<Rightarrow> if e = SSH_ERR_NO_BUFFER_SPACE then (Inr False, s) else (Inl Fatal, s)
      | Inr _ \<Rightarrow>
          (case fst (sshbuf_check_reserve SFTP_MAX_MSG_LENGTH (oqueue s)) of
             Inl e \<Rightarrow> if e = SSH_ERR_NO_BUFFER_SPACE then (Inr False, s) else (Inl Fatal, s)
           | Inr _ \<Rightarrow> (Inr True, s)))"

definition read_input :: "('md, 'os) env \<Rightarrow> ('md, 'os, unit) sv" where
  "read_input E =
     bindE (call (sys_read E STDIN_FILENO IOBUF)) (\<lambda>r.
     case r of Inl _ \<Rightarrow> sftp_server_cleanup_exit E 1
     | Inr data \<Rightarrow> if data = [] then sftp_server_cleanup_exit E 0 else iq (sshbuf_put (e_al E) data))"

definition write_output :: "('md, 'os) env \<Rightarrow> ('md, 'os, unit) sv" where
  "write_output E =
     bindE (getsE (\<lambda>s. sshbuf_ptr (oqueue s))) (\<lambda>out.
     bindE (call (sys_write E STDOUT_FILENO out)) (\<lambda>r.
     case r of Inl _ \<Rightarrow> sftp_server_cleanup_exit E 1 | Inr n \<Rightarrow> oq_consume n))"

definition try_process :: "('md, 'os) env \<Rightarrow> ('md, 'os, unit) sv" where
  "try_process E =
     bindE (getsE (\<lambda>s. fst (sshbuf_check_reserve SFTP_MAX_MSG_LENGTH (oqueue s)))) (\<lambda>r.
     case r of Inr _ \<Rightarrow> process E
     | Inl e \<Rightarrow> if e = SSH_ERR_NO_BUFFER_SPACE then returnE () else fatal)"

text \<open>One round of the loop of \<open>sftp_server_main\<close>; \<open>select\<close> is asked which of standard input
  and output are ready.\<close>

definition main_round :: "('md, 'os) env \<Rightarrow> ('md, 'os, unit) sv" where
  "main_round E =
     bindE want_input (\<lambda>rd.
     bindE (getsE (\<lambda>s. sshbuf_len (oqueue s) > 0)) (\<lambda>wr.
     bindE (call (sys_select E rd wr)) (\<lambda>r.
     case r of
       Inl e \<Rightarrow> if e = EINTR then returnE () else sftp_server_cleanup_exit E 2
     | Inr (can_read, can_write) \<Rightarrow>
         bindE (if can_read then read_input E else returnE ()) (\<lambda>_.
         bindE (if can_write then write_output E else returnE ()) (\<lambda>_.
         try_process E)))))"

primrec main_loop :: "('md, 'os) env \<Rightarrow> nat \<Rightarrow> ('md, 'os, unit) sv" where
  "main_loop E 0 = returnE ()"
| "main_loop E (Suc n) = bindE (main_round E) (\<lambda>_. main_loop E n)"

end
