(* ===== verification/Sftp_Evolution.thy ===== *)
theory Sftp_Evolution
  imports Sftp_Server Evolution
begin

text \<open>
  One walk over all request handlers. The locale \<open>server_core\<close> collects what is to be
  known about the primitive steps of the server (reading the request, system calls, replies,
  the handle table, notifications) for an invariant and a preorder; the lemmas in it lift that
  to every handler but those that open and write files. With these two,
  \<open>server_handlers\<close> goes on to \<open>process\<close> and \<open>main_handlers\<close> to the main loop.
  \<open>server_evolution\<close> is the case where opening and writing, too, keep the invariant at every
  step. Each later invariant of the server is an interpretation.
\<close>

text \<open>Open flags that let the file or the file system be changed.\<close>

definition opens_for_writing :: "u32 \<Rightarrow> bool" where
  "opens_for_writing flags \<longleftrightarrow>
     flags AND O_ACCMODE \<noteq> O_RDONLY \<or> flags AND (O_CREAT OR O_TRUNC) \<noteq> 0"

text \<open>
  \<open>ro\<close> is the mode of the server. Steps that change the file system need to be safe only
  outside read-only mode.
\<close>

locale server_core = evolution I R
  for I :: "('md, 'os) srv \<Rightarrow> bool" and R :: "('md, 'os) srv \<Rightarrow> ('md, 'os) srv \<Rightarrow> bool" +
  fixes E :: "('md, 'os) env" and ro :: bool
  assumes I_ro: "I s \<Longrightarrow> readonly s = ro"
    and ev_u8: "evolves I R (iq sshbuf_get_u8)"
    and ev_u32: "evolves I R (iq sshbuf_get_u32)"
    and ev_u64: "evolves I R (iq sshbuf_get_u64)"
    and ev_string: "evolves I R (iq (sshbuf_get_string (e_al E)))"
    and ev_cstring: "evolves I R (iq (sshbuf_get_cstring (e_al E)))"
    and ev_attrib: "evolves I R (iq (decode_attrib (e_al E)))"
    and ev_consume: "evolves I R (iq (sshbuf_consume n))"
    and ev_with_msg: "evolves I R (with_msg E puts)"
    and ev_version: "evolves I R (modifyE (\<lambda>s. s\<lparr>version := ver\<rparr>) :: ('md, 'os, unit) sv)"
    and ev_init_done: "evolves I R (modifyE (\<lambda>s. s\<lparr>init_done := True\<rparr>) :: ('md, 'os, unit) sv)"
    and ev_new_dir: "evolves I R (new_handle E HANDLE_DIR path 0 0 dirp)"
    and ev_update_read: "evolves I R (modify_ht (handle_update_read i k))"
    and ev_handle_close: "evolves I R (handle_close E i)"
    and ev_mq_remove: "\<not> ro \<Longrightarrow>
      evolves I R (mqrun (bindE (mq_send_remove (e_amqp E) (e_json E) user path) (\<lambda>_. returnE ())))"
    and ev_mq_rename: "\<not> ro \<Longrightarrow>
      evolves I R (mqrun (bindE (mq_send_rename (e_amqp E) (e_json E) user path path') (\<lambda>_. returnE ())))"
    and ev_mq_clean: "evolves I R (mqrun (clean_mq_config (e_amqp E)))"
    and ev_lseek: "evolves I R (call (sys_lseek E fd off))"
    and ev_read: "evolves I R (call (sys_read E fd len))"
    and ev_stdout: "evolves I R (call (sys_write E STDOUT_FILENO d))"
    and ev_stat: "evolves I R (call (sys_stat E path))"
    and ev_lstat: "evolves I R (call (sys_lstat E path))"
    and ev_fstat: "evolves I R (call (sys_fstat E fd))"
    and ev_truncate: "\<not> ro \<Longrightarrow> evolves I R (call (sys_truncate E path off))"
    and ev_ftruncate: "\<not> ro \<Longrightarrow> evolves I R (call (sys_ftruncate E fd off))"
    and ev_chmod: "\<not> ro \<Longrightarrow> evolves I R (call (sys_chmod E path mode))"
    and ev_fchmod: "\<not> ro \<Longrightarrow> evolves I R (call (sys_fchmod E fd mode))"
    and ev_utimes: "\<not> ro \<Longrightarrow> evolves I R (call (sys_utimes E path tv))"
    and ev_futimes: "\<not> ro \<Longrightarrow> evolves I R (call (sys_futimes E fd tv))"
    and ev_chown: "\<not> ro \<Longrightarrow> evolves I R (call (sys_chown E path uid gid))"
    and ev_fchown: "\<not> ro \<Longrightarrow> evolves I R (call (sys_fchown E fd uid gid))"
    and ev_opendir: "evolves I R (call (sys_opendir E path))"
    and ev_closedir: "evolves I R (call (sys_closedir E dirp))"
    and ev_readdir: "evolves I R (call (sys_readdir E dir))"
    and ev_unlink: "\<not> ro \<Longrightarrow> evolves I R (call (sys_unlink E path))"
    and ev_mkdir: "\<not> ro \<Longrightarrow> evolves I R (call (sys_mkdir E path mode))"
    and ev_rmdir: "\<not> ro \<Longrightarrow> evolves I R (call (sys_rmdir E path))"
    and ev_realpath: "evolves I R (call (sys_realpath E path))"
    and ev_rename: "\<not> ro \<Longrightarrow> evolves I R (call (sys_rename E path path'))"
    and ev_link: "\<not> ro \<Longrightarrow> evolves I R (call (sys_link E path path'))"
    and ev_readlink: "evolves I R (call (sys_readlink E path len))"
    and ev_symlink: "\<not> ro \<Longrightarrow> evolves I R (call (sys_symlink E path path'))"
    and ev_statvfs: "evolves I R (call (sys_statvfs E path))"
    and ev_fstatvfs: "evolves I R (call (sys_fstatvfs E fd))"
    and ev_fsync: "\<not> ro \<Longrightarrow> evolves I R (call (sys_fsync E fd))"
begin

lemmas ev_calls = ev_lseek ev_read ev_stat ev_lstat ev_fstat ev_opendir ev_closedir
  ev_readdir ev_realpath ev_readlink ev_statvfs ev_fstatvfs

lemmas ev_write_calls = ev_truncate ev_ftruncate ev_chmod ev_fchmod ev_utimes ev_futimes
  ev_chown ev_fchown ev_unlink ev_mkdir ev_rmdir ev_rename ev_link ev_symlink ev_fsync

lemmas ev_ht = ev_new_dir ev_update_read ev_handle_close

lemmas ev_iq = ev_u8 ev_u32 ev_u64 ev_string ev_cstring ev_attrib ev_consume

lemma ev_fatal: "evolves I R fatal"
  unfolding fatal_def by (rule ev_throw)

lemma ev_cleanup_exit: "evolves I R (sftp_server_cleanup_exit E i)"
  unfolding sftp_server_cleanup_exit_def by (intro ev_rules ev_mq_clean)

lemma ev_get_path: "evolves I R (get_path E)"
  unfolding get_path_def by (intro ev_rules ev_iq)

lemma ev_get_handle: "evolves I R (get_handle E)"
  unfolding get_handle_def by (intro ev_rules ev_iq)

lemma ev_send_status: "evolves I R (send_status E rid st)"
  unfolding send_status_def by (intro ev_rules ev_with_msg)

lemma ev_sends:
  "evolves I R (send_handle E rid i)" "evolves I R (send_data E rid d)"
  "evolves I R (send_attrib E rid a)" "evolves I R (send_names E rid stats)"
  "evolves I R (send_statvfs E rid vfs)"
  unfolding send_handle_def send_data_def send_data_or_handle_def send_attrib_def send_names_def
    send_statvfs_def
  by (rule ev_with_msg)+

lemma ev_attempt: "evolves I R (call f) \<Longrightarrow> evolves I R (attempt b f st)"
  unfolding attempt_def by (intro ev_rules)

lemmas ev_steps = ev_rules ev_calls ev_ht ev_iq ev_fatal ev_cleanup_exit ev_get_path ev_get_handle
  ev_send_status ev_sends ev_attempt

lemma ev_process_init: "evolves I R (process_init E)"
  unfolding process_init_def by (intro ev_steps ev_version ev_with_msg)

lemma ev_process_close: "evolves I R (process_close E rid)"
  unfolding process_close_def by (intro ev_steps)

lemma ev_process_read: "evolves I R (process_read E rid)"
  unfolding process_read_def by (intro ev_steps)

lemma ev_process_stat: "evolves I R (process_stat E rid)" "evolves I R (process_lstat E rid)"
  unfolding process_stat_def process_lstat_def process_do_stat_def
  by (intro ev_steps; simp only: if_True if_False; intro ev_steps)+

lemma ev_process_fstat: "evolves I R (process_fstat E rid)"
  unfolding process_fstat_def by (intro ev_steps)

lemma ev_process_opendir: "evolves I R (process_opendir E rid)"
  unfolding process_opendir_def by (intro ev_steps)

lemma ev_readdir_loop: "evolves I R (readdir_loop E dirp path n stats)"
  by (induction n arbitrary: stats) (auto intro!: ev_steps simp del: split_paired_All)

lemma ev_process_readdir: "evolves I R (process_readdir E rid)"
  unfolding process_readdir_def by (intro ev_steps ev_readdir_loop)

lemma ev_process_realpath: "evolves I R (process_realpath E rid)"
  unfolding process_realpath_def by (intro ev_steps)

lemma ev_process_readlink: "evolves I R (process_readlink E rid)"
  unfolding process_readlink_def by (intro ev_steps)

lemma ev_process_extended_statvfs: "evolves I R (process_extended_statvfs E rid)"
  unfolding process_extended_statvfs_def by (intro ev_steps)

lemma ev_process_extended_fstatvfs: "evolves I R (process_extended_fstatvfs E rid)"
  unfolding process_extended_fstatvfs_def by (intro ev_steps)

lemmas ev_core_readers = ev_process_close ev_process_read ev_process_stat ev_process_fstat
  ev_process_opendir ev_process_readdir ev_process_realpath ev_process_readlink
  ev_process_extended_statvfs ev_process_extended_fstatvfs

text \<open>The handlers with \<open>does_write\<close>.\<close>

lemma ev_process_setstat: "\<not> ro \<Longrightarrow> evolves I R (process_setstat E rid)"
  unfolding process_setstat_def by (intro ev_steps ev_write_calls)

lemma ev_process_fsetstat: "\<not> ro \<Longrightarrow> evolves I R (process_fsetstat E rid)"
  unfolding process_fsetstat_def by (intro ev_steps ev_write_calls)

lemma ev_process_remove: "\<not> ro \<Longrightarrow> evolves I R (process_remove E rid)"
  unfolding process_remove_def by (intro ev_steps ev_write_calls ev_mq_remove)

lemma ev_process_mkdir: "\<not> ro \<Longrightarrow> evolves I R (process_mkdir E rid)"
  unfolding process_mkdir_def by (intro ev_steps ev_write_calls)

lemma ev_process_rmdir: "\<not> ro \<Longrightarrow> evolves I R (process_rmdir E rid)"
  unfolding process_rmdir_def by (intro ev_steps ev_write_calls)

lemma ev_process_rename: "\<not> ro \<Longrightarrow> evolves I R (process_rename E rid)"
  unfolding process_rename_def do_rename_def rename_if_absent_def
  by (intro ev_steps ev_write_calls ev_mq_rename)

lemma ev_process_symlink: "\<not> ro \<Longrightarrow> evolves I R (process_symlink E rid)"
  unfolding process_symlink_def by (intro ev_steps ev_write_calls)

lemma ev_process_extended_posix_rename: "\<not> ro \<Longrightarrow> evolves I R (process_extended_posix_rename E rid)"
  unfolding process_extended_posix_rename_def by (intro ev_steps ev_write_calls ev_mq_rename)

lemma ev_process_extended_hardlink: "\<not> ro \<Longrightarrow> evolves I R (process_extended_hardlink E rid)"
  unfolding process_extended_hardlink_def by (intro ev_steps ev_write_calls)

lemma ev_process_extended_fsync: "\<not> ro \<Longrightarrow> evolves I R (process_extended_fsync E rid)"
  unfolding process_extended_fsync_def by (intro ev_steps ev_write_calls)

lemmas ev_core_writers = ev_process_setstat ev_process_fsetstat ev_process_remove
  ev_process_mkdir ev_process_rmdir ev_process_rename ev_process_symlink
  ev_process_extended_posix_rename ev_process_extended_hardlink ev_process_extended_fsync

text \<open>Dispatch: a handler that writes is not reached in read-only mode.\<close>

lemma ev_run_handler:
  assumes "\<not> sh_does_write h \<or> \<not> ro \<Longrightarrow> evolves I R (sh_handler h rid)"
  shows "evolves I R (run_handler E h rid)"
proof (rule evolvesI)
  fix s assume s: "I s"
  show "I (snd (run_handler E h rid s)) \<and> R s (snd (run_handler E h rid s))"
  proof (cases "request_permitted h s")
    case True
    then have "\<not> sh_does_write h \<or> \<not> ro"
      using I_ro [OF s] by (auto simp: request_permitted_def Let_def split: if_splits)
    then show ?thesis
      using assms s True by (simp add: run_handler_def evolves_def)
  next
    case False
    then show ?thesis
      using ev_send_status s by (simp add: run_handler_def evolves_def)
  qed
qed

lemma ev_discard_rest: "evolves I R (discard_rest E n k)"
  unfolding discard_rest_def by (intro ev_steps)

end

locale server_handlers = server_core +
  assumes ev_process_open: "evolves I R (process_open E rid)"
    and ev_process_write: "\<not> ro \<Longrightarrow> evolves I R (process_write E rid)"
begin

lemmas ev_readers = ev_process_open ev_core_readers

lemmas ev_writers = ev_process_write ev_core_writers

lemma ev_extended_handlers:
  "h \<in> set (extended_handlers E) \<Longrightarrow> \<not> sh_does_write h \<or> \<not> ro \<Longrightarrow> evolves I R (sh_handler h rid)"
  by (auto simp: extended_handlers_def ext_handler_def intro: ev_readers ev_writers)

lemma ev_handlers:
  "h \<in> set (handlers_table E) \<Longrightarrow> \<not> sh_does_write h \<or> \<not> ro \<Longrightarrow> evolves I R (sh_handler h rid)"
  by (auto simp: handlers_table_def handler_def intro: ev_readers ev_writers)

lemma ev_process_extended: "evolves I R (process_extended E rid)"
  unfolding process_extended_def
  by (intro ev_steps ev_run_handler ev_extended_handlers) (auto simp: find_Some_iff)

lemma ev_dispatch: "evolves I R (dispatch E type)"
  unfolding dispatch_def
  by (intro ev_steps ev_process_init ev_init_done ev_process_extended ev_run_handler ev_handlers)
    (auto simp: find_Some_iff)

lemma ev_process: "evolves I R (process E)"
  unfolding process_def by (intro ev_steps ev_dispatch ev_discard_rest)

end

text \<open>The main loop, which in addition fills the input queue and empties the output queue.\<close>

locale main_handlers = server_handlers +
  assumes ev_put: "evolves I R (iq (sshbuf_put (e_al E) v))"
    and ev_oq_consume: "evolves I R (oq_consume n)"
    and ev_select: "evolves I R (call (sys_select E rd wr))"
begin

lemma ev_want_input: "evolves I R want_input"
  by (auto simp: evolves_def want_input_def R_refl split: sum.splits)

lemma ev_read_input: "evolves I R (read_input E)"
  unfolding read_input_def by (intro ev_steps ev_put)

lemma ev_write_output: "evolves I R (write_output E)"
  unfolding write_output_def by (intro ev_steps ev_stdout ev_oq_consume)

lemma ev_try_process: "evolves I R (try_process E)"
  unfolding try_process_def by (intro ev_steps ev_process)

lemma ev_main_round: "evolves I R (main_round E)"
  unfolding main_round_def
  by (intro ev_steps ev_select ev_want_input ev_read_input ev_write_output ev_try_process)

lemma ev_main_loop: "evolves I R (main_loop E n)"
  by (induction n) (simp_all only: main_loop.simps ev_return ev_bind ev_main_round)

end

text \<open>Opening and writing, step by step.\<close>

locale server_evolution = server_core +
  assumes ev_new_handle: "use \<noteq> HANDLE_UNUSED \<Longrightarrow> evolves I R (new_handle E use name fd flags dirp)"
    and ev_set_md: "evolves I R (modify_ht (upd_handle i (\<lambda>h. h\<lparr>h_md := e_sha_init E\<rparr>)))"
    and ev_update_write: "\<not> ro \<Longrightarrow> evolves I R (modify_ht (handle_update_write i k))"
    and ev_update_checksum: "\<not> ro \<Longrightarrow>
      evolves I R (modify_ht (handle_update_checksum (e_sha_update E) i d k))"
    and ev_open: "\<not> (ro \<and> opens_for_writing flags) \<Longrightarrow> evolves I R (call (sys_open E path flags mode))"
    and ev_close: "evolves I R (call (sys_close E fd))"
    and ev_write: "\<not> ro \<Longrightarrow> evolves I R (call (sys_write E fd d))"
begin

lemma ev_open_steps: "evolves I R (process_open E rid)"
proof -
  have call: "evolves I R (call (sys_open E path flags mode))"
    if "\<not> (ro \<and> (flags AND O_ACCMODE \<noteq> O_RDONLY \<or> flags AND (O_CREAT OR O_TRUNC) \<noteq> 0))"
    for path flags mode
    using that by (intro ev_open) (simp add: opens_for_writing_def)
  show ?thesis
    unfolding process_open_def
    by (intro ev_gets_known [OF I_ro] ev_steps ev_new_handle ev_set_md ev_close call) simp_all
qed

lemma ev_write_steps: "\<not> ro \<Longrightarrow> evolves I R (process_write E rid)"
  unfolding process_write_def by (intro ev_steps ev_write ev_update_write ev_update_checksum)

end

sublocale server_evolution \<subseteq> server_handlers
  by unfold_locales (rule ev_open_steps, rule ev_write_steps)

locale main_evolution = server_evolution +
  assumes put_step: "evolves I R (iq (sshbuf_put (e_al E) v))"
    and oq_consume_step: "evolves I R (oq_consume n)"
    and select_step: "evolves I R (call (sys_select E rd wr))"

sublocale main_evolution \<subseteq> main_handlers
  by unfold_locales (rule put_step, rule oq_consume_step, rule select_step)

context server_evolution
begin

lemma handlers: "server_handlers I R E ro"
  by (rule server_handlers_axioms)

end

context main_evolution
begin

lemma main: "main_handlers I R E ro"
  by (rule main_handlers_axioms)

end

end
