(* ===== verification/Sftp_Invariants.thy ===== *)
theory Sftp_Invariants
  imports Sftp_Evolution
begin

text \<open>
  Invariants of the SFTP server as interpretations of \<open>server_evolution\<close>: what a request
  does to the queues and the session, that the file system is left alone in read-only mode,
  and that the handle table stays well-formed.
\<close>

section \<open>Effects that leave the rest of the state alone\<close>

lemma call_snd: "snd (call f s) = s\<lparr>os := snd (f (os s))\<rparr>"
  by (simp add: call_def split: prod.splits)

lemma mqrun_snd:
  "snd (mqrun m s) = s\<lparr>mq_options := fst (snd (m (mq_options s, os s))), os := snd (snd (m (mq_options s, os s)))\<rparr>"
  by (simp add: mqrun_def split: prod.splits)

lemma iq_snd: "snd (iq m s) = s\<lparr>iqueue := snd (m (iqueue s))\<rparr>"
  by (simp add: iq_def split: prod.splits sum.splits)

lemma oq_consume_snd: "snd (oq_consume n s) = s\<lparr>oqueue := snd (sshbuf_consume n (oqueue s))\<rparr>"
  by (simp add: oq_consume_def split: prod.splits sum.splits)

lemma new_handle_snd:
  "snd (new_handle E use name fd flags dirp s) =
     s\<lparr>ht := snd (handle_new (e_fresh E) use name fd flags dirp (ht s))\<rparr>"
  by (simp add: new_handle_def split: prod.splits)

lemma modify_ht_snd: "snd (modify_ht f s) = s\<lparr>ht := f (ht s)\<rparr>"
  by (simp add: modify_ht_def)

lemma with_msg_snd: "\<exists>b. snd (with_msg E puts s) = s\<lparr>oqueue := b\<rparr>"
proof -
  have "s = s\<lparr>oqueue := oqueue s\<rparr>" by simp
  then show ?thesis
    by (auto simp: with_msg_def fatal_def send_msg_def split: option.splits prod.splits sum.splits
        intro: exI [of _ "oqueue s"])
qed

lemmas effects = call_snd mqrun_snd iq_snd oq_consume_snd new_handle_snd modify_ht_snd

text \<open>An invariant that looks only at the mode, the options and the world.\<close>

lemma handle_close_evolves:
  assumes "evolution R"
    and "\<And>f. evolves I R (modify_ht f :: ('md, 'os, unit) sv)"
    and "\<And>fd. evolves I R (call (sys_fstat E fd) :: ('md, 'os, int + stat) sv)"
    and "\<And>fd. evolves I R (call (sys_close E fd) :: ('md, 'os, int + unit) sv)"
    and "\<And>d. evolves I R (call (sys_closedir E d) :: ('md, 'os, int + unit) sv)"
    and "\<And>u p d n t. evolves I R (mqrun (bindE (mq_send_upload (e_amqp E) (e_json E) u p d n t)
           (\<lambda>_. returnE ())) :: ('md, 'os, unit) sv)"
  shows "evolves I R (handle_close E i :: ('md, 'os, int + unit) sv)"
  unfolding handle_close_def
  by (intro evolution.ev_rules [OF assms(1)] assms(2-))

section \<open>Read-only mode\<close>

text \<open>
  What the code relies on: system calls that do not write leave the view \<open>obs\<close> of the file
  system alone, as does writing to the standard output and talking to the broker.
\<close>

definition amqp_quiet :: "'w amqp_ops \<Rightarrow> ('w \<Rightarrow> 'v) \<Rightarrow> bool" where
  "amqp_quiet A obs \<longleftrightarrow>
     (\<forall>sock ip port. unlogged obs (amqp_socket_open A sock ip port)) \<and>
     (\<forall>c v x y h u p. unlogged obs (amqp_login A c v x y h u p)) \<and>
     (\<forall>c ch w. obs (amqp_channel_open A c ch w) = obs w) \<and>
     (\<forall>c. unlogged obs (amqp_get_rpc_reply A c)) \<and>
     (\<forall>c ch ex rk mand imm props body. unlogged obs (amqp_basic_publish A c ch ex rk mand imm props body)) \<and>
     (\<forall>c ch code. unlogged obs (amqp_channel_close A c ch code)) \<and>
     (\<forall>c code. unlogged obs (amqp_connection_close A c code)) \<and>
     unlogged obs (amqp_uninitialize_ssl_library A) \<and>
     (\<forall>c. unlogged obs (amqp_destroy_connection A c)) \<and>
     unlogged obs (uuid_generate_unparse A)"

definition fs_readers_quiet :: "('md, 'os) env \<Rightarrow> ('os \<Rightarrow> 'v) \<Rightarrow> bool" where
  "fs_readers_quiet E obs \<longleftrightarrow>
     (\<forall>path flags mode. \<not> opens_for_writing flags \<longrightarrow> unlogged obs (sys_open E path flags mode)) \<and>
     (\<forall>fd. unlogged obs (sys_close E fd)) \<and>
     (\<forall>fd off. unlogged obs (sys_lseek E fd off)) \<and>
     (\<forall>fd len. unlogged obs (sys_read E fd len)) \<and>
     (\<forall>d. unlogged obs (sys_write E STDOUT_FILENO d)) \<and>
     (\<forall>path. unlogged obs (sys_stat E path)) \<and>
     (\<forall>path. unlogged obs (sys_lstat E path)) \<and>
     (\<forall>fd. unlogged obs (sys_fstat E fd)) \<and>
     (\<forall>path. unlogged obs (sys_opendir E path)) \<and>
     (\<forall>dirp. unlogged obs (sys_closedir E dirp)) \<and>
     (\<forall>dir. unlogged obs (sys_readdir E dir)) \<and>
     (\<forall>path. unlogged obs (sys_realpath E path)) \<and>
     (\<forall>path len. unlogged obs (sys_readlink E path len)) \<and>
     (\<forall>path. unlogged obs (sys_statvfs E path)) \<and>
     (\<forall>fd. unlogged obs (sys_fstatvfs E fd)) \<and>
     (\<forall>rd wr. unlogged obs (sys_select E rd wr))"

definition obs_is :: "bool \<Rightarrow> ('os \<Rightarrow> 'v) \<Rightarrow> 'v \<Rightarrow> ('md, 'os) srv \<Rightarrow> bool" where
  "obs_is ro obs v s \<longleftrightarrow> readonly s = ro \<and> obs (os s) = v"

definition anything :: "'s \<Rightarrow> 's \<Rightarrow> bool" where
  "anything s t = True"

lemma anything_evolution: "evolution anything"
  by unfold_locales (simp_all add: anything_def)

lemma evolves_obs_is_call:
  "unlogged obs f \<Longrightarrow> evolves (obs_is ro obs v) anything (call f)"
  by (auto simp: evolves_def obs_is_def anything_def call_snd unlogged_def)

lemma evolves_obs_is_modify_ht: "evolves (obs_is ro obs v) anything (modify_ht f)"
  by (simp add: evolves_def obs_is_def anything_def modify_ht_snd)

text \<open>Notifications, on their own state.\<close>

definition world_is :: "('w \<Rightarrow> 'v) \<Rightarrow> 'v \<Rightarrow> mq_options_t option \<times> 'w \<Rightarrow> bool" where
  "world_is obs v p \<longleftrightarrow> obs (snd p) = v"

lemma evolves_world_is:
  "unlogged obs f \<Longrightarrow> evolves (world_is obs v) anything (wcall f)"
  "(\<And>w. obs (h w) = obs w) \<Longrightarrow> evolves (world_is obs v) anything (wdo h)"
  "evolves (world_is obs v) anything (mq_set g)"
  by (auto simp: evolves_def world_is_def anything_def wcall_def wdo_def mq_set_def unlogged_def
      case_prod_beta split: option.splits)

lemma amqp_quiet_evolution:
  assumes "amqp_quiet A obs"
  shows "mq_evolution (world_is obs v) anything A"
  using assms unfolding amqp_quiet_def
  by unfold_locales (auto intro!: evolves_world_is simp: anything_def)

lemma evolves_obs_is_mqrun:
  assumes "evolves (world_is obs v) anything m"
  shows "evolves (obs_is ro obs v) anything (mqrun m)"
  using assms by (auto simp: evolves_def obs_is_def world_is_def anything_def mqrun_snd)

lemma evolves_obs_is_send:
  assumes "amqp_quiet A obs"
  shows "evolves (obs_is ro obs v) anything (mqrun (bindE (mq_send_upload A js u p d n t) (\<lambda>_. returnE ())))"
    and "evolves (obs_is ro obs v) anything (mqrun (bindE (mq_send_remove A js u p) (\<lambda>_. returnE ())))"
    and "evolves (obs_is ro obs v) anything (mqrun (bindE (mq_send_rename A js u p q) (\<lambda>_. returnE ())))"
    and "evolves (obs_is ro obs v) anything (mqrun (clean_mq_config A))"
proof -
  note ev = amqp_quiet_evolution [OF assms, of v]
  note rules = evolution.ev_rules [OF anything_evolution] mq_evolution.ev_mq_send [OF ev]
    mq_evolution.ev_clean_mq_config [OF ev]
  show "evolves (obs_is ro obs v) anything (mqrun (bindE (mq_send_upload A js u p d n t) (\<lambda>_. returnE ())))"
    "evolves (obs_is ro obs v) anything (mqrun (bindE (mq_send_remove A js u p) (\<lambda>_. returnE ())))"
    "evolves (obs_is ro obs v) anything (mqrun (bindE (mq_send_rename A js u p q) (\<lambda>_. returnE ())))"
    "evolves (obs_is ro obs v) anything (mqrun (clean_mq_config A))"
    by (intro evolves_obs_is_mqrun rules)+
qed

lemma evolves_obs_is_local:
  "evolves (obs_is ro obs v) anything (iq m)"
  "evolves (obs_is ro obs v) anything (oq_consume n)"
  "evolves (obs_is ro obs v) anything (new_handle E use name fd flags dirp)"
  "evolves (obs_is ro obs v) anything (modifyE (\<lambda>s. s\<lparr>version := ver\<rparr>) :: ('md, 'os, unit) sv)"
  "evolves (obs_is ro obs v) anything (modifyE (\<lambda>s. s\<lparr>init_done := True\<rparr>) :: ('md, 'os, unit) sv)"
  by (simp_all add: evolves_def obs_is_def anything_def effects)

lemma evolves_obs_is_with_msg: "evolves (obs_is ro obs v) anything (with_msg E puts)"
proof (rule evolvesI, goal_cases)
  case (1 s)
  then show ?case
    using with_msg_snd [of E puts s] by (auto simp: obs_is_def anything_def)
qed

lemma readonly_main_evolution:
  assumes "fs_readers_quiet E obs" and "amqp_quiet (e_amqp E) obs"
  shows "main_evolution (obs_is True obs v) anything E True"
proof -
  note q = assms(1) [unfolded fs_readers_quiet_def]
  have close: "evolves (obs_is True obs v) anything (handle_close E i)" for i
    using q by (intro handle_close_evolves anything_evolution evolves_obs_is_modify_ht
        evolves_obs_is_call evolves_obs_is_send assms(2)) blast+
  show ?thesis
    using q close
    by unfold_locales
      (auto intro!: evolves_obs_is_call evolves_obs_is_local evolves_obs_is_with_msg
        evolves_obs_is_modify_ht evolves_obs_is_send assms(2)
        simp: obs_is_def anything_def)
qed

section \<open>The session\<close>

text \<open>What no request changes: mode, permitted requests and user. Once the version is
  negotiated, it stays so.\<close>

definition same_session :: "('md, 'os) srv \<Rightarrow> ('md, 'os) srv \<Rightarrow> bool" where
  "same_session s t \<longleftrightarrow>
     readonly t = readonly s \<and> request_whitelist t = request_whitelist s \<and>
     request_blacklist t = request_blacklist s \<and> pw_name t = pw_name s \<and>
     (init_done s \<longrightarrow> init_done t)"

definition in_mode :: "bool \<Rightarrow> ('md, 'os) srv \<Rightarrow> bool" where
  "in_mode ro s \<longleftrightarrow> readonly s = ro"

lemma same_session_evolution: "evolution same_session"
  by unfold_locales (auto simp: same_session_def)

lemma evolves_session_effects:
  "evolves (in_mode ro) same_session (call f)" "evolves (in_mode ro) same_session (mqrun m)"
  "evolves (in_mode ro) same_session (iq r)" "evolves (in_mode ro) same_session (oq_consume n)"
  "evolves (in_mode ro) same_session (new_handle E use name fd flags dirp)"
  "evolves (in_mode ro) same_session (modify_ht h)"
  "evolves (in_mode ro) same_session (modifyE (\<lambda>s. s\<lparr>version := ver\<rparr>) :: ('md, 'os, unit) sv)"
  "evolves (in_mode ro) same_session (modifyE (\<lambda>s. s\<lparr>init_done := True\<rparr>) :: ('md, 'os, unit) sv)"
  by (simp_all add: evolves_def in_mode_def same_session_def effects)

lemma evolves_session_with_msg: "evolves (in_mode ro) same_session (with_msg E puts)"
proof (rule evolvesI, goal_cases)
  case (1 s)
  then show ?case
    using with_msg_snd [of E puts s] by (auto simp: in_mode_def same_session_def)
qed

interpretation session: main_evolution "in_mode ro" same_session E ro
  for ro :: bool and E :: "('md, 'os) env"
proof -
  have "evolves (in_mode ro) same_session (handle_close E i)" for i
    by (intro handle_close_evolves same_session_evolution evolves_session_effects)
  then show "main_evolution (in_mode ro) same_session E ro"
    by unfold_locales
      (auto intro!: evolves_session_effects evolves_session_with_msg
        simp: in_mode_def same_session_def)
qed

section \<open>The handle table\<close>

definition ht_inv :: "bool \<Rightarrow> ('md, 'os) srv \<Rightarrow> bool" where
  "ht_inv ro s \<longleftrightarrow> readonly s = ro \<and> ht_ok (ht s)"

lemma handle_close_ht:
  "ht (snd (handle_close E i s)) = ht s \<or>
   (\<exists>use. use \<noteq> HANDLE_UNUSED \<and> handle_is_ok i use (ht s) \<and>
          ht (snd (handle_close E i s)) = handle_unused i (ht s))"
  by (auto simp: handle_close_def Let_def bindE_def call_def mqrun_def modify_ht_def
      split: prod.splits sum.splits intro: exI [of _ HANDLE_FILE] exI [of _ HANDLE_DIR])

lemma evolves_ht_effects:
  "evolves (ht_inv ro) anything (call f)" "evolves (ht_inv ro) anything (mqrun m)"
  "evolves (ht_inv ro) anything (iq r)" "evolves (ht_inv ro) anything (oq_consume n)"
  "evolves (ht_inv ro) anything (modifyE (\<lambda>s. s\<lparr>version := ver\<rparr>) :: ('md, 'os, unit) sv)"
  "evolves (ht_inv ro) anything (modifyE (\<lambda>s. s\<lparr>init_done := True\<rparr>) :: ('md, 'os, unit) sv)"
  "use \<noteq> HANDLE_UNUSED \<Longrightarrow> evolves (ht_inv ro) anything (new_handle E use name fd flags dirp)"
  "(\<And>t. ht_ok t \<Longrightarrow> ht_ok (h t)) \<Longrightarrow> evolves (ht_inv ro) anything (modify_ht h)"
  by (simp_all add: evolves_def ht_inv_def anything_def effects handle_new_ok)

lemma evolves_ht_with_msg: "evolves (ht_inv ro) anything (with_msg E puts)"
proof (rule evolvesI, goal_cases)
  case (1 s)
  then show ?case
    using with_msg_snd [of E puts s] by (auto simp: ht_inv_def anything_def)
qed

lemma evolves_ht_close: "evolves (ht_inv ro) anything (handle_close E i)"
proof (rule evolvesI, goal_cases)
  case (1 s)
  have "ht_ok (ht (snd (handle_close E i s)))"
    using handle_close_ht [of E i s] 1 by (auto simp: ht_inv_def intro: handle_unused_ok)
  moreover have "readonly (snd (handle_close E i s)) = ro"
    using session.ev_handle_close [of ro E i] 1 by (simp add: evolves_def in_mode_def ht_inv_def)
  ultimately show ?case by (simp add: ht_inv_def anything_def)
qed

interpretation table: main_evolution "ht_inv ro" anything E ro
  for ro :: bool and E :: "('md, 'os) env"
  by unfold_locales
    (auto intro!: evolves_ht_effects evolves_ht_with_msg evolves_ht_close handle_update_ok
        upd_handle_ok simp: ht_inv_def anything_def)

section \<open>Permitted requests\<close>

lemma handler_names:
  "h \<in> set (handlers_table E) \<union> set (extended_handlers E) \<Longrightarrow>
     lit (sh_name h) \<noteq> [] \<and> COMMA \<notin> set (lit (sh_name h))"
  by (auto simp: handlers_table_def extended_handlers_def handler_def ext_handler_def lit_def COMMA_def)

lemma permitted_lists:
  assumes "lit (sh_name h) \<noteq> [] \<and> COMMA \<notin> set (lit (sh_name h))"
  shows "request_permitted h s \<longleftrightarrow>
     \<not> (readonly s \<and> sh_does_write h) \<and>
     (\<forall>l. request_blacklist s = Some l \<longrightarrow> lit (sh_name h) \<notin> set (sproposals l)) \<and>
     (\<forall>l. request_whitelist s = Some l \<longrightarrow> lit (sh_name h) \<in> set (sproposals l))"
  using assms
  by (cases "request_blacklist s"; cases "request_whitelist s")
    (simp_all add: request_permitted_def match_list_single)

end
