(* ===== verification/Sftp_Notifications.thy ===== *)
theory Sftp_Notifications
  imports Sftp_Invariants
begin

text \<open>
  What the SFTP server tells the message broker: the announcement of an upload when a file is
  closed, and those of the requests that remove and rename.
\<close>

text \<open>
  One message, where the connection to the broker is or can be opened, and none otherwise;
  the configuration stays.
\<close>

definition announced ::
  "('w \<Rightarrow> published list) \<Rightarrow> bytes \<Rightarrow> mq_options_t \<Rightarrow> 'w \<Rightarrow> mq_options_t \<Rightarrow> 'w \<Rightarrow> bool" where
  "announced log body m w m' w' \<longleftrightarrow>
     m'\<lparr>mo_connection_opened := mo_connection_opened m\<rparr> = m \<and>
     (if mo_connection_opened m'
      then \<exists>cid prc ex rk. addressed m ex rk \<and>
             log w' = log w @ [\<lparr>pub_rc = prc, pub_exchange = ex, pub_routing_key = rk,
                               pub_props = mq_message_props cid, pub_body = body\<rparr>]
      else log w' = log w)"

lemma mqrun_send:
  assumes "sends A log body send" and "mq_options s = Some m" and "addressed m ex rk"
  obtains m' w' where
    "mqrun (bindE send (\<lambda>_. returnE ())) s = (Inr (), s\<lparr>mq_options := Some m', os := w'\<rparr>)"
    "announced log body m (os s) m' w'"
proof -
  from assms(1,3) obtain rc m' w' where
      run: "send (Some m, os s) = (Inr rc, (Some m', w'))" and
      keep: "m'\<lparr>mo_connection_opened := mo_connection_opened m\<rparr> = m" and
      log: "if mo_connection_opened m'
            then \<exists>cid prc. log w' = log (os s) @ [\<lparr>pub_rc = prc, pub_exchange = ex, pub_routing_key = rk,
                              pub_props = mq_message_props cid, pub_body = body\<rparr>] \<and>
                   rc = (if prc = AMQP_STATUS_OK then 0 else 2)
            else rc = 1 \<and> log w' = log (os s)"
    unfolding sends_def by blast
  have "announced log body m (os s) m' w'"
    using keep log assms(3) by (auto simp: announced_def split: if_splits)
  moreover have "mqrun (bindE send (\<lambda>_. returnE ())) s = (Inr (), s\<lparr>mq_options := Some m', os := w'\<rparr>)"
    using run assms(2) by (simp add: mqrun_def bindE_def)
  ultimately show thesis using that by blast
qed

section \<open>Closing a file\<close>

text \<open>The two system calls at the start of \<open>handle_close\<close>.\<close>

lemma handle_close_calls:
  assumes "handle_is_ok i HANDLE_FILE (ht s)" and h: "h = handles (ht s) ! nat i"
    and fstat: "sys_fstat E (h_fd h) (os s) = (fs, w1)"
    and close: "sys_close E (h_fd h) w1 = (ret, w2)"
  shows "handle_close E i s =
    (let st = (case fs of Inl _ \<Rightarrow> e_stat0 E | Inr st \<Rightarrow> st) in
     bindE (if ret = Inr () \<and> is_upload (h_flags h)
            then mqrun (bindE (mq_send_upload (e_amqp E) (e_json E)
                                 (pw_name s) (h_name h) (e_sha_final E (h_md h))
                                 (sint (st_size st)) (sint (st_mtime st))) (\<lambda>_. returnE ()))
            else returnE ()) (\<lambda>_.
     bindE (modify_ht (handle_unused i)) (\<lambda>_. returnE ret)) (s\<lparr>os := w2\<rparr>))"
  using assms by (simp add: handle_close_def bindE_def call_def Let_def)

lemma handle_close_upload:
  assumes "records (e_amqp E) log" and "mq_options s = Some m" and "addressed m ex rk"
    and "handle_is_ok i HANDLE_FILE (ht s)" and "h = handles (ht s) ! nat i"
    and "is_upload (h_flags h)"
    and "sys_fstat E (h_fd h) (os s) = (Inr st, w1)" and "sys_close E (h_fd h) w1 = (Inr (), w2)"
  obtains m' w' where
    "handle_close E i s =
       (Inr (Inr ()), s\<lparr>mq_options := Some m', os := w', ht := handle_unused i (ht s)\<rparr>)"
    "announced log (e_json E (upload_object (pw_name s) (h_name h) (e_sha_final E (h_md h))
        (sint (st_size st)) (sint (st_mtime st)))) m w2 m' w'"
proof -
  let ?send = "mq_send_upload (e_amqp E) (e_json E) (pw_name s) (h_name h) (e_sha_final E (h_md h))
      (sint (st_size st)) (sint (st_mtime st))"
  obtain m' w' where
      run: "mqrun (bindE ?send (\<lambda>_. returnE ())) (s\<lparr>os := w2\<rparr>) =
        (Inr (), (s\<lparr>os := w2\<rparr>)\<lparr>mq_options := Some m', os := w'\<rparr>)" and
      ann: "announced log (e_json E (upload_object (pw_name s) (h_name h) (e_sha_final E (h_md h))
        (sint (st_size st)) (sint (st_mtime st)))) m (os (s\<lparr>os := w2\<rparr>)) m' w'"
    by (rule mqrun_send [OF mq_send_run(1) [OF assms(1)], where s = "s\<lparr>os := w2\<rparr>" and m = m])
      (use assms(2,3) in simp_all)
  show thesis
  proof (rule that)
    show "handle_close E i s =
       (Inr (Inr ()), s\<lparr>mq_options := Some m', os := w', ht := handle_unused i (ht s)\<rparr>)"
      using handle_close_calls [OF assms(4,5,7,8)] assms(6)
      by (simp add: Let_def modify_ht_def
          bindE_Inr [of "mqrun (bindE ?send (\<lambda>_. returnE ()))", OF run])
  qed (use ann in simp)
qed

text \<open>A file that was not opened for an upload, and a file whose descriptor cannot be closed,
  are not announced: the broker is not contacted.\<close>

lemma handle_close_quiet:
  assumes "handle_is_ok i HANDLE_FILE (ht s)" and "h = handles (ht s) ! nat i"
    and "sys_fstat E (h_fd h) (os s) = (fs, w1)" and "sys_close E (h_fd h) w1 = (ret, w2)"
    and "\<not> is_upload (h_flags h) \<or> ret \<noteq> Inr ()"
  shows "handle_close E i s = (Inr ret, s\<lparr>os := w2, ht := handle_unused i (ht s)\<rparr>)"
  using handle_close_calls [OF assms(1-4)] assms(5) by (auto simp: Let_def modify_ht_def)

section \<open>Removing and renaming\<close>

text \<open>The end of the handlers: the status is sent, then the broker is told if it is \<open>SSH2_FX_OK\<close>.\<close>

definition then_tell :: "('md, 'os) env \<Rightarrow> u32 \<Rightarrow> u32 \<Rightarrow> (bytes \<Rightarrow> ('os, int) mq) \<Rightarrow> ('md, 'os, unit) sv" where
  "then_tell E rid status send =
     bindE (send_status E rid status) (\<lambda>_.
     bindE (getsE pw_name) (\<lambda>pwname.
     if status = SSH2_FX_OK then mqrun (bindE (send pwname) (\<lambda>_. returnE ())) else returnE ()))"

lemma send_status_keeps: "\<exists>b. snd (send_status E rid st s) = s\<lparr>oqueue := b\<rparr>"
  unfolding send_status_def bindE_getsE by (rule with_msg_snd)

lemma then_tell_failed:
  assumes "status \<noteq> SSH2_FX_OK"
  shows "\<exists>b. snd (then_tell E rid status send s) = s\<lparr>oqueue := b\<rparr>"
proof -
  obtain b where "snd (send_status E rid status s) = s\<lparr>oqueue := b\<rparr>" using send_status_keeps by blast
  then show ?thesis
    using assms by (auto simp: then_tell_def bindE_def split: prod.splits sum.splits)
qed

lemma then_tell_ok:
  assumes "fst (send_status E rid SSH2_FX_OK s) = Inr ()"
    and "sends A log body (send (pw_name s))" and "mq_options s = Some m" and "addressed m ex rk"
  obtains b m' w' where
    "then_tell E rid SSH2_FX_OK send s = (Inr (), s\<lparr>oqueue := b, mq_options := Some m', os := w'\<rparr>)"
    "announced log body m (os s) m' w'"
proof -
  obtain b where "send_status E rid SSH2_FX_OK s = (Inr (), s\<lparr>oqueue := b\<rparr>)"
    using send_status_keeps [of E rid SSH2_FX_OK s] assms(1) by (metis prod.collapse)
  moreover obtain m' w' where
      "mqrun (bindE (send (pw_name s)) (\<lambda>_. returnE ())) (s\<lparr>oqueue := b\<rparr>) =
        (Inr (), (s\<lparr>oqueue := b\<rparr>)\<lparr>mq_options := Some m', os := w'\<rparr>)"
      "announced log body m (os (s\<lparr>oqueue := b\<rparr>)) m' w'"
    by (rule mqrun_send [OF assms(2), where s = "s\<lparr>oqueue := b\<rparr>" and m = m]) (use assms(3,4) in simp_all)
  ultimately show thesis
    by (intro that) (simp_all add: then_tell_def bindE_Inr)
qed

lemma tellers:
  "process_remove E rid =
     bindE (get_path E) (\<lambda>name. bindE (call (sys_unlink E name)) (\<lambda>r.
     then_tell E rid (status_of r) (\<lambda>u. mq_send_remove (e_amqp E) (e_json E) u name)))"
  "process_rename E rid =
     bindE (get_path E) (\<lambda>p. bindE (get_path E) (\<lambda>q. bindE (do_rename E p q) (\<lambda>status.
     then_tell E rid status (\<lambda>u. mq_send_rename (e_amqp E) (e_json E) u p q))))"
  "process_extended_posix_rename E rid =
     bindE (get_path E) (\<lambda>p. bindE (get_path E) (\<lambda>q. bindE (call (sys_rename E p q)) (\<lambda>r.
     then_tell E rid (status_of r) (\<lambda>u. mq_send_rename (e_amqp E) (e_json E) u p q))))"
  by (simp_all add: process_remove_def process_rename_def process_extended_posix_rename_def
      then_tell_def Let_def)

end
