(* ===== verification/Sftp_Replies.thy ===== *)
theory Sftp_Replies
  imports Sftp_Invariants
begin

text \<open>
  What a request does to the two queues: bytes are only taken from the front of the input and
  appended to the output, a packet is consumed exactly, and every request is answered by one
  reply that carries its identifier.
\<close>

section \<open>Queues\<close>

definition bufs_ok :: "('md, 'os) srv \<Rightarrow> bool" where
  "bufs_ok s \<longleftrightarrow> sb_writable (iqueue s) \<and> sb_writable (oqueue s)"

text \<open>Readers on the abstract queue only shrink it.\<close>

definition bq_shrinks :: "bq \<Rightarrow> bq \<Rightarrow> bool" where
  "bq_shrinks q r \<longleftrightarrow> (\<exists>k. bq_bytes r = drop k (bq_bytes q)) \<and> bq_cap r = bq_cap q"

lemma bq_shrinks_refl: "bq_shrinks q q"
  unfolding bq_shrinks_def by (metis drop0)

interpretation shrink: evolution "\<lambda>_. True" bq_shrinks
proof
  show "bq_shrinks q q" for q by (rule bq_shrinks_refl)
  show "bq_shrinks q r \<Longrightarrow> bq_shrinks r u \<Longrightarrow> bq_shrinks q u" for q r u
    unfolding bq_shrinks_def by (metis drop_drop)
qed

lemma shrink_consume: "evolves (\<lambda>_. True) bq_shrinks (bq_consume n)"
  by (auto simp: evolves_def bq_consume_def bq_shrinks_refl) (auto simp: bq_shrinks_def)

lemma shrink_peek: "evolves (\<lambda>_. True) bq_shrinks bq_peek_string"
  by (simp add: evolves_def bq_peek_string_def bq_shrinks_refl)

lemma shrink_mapE: "evolves I R m \<Longrightarrow> evolves I R (mapE h m)"
  by (auto simp: evolves_def mapE_def split: prod.splits sum.splits)

lemma shrink_readers:
  "evolves (\<lambda>_. True) bq_shrinks bq_get_u64" "evolves (\<lambda>_. True) bq_shrinks bq_get_u32"
  "evolves (\<lambda>_. True) bq_shrinks bq_get_u8" "evolves (\<lambda>_. True) bq_shrinks bq_get_string"
  "evolves (\<lambda>_. True) bq_shrinks bq_get_cstring"
  unfolding bq_get_u64_def bq_get_u32_def bq_get_u8_def bq_get_string_def bq_get_cstring_def
  by (intro shrink.ev_rules shrink_consume shrink_peek)+

lemma shrink_skip_extensions: "evolves (\<lambda>_. True) bq_shrinks (bq_skip_extensions n)"
proof (induction n)
  case 0
  show ?case by (simp only: bq_skip_extensions.simps shrink.ev_return)
next
  case (Suc n)
  then show ?case
    unfolding bq_skip_extensions.simps bq_skip_extension_def
    by (intro shrink.ev_rules shrink_mapE shrink_readers)
qed

lemma shrink_decode_attrib: "evolves (\<lambda>_. True) bq_shrinks bq_decode_attrib"
  unfolding bq_decode_attrib_def
  by (intro shrink.ev_rules shrink_mapE shrink_readers shrink_skip_extensions)

text \<open>The relation between the server's queues before and after a step.\<close>

definition queue_step :: "('md, 'os) srv \<Rightarrow> ('md, 'os) srv \<Rightarrow> bool" where
  "queue_step s t \<longleftrightarrow>
     (\<exists>k. sshbuf_ptr (iqueue t) = drop k (sshbuf_ptr (iqueue s))) \<and>
     (\<exists>v. sshbuf_ptr (oqueue t) = sshbuf_ptr (oqueue s) @ v) \<and>
     sb_max_size (iqueue t) = sb_max_size (iqueue s) \<and> sb_max_size (oqueue t) = sb_max_size (oqueue s)"

definition queues_in_mode :: "bool \<Rightarrow> ('md, 'os) srv \<Rightarrow> bool" where
  "queues_in_mode ro s \<longleftrightarrow> readonly s = ro \<and> bufs_ok s"

lemma queue_step_refl: "queue_step s s"
  unfolding queue_step_def by (metis append_Nil2 drop0)

lemma queue_step_trans: "queue_step s t \<Longrightarrow> queue_step t u \<Longrightarrow> queue_step s u"
  unfolding queue_step_def by (metis append.assoc drop_drop)

lemma queue_step_evolution: "evolution queue_step"
  by unfold_locales (rule queue_step_refl, rule queue_step_trans)

lemma evolves_iq:
  assumes "sim sb_writable sb_abs m d" and "evolves (\<lambda>_. True) bq_shrinks d"
  shows "evolves (queues_in_mode ro) queue_step (iq m)"
proof (rule evolvesI, goal_cases)
  case (1 s)
  then have wr: "sb_writable (iqueue s)" "sb_writable (oqueue s)" "readonly s = ro"
    by (simp_all add: queues_in_mode_def bufs_ok_def)
  obtain r b where run: "m (iqueue s) = (r, b)" by fastforce
  note st = simD [OF assms(1) wr(1) run]
  have "bq_shrinks (sb_abs (iqueue s)) (sb_abs b)"
    using assms(2) st(2) by (metis evolves_def snd_conv)
  then obtain k where "sshbuf_ptr b = drop k (sshbuf_ptr (iqueue s))"
      "sb_max_size b = sb_max_size (iqueue s)"
    by (auto simp: bq_shrinks_def)
  moreover have "\<exists>v. sshbuf_ptr (oqueue s) = sshbuf_ptr (oqueue s) @ v" by (metis append_Nil2)
  ultimately show ?case
    using wr st(1) run by (auto simp: iq_snd queues_in_mode_def bufs_ok_def queue_step_def)
qed

lemma evolves_queue_effects:
  "evolves (queues_in_mode ro) queue_step (call f)" "evolves (queues_in_mode ro) queue_step (mqrun m)"
  "evolves (queues_in_mode ro) queue_step (new_handle E use name fd flags dirp)"
  "evolves (queues_in_mode ro) queue_step (modify_ht h)"
  "evolves (queues_in_mode ro) queue_step (modifyE (\<lambda>s. s\<lparr>version := ver\<rparr>) :: ('md, 'os, unit) sv)"
  "evolves (queues_in_mode ro) queue_step (modifyE (\<lambda>s. s\<lparr>init_done := True\<rparr>) :: ('md, 'os, unit) sv)"
  by (auto simp: evolves_def queues_in_mode_def bufs_ok_def queue_step_def effects
      intro: exI [of _ 0] exI [of _ "[]"])

text \<open>Sending appends a length-prefixed message, or nothing where the server gives up.\<close>

lemma send_msg_run:
  assumes al: "\<forall>n. e_al E n" and "bufs_ok s"
  obtains (sent) b where "send_msg E m s = (Inr (), s\<lparr>oqueue := b\<rparr>)" "sb_writable b"
      "sshbuf_ptr b = sshbuf_ptr (oqueue s) @ enc_string (take (sshbuf_len m) (sshbuf_ptr m))"
      "sb_max_size b = sb_max_size (oqueue s)"
  | (full) b where "send_msg E m s = (Inl Fatal, s\<lparr>oqueue := b\<rparr>)" "sb_writable b"
      "sshbuf_ptr b = sshbuf_ptr (oqueue s)" "sb_max_size b = sb_max_size (oqueue s)"
proof -
  let ?v = "take (sshbuf_len m) (sshbuf_ptr m)"
  have wr: "sb_writable (oqueue s)" using assms(2) by (simp add: bufs_ok_def)
  obtain r b where run: "sshbuf_put_string (e_al E) ?v (oqueue s) = (r, b)" by fastforce
  note st = simD [OF sshbuf_put_string_sim [OF al] wr run]
  from st(2) consider "r = Inr ()" "sb_abs b = (sb_abs (oqueue s))\<lparr>bq_bytes := sshbuf_ptr (oqueue s) @ enc_string ?v\<rparr>"
    | "r = Inl SSH_ERR_NO_BUFFER_SPACE" "sb_abs b = sb_abs (oqueue s)"
    unfolding bq_put_string_eq by (auto split: if_splits)
  then show thesis
  proof cases
    case 1
    then have "sshbuf_ptr b = sshbuf_ptr (oqueue s) @ enc_string ?v" "sb_max_size b = sb_max_size (oqueue s)"
      by (simp_all add: sb_abs_def)
    with 1 st(1) run show thesis
      by (intro sent [of b]) (simp_all add: send_msg_def sshbuf_put_stringb_def)
  next
    case 2
    then have "sshbuf_ptr b = sshbuf_ptr (oqueue s)" "sb_max_size b = sb_max_size (oqueue s)"
      by (simp_all add: sb_abs_def)
    with 2 st(1) run show thesis
      by (intro full [of b]) (simp_all add: send_msg_def sshbuf_put_stringb_def)
  qed
qed

lemma evolves_queue_with_msg:
  assumes al: "\<forall>n. e_al E n"
  shows "evolves (queues_in_mode ro) queue_step (with_msg E puts)"
proof (rule evolvesI, goal_cases)
  case (1 s)
  then have ok: "bufs_ok s" by (simp add: queues_in_mode_def)
  have *: "queues_in_mode ro (snd (send_msg E m s)) \<and> queue_step s (snd (send_msg E m s))" for m
    using al ok
  proof (cases rule: send_msg_run [where m = m])
    case (sent b)
    then show ?thesis
      using 1 by (auto simp: queues_in_mode_def bufs_ok_def queue_step_def intro: exI [of _ 0])
  next
    case (full b)
    then show ?thesis
      using 1 by (auto simp: queues_in_mode_def bufs_ok_def queue_step_def intro: exI [of _ 0] exI [of _ "[]"])
  qed
  then show ?case
    using 1 queue_step_refl
    by (auto simp: with_msg_def fatal_def split: option.splits prod.splits sum.splits)
qed

lemma queue_evolution:
  assumes al: "\<forall>n. e_al E n"
  shows "server_evolution (queues_in_mode ro) queue_step E ro"
proof -
  have close: "evolves (queues_in_mode ro) queue_step (handle_close E i)" for i
    by (intro handle_close_evolves queue_step_evolution evolves_queue_effects)
  show ?thesis
    using close
    by unfold_locales
      (auto intro!: evolves_queue_effects evolves_queue_with_msg [OF al] evolves_iq sim_intros al
          shrink_readers shrink_decode_attrib shrink_consume
        intro: queue_step_refl queue_step_trans simp: queues_in_mode_def)
qed

section \<open>Framing\<close>

definition msg_len_of :: "bytes \<Rightarrow> nat" where
  "msg_len_of b = unat (get_u32 b)"

text \<open>A packet that \<open>process\<close> accepts and that has arrived completely.\<close>

definition complete :: "bytes \<Rightarrow> bool" where
  "complete b \<longleftrightarrow> 5 \<le> length b \<and> msg_len_of b \<le> SFTP_MAX_MSG_LENGTH \<and> msg_len_of b + 4 \<le> length b"

text \<open>A run of a reader on the input queue that succeeds.\<close>

lemma iq_Inr:
  assumes "sim sb_writable sb_abs m d" and "bufs_ok s" and "iq m s = (Inr x, t)"
  obtains b where "t = s\<lparr>iqueue := b\<rparr>" "sb_writable b" "d (sb_abs (iqueue s)) = (Inr x, sb_abs b)"
proof -
  obtain r b where run: "m (iqueue s) = (r, b)" by fastforce
  have "sb_writable (iqueue s)" using assms(2) by (simp add: bufs_ok_def)
  note st = simD [OF assms(1) this run]
  show thesis
    using assms(3) run st that by (auto simp: iq_def split: sum.splits)
qed

lemma iq_consume_Inr:
  assumes "bufs_ok s" and "iq (sshbuf_consume n) s = (Inr x, t)"
  shows "bufs_ok t" "n \<le> length (sshbuf_ptr (iqueue s))"
    "sshbuf_ptr (iqueue t) = drop n (sshbuf_ptr (iqueue s))" "t = s\<lparr>iqueue := iqueue t\<rparr>"
proof -
  from sshbuf_consume_sim assms obtain b where b: "t = s\<lparr>iqueue := b\<rparr>" "sb_writable b"
      "bq_consume n (sb_abs (iqueue s)) = (Inr x, sb_abs b)"
    by (rule iq_Inr)
  show "bufs_ok t" using b assms(1) by (simp add: bufs_ok_def)
  show "n \<le> length (sshbuf_ptr (iqueue s))"
    using b(3) unfolding bq_consume_def sb_abs_sel by (meson Inl_Inr_False prod.inject)
  show "sshbuf_ptr (iqueue t) = drop n (sshbuf_ptr (iqueue s))"
    using b by (auto simp: bq_consume_def sb_abs_def split: if_splits)
  show "t = s\<lparr>iqueue := iqueue t\<rparr>" using b(1) by simp
qed

lemma iq_get_u8_Inr:
  assumes "bufs_ok s" and "iq sshbuf_get_u8 s = (Inr x, t)"
  shows "bufs_ok t" "sshbuf_ptr (iqueue s) = x # sshbuf_ptr (iqueue t)" "t = s\<lparr>iqueue := iqueue t\<rparr>"
proof -
  from sb_rw.get_u8 assms obtain b where b: "t = s\<lparr>iqueue := b\<rparr>" "sb_writable b"
      "bq_get_u8 (sb_abs (iqueue s)) = (Inr x, sb_abs b)"
    by (rule iq_Inr)
  show "bufs_ok t" using b assms(1) by (simp add: bufs_ok_def)
  show "sshbuf_ptr (iqueue s) = x # sshbuf_ptr (iqueue t)"
    using b by (auto simp: bq_get_u8_eq sb_abs_def split: list.splits)
  show "t = s\<lparr>iqueue := iqueue t\<rparr>" using b(1) by simp
qed

text \<open>Ending the process is no return.\<close>

lemma cleanup_exit_no_return: "fst (sftp_server_cleanup_exit E i s) \<noteq> Inr x"
  by (auto simp: sftp_server_cleanup_exit_def bindE_def split: prod.splits sum.splits)

lemma discard_rest_Inr:
  assumes ok: "bufs_ok s" and run: "discard_rest E n k s = (Inr x, t)"
  shows "length (sshbuf_ptr (iqueue s)) \<le> n \<and> n - length (sshbuf_ptr (iqueue s)) \<le> k \<and>
     sshbuf_ptr (iqueue t) = drop (k - (n - length (sshbuf_ptr (iqueue s)))) (sshbuf_ptr (iqueue s)) \<and>
     k - (n - length (sshbuf_ptr (iqueue s))) \<le> length (sshbuf_ptr (iqueue s))"
proof -
  let ?l = "length (sshbuf_ptr (iqueue s))"
  have len: "sshbuf_len (iqueue s) = ?l"
    using ok by (simp add: bufs_ok_def sshbuf_len_ptr)
  have no: "sftp_server_cleanup_exit E 255 s \<noteq> (Inr x, t)"
    using cleanup_exit_no_return [of E 255 s x] by (metis fst_conv)
  consider "n < ?l" | "?l \<le> n" "k < n - ?l" | "?l \<le> n" "n - ?l < k" | "?l \<le> n" "k = n - ?l"
    by linarith
  then show ?thesis
  proof cases
    case 3
    then have "iq (sshbuf_consume (k - (n - ?l))) s = (Inr x, t)"
      using run by (simp add: discard_rest_def len Let_def del: length_sshbuf_ptr)
    from iq_consume_Inr [OF ok this] 3 show ?thesis by simp
  qed (use run no in \<open>simp_all add: discard_rest_def len Let_def del: length_sshbuf_ptr\<close>)
qed

lemma discard_rest_oqueue:
  assumes "discard_rest E n k s = (Inr x, t)"
  shows "oqueue t = oqueue s"
proof -
  have no: "sftp_server_cleanup_exit E 255 s \<noteq> (Inr x, t)"
    using cleanup_exit_no_return [of E 255 s x] by (metis fst_conv)
  have iq: "oqueue t = oqueue s" if "iq m s = (Inr x, t)" for m :: "unit sb"
    using iq_snd [of m s] that by simp
  show ?thesis
    using assms no iq unfolding discard_rest_def
    by (simp add: Let_def del: length_sshbuf_ptr split: if_splits)
qed

text \<open>
  A packet is consumed exactly, whatever its handler read of it; an incomplete one is left.
\<close>

lemma process_consumes:
  assumes al: "\<forall>n. e_al E n" and ok: "bufs_ok s" and run: "process E s = (Inr (), t)"
  shows "sshbuf_ptr (iqueue t) =
    (if complete (sshbuf_ptr (iqueue s))
     then drop (4 + msg_len_of (sshbuf_ptr (iqueue s))) (sshbuf_ptr (iqueue s))
     else sshbuf_ptr (iqueue s))"
proof (cases "complete (sshbuf_ptr (iqueue s))")
  case False
  have "sftp_server_cleanup_exit E 11 s \<noteq> (Inr (), t)"
    using cleanup_exit_no_return [of E 11 s "()"] by (metis fst_conv)
  then have "t = s"
    using run False ok
    by (auto simp: process_def complete_def msg_len_of_def bufs_ok_def sshbuf_len_ptr Let_def
        simp del: length_sshbuf_ptr split: if_splits)
  then show ?thesis using False by simp
next
  case True
  let ?b = "sshbuf_ptr (iqueue s)"
  have len: "sshbuf_len (iqueue s) = length ?b"
    using ok by (simp add: bufs_ok_def sshbuf_len_ptr)
  have "bindE (iq (sshbuf_consume 4)) (\<lambda>_. bindE (iq sshbuf_get_u8) (\<lambda>type.
       bindE (dispatch E type) (\<lambda>_. discard_rest E (length ?b - 4) (msg_len_of ?b)))) s = (Inr (), t)"
    using run True by (simp add: process_def complete_def msg_len_of_def len Let_def del: length_sshbuf_ptr)
  then obtain s1 type s2 s3 where
      1: "iq (sshbuf_consume 4) s = (Inr (), s1)" and
      2: "iq sshbuf_get_u8 s1 = (Inr type, s2)" and
      3: "dispatch E type s2 = (Inr (), s3)" and
      4: "discard_rest E (length ?b - 4) (msg_len_of ?b) s3 = (Inr (), t)"
    by (auto elim!: bindE_InrE)
  note c = iq_consume_Inr [OF ok 1]
  note g = iq_get_u8_Inr [OF c(1) 2]
  have "evolves (queues_in_mode (readonly s2)) queue_step (dispatch E type)"
    by (rule server_handlers.ev_dispatch [OF server_evolution.handlers [OF queue_evolution [OF al]]])
  from evolvesD [OF this _ 3] g(1)
  have "bufs_ok s3" "queue_step s2 s3" by (simp_all add: queues_in_mode_def)
  then obtain k where k: "sshbuf_ptr (iqueue s3) = drop k (sshbuf_ptr (iqueue s2))"
    by (auto simp: queue_step_def)
  have b4: "sshbuf_ptr (iqueue s1) = drop 4 ?b" using c(3) .
  have "drop 1 (sshbuf_ptr (iqueue s1)) = sshbuf_ptr (iqueue s2)" by (simp add: g(2))
  then have "sshbuf_ptr (iqueue s2) = drop 5 ?b" by (simp add: b4)
  then have s3: "sshbuf_ptr (iqueue s3) = drop (5 + k) ?b"
    by (simp add: k add.commute)
  note d = discard_rest_Inr [OF \<open>bufs_ok s3\<close> 4, unfolded s3 length_drop]
  have "sshbuf_ptr (iqueue t) = drop (4 + msg_len_of ?b) ?b"
  proof (cases "5 + k \<le> length ?b")
    case in_range: True
    then have "length ?b - 4 - (length ?b - (5 + k)) = 1 + k" by linarith
    with d have m: "1 + k \<le> msg_len_of ?b"
      and t: "sshbuf_ptr (iqueue t) = drop (msg_len_of ?b - (1 + k)) (drop (5 + k) ?b)"
      by simp_all
    from m have "msg_len_of ?b - (1 + k) + (5 + k) = 4 + msg_len_of ?b" by linarith
    then show ?thesis unfolding t drop_drop by (simp only: add.commute)
  next
    case False
    then have "length ?b - (5 + k) = 0" by simp
    with d True have "msg_len_of ?b = length ?b - 4"
      and "sshbuf_ptr (iqueue t) = drop 0 (drop (5 + k) ?b)"
      by (simp_all add: complete_def)
    with False True show ?thesis by (simp add: complete_def)
  qed
  then show ?thesis using True by simp
qed

section \<open>One reply per request\<close>

text \<open>A reply to request \<open>rid\<close>: one of the reply types, then the identifier.\<close>

definition is_reply :: "u32 \<Rightarrow> bytes \<Rightarrow> bool" where
  "is_reply rid body \<longleftrightarrow>
     body \<noteq> [] \<and>
     hd body \<in> {SSH2_FXP_STATUS, SSH2_FXP_HANDLE, SSH2_FXP_DATA, SSH2_FXP_NAME, SSH2_FXP_ATTRS,
                SSH2_FXP_EXTENDED_REPLY} \<and>
     take 4 (tl body) = put_u32 rid"

definition out_is :: "bytes \<Rightarrow> ('md, 'os) srv \<Rightarrow> bool" where
  "out_is o0 s \<longleftrightarrow> bufs_ok s \<and> sshbuf_ptr (oqueue s) = o0"

definition answered :: "u32 \<Rightarrow> bytes \<Rightarrow> ('md, 'os) srv \<Rightarrow> bool" where
  "answered rid o0 s \<longleftrightarrow> (\<exists>body. is_reply rid body \<and> out_is (o0 @ enc_string body) s)"

text \<open>
  \<open>ans rid P m\<close>: where \<open>m\<close> returns, it has sent one reply to \<open>rid\<close> if its result satisfies
  \<open>P\<close>, and nothing otherwise.
\<close>

definition ans :: "u32 \<Rightarrow> ('a \<Rightarrow> bool) \<Rightarrow> ('md, 'os, 'a) sv \<Rightarrow> bool" where
  "ans rid P m \<longleftrightarrow>
     (\<forall>o0 s x t. out_is o0 s \<longrightarrow> m s = (Inr x, t) \<longrightarrow>
        (if P x then answered rid o0 t else out_is o0 t))"

abbreviation silent :: "('md, 'os, 'a) sv \<Rightarrow> bool" where
  "silent \<equiv> ans 0 (\<lambda>_. False)"

abbreviation answers :: "u32 \<Rightarrow> ('md, 'os, 'a) sv \<Rightarrow> bool" where
  "answers rid \<equiv> ans rid (\<lambda>_. True)"

lemma ansI:
  "(\<And>o0 s x t. out_is o0 s \<Longrightarrow> m s = (Inr x, t) \<Longrightarrow> if P x then answered rid o0 t else out_is o0 t) \<Longrightarrow>
     ans rid P m"
  by (simp add: ans_def)

lemma ansD:
  "ans rid P m \<Longrightarrow> out_is o0 s \<Longrightarrow> m s = (Inr x, t) \<Longrightarrow> P x \<Longrightarrow> answered rid o0 t"
  "ans rid P m \<Longrightarrow> out_is o0 s \<Longrightarrow> m s = (Inr x, t) \<Longrightarrow> \<not> P x \<Longrightarrow> out_is o0 t"
  unfolding ans_def by (metis, metis)

lemma silent_any: "silent m \<Longrightarrow> ans rid (\<lambda>_. False) m"
  by (simp add: ans_def)

lemma ans_return: "\<not> P x \<Longrightarrow> ans rid P (returnE x)"
  by (auto simp: ans_def)

lemma silent_return: "silent (returnE x)"
  by (simp add: ans_return)

lemma ans_throw: "ans rid P (throwE e)" "ans rid P fatal"
  by (simp_all add: ans_def fatal_def)

lemma silent_gets: "silent (getsE f)"
  by (auto simp: ans_def)

lemma silent_bind: "silent m \<Longrightarrow> (\<And>x. ans rid P (f x)) \<Longrightarrow> ans rid P (bindE m f)"
proof (rule ansI)
  fix o0 s y t assume m: "silent m" and f: "\<And>x. ans rid P (f x)" and s: "out_is o0 s"
    and "bindE m f s = (Inr y, t)"
  then obtain x u where "m s = (Inr x, u)" and k: "f x u = (Inr y, t)" by (elim bindE_InrE)
  then have "out_is o0 u" using ansD(2) [OF m s] by simp
  from ansD [OF f this k] show "if P y then answered rid o0 t else out_is o0 t" by simp
qed

text \<open>After a reply only silent steps follow; their result does not matter.\<close>

lemma answered_bind:
  assumes "answers rid m" and "\<And>x. silent (f x)" and "\<And>x s y t. f x s = (Inr y, t) \<Longrightarrow> P y"
  shows "ans rid P (bindE m f)"
proof (rule ansI)
  fix o0 s y t assume s: "out_is o0 s" and "bindE m f s = (Inr y, t)"
  then obtain x u where m: "m s = (Inr x, u)" and f: "f x u = (Inr y, t)" by (elim bindE_InrE)
  from ansD(1) [OF assms(1) s m] obtain body
    where body: "is_reply rid body" "out_is (o0 @ enc_string body) u"
    by (auto simp: answered_def)
  have "out_is (o0 @ enc_string body) t" by (rule ansD(2) [OF assms(2) body(2) f]) simp
  with body(1) have "answered rid o0 t" by (auto simp: answered_def)
  with assms(3) f show "if P y then answered rid o0 t else out_is o0 t" by simp
qed

text \<open>The pattern of most handlers: a status, which is sent unless it is \<open>SSH2_FX_OK\<close>.\<close>

lemma ans_status:
  assumes "ans rid (\<lambda>st. st = SSH2_FX_OK) m" and "\<And>st. answers rid (send st)"
  shows "answers rid (bindE m (\<lambda>st. if st \<noteq> SSH2_FX_OK then send st else returnE ()))"
proof (rule ansI)
  fix o0 s y t assume s: "out_is o0 s"
    and "bindE m (\<lambda>st. if st \<noteq> SSH2_FX_OK then send st else returnE ()) s = (Inr y, t)"
  then obtain st u where m: "m s = (Inr st, u)"
    and f: "(if st \<noteq> SSH2_FX_OK then send st else returnE ()) u = (Inr y, t)" by (elim bindE_InrE)
  have "answered rid o0 t"
  proof (cases "st = SSH2_FX_OK")
    case True
    then show ?thesis using ansD(1) [OF assms(1) s m] f by simp
  next
    case False
    then show ?thesis using ansD(1) [OF assms(2) ansD(2) [OF assms(1) s m]] f by simp
  qed
  then show "if True then answered rid o0 t else out_is o0 t" by simp
qed

lemma ans_if: "(b \<Longrightarrow> ans rid P m) \<Longrightarrow> (\<not> b \<Longrightarrow> ans rid P n) \<Longrightarrow> ans rid P (if b then m else n)"
  by simp

lemma ans_sum:
  "(\<And>e. r = Inl e \<Longrightarrow> ans rid P (f e)) \<Longrightarrow> (\<And>x. r = Inr x \<Longrightarrow> ans rid P (g x)) \<Longrightarrow>
     ans rid P (case r of Inl e \<Rightarrow> f e | Inr x \<Rightarrow> g x)"
  by (cases r) simp_all

lemma ans_option:
  "(r = None \<Longrightarrow> ans rid P m) \<Longrightarrow> (\<And>x. r = Some x \<Longrightarrow> ans rid P (g x)) \<Longrightarrow>
     ans rid P (case r of None \<Rightarrow> m | Some x \<Rightarrow> g x)"
  by (cases r) simp_all

lemma ans_pair: "(\<And>x y. p = (x, y) \<Longrightarrow> ans rid P (f x y)) \<Longrightarrow> ans rid P (case p of (x, y) \<Rightarrow> f x y)"
  by (cases p) simp_all

lemma ans_let: "(\<And>x. x = t \<Longrightarrow> ans rid P (f x)) \<Longrightarrow> ans rid P (let x = t in f x)"
  by simp

lemma silent_call: "silent (call f)"
  by (auto simp: ans_def call_def out_is_def bufs_ok_def split: prod.splits)

lemma silent_mqrun: "silent (mqrun m)"
  by (auto simp: ans_def mqrun_def out_is_def bufs_ok_def split: prod.splits)

lemma silent_ht: "silent (modify_ht f)" "silent (new_handle E use name fd flags dirp)"
  by (auto simp: ans_def modify_ht_def new_handle_def out_is_def bufs_ok_def split: prod.splits)

lemma silent_iq: "sim sb_writable sb_abs m d \<Longrightarrow> silent (iq m)"
proof (rule ansI)
  fix o0 s x t assume "sim sb_writable sb_abs m d" "out_is o0 s" "iq m s = (Inr x, t)"
  then show "if False then answered 0 o0 t else out_is o0 t"
    by (auto simp: out_is_def bufs_ok_def elim!: iq_Inr [where s = s])
qed

text \<open>A system call whose errors are error numbers, followed by its two branches.\<close>

definition errno_set :: "('os \<Rightarrow> (int + 'a) \<times> 'os) \<Rightarrow> bool" where
  "errno_set f \<longleftrightarrow> (\<forall>w e w'. f w = (Inl e, w') \<longrightarrow> e \<noteq> 0)"

lemma errno_to_portable_OK: "errno_to_portable e = SSH2_FX_OK \<longleftrightarrow> e = 0"
  by (simp add: errno_to_portable_def fx_codes)

lemma ans_syscall:
  assumes "errno_set f" and "\<And>x. ans rid (\<lambda>st. st = SSH2_FX_OK) (g x)"
  shows "ans rid (\<lambda>st. st = SSH2_FX_OK)
    (bindE (call f) (\<lambda>r. case r of Inl e \<Rightarrow> returnE (errno_to_portable e) | Inr x \<Rightarrow> g x))"
proof (rule ansI)
  fix o0 s y t assume s: "out_is o0 s" and
    "bindE (call f) (\<lambda>r. case r of Inl e \<Rightarrow> returnE (errno_to_portable e) | Inr x \<Rightarrow> g x) s = (Inr y, t)"
  then obtain r u where c: "call f s = (Inr r, u)"
    and k: "(case r of Inl e \<Rightarrow> returnE (errno_to_portable e) | Inr x \<Rightarrow> g x) u = (Inr y, t)"
    by (elim bindE_InrE)
  have u: "out_is o0 u" using ansD(2) [OF silent_call s c] by simp
  show "if y = SSH2_FX_OK then answered rid o0 t else out_is o0 t"
  proof (cases r)
    case (Inl e)
    then have "e \<noteq> 0"
      using c assms(1) by (auto simp: call_def errno_set_def split: prod.splits)
    then show ?thesis using k u Inl errno_to_portable_OK [of e] by auto
  next
    case (Inr x)
    then have "g x u = (Inr y, t)" using k by simp
    then show ?thesis using ansD [OF assms(2) u] by metis
  qed
qed

subsection \<open>Sending\<close>

text \<open>A writer that, where it succeeds, has appended \<open>v\<close>.\<close>

definition writes :: "unit sb \<Rightarrow> bytes \<Rightarrow> bool" where
  "writes m v \<longleftrightarrow>
     (\<forall>b. sb_writable b \<longrightarrow> sb_writable (snd (m b)) \<and>
        (\<forall>x. fst (m b) = Inr x \<longrightarrow> sshbuf_ptr (snd (m b)) = sshbuf_ptr b @ v))"

lemma writes_bind:
  assumes "writes m v" and "writes n w"
  shows "writes (bindE m (\<lambda>_. n)) (v @ w)"
  unfolding writes_def
proof (intro allI impI)
  fix b assume b: "sb_writable b"
  obtain r c where run: "m b = (r, c)" by fastforce
  have c: "sb_writable c" using assms(1) b run by (auto simp: writes_def)
  show "sb_writable (snd (bindE m (\<lambda>_. n) b)) \<and>
      (\<forall>x. fst (bindE m (\<lambda>_. n) b) = Inr x \<longrightarrow> sshbuf_ptr (snd (bindE m (\<lambda>_. n) b)) = sshbuf_ptr b @ v @ w)"
  proof (cases r)
    case (Inl e)
    then show ?thesis using c run by (simp add: bindE_def)
  next
    case (Inr x)
    then have "sshbuf_ptr c = sshbuf_ptr b @ v" using assms(1) b run by (auto simp: writes_def)
    moreover have "bindE m (\<lambda>_. n) b = n c" using run Inr by (simp add: bindE_def)
    ultimately show ?thesis
      using assms(2) [unfolded writes_def, rule_format, OF c] by simp
  qed
qed

lemma writes_return: "writes (returnE ()) []"
  by (simp add: writes_def)

lemma writes_if: "writes m v \<Longrightarrow> writes n w \<Longrightarrow> writes (if c then m else n) (if c then v else w)"
  by simp

lemma writes_appends: "appends m v \<Longrightarrow> writes m v"
  unfolding appends_def writes_def by (metis Inl_Inr_False)

lemma writes_put_string:
  assumes "\<forall>n. al n"
  shows "writes (sshbuf_put_string al v) (enc_string v)"
  unfolding writes_def
proof (intro allI impI)
  fix b assume b: "sb_writable b"
  obtain r c where run: "sshbuf_put_string al v b = (r, c)" by fastforce
  note st = simD [OF sshbuf_put_string_sim [OF assms] b run]
  then show "sb_writable (snd (sshbuf_put_string al v b)) \<and>
      (\<forall>x. fst (sshbuf_put_string al v b) = Inr x \<longrightarrow>
         sshbuf_ptr (snd (sshbuf_put_string al v b)) = sshbuf_ptr b @ enc_string v)"
    using run by (auto simp: bq_put_string_eq sb_abs_def split: if_splits)
qed

lemma writes_put_cstring: "\<forall>n. al n \<Longrightarrow> writes (sshbuf_put_cstring al v) (enc_string (cstr v))"
  unfolding sshbuf_put_cstring_def by (rule writes_put_string)

lemma writes_for:
  "(\<And>x. x \<in> set xs \<Longrightarrow> writes (f x) (g x)) \<Longrightarrow> writes (forE xs f) (concat (map g xs))"
  by (induction xs) (auto intro: writes_return writes_bind)

lemmas writes_rules = writes_bind writes_return writes_if writes_put_string writes_put_cstring
  writes_for appends_puts [THEN writes_appends] appends_encode_attrib [THEN writes_appends]

lemma with_msg_answers:
  assumes al: "\<forall>n. e_al E n" and w: "writes puts v" and r: "is_reply rid v"
  shows "answers rid (with_msg E puts)"
proof (rule ansI)
  fix o0 s x t assume s: "out_is o0 s" and run: "with_msg E puts s = (Inr x, t)"
  from run obtain msg m where new: "sshbuf_new (e_al E) = Some msg" and p: "puts msg = (Inr (), m)"
      and send: "send_msg E m s = (Inr x, t)"
    by (auto simp: with_msg_def fatal_def split: option.splits prod.splits sum.splits)
  have "sb_writable msg" "sshbuf_ptr msg = []" using sshbuf_new_writable [OF new] by simp_all
  then have m: "sb_writable m" "sshbuf_ptr m = v"
    using w p by (auto simp: writes_def dest!: spec [of _ msg])
  then have v: "take (sshbuf_len m) (sshbuf_ptr m) = v" by (simp add: sshbuf_len_ptr)
  have ok: "bufs_ok s" using s by (simp add: out_is_def)
  from al ok show "if True then answered rid o0 t else out_is o0 t"
  proof (cases rule: send_msg_run [where m = m])
    case (sent b)
    then show ?thesis
      using send s r v ok unfolding answered_def out_is_def bufs_ok_def by auto
  next
    case (full b)
    then show ?thesis using send by simp
  qed
qed

lemma is_reply_cons:
  "type \<in> {SSH2_FXP_STATUS, SSH2_FXP_HANDLE, SSH2_FXP_DATA, SSH2_FXP_NAME, SSH2_FXP_ATTRS,
      SSH2_FXP_EXTENDED_REPLY} \<Longrightarrow> is_reply rid (type # put_u32 rid @ rest)"
  by (auto simp: is_reply_def)

text \<open>The bodies of the replies.\<close>

definition status_body :: "u32 \<Rightarrow> u32 \<Rightarrow> u32 \<Rightarrow> bytes" where
  "status_body v rid st =
     [SSH2_FXP_STATUS] @ put_u32 rid @ put_u32 st @
     (if v \<ge> 3 then enc_string (cstr (lit (status_to_message st))) @ enc_string (cstr []) else [])"

definition data_body :: "u8 \<Rightarrow> u32 \<Rightarrow> bytes \<Rightarrow> bytes" where
  "data_body type rid d = [type] @ put_u32 rid @ enc_string d"

definition names_body :: "u32 \<Rightarrow> Stat list \<Rightarrow> bytes" where
  "names_body rid stats =
     [SSH2_FXP_NAME] @ put_u32 rid @ put_u32 (word_of_nat (length stats)) @
     concat (map (\<lambda>st. enc_string (cstr (s_name st)) @ enc_string (cstr (s_long_name st)) @
                       enc_attrib (s_attrib st)) stats)"

definition attrib_body :: "u32 \<Rightarrow> Attrib \<Rightarrow> bytes" where
  "attrib_body rid a = [SSH2_FXP_ATTRS] @ put_u32 rid @ enc_attrib a"

definition statvfs_body :: "u32 \<Rightarrow> statvfs \<Rightarrow> bytes" where
  "statvfs_body rid st =
     [SSH2_FXP_EXTENDED_REPLY] @ put_u32 rid @ concat (map put_u64 (statvfs_words st))"

lemma status_writes:
  assumes "\<forall>n. e_al E n"
  shows "writes (bindE (sshbuf_put_u8 (e_al E) SSH2_FXP_STATUS) (\<lambda>_.
        bindE (sshbuf_put_u32 (e_al E) rid) (\<lambda>_.
        bindE (sshbuf_put_u32 (e_al E) st) (\<lambda>_.
        if v \<ge> 3
        then bindE (sshbuf_put_cstring (e_al E) (lit (status_to_message st))) (\<lambda>_.
             sshbuf_put_cstring (e_al E) [])
        else returnE ())))) (status_body v rid st)"
  unfolding status_body_def by (intro writes_rules assms)

lemma data_writes:
  assumes "\<forall>n. e_al E n"
  shows "writes (bindE (sshbuf_put_u8 (e_al E) type) (\<lambda>_.
        bindE (sshbuf_put_u32 (e_al E) rid) (\<lambda>_.
        sshbuf_put_string (e_al E) d))) (data_body type rid d)"
  unfolding data_body_def by (intro writes_rules assms)

lemma names_writes:
  assumes "\<forall>n. e_al E n"
  shows "writes (bindE (sshbuf_put_u8 (e_al E) SSH2_FXP_NAME) (\<lambda>_.
        bindE (sshbuf_put_u32 (e_al E) rid) (\<lambda>_.
        bindE (sshbuf_put_u32 (e_al E) (word_of_nat (length stats))) (\<lambda>_.
        forE stats (put_stat E))))) (names_body rid stats)"
  unfolding names_body_def put_stat_def by (intro writes_rules assms)

lemma attrib_writes:
  assumes "\<forall>n. e_al E n"
  shows "writes (bindE (sshbuf_put_u8 (e_al E) SSH2_FXP_ATTRS) (\<lambda>_.
        bindE (sshbuf_put_u32 (e_al E) rid) (\<lambda>_.
        encode_attrib (e_al E) a))) (attrib_body rid a)"
  unfolding attrib_body_def by (intro writes_rules assms)

lemma statvfs_writes:
  assumes "\<forall>n. e_al E n"
  shows "writes (bindE (sshbuf_put_u8 (e_al E) SSH2_FXP_EXTENDED_REPLY) (\<lambda>_.
        bindE (sshbuf_put_u32 (e_al E) rid) (\<lambda>_.
        forE (statvfs_words st) (sshbuf_put_u64 (e_al E))))) (statvfs_body rid st)"
  unfolding statvfs_body_def by (intro writes_rules assms)

subsection \<open>Handlers\<close>

text \<open>
  What the system promises of errors: a failing call sets an error number. The requests that
  use the status to tell whether they have answered depend on it.
\<close>

definition errnos_set :: "('md, 'os) env \<Rightarrow> bool" where
  "errnos_set E \<longleftrightarrow>
     (\<forall>path flags mode. errno_set (sys_open E path flags mode)) \<and>
     (\<forall>fd off. errno_set (sys_lseek E fd off)) \<and>
     (\<forall>fd len. errno_set (sys_read E fd len)) \<and>
     (\<forall>path. errno_set (sys_stat E path)) \<and>
     (\<forall>path. errno_set (sys_lstat E path)) \<and>
     (\<forall>fd. errno_set (sys_fstat E fd)) \<and>
     (\<forall>path. errno_set (sys_opendir E path))"

locale replying =
  fixes E :: "('md, 'os) env"
  assumes al: "\<forall>n. e_al E n" and errs: "errnos_set E"
begin

lemma errno_sets:
  "errno_set (sys_open E path flags mode)" "errno_set (sys_lseek E fd off)"
  "errno_set (sys_read E fd len)" "errno_set (sys_stat E path)" "errno_set (sys_lstat E path)"
  "errno_set (sys_fstat E fd)" "errno_set (sys_opendir E path)"
  using errs by (simp_all add: errnos_set_def)

lemmas flow = silent_bind ans_if ans_sum ans_option ans_pair ans_let

lemmas silent_readers =
  silent_iq [OF sb_rw.get_u8] silent_iq [OF sb_rw.get_u32] silent_iq [OF sb_rw.get_u64]
  silent_iq [OF sb_rw.get_string [OF al]] silent_iq [OF sb_rw.get_cstring [OF al]]
  silent_iq [OF decode_attrib_sim [OF al]] silent_iq [OF sshbuf_consume_sim]

lemma silent_get_path: "silent (get_path E)"
  unfolding get_path_def by (intro flow silent_readers silent_return)

lemma silent_get_handle: "silent (get_handle E)"
  unfolding get_handle_def by (intro flow silent_readers silent_gets silent_return)

lemma silent_attempt: "silent (attempt b f st)"
  unfolding attempt_def by (intro flow silent_call silent_return)

lemma silent_handle_close: "silent (handle_close E i)"
  unfolding handle_close_def
  by (intro flow silent_call silent_return silent_mqrun silent_gets silent_ht)

lemma silent_do_rename: "silent (do_rename E p q)"
  unfolding do_rename_def rename_if_absent_def by (intro flow silent_call silent_return)

lemma silent_readdir_loop: "silent (readdir_loop E dirp path n stats)"
proof (induction n arbitrary: stats)
  case 0
  show ?case by (simp only: readdir_loop.simps ans_throw)
next
  case (Suc n)
  then show ?case
    unfolding readdir_loop.simps by (intro flow silent_call silent_return silent_gets)
qed

lemma silent_cleanup: "ans rid P (sftp_server_cleanup_exit E i)"
  unfolding sftp_server_cleanup_exit_def by (intro flow silent_mqrun ans_throw)

lemmas silent_steps = silent_readers silent_get_path silent_get_handle silent_attempt
  silent_handle_close silent_do_rename silent_readdir_loop silent_call silent_mqrun silent_ht
  silent_gets silent_return ans_throw

lemma send_status_answers: "answers rid (send_status E rid st)"
proof -
  have "answers rid (with_msg E
       (bindE (sshbuf_put_u8 (e_al E) SSH2_FXP_STATUS) (\<lambda>_.
        bindE (sshbuf_put_u32 (e_al E) rid) (\<lambda>_.
        bindE (sshbuf_put_u32 (e_al E) st) (\<lambda>_.
        if v \<ge> 3
        then bindE (sshbuf_put_cstring (e_al E) (lit (status_to_message st))) (\<lambda>_.
             sshbuf_put_cstring (e_al E) [])
        else returnE ())))))" for v :: u32
    using status_writes [OF al] by (rule with_msg_answers [OF al]) (simp add: status_body_def is_reply_cons)
  then show ?thesis
    unfolding send_status_def by (intro flow silent_gets)
qed

lemma send_data_answers: "answers rid (send_data E rid d)" "answers rid (send_handle E rid i)"
  unfolding send_data_def send_handle_def send_data_or_handle_def
  by (rule with_msg_answers [OF al data_writes [OF al]], simp add: data_body_def is_reply_cons)+

lemma send_names_answers: "answers rid (send_names E rid stats)"
  unfolding send_names_def
  by (rule with_msg_answers [OF al names_writes [OF al]]) (simp add: names_body_def is_reply_cons)

lemma send_attrib_answers: "answers rid (send_attrib E rid a)"
  unfolding send_attrib_def
  by (rule with_msg_answers [OF al attrib_writes [OF al]]) (simp add: attrib_body_def is_reply_cons)

lemma send_statvfs_answers: "answers rid (send_statvfs E rid st)"
  unfolding send_statvfs_def
  by (rule with_msg_answers [OF al statvfs_writes [OF al]]) (simp add: statvfs_body_def is_reply_cons)

lemmas sends = send_status_answers send_data_answers send_names_answers send_attrib_answers
  send_statvfs_answers

text \<open>A reply, then the status that says so.\<close>

lemma send_then_OK:
  "answers rid m \<Longrightarrow> ans rid (\<lambda>st. st = SSH2_FX_OK) (bindE m (\<lambda>_. returnE SSH2_FX_OK))"
  by (rule answered_bind) (auto intro: silent_return)

lemmas replies = ans_status [OF _ send_status_answers] ans_syscall [OF errno_sets(1)]
  ans_syscall [OF errno_sets(2)] ans_syscall [OF errno_sets(3)] ans_syscall [OF errno_sets(6)]
  ans_syscall [OF errno_sets(7)] send_then_OK flow sends silent_steps

lemma not_OK: "SSH2_FX_FAILURE \<noteq> SSH2_FX_OK" "SSH2_FX_PERMISSION_DENIED \<noteq> SSH2_FX_OK"
  "SSH2_FX_EOF \<noteq> SSH2_FX_OK"
  by (simp_all add: fx_codes)

lemma process_open_answers: "answers rid (process_open E rid)"
  unfolding process_open_def
  by (intro replies ans_return not_OK)

lemma process_close_answers: "answers rid (process_close E rid)"
  unfolding process_close_def by (intro replies)

lemma process_read_answers: "answers rid (process_read E rid)"
proof -
  have data: "ans rid (\<lambda>st. st = SSH2_FX_OK) (bindE (send_data E rid d) (\<lambda>_.
      bindE (modify_ht f) (\<lambda>_. returnE SSH2_FX_OK)))" for d f
  proof (rule answered_bind)
    show "silent (bindE (modify_ht f) (\<lambda>_. returnE SSH2_FX_OK))" by (intro flow silent_steps)
  qed (auto intro: sends simp: bindE_def modify_ht_def)
  show ?thesis
    unfolding process_read_def by (intro data replies ans_return not_OK)
qed

lemma process_write_answers: "answers rid (process_write E rid)"
  unfolding process_write_def by (intro replies)

text \<open>The same where the system call comes before the status is known.\<close>

lemma ans_call_status:
  assumes "errno_set f" and "\<And>x. ans rid (\<lambda>st. st = SSH2_FX_OK) (g x)"
  shows "answers rid (bindE (call f) (\<lambda>r.
    bindE (case r of Inl e \<Rightarrow> returnE (errno_to_portable e) | Inr x \<Rightarrow> g x) (\<lambda>st.
    if st \<noteq> SSH2_FX_OK then send_status E rid st else returnE ())))"
  using ans_status [OF ans_syscall [OF assms] send_status_answers] unfolding bindE_assoc .

lemma errno_set_stats: "errno_set (if b then sys_lstat E p else sys_stat E p)"
  by (simp add: errno_sets)

lemmas call_replies = ans_call_status [OF errno_set_stats] ans_call_status [OF errno_sets(7)] replies

lemma process_stats_answers: "answers rid (process_stat E rid)" "answers rid (process_lstat E rid)"
  "answers rid (process_fstat E rid)"
  unfolding process_stat_def process_lstat_def process_do_stat_def process_fstat_def
  by (intro call_replies ans_return not_OK)+

lemma process_setstats_answers: "answers rid (process_setstat E rid)" "answers rid (process_fsetstat E rid)"
  unfolding process_setstat_def process_fsetstat_def by (intro replies)+

lemma process_dirs_answers: "answers rid (process_opendir E rid)" "answers rid (process_readdir E rid)"
  unfolding process_opendir_def process_readdir_def
  by (intro call_replies ans_return not_OK)+

text \<open>The requests that answer first and notify afterwards.\<close>

lemma ans_then_notify: "(\<And>x. silent (f x)) \<Longrightarrow> answers rid (bindE (send_status E rid st) f)"
  by (rule answered_bind [OF send_status_answers]) auto

lemma process_names_answers:
  "answers rid (process_remove E rid)" "answers rid (process_rename E rid)"
  "answers rid (process_extended_posix_rename E rid)"
  unfolding process_remove_def process_rename_def process_extended_posix_rename_def
  by (intro ans_then_notify replies)+

lemma process_paths_answers:
  "answers rid (process_mkdir E rid)" "answers rid (process_rmdir E rid)"
  "answers rid (process_realpath E rid)" "answers rid (process_readlink E rid)"
  "answers rid (process_symlink E rid)"
  unfolding process_mkdir_def process_rmdir_def process_realpath_def process_readlink_def
    process_symlink_def
  by (intro replies)+

lemma process_extensions_answers:
  "answers rid (process_extended_statvfs E rid)" "answers rid (process_extended_fstatvfs E rid)"
  "answers rid (process_extended_hardlink E rid)" "answers rid (process_extended_fsync E rid)"
  unfolding process_extended_statvfs_def process_extended_fstatvfs_def
    process_extended_hardlink_def process_extended_fsync_def
  by (intro replies)+

lemmas handlers_answer = process_open_answers process_close_answers process_read_answers
  process_write_answers process_stats_answers process_setstats_answers process_dirs_answers
  process_names_answers process_paths_answers process_extensions_answers

lemma run_handler_answers: "answers rid (sh_handler h rid) \<Longrightarrow> answers rid (run_handler E h rid)"
  unfolding run_handler_def by (intro replies)

lemma table_answers:
  "h \<in> set (handlers_table E) \<or> h \<in> set (extended_handlers E) \<Longrightarrow> answers rid (sh_handler h rid)"
  unfolding handlers_table_def extended_handlers_def
  using handlers_answer by (auto simp: handler_def ext_handler_def)

lemma process_extended_answers: "answers rid (process_extended E rid)"
proof -
  have "answers rid (run_handler E h rid)"
    if "List.find (\<lambda>h. request = lit (sh_ext_name h)) (extended_handlers E) = Some h" for h request
    using that by (intro run_handler_answers table_answers) (auto simp: find_Some_iff)
  then show ?thesis
    unfolding process_extended_def by (intro replies)
qed

lemma dispatch_answers:
  assumes "type \<noteq> SSH2_FXP_INIT" and ok: "bufs_ok s"
    and known: "type = SSH2_FXP_EXTENDED \<or> (\<exists>h\<in>set (handlers_table E). type = sh_type h)"
    and rid: "sshbuf_ptr (iqueue s) = put_u32 rid @ rest"
    and run: "dispatch E type s = (Inr (), t)"
  shows "answered rid (sshbuf_ptr (oqueue s)) t"
proof -
  let ?h = "\<lambda>rid. if type = SSH2_FXP_EXTENDED then process_extended E rid
          else case List.find (\<lambda>h. type = sh_type h) (handlers_table E) of
              Some h \<Rightarrow> run_handler E h rid | None \<Rightarrow> returnE ()"
  have "(if \<not> init_done s then fatal else bindE (iq sshbuf_get_u32) ?h) s = (Inr (), t)"
    using run assms(1) unfolding dispatch_def by (simp only: if_False bindE_getsE)
  then have "bindE (iq sshbuf_get_u32) ?h s = (Inr (), t)"
    by (cases "init_done s") (simp_all only: if_True if_False not_True_eq_False fatal_def est_apply
        prod.inject sum.distinct simp_thms)
  then obtain rid' u where get: "iq sshbuf_get_u32 s = (Inr rid', u)" and h: "?h rid' u = (Inr (), t)"
    by (rule bindE_InrE)
  from sb_rw.get_u32 ok get obtain b where b: "u = s\<lparr>iqueue := b\<rparr>" "sb_writable b"
      "bq_get_u32 (sb_abs (iqueue s)) = (Inr rid', sb_abs b)"
    by (rule iq_Inr)
  have "rid' = rid" using b(3) by (simp add: rid bq_get_u32_eq sb_abs_def)
  have "out_is (sshbuf_ptr (oqueue s)) u" using ok b by (simp add: out_is_def bufs_ok_def)
  moreover have "answers rid (?h rid)"
  proof (cases "type = SSH2_FXP_EXTENDED")
    case True
    then show ?thesis using process_extended_answers by simp
  next
    case False
    then have "List.find (\<lambda>h. type = sh_type h) (handlers_table E) \<noteq> None"
      using known unfolding find_None_iff by blast
    then obtain h where h: "List.find (\<lambda>h. type = sh_type h) (handlers_table E) = Some h" by blast
    then have "h \<in> set (handlers_table E)" by (auto simp: find_Some_iff)
    then have "answers rid (run_handler E h rid)" by (intro run_handler_answers table_answers) blast
    then show ?thesis using False h by simp
  qed
  ultimately show ?thesis
    using ansD(1) [of rid "\<lambda>_. True" "?h rid"] h unfolding \<open>rid' = rid\<close> by simp
qed

end

text \<open>The request types that the server knows.\<close>

definition request_types :: "u8 list" where
  "request_types =
     [SSH2_FXP_OPEN, SSH2_FXP_CLOSE, SSH2_FXP_READ, SSH2_FXP_WRITE, SSH2_FXP_LSTAT, SSH2_FXP_FSTAT,
      SSH2_FXP_SETSTAT, SSH2_FXP_FSETSTAT, SSH2_FXP_OPENDIR, SSH2_FXP_READDIR, SSH2_FXP_REMOVE,
      SSH2_FXP_MKDIR, SSH2_FXP_RMDIR, SSH2_FXP_REALPATH, SSH2_FXP_STAT, SSH2_FXP_RENAME,
      SSH2_FXP_READLINK, SSH2_FXP_SYMLINK, SSH2_FXP_EXTENDED]"

lemma request_types_known:
  "type \<in> set request_types \<Longrightarrow>
     type = SSH2_FXP_EXTENDED \<or> (\<exists>h\<in>set (handlers_table E). type = sh_type h)"
  by (auto simp: request_types_def handlers_table_def handler_def)

lemma request_types_not_init: "SSH2_FXP_INIT \<notin> set request_types"
  by (simp add: request_types_def fxp_requests)

text \<open>A packet on the input queue.\<close>

definition packet :: "u8 \<Rightarrow> u32 \<Rightarrow> bytes \<Rightarrow> bytes" where
  "packet type rid args = enc_string (type # put_u32 rid @ args)"

lemma complete_packet:
  assumes "length args + 5 \<le> SFTP_MAX_MSG_LENGTH"
  shows "complete (packet type rid args @ rest)" "msg_len_of (packet type rid args @ rest) = length args + 5"
proof -
  have "length args + 5 < 2 ^ 32" using assms by (simp add: SFTP_MAX_MSG_LENGTH_def)
  then have "unat (word_of_nat (length args + 5) :: u32) = length args + 5"
    by (simp only: unat_of_nat) simp
  then show "msg_len_of (packet type rid args @ rest) = length args + 5"
    by (simp add: packet_def enc_string_def msg_len_of_def add.commute)
  then show "complete (packet type rid args @ rest)"
    using assms by (simp add: complete_def) (simp add: packet_def enc_string_def)
qed

lemma process_packet:
  assumes run: "process E s = (Inr (), t)" and ok: "bufs_ok s"
    and ptr: "sshbuf_ptr (iqueue s) = packet type rid args @ rest"
    and len: "length args + 5 \<le> SFTP_MAX_MSG_LENGTH"
  obtains s2 s3 where "s2 = s\<lparr>iqueue := iqueue s2\<rparr>" "bufs_ok s2"
    "sshbuf_ptr (iqueue s2) = put_u32 rid @ args @ rest"
    "dispatch E type s2 = (Inr (), s3)" "oqueue t = oqueue s3"
proof -
  let ?b = "sshbuf_ptr (iqueue s)"
  have full: "complete ?b" unfolding ptr by (rule complete_packet(1) [OF len])
  have lb: "sshbuf_len (iqueue s) = length ?b"
    using ok by (simp add: bufs_ok_def sshbuf_len_ptr)
  have "bindE (iq (sshbuf_consume 4)) (\<lambda>_. bindE (iq sshbuf_get_u8) (\<lambda>type.
       bindE (dispatch E type) (\<lambda>_. discard_rest E (length ?b - 4) (msg_len_of ?b)))) s = (Inr (), t)"
    using run full by (simp add: process_def complete_def msg_len_of_def lb Let_def del: length_sshbuf_ptr)
  then obtain s1 type' s2 s3 where
      1: "iq (sshbuf_consume 4) s = (Inr (), s1)" and
      2: "iq sshbuf_get_u8 s1 = (Inr type', s2)" and
      3: "dispatch E type' s2 = (Inr (), s3)" and
      4: "discard_rest E (length ?b - 4) (msg_len_of ?b) s3 = (Inr (), t)"
    by (auto elim!: bindE_InrE)
  note c = iq_consume_Inr [OF ok 1]
  note g = iq_get_u8_Inr [OF c(1) 2]
  have "type' # sshbuf_ptr (iqueue s2) = type # put_u32 rid @ args @ rest"
    using c(3) g(2) by (simp add: ptr packet_def enc_string_def)
  then have "type' = type" and s2: "sshbuf_ptr (iqueue s2) = put_u32 rid @ args @ rest" by simp_all
  have "s1\<lparr>iqueue := iqueue s2\<rparr> = s\<lparr>iqueue := iqueue s2\<rparr>" using arg_cong [OF c(4), of "iqueue_update (\<lambda>_. iqueue s2)"] by simp
  with g(3) have "s2 = s\<lparr>iqueue := iqueue s2\<rparr>" by (rule trans)
  from that [OF this g(1) s2 3 [unfolded \<open>type' = type\<close>] discard_rest_oqueue [OF 4]] show thesis .
qed

context replying
begin

lemma process_answers:
  assumes "bufs_ok s" and "type \<in> set request_types" and "length args + 5 \<le> SFTP_MAX_MSG_LENGTH"
    and ptr: "sshbuf_ptr (iqueue s) = packet type rid args @ rest" and run: "process E s = (Inr (), t)"
  shows "(\<exists>body. is_reply rid body \<and>
      sshbuf_ptr (oqueue t) = sshbuf_ptr (oqueue s) @ enc_string body) \<and> sshbuf_ptr (iqueue t) = rest"
proof
  obtain s2 s3 where p: "s2 = s\<lparr>iqueue := iqueue s2\<rparr>" "bufs_ok s2"
    "sshbuf_ptr (iqueue s2) = put_u32 rid @ args @ rest"
    "dispatch E type s2 = (Inr (), s3)" "oqueue t = oqueue s3"
    by (rule process_packet [OF run assms(1) ptr assms(3)])
  have "type \<noteq> SSH2_FXP_INIT" using assms(2) request_types_not_init by blast
  from dispatch_answers [OF this p(2) request_types_known [OF assms(2)] p(3,4)]
  have "answered rid (sshbuf_ptr (oqueue s2)) s3" .
  moreover have "oqueue s2 = oqueue s" by (subst p(1)) simp
  ultimately show "\<exists>body. is_reply rid body \<and>
      sshbuf_ptr (oqueue t) = sshbuf_ptr (oqueue s) @ enc_string body"
    using p(5) by (auto simp: answered_def out_is_def)
  note c = complete_packet [OF assms(3), of type rid rest]
  have "length (packet type rid args) = 4 + (length args + 5)"
    by (simp add: packet_def enc_string_def)
  then show "sshbuf_ptr (iqueue t) = rest"
    using process_consumes [OF al assms(1) run] c unfolding ptr by simp
qed

end

end
