(* ===== verification/Sftp_Total.thy ===== *)
theory Sftp_Total
  imports Sftp_Replies
begin

text \<open>
  Well-formed requests are answered: where the arguments of a request parse, the output queue
  has the room that the main loop checks for, and the message broker is configured, the handler
  returns. It neither dies nor leaves the packet half read.
\<close>

section \<open>Steps that return\<close>

definition room :: "('md, 'os) srv \<Rightarrow> bool" where
  "room s \<longleftrightarrow> length (sshbuf_ptr (oqueue s)) + SFTP_MAX_MSG_LENGTH \<le> sb_max_size (oqueue s)"

definition brokered :: "mq_options_t option \<Rightarrow> bool" where
  "brokered mo \<longleftrightarrow> (\<exists>m ex rk. mo = Some m \<and> addressed m ex rk)"

definition able :: "('md, 'os) srv \<Rightarrow> bool" where
  "able s \<longleftrightarrow> bufs_ok s \<and> brokered (mq_options s)"

text \<open>A step that touches no queue, and one that sends a message.\<close>

definition quietly :: "('a \<Rightarrow> bool) \<Rightarrow> ('md, 'os, 'a) sv \<Rightarrow> bool" where
  "quietly P m \<longleftrightarrow> (\<forall>s. able s \<longrightarrow>
     (\<exists>x t. m s = (Inr x, t) \<and> P x \<and> able t \<and> iqueue t = iqueue s \<and> oqueue t = oqueue s))"

abbreviation (input) quiet :: "('md, 'os, 'a) sv \<Rightarrow> bool" where
  "quiet m \<equiv> quietly (\<lambda>_. True) m"

definition replies_ok :: "('md, 'os, 'a) sv \<Rightarrow> bool" where
  "replies_ok m \<longleftrightarrow> (\<forall>s. able s \<and> room s \<longrightarrow>
     (\<exists>x t. m s = (Inr x, t) \<and> able t \<and> iqueue t = iqueue s))"

text \<open>
  \<open>fin p Q m\<close>: where the parser \<open>p\<close> accepts the front of the input queue, \<open>m\<close> returns and
  reads no more than \<open>p\<close> does. Results in \<open>Q\<close> are those after a reply; before it the output
  queue still has room.
\<close>

definition fin :: "(bq, unit, 'z) est \<Rightarrow> ('a \<Rightarrow> bool) \<Rightarrow> ('md, 'os, 'a) sv \<Rightarrow> bool" where
  "fin p Q m \<longleftrightarrow> (\<forall>s z q. able s \<and> room s \<and> p (sb_abs (iqueue s)) = (Inr z, q) \<longrightarrow>
     (\<exists>x t. m s = (Inr x, t) \<and> able t \<and> length (bq_bytes q) \<le> length (sshbuf_ptr (iqueue t)) \<and>
            (\<not> Q x \<longrightarrow> room t)))"

definition rd :: "(bq, 'e, 'a) est \<Rightarrow> (bq, unit, 'a) est" where
  "rd d = mapE (\<lambda>_. ()) d"

lemma rd_Inr: "rd d q = (Inr x, r) \<longleftrightarrow> d q = (Inr x, r)"
  by (auto simp: rd_def mapE_def split: prod.splits sum.splits)

lemma finI:
  assumes "\<And>s z q. able s \<Longrightarrow> room s \<Longrightarrow> p (sb_abs (iqueue s)) = (Inr z, q) \<Longrightarrow>
     \<exists>x t. m s = (Inr x, t) \<and> able t \<and> length (bq_bytes q) \<le> length (sshbuf_ptr (iqueue t)) \<and>
            (\<not> Q x \<longrightarrow> room t)"
  shows "fin p Q m"
  using assms unfolding fin_def by blast

lemma finE:
  assumes "fin p Q m" "able s" "room s" "p (sb_abs (iqueue s)) = (Inr z, q)"
  obtains x t where "m s = (Inr x, t)" "able t" "length (bq_bytes q) \<le> length (sshbuf_ptr (iqueue t))"
    "\<not> Q x \<Longrightarrow> room t"
  using assms unfolding fin_def by blast

lemma iq_returns:
  assumes "sim sb_writable sb_abs m d" and "bufs_ok s" and "d (sb_abs (iqueue s)) = (Inr x, q)"
  obtains b where "iq m s = (Inr x, s\<lparr>iqueue := b\<rparr>)" "sb_writable b" "sb_abs b = q"
proof -
  obtain r b where run: "m (iqueue s) = (r, b)" by fastforce
  have "sb_writable (iqueue s)" using assms(2) by (simp add: bufs_ok_def)
  note st = simD [OF assms(1) this run]
  from assms(3) st(2) have "r = Inr x" "sb_abs b = q" by simp_all
  with run st(1) show thesis by (intro that [of b]) (simp_all add: iq_def)
qed

lemma fin_read:
  assumes "sim sb_writable sb_abs m d" and "\<And>x. fin (f x) Q (g x)"
  shows "fin (bindE (rd d) f) Q (bindE (iq m) g)"
proof (rule finI, goal_cases)
  case (1 s z q)
  note s = 1(1,2)
  from 1(3) obtain x r where d: "rd d (sb_abs (iqueue s)) = (Inr x, r)" and f: "f x r = (Inr z, q)"
    by (auto elim: bindE_InrE)
  have "bufs_ok s" using s(1) by (simp add: able_def)
  from iq_returns [OF assms(1) this d [unfolded rd_Inr]]
  obtain b where b: "iq m s = (Inr x, s\<lparr>iqueue := b\<rparr>)" "sb_writable b" "sb_abs b = r" .
  let ?u = "s\<lparr>iqueue := b\<rparr>"
  have "able ?u" "room ?u" "f x (sb_abs (iqueue ?u)) = (Inr z, q)"
    using s b f by (simp_all add: able_def bufs_ok_def room_def)
  from finE [OF assms(2) this] obtain y t where "g x ?u = (Inr y, t)" "able t"
      "length (bq_bytes q) \<le> length (sshbuf_ptr (iqueue t))" "\<not> Q y \<longrightarrow> room t"
    by metis
  then show ?case
    by (auto simp: bindE_Inr [of "iq m", OF b(1)])
qed

lemma fin_step:
  assumes "quietly P m" and "\<And>x. P x \<Longrightarrow> fin p Q (g x)"
  shows "fin p Q (bindE m g)"
proof (rule finI, goal_cases)
  case (1 s z q)
  note s = 1(1,2) and p = 1(3)
  from s obtain x u where u: "m s = (Inr x, u)" "able u" "iqueue u = iqueue s" "oqueue u = oqueue s" "P x"
    using assms(1) unfolding quietly_def by blast
  then have "room u" "p (sb_abs (iqueue u)) = (Inr z, q)" using s p by (simp_all add: room_def)
  from finE [OF assms(2) [OF u(5)] u(2) this] obtain y t where "g x u = (Inr y, t)" "able t"
      "length (bq_bytes q) \<le> length (sshbuf_ptr (iqueue t))" "\<not> Q y \<longrightarrow> room t"
    by metis
  then show ?case
    by (auto simp: bindE_Inr [of m, OF u(1)])
qed

text \<open>Where the arguments are read, what is left of the parser returns.\<close>

abbreviation (input) finish :: "('a \<Rightarrow> bool) \<Rightarrow> ('md, 'os, 'a) sv \<Rightarrow> bool" where
  "finish Q m \<equiv> fin (returnE ()) Q m"

lemma fin_return: "finish Q (returnE x)"
  by (auto simp: fin_def)

lemma fin_reply: "replies_ok m \<Longrightarrow> (\<And>x. Q x) \<Longrightarrow> finish Q m"
  by (fastforce simp: fin_def replies_ok_def)

lemma fin_reply_then:
  assumes "replies_ok m" and "\<And>x. quiet (f x)" and "\<And>x s y t. f x s = (Inr y, t) \<Longrightarrow> Q y"
  shows "finish Q (bindE m f)"
proof (rule finI, goal_cases)
  case (1 s z q)
  note s = 1(1,2) and q = 1(3)
  from s obtain x u where u: "m s = (Inr x, u)" "able u" "iqueue u = iqueue s"
    using assms(1) unfolding replies_ok_def by blast
  then obtain y t where "f x u = (Inr y, t)" "able t" "iqueue t = iqueue u"
    using assms(2) unfolding quietly_def by blast
  then show ?case
    using q u(3) assms(3) by (auto simp: bindE_Inr [of m, OF u(1)])
qed

lemma fin_status:
  assumes "finish (\<lambda>st. st = SSH2_FX_OK) m" and "\<And>st. replies_ok (send st)"
  shows "finish (\<lambda>_. True) (bindE m (\<lambda>st. if st \<noteq> SSH2_FX_OK then send st else returnE ()))"
proof (rule finI, goal_cases)
  case (1 s z q)
  note s = 1(1,2) and q = 1(3)
  from finE [OF assms(1) s q] obtain st u where u: "m s = (Inr st, u)" "able u"
      "length (bq_bytes q) \<le> length (sshbuf_ptr (iqueue u))" "st \<noteq> SSH2_FX_OK \<longrightarrow> room u"
    by metis
  have "\<exists>x t. (if st \<noteq> SSH2_FX_OK then send st else returnE ()) u = (Inr x, t) \<and> able t \<and> iqueue t = iqueue u"
    using u assms(2) unfolding replies_ok_def by (cases "st = SSH2_FX_OK") auto
  then show ?case
    using u(3) by (auto simp: bindE_Inr [of m, OF u(1)])
qed

lemma fin_flow:
  "(b \<Longrightarrow> fin p Q m) \<Longrightarrow> (\<not> b \<Longrightarrow> fin p Q n) \<Longrightarrow> fin p Q (if b then m else n)"
  "(\<And>e. r = Inl e \<Longrightarrow> fin p Q (f e)) \<Longrightarrow> (\<And>x. r = Inr x \<Longrightarrow> fin p Q (g x)) \<Longrightarrow>
     fin p Q (case r of Inl e \<Rightarrow> f e | Inr x \<Rightarrow> g x)"
  "(v = None \<Longrightarrow> fin p Q m) \<Longrightarrow> (\<And>x. v = Some x \<Longrightarrow> fin p Q (h x)) \<Longrightarrow>
     fin p Q (case v of None \<Rightarrow> m | Some x \<Rightarrow> h x)"
  "(\<And>x. x = t \<Longrightarrow> fin p Q (k x)) \<Longrightarrow> fin p Q (let x = t in k x)"
  by (simp_all split: sum.splits option.splits)

section \<open>Quiet steps\<close>

lemma quiet_return: "P x \<Longrightarrow> quietly P (returnE x)"
  by (simp add: quietly_def)

lemma quiet_gets: "quiet (getsE f)"
  by (simp add: quietly_def)

lemma quiet_ht: "quiet (modify_ht f)" "quiet (new_handle E use name fd flags dirp)"
  by (simp_all add: quietly_def modify_ht_def new_handle_def able_def bufs_ok_def split: prod.splits)

lemma quiet_call:
  assumes "\<And>w x w'. f w = (x, w') \<Longrightarrow> P x"
  shows "quietly P (call f)"
  using assms by (auto simp: quietly_def call_def able_def bufs_ok_def split: prod.splits)

lemmas quiet_syscall = quiet_call [where P = "\<lambda>_. True", OF TrueI]

lemma quiet_bind:
  assumes "quietly P m" and "\<And>x. P x \<Longrightarrow> quietly Q (g x)"
  shows "quietly Q (bindE m g)"
  using assms unfolding quietly_def bindE_def by fastforce

lemma quiet_flow:
  "(b \<Longrightarrow> quietly P m) \<Longrightarrow> (\<not> b \<Longrightarrow> quietly P n) \<Longrightarrow> quietly P (if b then m else n)"
  "(\<And>e. r = Inl e \<Longrightarrow> quietly P (f e)) \<Longrightarrow> (\<And>x. r = Inr x \<Longrightarrow> quietly P (g x)) \<Longrightarrow>
     quietly P (case r of Inl e \<Rightarrow> f e | Inr x \<Rightarrow> g x)"
  "(\<And>x. x = t \<Longrightarrow> quietly P (k x)) \<Longrightarrow> quietly P (let x = t in k x)"
  by (simp_all split: sum.splits)

text \<open>Notifications return whatever the broker does.\<close>

lemma mq_open_connection_returns: "\<exists>rc mo w'. mq_open_connection A (Some m, w) = (Inr rc, (Some mo, w'))"
  by (simp add: mq_open_connection_def bindE_def wcall_apply split: option.splits)

lemma brokered_same_config:
  assumes "brokered mo" and "same_config (mo, w) (mo', w')"
  shows "brokered mo'"
proof -
  from assms obtain m m' ex rk where m: "mo = Some m" "addressed m ex rk" "mo' = Some m'"
      "config_of m' = config_of m"
    by (auto simp: brokered_def same_config_def)
  have "mo_exchange (config_of m') = mo_exchange (config_of m)"
       "mo_routing_key (config_of m') = mo_routing_key (config_of m)" by (simp_all add: m(4))
  then show ?thesis using m(2,3) by (auto simp: brokered_def addressed_def config_of_def)
qed

lemma open_and_send_returns:
  assumes "brokered mo"
  shows "\<exists>rc mo' w'. open_and_send A (Str body) (mo, w) = (Inr rc, (mo', w')) \<and> brokered mo'"
proof -
  obtain m ex rk where m: "mo = Some m" "addressed m ex rk" using assms by (auto simp: brokered_def)
  have "\<exists>ok m' w'. ensure_open A (Some m, w) = (Inr ok, (Some m', w'))"
    using mq_open_connection_returns [of A m w] by (auto simp: ensure_open_def bindE_def)
  then obtain ok m' w' where o: "ensure_open A (Some m, w) = (Inr ok, (Some m', w'))" by blast
  have "same_config (Some m, w) (Some m', w')"
    using evolvesD(2) [OF mq_cfg.ev_ensure_open TrueI o] .
  note b = brokered_same_config [OF assms [unfolded m(1)] this]
  then obtain ex' rk' where "addressed m' ex' rk'" by (auto simp: brokered_def)
  then have "\<exists>rc w2. do_send_message A (Str body) (Some m', w') = (Inr rc, (Some m', w2))"
    by (simp add: do_send_message_def bindE_def wcall_apply amqp_cstring_bytes_def addressed_def)
  then show ?thesis
    unfolding m(1) open_and_send_def using o b by (auto simp: bindE_def)
qed

lemma quiet_mqrun:
  assumes "\<And>mo w. brokered mo \<Longrightarrow> \<exists>rc mo' w'. send (mo, w) = (Inr rc, (mo', w')) \<and> brokered mo'"
  shows "quiet (mqrun (bindE send (\<lambda>_. returnE ())))"
  unfolding quietly_def
proof (intro allI impI, goal_cases)
  case (1 s)
  then have "brokered (mq_options s)" by (simp add: able_def)
  from assms [OF this, of "os s"] obtain rc mo' w' where
      "send (mq_options s, os s) = (Inr rc, (mo', w'))" "brokered mo'" by blast
  then show ?case using 1 by (simp add: mqrun_def bindE_def able_def bufs_ok_def)
qed

lemma quiet_notify:
  "quiet (mqrun (bindE (mq_send_upload A js user path digest sz mtime) (\<lambda>_. returnE ())))"
  "quiet (mqrun (bindE (mq_send_remove A js user path) (\<lambda>_. returnE ())))"
  "quiet (mqrun (bindE (mq_send_rename A js user path path') (\<lambda>_. returnE ())))"
  unfolding mq_send_upload_def mq_send_remove_def mq_send_rename_def build_message_def
    message_object_eqs option.case
  by (rule quiet_mqrun, erule open_and_send_returns)+

lemmas quiet_rules = quiet_flow quiet_bind [where P = "\<lambda>_. True"] quiet_return quiet_gets quiet_ht
  quiet_syscall quiet_notify

lemma quiet_handle_close: "quiet (handle_close E i)"
  unfolding handle_close_def by (intro quiet_rules TrueI)

lemma quiet_do_rename: "quiet (do_rename E p q)"
  unfolding do_rename_def rename_if_absent_def by (intro quiet_rules TrueI)

lemma quiet_attempt: "quiet (attempt b f st)"
  unfolding attempt_def by (intro quiet_rules TrueI)

section \<open>The arguments of requests\<close>

definition arg_path :: "(bq, unit, 'z) est \<Rightarrow> (bq, unit, 'z) est" where
  "arg_path p = bindE (rd bq_get_cstring) (\<lambda>_. p)"

definition arg_handle :: "(bq, unit, 'z) est \<Rightarrow> (bq, unit, 'z) est" where
  "arg_handle p = bindE (rd bq_get_string) (\<lambda>_. p)"

definition arg_attrib :: "(bq, unit, 'z) est \<Rightarrow> (bq, unit, 'z) est" where
  "arg_attrib p = bindE (rd bq_decode_attrib) (\<lambda>_. p)"

definition arg_u32 :: "(bq, unit, 'z) est \<Rightarrow> (bq, unit, 'z) est" where
  "arg_u32 p = bindE (rd bq_get_u32) (\<lambda>_. p)"

definition arg_u64 :: "(bq, unit, 'z) est \<Rightarrow> (bq, unit, 'z) est" where
  "arg_u64 p = bindE (rd bq_get_u64) (\<lambda>_. p)"

lemmas arg_defs = arg_path_def arg_handle_def arg_attrib_def arg_u32_def arg_u64_def

text \<open>What follows the name of an extended request, and what follows the identifier of a request.\<close>

definition extended_args :: "bytes \<Rightarrow> (bq, unit, unit) est" where
  "extended_args name =
     (if name \<in> {lit ''posix-rename@openssh.com'', lit ''hardlink@openssh.com''}
      then arg_path (arg_path (returnE ()))
      else if name = lit ''statvfs@openssh.com'' then arg_path (returnE ())
      else if name \<in> {lit ''fstatvfs@openssh.com'', lit ''fsync@openssh.com''}
      then arg_handle (returnE ())
      else returnE ())"

definition request_args :: "u8 \<Rightarrow> (bq, unit, unit) est" where
  "request_args type =
     (if type = SSH2_FXP_OPEN then arg_path (arg_u32 (arg_attrib (returnE ())))
      else if type \<in> {SSH2_FXP_CLOSE, SSH2_FXP_FSTAT, SSH2_FXP_READDIR} then arg_handle (returnE ())
      else if type = SSH2_FXP_READ then arg_handle (arg_u64 (arg_u32 (returnE ())))
      else if type = SSH2_FXP_WRITE then arg_handle (arg_u64 (arg_handle (returnE ())))
      else if type \<in> {SSH2_FXP_SETSTAT, SSH2_FXP_MKDIR} then arg_path (arg_attrib (returnE ()))
      else if type = SSH2_FXP_FSETSTAT then arg_handle (arg_attrib (returnE ()))
      else if type \<in> {SSH2_FXP_RENAME, SSH2_FXP_SYMLINK} then arg_path (arg_path (returnE ()))
      else if type = SSH2_FXP_EXTENDED then bindE (rd bq_get_cstring) (\<lambda>name. extended_args (cstr name))
      else if type \<in> set request_types then arg_path (returnE ())
      else returnE ())"

lemma request_args_eqs:
  "request_args SSH2_FXP_OPEN = arg_path (arg_u32 (arg_attrib (returnE ())))"
  "request_args SSH2_FXP_CLOSE = arg_handle (returnE ())"
  "request_args SSH2_FXP_FSTAT = arg_handle (returnE ())"
  "request_args SSH2_FXP_READDIR = arg_handle (returnE ())"
  "request_args SSH2_FXP_READ = arg_handle (arg_u64 (arg_u32 (returnE ())))"
  "request_args SSH2_FXP_WRITE = arg_handle (arg_u64 (arg_handle (returnE ())))"
  "request_args SSH2_FXP_SETSTAT = arg_path (arg_attrib (returnE ()))"
  "request_args SSH2_FXP_MKDIR = arg_path (arg_attrib (returnE ()))"
  "request_args SSH2_FXP_FSETSTAT = arg_handle (arg_attrib (returnE ()))"
  "request_args SSH2_FXP_RENAME = arg_path (arg_path (returnE ()))"
  "request_args SSH2_FXP_SYMLINK = arg_path (arg_path (returnE ()))"
  "request_args SSH2_FXP_EXTENDED = bindE (rd bq_get_cstring) (\<lambda>name. extended_args (cstr name))"
  "request_args SSH2_FXP_LSTAT = arg_path (returnE ())"
  "request_args SSH2_FXP_STAT = arg_path (returnE ())"
  "request_args SSH2_FXP_OPENDIR = arg_path (returnE ())"
  "request_args SSH2_FXP_REMOVE = arg_path (returnE ())"
  "request_args SSH2_FXP_RMDIR = arg_path (returnE ())"
  "request_args SSH2_FXP_REALPATH = arg_path (returnE ())"
  "request_args SSH2_FXP_READLINK = arg_path (returnE ())"
  by (simp_all add: request_args_def fxp_requests request_types_def)

lemma extended_args_eqs:
  "extended_args (lit ''posix-rename@openssh.com'') = arg_path (arg_path (returnE ()))"
  "extended_args (lit ''hardlink@openssh.com'') = arg_path (arg_path (returnE ()))"
  "extended_args (lit ''statvfs@openssh.com'') = arg_path (returnE ())"
  "extended_args (lit ''fstatvfs@openssh.com'') = arg_handle (returnE ())"
  "extended_args (lit ''fsync@openssh.com'') = arg_handle (returnE ())"
  by (simp_all add: extended_args_def lit_def)

section \<open>Replies that fit\<close>

lemma with_msg_returns:
  assumes al: "\<forall>n. e_al E n" and w: "appends puts v" and small: "length v + 4 \<le> SFTP_MAX_MSG_LENGTH"
  shows "replies_ok (with_msg E puts)"
  unfolding replies_ok_def
proof (intro allI impI, goal_cases)
  case (1 s)
  obtain msg where new: "sshbuf_new (e_al E) = Some msg" using al by (auto simp: sshbuf_new_def)
  then have msg: "sb_writable msg" "sshbuf_ptr msg = []" "sb_max_size msg = SSHBUF_SIZE_MAX"
    using sshbuf_new_writable [OF new] by (auto simp: sshbuf_new_def split: if_splits)
  have "length (sshbuf_ptr msg) + length v \<le> sb_max_size msg"
    using small msg(2,3) by (simp add: SFTP_MAX_MSG_LENGTH_def sshbuf_consts)
  from appendsD [OF w msg(1) this] obtain m where m: "puts msg = (Inr (), m)" "sb_writable m"
      "sshbuf_ptr m = v" using msg(2) by auto
  then have v: "take (sshbuf_len m) (sshbuf_ptr m) = v" by (simp add: sshbuf_len_ptr)
  have ok: "bufs_ok s" "able s" and room: "room s" using 1 by (simp_all add: able_def)
  have wr: "sb_writable (oqueue s)" using ok by (simp add: bufs_ok_def)
  obtain r b where put: "sshbuf_put_string (e_al E) v (oqueue s) = (r, b)" by fastforce
  note st = simD [OF sshbuf_put_string_sim [OF al] wr put]
  have "length v \<le> SSHBUF_SIZE_MAX - 4"
    using small by (simp add: SFTP_MAX_MSG_LENGTH_def sshbuf_consts)
  moreover have "length (sshbuf_ptr (oqueue s)) + length (enc_string v) \<le> sb_max_size (oqueue s)"
    using small room by (simp add: room_def enc_string_def del: length_sshbuf_ptr)
  ultimately have "r = Inr ()" using st(2) by (auto simp: bq_put_string_eq split: if_splits)
  then have "with_msg E puts s = (Inr (), s\<lparr>oqueue := b\<rparr>)"
    using new m v put by (simp add: with_msg_def send_msg_def sshbuf_put_stringb_def)
  then show ?case using ok st(1) by (auto simp: able_def bufs_ok_def)
qed

lemma length_status_message: "length (lit (status_to_message st)) \<le> 21"
proof -
  have "\<forall>m \<in> set status_messages. length m \<le> 21" by (simp add: status_messages_def)
  moreover have "status_to_message st \<in> set status_messages"
    unfolding status_to_message_def by (rule nth_mem) (simp add: status_messages_def fx_codes min_def word_le_nat_alt)
  ultimately show ?thesis by (simp add: lit_def)
qed

definition names_size :: "Stat list \<Rightarrow> nat" where
  "names_size stats = sum_list (map (\<lambda>st. 40 + length (s_name st) + length (s_long_name st)) stats)"

lemma length_names_body: "length (names_body rid stats) \<le> 9 + names_size stats"
proof -
  have "length (enc_string (cstr (s_name st)) @ enc_string (cstr (s_long_name st)) @ enc_attrib (s_attrib st))
      \<le> 40 + length (s_name st) + length (s_long_name st)" for st
    using length_enc_attrib [of "s_attrib st"] length_cstr_le [of "s_name st"] length_cstr_le [of "s_long_name st"]
    by (simp add: enc_string_def)
  then have "length (concat (map (\<lambda>st. enc_string (cstr (s_name st)) @ enc_string (cstr (s_long_name st)) @
      enc_attrib (s_attrib st)) stats)) \<le> names_size stats"
    unfolding names_size_def length_concat map_map comp_def by (rule sum_list_mono)
  then show ?thesis by (simp add: names_body_def del: length_concat)
qed

text \<open>The entries that one reply to \<open>readdir\<close> can have.\<close>

definition entries_ok :: "Stat list \<Rightarrow> bool" where
  "entries_ok stats \<longleftrightarrow> length stats \<le> 100 \<and>
     (\<forall>st \<in> set stats. length (s_name st) \<le> 255 \<and> length (s_long_name st) \<le> 1023)"

lemma entries_fit: "entries_ok stats \<Longrightarrow> names_size stats + 13 \<le> SFTP_MAX_MSG_LENGTH"
proof -
  assume ok: "entries_ok stats"
  then have "names_size stats \<le> sum_list (map (\<lambda>_. 1318) stats)"
    unfolding names_size_def entries_ok_def by (intro sum_list_mono) fastforce
  also have "\<dots> \<le> 1318 * 100" using ok by (simp add: entries_ok_def sum_list_triv)
  finally show ?thesis by (simp add: SFTP_MAX_MSG_LENGTH_def)
qed

text \<open>
  What is used of the system: results are not longer than asked for or than a path may be, and a
  directory stream ends (\<open>left\<close> counts its entries; reading one takes it off, examining a file
  does not put any back).
\<close>

definition results_bounded :: "('md, 'os) env \<Rightarrow> (nat \<Rightarrow> 'os \<Rightarrow> nat) \<Rightarrow> bool" where
  "results_bounded E left \<longleftrightarrow>
     (\<forall>fd n w d w'. sys_read E fd n w = (Inr d, w') \<longrightarrow> length d \<le> n) \<and>
     (\<forall>p w r w'. sys_realpath E p w = (Inr r, w') \<longrightarrow> length r < PATH_MAX) \<and>
     (\<forall>p n w r w'. sys_readlink E p n w = (Inr r, w') \<longrightarrow> length r \<le> n) \<and>
     (\<forall>d w n w'. sys_readdir E d w = (Some n, w') \<longrightarrow> length n \<le> 255 \<and> left d w' < left d w) \<and>
     (\<forall>p d w. left d (snd (sys_lstat E p w)) = left d w) \<and>
     (\<forall>d w. left d w < e_fuel E)"

locale responding =
  fixes E :: "('md, 'os) env" and left :: "nat \<Rightarrow> 'os \<Rightarrow> nat"
  assumes al: "\<forall>n. e_al E n" and bounded: "results_bounded E left"
begin

lemmas app = appends_intros al

lemma send_status_returns: "replies_ok (send_status E rid st)"
proof -
  let ?m = "\<lambda>v :: u32. bindE (sshbuf_put_u8 (e_al E) SSH2_FXP_STATUS) (\<lambda>_.
        bindE (sshbuf_put_u32 (e_al E) rid) (\<lambda>_.
        bindE (sshbuf_put_u32 (e_al E) st) (\<lambda>_.
        if v \<ge> 3
        then bindE (sshbuf_put_cstring (e_al E) (lit (status_to_message st))) (\<lambda>_.
             sshbuf_put_cstring (e_al E) [])
        else returnE ())))"
  have "length (lit (status_to_message st)) \<le> SSHBUF_SIZE_MAX - 4"
    using length_status_message [of st] by (simp add: sshbuf_consts)
  then have "appends (?m v) (status_body v rid st)" for v
    unfolding status_body_def by (intro app) simp_all
  moreover have "length (status_body v rid st) + 4 \<le> SFTP_MAX_MSG_LENGTH" for v
    using length_status_message [of st] length_cstr_le [of "lit (status_to_message st)"]
    by (simp add: status_body_def enc_string_def SFTP_MAX_MSG_LENGTH_def cstr_def)
  ultimately have "replies_ok (with_msg E (?m v))" for v by (rule with_msg_returns [OF al])
  then show ?thesis unfolding send_status_def replies_ok_def by simp
qed

lemma send_data_returns:
  assumes "length d \<le> READ_MAX"
  shows "replies_ok (send_data E rid d)"
  unfolding send_data_def send_data_or_handle_def
proof (rule with_msg_returns [OF al])
  show "appends (bindE (sshbuf_put_u8 (e_al E) SSH2_FXP_DATA) (\<lambda>_.
        bindE (sshbuf_put_u32 (e_al E) rid) (\<lambda>_. sshbuf_put_string (e_al E) d)))
      (data_body SSH2_FXP_DATA rid d)"
    unfolding data_body_def using assms by (intro app) (simp add: READ_MAX_def sshbuf_consts)
  show "length (data_body SSH2_FXP_DATA rid d) + 4 \<le> SFTP_MAX_MSG_LENGTH"
    using assms by (simp add: data_body_def enc_string_def READ_MAX_def SFTP_MAX_MSG_LENGTH_def)
qed

lemma send_handle_returns: "replies_ok (send_handle E rid i)"
  unfolding send_handle_def send_data_or_handle_def
proof (rule with_msg_returns [OF al])
  show "appends (bindE (sshbuf_put_u8 (e_al E) SSH2_FXP_HANDLE) (\<lambda>_.
        bindE (sshbuf_put_u32 (e_al E) rid) (\<lambda>_. sshbuf_put_string (e_al E) (handle_to_string i))))
      (data_body SSH2_FXP_HANDLE rid (handle_to_string i))"
    unfolding data_body_def by (intro app) (simp add: handle_to_string_def sshbuf_consts)
  show "length (data_body SSH2_FXP_HANDLE rid (handle_to_string i)) + 4 \<le> SFTP_MAX_MSG_LENGTH"
    by (simp add: data_body_def enc_string_def handle_to_string_def SFTP_MAX_MSG_LENGTH_def)
qed

lemma send_names_returns:
  assumes "names_size stats + 13 \<le> SFTP_MAX_MSG_LENGTH"
  shows "replies_ok (send_names E rid stats)"
  unfolding send_names_def
proof (rule with_msg_returns [OF al])
  have "length (s_name st) \<le> names_size stats \<and> length (s_long_name st) \<le> names_size stats"
    if "st \<in> set stats" for st
    using member_le_sum_list [of "40 + length (s_name st) + length (s_long_name st)"
        "map (\<lambda>st. 40 + length (s_name st) + length (s_long_name st)) stats"] that
    by (auto simp: names_size_def)
  then have "length (s_name st) \<le> SSHBUF_SIZE_MAX - 4" "length (s_long_name st) \<le> SSHBUF_SIZE_MAX - 4"
    if "st \<in> set stats" for st
    using assms that by (fastforce simp: SFTP_MAX_MSG_LENGTH_def sshbuf_consts)+
  then show "appends (bindE (sshbuf_put_u8 (e_al E) SSH2_FXP_NAME) (\<lambda>_.
        bindE (sshbuf_put_u32 (e_al E) rid) (\<lambda>_.
        bindE (sshbuf_put_u32 (e_al E) (word_of_nat (length stats))) (\<lambda>_.
        forE stats (put_stat E))))) (names_body rid stats)"
    unfolding names_body_def put_stat_def by (intro app appends_for)
  show "length (names_body rid stats) + 4 \<le> SFTP_MAX_MSG_LENGTH"
    using assms length_names_body [of rid stats] by simp
qed

lemma send_attrib_returns: "replies_ok (send_attrib E rid a)"
  unfolding send_attrib_def
proof (rule with_msg_returns [OF al])
  show "appends (bindE (sshbuf_put_u8 (e_al E) SSH2_FXP_ATTRS) (\<lambda>_.
        bindE (sshbuf_put_u32 (e_al E) rid) (\<lambda>_. encode_attrib (e_al E) a))) (attrib_body rid a)"
    unfolding attrib_body_def by (intro app)
  show "length (attrib_body rid a) + 4 \<le> SFTP_MAX_MSG_LENGTH"
    using length_enc_attrib [of a] by (simp add: attrib_body_def SFTP_MAX_MSG_LENGTH_def)
qed

lemma send_statvfs_returns: "replies_ok (send_statvfs E rid st)"
  unfolding send_statvfs_def
proof (rule with_msg_returns [OF al])
  show "appends (bindE (sshbuf_put_u8 (e_al E) SSH2_FXP_EXTENDED_REPLY) (\<lambda>_.
        bindE (sshbuf_put_u32 (e_al E) rid) (\<lambda>_.
        forE (statvfs_words st) (sshbuf_put_u64 (e_al E))))) (statvfs_body rid st)"
    unfolding statvfs_body_def by (intro app appends_for)
  show "length (statvfs_body rid st) + 4 \<le> SFTP_MAX_MSG_LENGTH"
    by (simp add: statvfs_body_def statvfs_words_def SFTP_MAX_MSG_LENGTH_def)
qed

text \<open>Reading the arguments.\<close>

lemma fin_path:
  assumes "\<And>n. fin (f n) Q (g (cstr n))"
  shows "fin (bindE (rd bq_get_cstring) f) Q (bindE (get_path E) g)"
  unfolding get_path_def bindE_assoc
  by (rule fin_read [OF sb_rw.get_cstring [OF al]]) (simp add: assms)

lemma fin_handle:
  assumes "\<And>i. fin p Q (g i)"
  shows "fin (bindE (rd bq_get_string) (\<lambda>_. p)) Q (bindE (get_handle E) g)"
  unfolding get_handle_def bindE_assoc
  by (rule fin_read [OF sb_rw.get_string [OF al]]) (intro fin_step [OF quiet_gets], simp add: assms)

lemmas fin_args = fin_path fin_handle fin_read [OF sb_rw.get_u32] fin_read [OF sb_rw.get_u64]
  fin_read [OF sb_rw.get_string [OF al]] fin_read [OF decode_attrib_sim [OF al]]

lemmas fin_steps = fin_step [OF quiet_gets] fin_step [OF quiet_ht(1)] fin_step [OF quiet_ht(2)]
  fin_step [OF quiet_handle_close] fin_step [OF quiet_do_rename] fin_step [OF quiet_attempt]
  fin_step [OF quiet_syscall]

lemmas fin_replies = fin_reply [OF send_status_returns] fin_reply [OF send_handle_returns]
  fin_reply [OF send_attrib_returns] fin_reply [OF send_statvfs_returns]

lemma fin_replied:
  "replies_ok m \<Longrightarrow> finish (\<lambda>st. st = SSH2_FX_OK) (bindE m (\<lambda>_. returnE SSH2_FX_OK))"
  by (rule fin_reply_then) (simp_all add: quiet_return)

lemmas fin_answers = fin_status [OF _ send_status_returns] fin_replied [OF send_handle_returns]
  fin_replied [OF send_attrib_returns] fin_flow fin_args fin_steps fin_replies fin_return TrueI
  fin_step [where P = "\<lambda>_. True"] quiet_rules quiet_attempt

text \<open>The bounds of the results.\<close>

lemma bounds:
  "sys_read E fd n w = (Inr d, w') \<Longrightarrow> length d \<le> n"
  "sys_realpath E p w = (Inr d, w') \<Longrightarrow> length d < PATH_MAX"
  "sys_readlink E p n w = (Inr d, w') \<Longrightarrow> length d \<le> n"
  using bounded unfolding results_bounded_def by metis+

lemma read_bounded: "quietly (\<lambda>r. \<forall>d. r = Inr d \<longrightarrow> length d \<le> n) (call (sys_read E fd n))"
  by (rule quiet_call) (auto dest: bounds)

lemma realpath_bounded: "quietly (\<lambda>r. \<forall>d. r = Inr d \<longrightarrow> length d < PATH_MAX) (call (sys_realpath E p))"
  by (rule quiet_call) (auto dest: bounds)

lemma readlink_bounded: "quietly (\<lambda>r. \<forall>d. r = Inr d \<longrightarrow> length d \<le> n) (call (sys_readlink E p n))"
  by (rule quiet_call) (auto dest: bounds)

text \<open>The loop over a directory.\<close>

lemma readdir_loop_returns:
  assumes "able s" "left dirp (os s) < n" "entries_ok stats" "length stats < 100"
  shows "\<exists>stats' t. readdir_loop E dirp path n stats s = (Inr stats', t) \<and> entries_ok stats' \<and>
     able t \<and> iqueue t = iqueue s \<and> oqueue t = oqueue s"
  using assms
proof (induction n arbitrary: s stats)
  case 0
  then show ?case by simp
next
  case (Suc n)
  obtain r w where rd: "sys_readdir E dirp (os s) = (r, w)" by fastforce
  show ?case
  proof (cases r)
    case None
    with rd Suc.prems show ?thesis by (simp add: bindE_def call_def able_def bufs_ok_def)
  next
    case (Some name)
    then have name: "length name \<le> 255" "left dirp w < left dirp (os s)"
      using rd bounded by (auto simp: results_bounded_def)
    obtain q w' where ls: "sys_lstat E (entry_path path name) w = (q, w')" by fastforce
    have "left dirp w' = left dirp w"
      using bounded ls unfolding results_bounded_def by (metis snd_conv)
    let ?t = "s\<lparr>os := w'\<rparr>"
    have t: "able ?t" "left dirp (os ?t) < n"
      using Suc.prems name(2) \<open>left dirp w' = left dirp w\<close> by (simp_all add: able_def bufs_ok_def)
    note run = rd Some ls
    show ?thesis
    proof (cases q)
      case (Inl e)
      then show ?thesis using Suc.IH [OF t Suc.prems(3,4)] run by (simp add: bindE_def call_def)
    next
      case (Inr st)
      let ?stats = "stats @ [\<lparr>s_name = name, s_long_name = ls_file (e_ls E w') name st False False,
          s_attrib = stat_to_attrib st\<rparr>]"
      have ok: "entries_ok ?stats"
        using Suc.prems(3,4) name(1) by (auto simp: entries_ok_def length_ls_file)
      show ?thesis
      proof (cases "length ?stats = 100")
        case True
        then show ?thesis
          using run Inr ok t(1) by (simp add: bindE_def call_def Let_def)
      next
        case False
        with Suc.prems(4) have "length ?stats < 100" by simp
        from Suc.IH [OF t ok this] show ?thesis
          using run Inr False by (simp add: bindE_def call_def Let_def)
      qed
    qed
  qed
qed

lemma readdir_bounded: "quietly entries_ok (readdir_loop E dirp path (e_fuel E) [])"
  unfolding quietly_def
proof (intro allI impI, goal_cases)
  case (1 s)
  have "left dirp (os s) < e_fuel E" using bounded by (simp add: results_bounded_def)
  from readdir_loop_returns [OF 1 this, of "[]"] show ?case by (auto simp: entries_ok_def)
qed

lemma path_name_fits:
  "length d \<le> PATH_MAX \<Longrightarrow>
     replies_ok (send_names E rid [\<lparr>s_name = d, s_long_name = d, s_attrib = a\<rparr>])"
  by (rule send_names_returns) (simp add: names_size_def PATH_MAX_def SFTP_MAX_MSG_LENGTH_def)

text \<open>The handlers.\<close>

lemma process_files_return:
  "fin (arg_path (arg_u32 (arg_attrib (returnE ())))) (\<lambda>_. True) (process_open E rid)"
  "fin (arg_handle (returnE ())) (\<lambda>_. True) (process_close E rid)"
  "fin (arg_handle (arg_u64 (arg_handle (returnE ())))) (\<lambda>_. True) (process_write E rid)"
  "fin (arg_path (returnE ())) (\<lambda>_. True) (process_stat E rid)"
  "fin (arg_path (returnE ())) (\<lambda>_. True) (process_lstat E rid)"
  "fin (arg_handle (returnE ())) (\<lambda>_. True) (process_fstat E rid)"
  unfolding process_open_def process_close_def process_write_def process_stat_def process_lstat_def
    process_do_stat_def process_fstat_def arg_defs
  by (intro fin_answers)+

lemma process_names_return:
  "fin (arg_path (arg_attrib (returnE ()))) (\<lambda>_. True) (process_setstat E rid)"
  "fin (arg_handle (arg_attrib (returnE ()))) (\<lambda>_. True) (process_fsetstat E rid)"
  "fin (arg_path (returnE ())) (\<lambda>_. True) (process_opendir E rid)"
  "fin (arg_path (arg_attrib (returnE ()))) (\<lambda>_. True) (process_mkdir E rid)"
  "fin (arg_path (returnE ())) (\<lambda>_. True) (process_rmdir E rid)"
  "fin (arg_path (arg_path (returnE ()))) (\<lambda>_. True) (process_symlink E rid)"
  "fin (arg_path (returnE ())) (\<lambda>_. True) (process_extended_statvfs E rid)"
  "fin (arg_handle (returnE ())) (\<lambda>_. True) (process_extended_fstatvfs E rid)"
  "fin (arg_path (arg_path (returnE ()))) (\<lambda>_. True) (process_extended_hardlink E rid)"
  "fin (arg_handle (returnE ())) (\<lambda>_. True) (process_extended_fsync E rid)"
  unfolding process_setstat_def process_fsetstat_def process_opendir_def process_mkdir_def
    process_rmdir_def process_symlink_def process_extended_statvfs_def process_extended_fstatvfs_def
    process_extended_hardlink_def process_extended_fsync_def arg_defs
  by (intro fin_answers)+

lemma fin_data:
  assumes "length d \<le> READ_MAX"
  shows "finish (\<lambda>st. st = SSH2_FX_OK) (bindE (send_data E rid d) (\<lambda>_.
      bindE (modify_ht f) (\<lambda>_. returnE SSH2_FX_OK)))"
proof (rule fin_reply_then [OF send_data_returns [OF assms]])
  show "quiet (bindE (modify_ht f) (\<lambda>_. returnE SSH2_FX_OK))" by (intro quiet_rules TrueI)
qed (auto simp: bindE_def modify_ht_def)

lemma process_read_returns:
  "fin (arg_handle (arg_u64 (arg_u32 (returnE ())))) (\<lambda>_. True) (process_read E rid)"
  unfolding process_read_def arg_defs
  by (intro fin_step [OF read_bounded] fin_data fin_answers) (auto split: if_splits)

lemma process_readdir_returns: "fin (arg_handle (returnE ())) (\<lambda>_. True) (process_readdir E rid)"
proof -
  have send: "finish (\<lambda>_. True) (if stats \<noteq> [] then send_names E rid stats else send_status E rid SSH2_FX_EOF)"
    if "entries_ok stats" for stats
    by (intro fin_flow fin_reply [OF send_names_returns [OF entries_fit [OF that]]] fin_answers)
  show ?thesis
    unfolding process_readdir_def arg_defs case_prod_conv
    by (intro fin_step [OF readdir_bounded] send fin_answers)
qed

lemma process_paths_return:
  "fin (arg_path (returnE ())) (\<lambda>_. True) (process_realpath E rid)"
  "fin (arg_path (returnE ())) (\<lambda>_. True) (process_readlink E rid)"
  unfolding process_realpath_def process_readlink_def arg_defs
  by (intro fin_step [OF realpath_bounded] fin_step [OF readlink_bounded]
      fin_reply [OF path_name_fits] fin_answers; auto simp: PATH_MAX_def)+

lemma fin_notify: "(\<And>x. quiet (f x)) \<Longrightarrow> finish (\<lambda>_. True) (bindE (send_status E rid st) f)"
  by (rule fin_reply_then [OF send_status_returns]) simp_all

lemma process_tellers_return:
  "fin (arg_path (returnE ())) (\<lambda>_. True) (process_remove E rid)"
  "fin (arg_path (arg_path (returnE ()))) (\<lambda>_. True) (process_rename E rid)"
  "fin (arg_path (arg_path (returnE ()))) (\<lambda>_. True) (process_extended_posix_rename E rid)"
  unfolding process_remove_def process_rename_def process_extended_posix_rename_def arg_defs
  by (intro fin_notify fin_answers quiet_rules)+

lemmas handlers_return = process_files_return process_names_return process_read_returns
  process_readdir_returns process_paths_return process_tellers_return

text \<open>A request that is not permitted is answered without reading its arguments.\<close>

lemma fin_denied:
  assumes "evolves (\<lambda>_. True) bq_shrinks p"
  shows "fin p (\<lambda>_. True) (send_status E rid st)"
proof (rule finI, goal_cases)
  case (1 s z q)
  have "bq_shrinks (sb_abs (iqueue s)) q" using evolvesD(2) [OF assms TrueI 1(3)] .
  then have "length (bq_bytes q) \<le> length (sshbuf_ptr (iqueue s))"
    by (auto simp: bq_shrinks_def simp del: length_sshbuf_ptr)
  with 1 send_status_returns [of rid st] show ?case unfolding replies_ok_def by metis
qed

lemma run_handler_returns:
  assumes "fin p (\<lambda>_. True) (sh_handler h rid)" and "evolves (\<lambda>_. True) bq_shrinks p"
  shows "fin p (\<lambda>_. True) (run_handler E h rid)"
  unfolding run_handler_def by (intro fin_step [OF quiet_gets] fin_flow fin_denied assms)

end

text \<open>The parsers only take bytes off the front.\<close>

lemma shrink_rd: "evolves I R d \<Longrightarrow> evolves I R (rd d)"
  unfolding rd_def by (rule shrink_mapE)

lemma shrink_args:
  "evolves (\<lambda>_. True) bq_shrinks p \<Longrightarrow> evolves (\<lambda>_. True) bq_shrinks (arg_path p)"
  "evolves (\<lambda>_. True) bq_shrinks p \<Longrightarrow> evolves (\<lambda>_. True) bq_shrinks (arg_handle p)"
  "evolves (\<lambda>_. True) bq_shrinks p \<Longrightarrow> evolves (\<lambda>_. True) bq_shrinks (arg_attrib p)"
  "evolves (\<lambda>_. True) bq_shrinks p \<Longrightarrow> evolves (\<lambda>_. True) bq_shrinks (arg_u32 p)"
  "evolves (\<lambda>_. True) bq_shrinks p \<Longrightarrow> evolves (\<lambda>_. True) bq_shrinks (arg_u64 p)"
  unfolding arg_defs
  by (intro shrink.ev_rules shrink_rd shrink_readers shrink_decode_attrib; assumption)+

lemma shrink_extended_args: "evolves (\<lambda>_. True) bq_shrinks (extended_args name)"
  unfolding extended_args_def by (intro shrink.ev_if shrink_args shrink.ev_return)

lemma shrink_request_args: "evolves (\<lambda>_. True) bq_shrinks (request_args type)"
  unfolding request_args_def
  by (intro shrink.ev_if shrink_args shrink.ev_return shrink.ev_bind shrink_rd shrink_readers
      shrink_extended_args)

context responding
begin

lemma table_returns:
  assumes "h \<in> set (handlers_table E)"
  shows "fin (request_args (sh_type h)) (\<lambda>_. True) (sh_handler h rid)"
  using assms unfolding handlers_table_def list.set
  by (elim insertE emptyE; simp only: handler_def sftp_handler.select_convs request_args_eqs;
      intro handlers_return)

lemma extended_returns:
  assumes "List.find (\<lambda>h. name = lit (sh_ext_name h)) (extended_handlers E) = Some h"
  shows "fin (extended_args name) (\<lambda>_. True) (sh_handler h rid)"
proof -
  have h: "h \<in> set (extended_handlers E)" and name: "name = lit (sh_ext_name h)"
    using assms by (auto simp: find_Some_iff)
  from h show ?thesis
    unfolding name extended_handlers_def list.set
    by (elim insertE emptyE; simp only: ext_handler_def sftp_handler.select_convs extended_args_eqs;
        intro handlers_return)
qed

lemma process_extended_returns: "fin (request_args SSH2_FXP_EXTENDED) (\<lambda>_. True) (process_extended E rid)"
proof -
  have "fin (extended_args name) (\<lambda>_. True)
     (case List.find (\<lambda>h. name = lit (sh_ext_name h)) (extended_handlers E) of
        Some h \<Rightarrow> run_handler E h rid
      | None \<Rightarrow> send_status E rid SSH2_FX_OP_UNSUPPORTED)" for name
    by (intro fin_flow run_handler_returns extended_returns fin_denied shrink_extended_args)
  then show ?thesis unfolding process_extended_def request_args_eqs by (intro fin_path)
qed

lemma dispatch_returns:
  assumes "type \<in> set request_types" and s: "able s" "room s" "init_done s"
    and ptr: "sshbuf_ptr (iqueue s) = put_u32 rid @ used @ rest" and "takes used (request_args type) ()"
  shows "\<exists>t. dispatch E type s = (Inr (), t) \<and> able t \<and> length rest \<le> length (sshbuf_ptr (iqueue t))"
proof -
  have "bufs_ok s" using s by (simp add: able_def)
  moreover have "bq_get_u32 (sb_abs (iqueue s)) = (Inr rid, (sb_abs (iqueue s))\<lparr>bq_bytes := used @ rest\<rparr>)"
    by (rule bq_get_u32_front) (simp add: ptr)
  ultimately obtain b where b: "iq sshbuf_get_u32 s = (Inr rid, s\<lparr>iqueue := b\<rparr>)" "sb_writable b"
      "sb_abs b = (sb_abs (iqueue s))\<lparr>bq_bytes := used @ rest\<rparr>"
    by (rule iq_returns [OF sb_rw.get_u32])
  let ?u = "s\<lparr>iqueue := b\<rparr>"
  let ?h = "if type = SSH2_FXP_EXTENDED then process_extended E rid
          else case List.find (\<lambda>h. type = sh_type h) (handlers_table E) of
              Some h \<Rightarrow> run_handler E h rid | None \<Rightarrow> returnE ()"
  have u: "able ?u" "room ?u" using s b(2) by (simp_all add: able_def bufs_ok_def room_def)
  have "bq_bytes (sb_abs b) = used @ rest" using b(3) by simp
  from takesD [OF assms(6) this]
  have p: "request_args type (sb_abs (iqueue ?u)) = (Inr (), (sb_abs b)\<lparr>bq_bytes := rest\<rparr>)" by simp
  have "fin (request_args type) (\<lambda>_. True) ?h"
  proof (cases "type = SSH2_FXP_EXTENDED")
    case True
    then show ?thesis using process_extended_returns by simp
  next
    case False
    then have "List.find (\<lambda>h. type = sh_type h) (handlers_table E) \<noteq> None"
      using request_types_known [OF assms(1), of E] unfolding find_None_iff by blast
    then obtain h where h: "List.find (\<lambda>h. type = sh_type h) (handlers_table E) = Some h" by blast
    then have "h \<in> set (handlers_table E)" "type = sh_type h" by (auto simp: find_Some_iff)
    then have "fin (request_args type) (\<lambda>_. True) (run_handler E h rid)"
      by (intro run_handler_returns shrink_request_args) (simp add: table_returns)
    then show ?thesis using False h by simp
  qed
  from this u p obtain x t where t: "?h ?u = (Inr x, t)" "able t"
      "length (bq_bytes ((sb_abs b)\<lparr>bq_bytes := rest\<rparr>)) \<le> length (sshbuf_ptr (iqueue t))"
    by (rule finE)
  have "type \<noteq> SSH2_FXP_INIT" using assms(1) request_types_not_init by blast
  then have "dispatch E type s = ?h ?u"
    unfolding dispatch_def using s(3) by (simp only: if_False bindE_getsE not_True_eq_False bindE_Inr [of "iq sshbuf_get_u32", OF b(1)])
  moreover have "length rest \<le> length (sshbuf_ptr (iqueue t))" using t(3) by simp
  ultimately show ?thesis using t(1,2) by (metis old.unit.exhaust)
qed

end

text \<open>Arguments that parse, with whatever follows them in the packet.\<close>

definition request_ok :: "u8 \<Rightarrow> bytes \<Rightarrow> bool" where
  "request_ok type args \<longleftrightarrow> (\<exists>used junk. args = used @ junk \<and> takes used (request_args type) ())"

lemma discard_rest_returns:
  assumes "bufs_ok s" and "length (sshbuf_ptr (iqueue s)) \<le> n"
    and "n - length (sshbuf_ptr (iqueue s)) \<le> k" and "k \<le> n"
  shows "\<exists>t. discard_rest E n k s = (Inr (), t)"
proof -
  let ?l = "length (sshbuf_ptr (iqueue s))"
  have len: "sshbuf_len (iqueue s) = ?l" using assms(1) by (simp add: bufs_ok_def sshbuf_len_ptr)
  show ?thesis
  proof (cases "n - ?l < k")
    case True
    have "bq_consume (k - (n - ?l)) (sb_abs (iqueue s)) =
        (Inr (), (sb_abs (iqueue s))\<lparr>bq_bytes := drop (k - (n - ?l)) (sshbuf_ptr (iqueue s))\<rparr>)"
      using assms(2,4) by (simp add: bq_consume_def del: length_sshbuf_ptr)
    from iq_returns [OF sshbuf_consume_sim assms(1) this]
    obtain b where "iq (sshbuf_consume (k - (n - ?l))) s = (Inr (), s\<lparr>iqueue := b\<rparr>)" .
    then show ?thesis
      using True assms(2,3) by (simp add: discard_rest_def len Let_def del: length_sshbuf_ptr)
  next
    case False
    then show ?thesis
      using assms(2,3) by (simp add: discard_rest_def len Let_def del: length_sshbuf_ptr)
  qed
qed

context responding
begin

lemma process_returns:
  assumes "type \<in> set request_types" and s: "able s" "room s" "init_done s"
    and ptr: "sshbuf_ptr (iqueue s) = packet type rid args @ rest"
    and len: "length args + 5 \<le> SFTP_MAX_MSG_LENGTH" and ok: "request_ok type args"
  shows "\<exists>t. process E s = (Inr (), t)"
proof -
  let ?b = "sshbuf_ptr (iqueue s)"
  let ?p = "type # put_u32 rid @ args @ rest"
  obtain used junk where args: "args = used @ junk" "takes used (request_args type) ()"
    using ok by (auto simp: request_ok_def)
  note c = complete_packet [OF len, of type rid rest, folded ptr]
  have b: "?b = put_u32 (word_of_nat (length args + 5)) @ ?p"
    by (simp add: ptr packet_def enc_string_def add.commute)
  have bufs: "bufs_ok s" using s by (simp add: able_def)
  then have lb: "sshbuf_len (iqueue s) = length ?b" by (simp add: bufs_ok_def sshbuf_len_ptr)
  have "bq_consume 4 (sb_abs (iqueue s)) = (Inr (), (sb_abs (iqueue s))\<lparr>bq_bytes := ?p\<rparr>)"
    by (simp add: bq_consume_def b)
  from iq_returns [OF sshbuf_consume_sim bufs this] obtain b1 where
    1: "iq (sshbuf_consume 4) s = (Inr (), s\<lparr>iqueue := b1\<rparr>)" "sb_writable b1"
      "sb_abs b1 = (sb_abs (iqueue s))\<lparr>bq_bytes := ?p\<rparr>" .
  let ?s1 = "s\<lparr>iqueue := b1\<rparr>"
  have bufs1: "bufs_ok ?s1" using bufs 1(2) by (simp add: bufs_ok_def)
  have "bq_get_u8 (sb_abs (iqueue ?s1)) =
      (Inr type, (sb_abs (iqueue s))\<lparr>bq_bytes := put_u32 rid @ args @ rest\<rparr>)"
    using 1(3) by (simp add: bq_get_u8_eq)
  from iq_returns [OF sb_rw.get_u8 bufs1 this] obtain b2 where
    2: "iq sshbuf_get_u8 ?s1 = (Inr type, ?s1\<lparr>iqueue := b2\<rparr>)" "sb_writable b2"
      "sb_abs b2 = (sb_abs (iqueue s))\<lparr>bq_bytes := put_u32 rid @ args @ rest\<rparr>" .
  let ?s2 = "?s1\<lparr>iqueue := b2\<rparr>"
  have s2: "able ?s2" "room ?s2" "init_done ?s2" "sshbuf_ptr (iqueue ?s2) = put_u32 rid @ used @ (junk @ rest)"
    using s 2(2) arg_cong [OF 2(3), of bq_bytes] by (simp_all add: able_def bufs_ok_def room_def args)
  from dispatch_returns [OF assms(1) s2 args(2)] obtain t where
    3: "dispatch E type ?s2 = (Inr (), t)" "able t" "length (junk @ rest) \<le> length (sshbuf_ptr (iqueue t))"
    by blast
  have "evolves (queues_in_mode (readonly ?s2)) queue_step (dispatch E type)"
    by (rule server_handlers.ev_dispatch [OF server_evolution.handlers [OF queue_evolution [OF al]]])
  from evolvesD [OF this _ 3(1)] s2(1) have "queue_step ?s2 t"
    by (simp add: queues_in_mode_def able_def)
  then have "length (sshbuf_ptr (iqueue t)) \<le> length (sshbuf_ptr (iqueue ?s2))"
    by (auto simp: queue_step_def simp del: length_sshbuf_ptr)
  then have up: "length (sshbuf_ptr (iqueue t)) \<le> 4 + length used + length junk + length rest"
    unfolding s2(4) by simp
  have "bufs_ok t" using 3(2) by (simp add: able_def)
  moreover have "length ?b - 4 = 5 + length args + length rest" by (simp add: b)
  ultimately have "\<exists>u. discard_rest E (length ?b - 4) (msg_len_of ?b) t = (Inr (), u)"
    using up 3(3) c(2) args(1) by (intro discard_rest_returns) simp_all
  then show ?thesis
    using c(1) 1(1) 2(1) 3(1)
    by (simp add: process_def complete_def msg_len_of_def lb Let_def bindE_def del: length_sshbuf_ptr)
qed

end

end
