(* ===== verification/Sftp_Digest.thy ===== *)
theory Sftp_Digest
  imports Sftp_Notifications Sftp_Total
begin

text \<open>
  What a digest is a digest of: the hash state of an open file is that of everything that was
  written through its handle since it was opened, in the order of the requests, whatever other
  requests the client made meanwhile.
\<close>

section \<open>The system's side\<close>

text \<open>
  \<open>fds w\<close> are the open descriptors and \<open>wlog w fd\<close> the data of the writes on a descriptor that
  were accepted completely since it was opened. Opening a file gives a descriptor that was not
  open, closing one affects no other, and the remaining calls do neither.
\<close>

definition descriptors :: "('md, 'os) env \<Rightarrow> ('os \<Rightarrow> int set) \<Rightarrow> ('os \<Rightarrow> int \<Rightarrow> bytes list) \<Rightarrow> bool" where
  "descriptors E fds wlog \<longleftrightarrow>
     (\<forall>w. STDOUT_FILENO \<in> fds w) \<and>
     (\<forall>p f m w fd w'. sys_open E p f m w = (Inr fd, w') \<longrightarrow>
        fd \<notin> fds w \<and> fds w' = insert fd (fds w) \<and> wlog w' = (wlog w)(fd := [])) \<and>
     (\<forall>p f m w e w'. sys_open E p f m w = (Inl e, w') \<longrightarrow> fds w' = fds w \<and> wlog w' = wlog w) \<and>
     (\<forall>fd w. fds w - {fd} \<subseteq> fds (snd (sys_close E fd w)) \<and> wlog (snd (sys_close E fd w)) = wlog w) \<and>
     (\<forall>fd d w r w'. sys_write E fd d w = (r, w') \<longrightarrow> fds w' = fds w \<and>
        wlog w' = (if r = Inr (length d) \<and> d \<noteq> [] then (wlog w)(fd := wlog w fd @ [d]) else wlog w))"

definition calls_quiet :: "('md, 'os) env \<Rightarrow> ('os \<Rightarrow> 'v) \<Rightarrow> bool" where
  "calls_quiet E obs \<longleftrightarrow>
     (\<forall>fd off. unlogged obs (sys_lseek E fd off)) \<and> (\<forall>fd len. unlogged obs (sys_read E fd len)) \<and>
     (\<forall>path. unlogged obs (sys_stat E path)) \<and> (\<forall>path. unlogged obs (sys_lstat E path)) \<and>
     (\<forall>fd. unlogged obs (sys_fstat E fd)) \<and>
     (\<forall>path n. unlogged obs (sys_truncate E path n)) \<and> (\<forall>fd n. unlogged obs (sys_ftruncate E fd n)) \<and>
     (\<forall>path m. unlogged obs (sys_chmod E path m)) \<and> (\<forall>fd m. unlogged obs (sys_fchmod E fd m)) \<and>
     (\<forall>path tv. unlogged obs (sys_utimes E path tv)) \<and> (\<forall>fd tv. unlogged obs (sys_futimes E fd tv)) \<and>
     (\<forall>path u g. unlogged obs (sys_chown E path u g)) \<and> (\<forall>fd u g. unlogged obs (sys_fchown E fd u g)) \<and>
     (\<forall>path. unlogged obs (sys_opendir E path)) \<and> (\<forall>d. unlogged obs (sys_closedir E d)) \<and>
     (\<forall>d. unlogged obs (sys_readdir E d)) \<and>
     (\<forall>path. unlogged obs (sys_unlink E path)) \<and> (\<forall>path m. unlogged obs (sys_mkdir E path m)) \<and>
     (\<forall>path. unlogged obs (sys_rmdir E path)) \<and> (\<forall>path. unlogged obs (sys_realpath E path)) \<and>
     (\<forall>p q. unlogged obs (sys_rename E p q)) \<and> (\<forall>p q. unlogged obs (sys_link E p q)) \<and>
     (\<forall>p n. unlogged obs (sys_readlink E p n)) \<and> (\<forall>p q. unlogged obs (sys_symlink E p q)) \<and>
     (\<forall>path. unlogged obs (sys_statvfs E path)) \<and> (\<forall>fd. unlogged obs (sys_fstatvfs E fd)) \<and>
     (\<forall>fd. unlogged obs (sys_fsync E fd)) \<and> (\<forall>rd wr. unlogged obs (sys_select E rd wr))"

lemma descriptors_open:
  assumes "descriptors E fds wlog" and "sys_open E p f m w = (Inr fd, w')"
  shows "fd \<notin> fds w" "fds w' = insert fd (fds w)" "wlog w' = (wlog w)(fd := [])"
  using assms(1) [unfolded descriptors_def, THEN conjunct2, THEN conjunct1, rule_format, OF assms(2)] by simp_all

lemma descriptors_open_failed:
  assumes "descriptors E fds wlog" and "sys_open E p f m w = (Inl e, w')"
  shows "fds w' = fds w" "wlog w' = wlog w"
  using assms(1) [unfolded descriptors_def, THEN conjunct2, THEN conjunct2, THEN conjunct1, rule_format, OF assms(2)]
  by simp_all

lemma descriptors_close:
  assumes "descriptors E fds wlog" and "sys_close E fd w = (r, w')"
  shows "fds w - {fd} \<subseteq> fds w'" "wlog w' = wlog w"
  using assms(1) [unfolded descriptors_def, THEN conjunct2, THEN conjunct2, THEN conjunct2, THEN conjunct1,
      rule_format, of w fd] assms(2) by simp_all

lemma descriptors_write:
  assumes "descriptors E fds wlog" and "sys_write E fd d w = (r, w')"
  shows "fds w' = fds w"
    "wlog w' = (if r = Inr (length d) \<and> d \<noteq> [] then (wlog w)(fd := wlog w fd @ [d]) else wlog w)"
  using assms(1) [unfolded descriptors_def, THEN conjunct2, THEN conjunct2, THEN conjunct2, THEN conjunct2,
      rule_format, OF assms(2)] by simp_all

lemma descriptors_stdout: "descriptors E fds wlog \<Longrightarrow> STDOUT_FILENO \<in> fds w"
  by (simp add: descriptors_def)

section \<open>The invariant\<close>

definition file_at :: "'md htab \<Rightarrow> int \<Rightarrow> 'md Handle \<Rightarrow> bool" where
  "file_at t i h \<longleftrightarrow> ht_live t i = Some h \<and> h_use h = HANDLE_FILE"

definition digests ::
  "('md, 'os) env \<Rightarrow> int set \<Rightarrow> (int \<Rightarrow> bytes list) \<Rightarrow> 'md htab \<Rightarrow> bool" where
  "digests E F L t \<longleftrightarrow>
     (\<forall>i h. file_at t i h \<longrightarrow>
        h_md h = foldl (e_sha_update E) (e_sha_init E) (L (h_fd h)) \<and> h_fd h \<in> F \<and> h_fd h \<noteq> STDOUT_FILENO) \<and>
     (\<forall>i j h k. file_at t i h \<longrightarrow> file_at t j k \<longrightarrow> h_fd h = h_fd k \<longrightarrow> i = j)"

text \<open>The table is described until it has used up all its handle numbers.\<close>

definition small :: "'md htab \<Rightarrow> bool" where
  "small t \<longleftrightarrow> length (handles t) < 2 ^ 31 - 1"

definition digest_inv ::
  "('md, 'os) env \<Rightarrow> ('os \<Rightarrow> int set) \<Rightarrow> ('os \<Rightarrow> int \<Rightarrow> bytes list) \<Rightarrow> bool \<Rightarrow> ('md, 'os) srv \<Rightarrow> bool" where
  "digest_inv E fds wlog ro s \<longleftrightarrow> readonly s = ro \<and> brokered (mq_options s) \<and>
     (small (ht s) \<longrightarrow> ht_wf (ht s) \<and> digests E (fds (os s)) (wlog (os s)) (ht s))"

lemma digests_init: "digests E F L ht_init"
proof -
  have "\<not> file_at ht_init i h" for i and h :: "'a Handle"
    unfolding file_at_def ht_live_def ht_init_def by auto
  then show ?thesis by (simp only: digests_def simp_thms)
qed

lemma digestsD:
  assumes "digests E F L t" and "file_at t i h"
  shows "h_md h = foldl (e_sha_update E) (e_sha_init E) (L (h_fd h))" "h_fd h \<in> F" "h_fd h \<noteq> STDOUT_FILENO"
    and "file_at t j k \<Longrightarrow> j \<noteq> i \<Longrightarrow> h_fd k \<noteq> h_fd h"
  using assms unfolding digests_def by (blast, blast, blast, metis)

lemma digestsI:
  assumes "\<And>i h. file_at t i h \<Longrightarrow> h_md h = foldl (e_sha_update E) (e_sha_init E) (L (h_fd h))"
    and "\<And>i h. file_at t i h \<Longrightarrow> h_fd h \<in> F \<and> h_fd h \<noteq> STDOUT_FILENO"
    and "\<And>i j h k. file_at t i h \<Longrightarrow> file_at t j k \<Longrightarrow> h_fd h = h_fd k \<Longrightarrow> i = j"
  shows "digests E F L t"
  unfolding digests_def using assms by blast

text \<open>Changes of the table.\<close>

lemma file_at_upd:
  "ht_live t' = (ht_live t)(i := v) \<Longrightarrow>
     file_at t' j k \<longleftrightarrow> (if j = i then v = Some k \<and> h_use k = HANDLE_FILE else file_at t j k)"
  by (auto simp: file_at_def)

lemma digests_remove:
  assumes d: "digests E F L t" and "ht_live t' = (ht_live t)(i := None)"
    and "\<And>j k. file_at t j k \<Longrightarrow> j \<noteq> i \<Longrightarrow> h_fd k \<in> F'"
  shows "digests E F' L t'"
proof -
  have at: "file_at t' j k \<Longrightarrow> file_at t j k \<and> j \<noteq> i" for j k
    unfolding file_at_upd [OF assms(2)] by (simp split: if_splits)
  show ?thesis
    by (rule digestsI) (metis at digestsD(1) [OF d], metis at assms(3) digestsD(3) [OF d], metis at digestsD(4) [OF d])
qed

lemma digests_dir:
  assumes d: "digests E F L t" and "ht_live t' = (ht_live t)(i \<mapsto> h)" and "h_use h = HANDLE_DIR"
  shows "digests E F L t'"
proof -
  have at: "file_at t' j k \<Longrightarrow> file_at t j k" for j k
    unfolding file_at_upd [OF assms(2)] using assms(3) by (auto split: if_splits)
  show ?thesis
    by (rule digestsI) (metis at digestsD(1) [OF d], metis at digestsD(2,3) [OF d], metis at digestsD(4) [OF d])
qed

lemma digests_open:
  assumes d: "digests E F L t" and "ht_live t' = (ht_live t)(i \<mapsto> h)" and "h_fd h \<notin> F" and "STDOUT_FILENO \<in> F"
    and "h_md h = e_sha_init E"
  shows "digests E (insert (h_fd h) F) (L(h_fd h := [])) t'"
proof -
  have at: "file_at t' j k \<Longrightarrow> j = i \<and> k = h \<or> j \<noteq> i \<and> file_at t j k" for j k
    unfolding file_at_upd [OF assms(2)] by (simp split: if_splits)
  have old: "h_fd k \<noteq> h_fd h" if "file_at t j k" for j k
    using digestsD(2) [OF d that] assms(3) by metis
  show ?thesis
  proof (rule digestsI, goal_cases)
    case (1 j k)
    then show ?case using at [OF 1] old digestsD(1) [OF d] assms(5) by auto
  next
    case (2 j k)
    then show ?case using at [OF 2] digestsD(2,3) [OF d] assms(3,4) by (metis insert_iff)
  next
    case (3 j l k k')
    then show ?case using at [OF 3(1)] at [OF 3(2)] old digestsD(4) [OF d] by metis
  qed
qed

lemma digests_update:
  assumes d: "digests E F L t" and f: "file_at t i h" and "ht_live t' = (ht_live t)(i \<mapsto> h')"
    and "h_fd h' = h_fd h" and "h_md h' = foldl (e_sha_update E) (e_sha_init E) (L' (h_fd h))"
    and "\<And>fd. fd \<noteq> h_fd h \<Longrightarrow> L' fd = L fd"
  shows "digests E F L' t'"
proof -
  have at: "file_at t' j k \<Longrightarrow> j = i \<and> k = h' \<or> j \<noteq> i \<and> file_at t j k" for j k
    unfolding file_at_upd [OF assms(3)] by (simp split: if_splits)
  show ?thesis
  proof (rule digestsI, goal_cases)
    case (1 j k)
    then show ?case using at [OF 1] digestsD(4) [OF d f] digestsD(1) [OF d] assms(4-6) by metis
  next
    case (2 j k)
    then show ?case using at [OF 2] digestsD(2,3) [OF d] f assms(4) by metis
  next
    case (3 j l k k')
    then show ?case using at [OF 3(1)] at [OF 3(2)] digestsD(4) [OF d] f assms(4) by metis
  qed
qed

section \<open>Every step keeps it\<close>

lemma small_new: "small (snd (handle_new fresh use name fd flags dirp t)) \<Longrightarrow> small t"
  using length_handle_new [of t fresh use name fd flags dirp] unfolding small_def by linarith

lemma small_upd [simp]: "small (upd_handle i f t) = small t" "small (handle_unused i t) = small t"
  by (simp_all add: small_def)

lemma small_update [simp]:
  "small (handle_update_read i k t) = small t" "small (handle_update_write i k t) = small t"
  "small (handle_update_checksum add i d k t) = small t"
  by (simp_all add: handle_update_read_def handle_update_write_def handle_update_checksum_def)

lemma handle_new_live:
  assumes "ht_wf t" and "use \<noteq> HANDLE_UNUSED" and "small t"
    and new: "handle_new fresh use name fd flags dirp t = (i, t')"
  obtains h where "ht_wf t'" "0 \<le> i" "ht_live t' = (ht_live t)(i \<mapsto> h)" "h_use h = use" "h_fd h = fd"
proof -
  obtain i1 h t1 where "handle_new fresh use name fd flags dirp t = (i1, t1)"
    "ht_wf t1" "0 \<le> i1" "i1 < 2 ^ 31" "ht_live t i1 = None" "ht_live t1 = (ht_live t)(i1 \<mapsto> h)"
    "h_use h = use" "h_name h = name" "h_fd h = fd" "h_flags h = flags" "h_dirp h = dirp"
    "h_bytes_read h = 0" "h_bytes_write h = 0" "length (handles t1) \<le> Suc (length (handles t))"
    by (rule handle_new_spec [OF assms(1,2) assms(3) [unfolded small_def]])
  with new show thesis using that [of h] by simp
qed

lemma file_ok_at: "ht_wf t \<Longrightarrow> handle_is_ok i HANDLE_FILE t \<longleftrightarrow> file_at t i (handles t ! nat i)"
  by (auto simp: handle_is_ok_iff file_at_def ht_live_def)

lemma fd_at:
  assumes "ht_wf t" and "0 \<le> handle_to_fd i t"
  obtains h where "file_at t i h" "handle_to_fd i t = h_fd h" "handle_is_ok i HANDLE_FILE t"
  using assms file_ok_at [OF assms(1), of i] by (auto simp: handle_to_fd_def split: if_splits)

lemma evolves_digest_world:
  assumes "unlogged (\<lambda>w. (fds w, wlog w)) f"
  shows "evolves (digest_inv E fds wlog ro) anything (call f)"
  using assms by (auto simp: evolves_def digest_inv_def anything_def call_snd unlogged_def)

lemma evolves_digest_mqrun:
  assumes "\<And>v. evolves (world_is (\<lambda>w. (fds w, wlog w)) v) anything m"
    and "evolves (\<lambda>_. True) same_config m"
  shows "evolves (digest_inv E fds wlog ro) anything (mqrun m)"
proof (rule evolvesI, goal_cases)
  case (1 s)
  let ?w = "snd (snd (m (mq_options s, os s)))"
  have "(fds ?w, wlog ?w) = (fds (os s), wlog (os s))"
    using assms(1) [of "(fds (os s), wlog (os s))"] by (simp add: evolves_def world_is_def)
  moreover have "brokered (fst (snd (m (mq_options s, os s))))"
  proof (rule brokered_same_config)
    show "brokered (mq_options s)" using 1 by (simp add: digest_inv_def)
    show "same_config (mq_options s, os s) (fst (snd (m (mq_options s, os s))), ?w)"
      using assms(2) by (simp add: evolves_def)
  qed
  ultimately show ?case using 1 by (simp add: digest_inv_def anything_def mqrun_snd)
qed

lemma evolves_digest_local:
  "evolves (digest_inv E fds wlog ro) anything (iq m)"
  "evolves (digest_inv E fds wlog ro) anything (oq_consume n)"
  "evolves (digest_inv E fds wlog ro) anything (modifyE (\<lambda>s. s\<lparr>version := ver\<rparr>) :: ('md, 'os, unit) sv)"
  "evolves (digest_inv E fds wlog ro) anything (modifyE (\<lambda>s. s\<lparr>init_done := True\<rparr>) :: ('md, 'os, unit) sv)"
  by (simp_all add: evolves_def digest_inv_def anything_def effects)

lemma evolves_digest_with_msg: "evolves (digest_inv E fds wlog ro) anything (with_msg E' puts)"
proof (rule evolvesI, goal_cases)
  case (1 s)
  then show ?case
    using with_msg_snd [of E' puts s] by (auto simp: digest_inv_def anything_def)
qed

lemma evolves_digest_new_dir:
  "evolves (digest_inv E fds wlog ro) anything (new_handle E' HANDLE_DIR name fd flags dirp)"
proof (rule evolvesI, goal_cases)
  case (1 s)
  let ?new = "handle_new (e_fresh E') HANDLE_DIR name fd flags dirp (ht s)"
  have "ht_wf (snd ?new) \<and> digests E (fds (os s)) (wlog (os s)) (snd ?new)" if "small (snd ?new)"
  proof -
    from small_new [OF that] have t: "small (ht s)" "ht_wf (ht s)" "digests E (fds (os s)) (wlog (os s)) (ht s)"
      using 1 by (simp_all add: digest_inv_def)
    obtain i t' where new: "?new = (i, t')" by fastforce
    obtain h where "ht_wf t'" "ht_live t' = (ht_live (ht s))(i \<mapsto> h)" "h_use h = HANDLE_DIR"
      by (rule handle_new_live [OF t(2) _ t(1) new]) simp_all
    then show ?thesis using digests_dir [OF t(3)] new by simp
  qed
  then show ?case using 1 by (simp add: digest_inv_def anything_def new_handle_snd)
qed

text \<open>Counting bytes read and written.\<close>

lemma digests_count:
  assumes "ht_wf t" and "digests E F L t"
    and "\<And>h. h_use (f h) = h_use h \<and> h_next_unused (f h) = h_next_unused h \<and> h_fd (f h) = h_fd h \<and> h_md (f h) = h_md h"
    and "handle_is_ok i HANDLE_FILE t"
  shows "ht_wf (upd_handle i f t) \<and> digests E F L (upd_handle i f t)"
proof -
  let ?h = "handles t ! nat i"
  have at: "file_at t i ?h" using assms(1,4) file_ok_at by blast
  then have live: "ht_live t i = Some ?h" by (simp add: file_at_def)
  note upd = upd_handle_live [OF assms(1) live, of f]
  moreover have "h_md ?h = foldl (e_sha_update E) (e_sha_init E) (L (h_fd ?h))"
    using at assms(2) by (simp add: digests_def)
  ultimately show ?thesis
    using digests_update [OF assms(2) at upd(2), of L] assms(3) by simp
qed

lemma digests_update_read:
  "ht_wf t \<Longrightarrow> digests E F L t \<Longrightarrow> ht_wf (handle_update_read i k t) \<and> digests E F L (handle_update_read i k t)"
  "ht_wf t \<Longrightarrow> digests E F L t \<Longrightarrow> ht_wf (handle_update_write i k t) \<and> digests E F L (handle_update_write i k t)"
  by (simp_all add: handle_update_read_def handle_update_write_def digests_count)

lemma evolves_digest_update_read:
  "evolves (digest_inv E fds wlog ro) anything (modify_ht (handle_update_read i k))"
proof (rule evolvesI, goal_cases)
  case (1 s)
  then show ?case
    using digests_update_read(1) [of "ht s" E "fds (os s)" "wlog (os s)" i k]
    by (simp add: digest_inv_def anything_def modify_ht_snd)
qed

section \<open>Opening, writing and closing\<close>

lemma open_step:
  assumes "descriptors E fds wlog" and inv: "digest_inv E fds wlog ro s"
    and "sys_open E name flags mode (os s) = (Inr fd, w)"
    and new: "handle_new (e_fresh E) HANDLE_FILE name fd flags None (ht s) = (i, t)"
  shows "digest_inv E fds wlog ro
    (s\<lparr>os := w, ht := upd_handle i (\<lambda>h. h\<lparr>h_md := e_sha_init E\<rparr>) t\<rparr>)" (is "digest_inv E fds wlog ro ?s")
    and "i < 0 \<Longrightarrow> \<not> small t"
proof -
  let ?md = "\<lambda>h. h\<lparr>h_md := e_sha_init E\<rparr>"
  have opened: "ht_wf (upd_handle i ?md t) \<and> digests E (fds w) (wlog w) (upd_handle i ?md t) \<and> 0 \<le> i" if "small t"
  proof -
    from small_new [of _ HANDLE_FILE name fd flags None "ht s"] new that have "small (ht s)" by (metis snd_conv)
    with inv have t: "small (ht s)" "ht_wf (ht s)" "digests E (fds (os s)) (wlog (os s)) (ht s)"
      by (simp_all add: digest_inv_def)
    have w: "fd \<notin> fds (os s)" "fds w = insert fd (fds (os s))" "wlog w = (wlog (os s))(fd := [])"
        "STDOUT_FILENO \<in> fds (os s)"
      using descriptors_open [OF assms(1,3)] descriptors_stdout [OF assms(1)] by simp_all
    obtain h where h: "ht_wf t" "0 \<le> i" "ht_live t = (ht_live (ht s))(i \<mapsto> h)" "h_use h = HANDLE_FILE" "h_fd h = fd"
      by (rule handle_new_live [OF t(2) _ t(1) new]) simp_all
    have "ht_live t i = Some h" using h(3) by simp
    note upd = upd_handle_live [OF h(1) this, of ?md]
    then have live: "ht_live (upd_handle i ?md t) = (ht_live (ht s))(i \<mapsto> ?md h)" using h(3) by simp
    have "digests E (insert fd (fds (os s))) ((wlog (os s))(fd := [])) (upd_handle i ?md t)"
      using digests_open [OF t(3) live] w(1,4) h(5) by simp
    then show ?thesis using upd(1) h(2) w(2,3) by simp
  qed
  then show "digest_inv E fds wlog ro ?s" using inv by (simp add: digest_inv_def)
  show "i < 0 \<Longrightarrow> \<not> small t" using opened by linarith
qed

lemma handle_to_fd_update_write [simp]: "handle_to_fd i (handle_update_write i k t) = handle_to_fd i t"
proof (cases "handle_is_ok i HANDLE_FILE t \<and> k > 0")
  case True
  then show ?thesis
    by (cases "nat i < length (handles t)")
      (simp_all add: handle_update_write_def handle_to_fd_def handle_is_ok_def upd_handle_def
        list_update_beyond)
next
  case False
  then have "handle_update_write i k t = t" by (auto simp: handle_update_write_def)
  then show ?thesis by simp
qed

lemma write_step:
  assumes "descriptors E fds wlog" and inv: "digest_inv E fds wlog ro s"
    and fd: "handle_to_fd i (ht s) = fd" "0 \<le> fd" and run: "sys_write E fd d (os s) = (r, w)"
  shows "r \<noteq> Inr (length d) \<Longrightarrow> digest_inv E fds wlog ro (s\<lparr>os := w\<rparr>)"
    and "r = Inr (length d) \<Longrightarrow> digest_inv E fds wlog ro (s\<lparr>os := w,
        ht := handle_update_checksum (e_sha_update E) i d (int (length d))
                (handle_update_write i (int (length d)) (ht s))\<rparr>)"
proof -
  have w: "fds w = fds (os s)" "wlog w = (if r = Inr (length d) \<and> d \<noteq> []
      then (wlog (os s))(fd := wlog (os s) fd @ [d]) else wlog (os s))"
    using descriptors_write [OF assms(1) run] by simp_all
  show "digest_inv E fds wlog ro (s\<lparr>os := w\<rparr>)" if "r \<noteq> Inr (length d)"
    using that inv w by (simp add: digest_inv_def)
  let ?t = "handle_update_write i (int (length d)) (ht s)"
  let ?t' = "handle_update_checksum (e_sha_update E) i d (int (length d)) ?t"
  have size: "small ?t' = small (ht s)" by simp
  have "ht_wf ?t' \<and> digests E (fds w) (wlog w) ?t'" if ok: "r = Inr (length d)" "small (ht s)"
  proof -
    from inv ok have "ht_wf (ht s)" "digests E (fds (os s)) (wlog (os s)) (ht s)"
      by (simp_all add: digest_inv_def)
    note upd = digests_update_read(2) [OF this, of i "int (length d)"]
    then have t: "ht_wf ?t" "digests E (fds (os s)) (wlog (os s)) ?t" by (simp_all only: simp_thms)
    have fd': "handle_to_fd i ?t = fd" using fd by simp
    obtain h where h: "file_at ?t i h" "h_fd h = fd" "handle_is_ok i HANDLE_FILE ?t"
      by (rule fd_at [OF t(1), of i]) (use fd' fd(2) in simp_all)
    show ?thesis
    proof (cases "d = []")
      case True
      then show ?thesis using t w by (simp add: handle_update_checksum_def)
    next
      case False
      let ?f = "\<lambda>h. h\<lparr>h_md := e_sha_update E (h_md h) d\<rparr>"
      have live: "ht_live ?t i = Some h" using h(1) by (simp add: file_at_def)
      note upd = upd_handle_live [OF t(1) live, of ?f]
      have t': "?t' = upd_handle i ?f ?t"
        using h(3) False by (simp add: handle_update_checksum_def)
      have "digests E (fds (os s)) (wlog w) (upd_handle i ?f ?t)"
        using digests_update [OF t(2) h(1) upd(2), of "wlog w"] digestsD(1) [OF t(2) h(1)] h(2) w(2) ok False
        by simp
      then show ?thesis using upd(1) w(1) unfolding t' by simp
    qed
  qed
  then show "digest_inv E fds wlog ro (s\<lparr>os := w, ht := ?t'\<rparr>)" if "r = Inr (length d)"
    using that inv size by (simp add: digest_inv_def)
qed

text \<open>Closing, of which only the table and the system calls matter.\<close>

lemma close_step:
  assumes "descriptors E fds wlog" and inv: "digest_inv E fds wlog ro s"
    and ok: "handle_is_ok i HANDLE_FILE (ht s)"
    and w: "fds w1 = fds (os s)" "wlog w1 = wlog (os s)" "sys_close E (h_fd (handles (ht s) ! nat i)) w1 = (r, w2)"
    and w': "fds w' = fds w2" "wlog w' = wlog w2" "brokered m"
  shows "digest_inv E fds wlog ro (s\<lparr>mq_options := m, os := w', ht := handle_unused i (ht s)\<rparr>)"
proof -
  let ?h = "handles (ht s) ! nat i"
  have c: "fds w1 - {h_fd ?h} \<subseteq> fds w2" "wlog w2 = wlog w1"
    using descriptors_close [OF assms(1) w(3)] by simp_all
  have "ht_wf (handle_unused i (ht s)) \<and> digests E (fds w') (wlog w') (handle_unused i (ht s))" if "small (ht s)"
  proof -
    from inv that have t: "ht_wf (ht s)" "digests E (fds (os s)) (wlog (os s)) (ht s)"
      by (simp_all add: digest_inv_def)
    have at: "file_at (ht s) i ?h" using ok file_ok_at [OF t(1)] by blast
    then have "ht_live (ht s) i = Some ?h" by (simp add: file_at_def)
    note u = handle_unused_wf [OF t(1) this]
    have "h_fd k \<in> fds w'" if "file_at (ht s) j k" "j \<noteq> i" for j k
      using digestsD(2) [OF t(2) that(1)] digestsD(4) [OF t(2) at that] c(1) w(1) w'(1) by blast
    then show ?thesis using digests_remove [OF t(2) u(2)] u(1) c(2) w(2) w'(2) by metis
  qed
  then show ?thesis using inv w'(3) by (simp add: digest_inv_def)
qed

lemma closedir_step:
  assumes inv: "digest_inv E fds wlog ro s" and ok: "handle_is_ok i HANDLE_DIR (ht s)"
    and w: "fds w = fds (os s)" "wlog w = wlog (os s)"
  shows "digest_inv E fds wlog ro (s\<lparr>os := w, ht := handle_unused i (ht s)\<rparr>)"
proof -
  have "ht_wf (handle_unused i (ht s)) \<and> digests E (fds w) (wlog w) (handle_unused i (ht s))" if "small (ht s)"
  proof -
    from inv that have t: "ht_wf (ht s)" "digests E (fds (os s)) (wlog (os s)) (ht s)"
      by (simp_all add: digest_inv_def)
    note u = handle_unused_wf [OF t(1) handle_is_ok_Some [OF t(1) ok]]
    have "h_fd k \<in> fds w" if "file_at (ht s) j k" for j k
      using digestsD(2) [OF t(2) that] w(1) by simp
    then show ?thesis using digests_remove [OF t(2) u(2)] u(1) w(2) by simp
  qed
  then show ?thesis using inv by (simp add: digest_inv_def)
qed


text \<open>The calls and notifications of the handlers.\<close>

abbreviation (input) obs_of :: "('os \<Rightarrow> int set) \<Rightarrow> ('os \<Rightarrow> int \<Rightarrow> bytes list) \<Rightarrow> 'os \<Rightarrow> int set \<times> (int \<Rightarrow> bytes list)" where
  "obs_of fds wlog \<equiv> \<lambda>w. (fds w, wlog w)"

lemma evolves_digest_send:
  assumes "amqp_quiet A (obs_of fds wlog)"
  shows "evolves (digest_inv E fds wlog ro) anything (mqrun (bindE (mq_send_upload A js u p d n t) (\<lambda>_. returnE ())))"
    and "evolves (digest_inv E fds wlog ro) anything (mqrun (bindE (mq_send_remove A js u p) (\<lambda>_. returnE ())))"
    and "evolves (digest_inv E fds wlog ro) anything (mqrun (bindE (mq_send_rename A js u p q) (\<lambda>_. returnE ())))"
    and "evolves (digest_inv E fds wlog ro) anything (mqrun (clean_mq_config A))"
proof -
  note ev = amqp_quiet_evolution [OF assms]
  note rules = evolution.ev_rules [OF anything_evolution] mq_evolution.ev_mq_send [OF ev]
    mq_evolution.ev_clean_mq_config [OF ev] mq_cfg.ev_rules mq_cfg.ev_mq_send mq_cfg.ev_clean_mq_config
  show "evolves (digest_inv E fds wlog ro) anything (mqrun (bindE (mq_send_upload A js u p d n t) (\<lambda>_. returnE ())))"
    "evolves (digest_inv E fds wlog ro) anything (mqrun (bindE (mq_send_remove A js u p) (\<lambda>_. returnE ())))"
    "evolves (digest_inv E fds wlog ro) anything (mqrun (bindE (mq_send_rename A js u p q) (\<lambda>_. returnE ())))"
    "evolves (digest_inv E fds wlog ro) anything (mqrun (clean_mq_config A))"
    by (intro evolves_digest_mqrun rules)+
qed

text \<open>A notification returns, and changes no descriptor.\<close>

lemma upload_sent:
  assumes "amqp_quiet A (obs_of fds wlog)" and "brokered (mq_options s)"
  obtains m' w' where "mqrun (bindE (mq_send_upload A js u p d n t) (\<lambda>_. returnE ())) s =
      (Inr (), s\<lparr>mq_options := m', os := w'\<rparr>)" "brokered m'" "fds w' = fds (os s)" "wlog w' = wlog (os s)"
proof -
  let ?send = "mq_send_upload A js u p d n t"
  obtain rc m' w' where run: "?send (mq_options s, os s) = (Inr rc, (m', w'))" "brokered m'"
    using open_and_send_returns [OF assms(2), of A "js (upload_object u p d n t)" "os s"]
    unfolding mq_send_upload_def build_message_def message_object_eqs option.case by blast
  have ev: "evolves (world_is (obs_of fds wlog) (fds (os s), wlog (os s))) anything ?send"
    by (rule mq_evolution.ev_mq_send [OF amqp_quiet_evolution [OF assms(1)]])
  have "(fds w', wlog w') = (fds (os s), wlog (os s))"
    using evolvesD(1) [OF ev _ run(1)] by (simp add: world_is_def)
  with run show thesis by (intro that [of w' m']) (simp_all add: mqrun_def bindE_def)
qed

lemma evolves_digest_close:
  assumes "descriptors E fds wlog" and "calls_quiet E (obs_of fds wlog)"
    and "amqp_quiet (e_amqp E) (obs_of fds wlog)"
  shows "evolves (digest_inv E fds wlog ro) anything (handle_close E i)"
proof (rule evolvesI, goal_cases)
  case (1 s)
  let ?h = "handles (ht s) ! nat i"
  have q: "fds (snd (sys_fstat E fd w)) = fds w \<and> wlog (snd (sys_fstat E fd w)) = wlog w"
      "fds (snd (sys_closedir E d w)) = fds w \<and> wlog (snd (sys_closedir E d w)) = wlog w" for fd d w
    using assms(2) by (simp_all add: calls_quiet_def unlogged_def)
  consider (FILE) "handle_is_ok i HANDLE_FILE (ht s)"
    | (DIR) "\<not> handle_is_ok i HANDLE_FILE (ht s)" "handle_is_ok i HANDLE_DIR (ht s)"
    | (NONE) "\<not> handle_is_ok i HANDLE_FILE (ht s)" "\<not> handle_is_ok i HANDLE_DIR (ht s)" by blast
  then have "digest_inv E fds wlog ro (snd (handle_close E i s))"
  proof cases
    case FILE
    obtain fs w1 where fstat: "sys_fstat E (h_fd ?h) (os s) = (fs, w1)" by fastforce
    obtain ret w2 where close: "sys_close E (h_fd ?h) w1 = (ret, w2)" by fastforce
    have w1: "fds w1 = fds (os s)" "wlog w1 = wlog (os s)" using q(1) [of "h_fd ?h" "os s"] fstat by simp_all
    note step = close_step [OF assms(1) 1 FILE w1 close]
    have b: "brokered (mq_options (s\<lparr>os := w2\<rparr>))" using 1 by (simp add: digest_inv_def)
    let ?st = "case fs of Inl _ \<Rightarrow> e_stat0 E | Inr st \<Rightarrow> st"
    let ?send = "mqrun (bindE (mq_send_upload (e_amqp E) (e_json E) (pw_name s) (h_name ?h)
        (e_sha_final E (h_md ?h)) (sint (st_size ?st)) (sint (st_mtime ?st))) (\<lambda>_. returnE ()))"
    show ?thesis
    proof (cases "ret = Inr () \<and> is_upload (h_flags ?h)")
      case True
      obtain m' w' where run: "?send (s\<lparr>os := w2\<rparr>) = (Inr (), (s\<lparr>os := w2\<rparr>)\<lparr>mq_options := m', os := w'\<rparr>)"
          and m': "brokered m'" "fds w' = fds (os (s\<lparr>os := w2\<rparr>))" "wlog w' = wlog (os (s\<lparr>os := w2\<rparr>))"
        by (rule upload_sent [OF assms(3) b])
      then show ?thesis
        using step [of w' m'] handle_close_calls [OF FILE refl fstat close] True
        by (simp add: Let_def modify_ht_def bindE_Inr [of ?send, OF run])
    next
      case False
      then have "snd (handle_close E i s) = s\<lparr>os := w2, ht := handle_unused i (ht s)\<rparr>"
        using handle_close_quiet [OF FILE refl fstat close] by auto
      then show ?thesis
        using step [of w2 "mq_options s"] b by simp
    qed
  next
    case DIR
    let ?w = "snd (sys_closedir E (h_dirp ?h) (os s))"
    have "snd (handle_close E i s) = s\<lparr>os := ?w, ht := handle_unused i (ht s)\<rparr>"
      using DIR by (simp add: handle_close_def bindE_def call_def modify_ht_def split: prod.splits)
    then show ?thesis
      using closedir_step [OF 1 DIR(2), of ?w] q(2) by simp
  next
    case NONE
    then show ?thesis using 1 by (simp add: handle_close_def)
  qed
  then show ?case by (simp add: anything_def)
qed

lemma evolves_digest_stdout:
  assumes "descriptors E fds wlog"
  shows "evolves (digest_inv E fds wlog ro) anything (call (sys_write E STDOUT_FILENO d))"
proof (rule evolvesI, goal_cases)
  case (1 s)
  obtain r w where run: "sys_write E STDOUT_FILENO d (os s) = (r, w)" by fastforce
  note w = descriptors_write [OF assms run]
  have "digests E (fds w) (wlog w) (ht s)" if "digests E (fds (os s)) (wlog (os s)) (ht s)"
    using that w by (auto intro!: digestsI dest: digestsD)
  then show ?case using 1 run by (simp add: call_snd digest_inv_def anything_def)
qed

section \<open>The whole server\<close>

lemma digest_core:
  assumes d: "descriptors E fds wlog" and c: "calls_quiet E (obs_of fds wlog)"
    and a: "amqp_quiet (e_amqp E) (obs_of fds wlog)"
  shows "server_core (digest_inv E fds wlog ro) anything E ro"
  using c unfolding calls_quiet_def
  by unfold_locales
    (simp_all only: anything_def digest_inv_def evolves_digest_world evolves_digest_local
      evolves_digest_with_msg evolves_digest_new_dir evolves_digest_update_read
      evolves_digest_close [OF d c a] evolves_digest_stdout [OF d] evolves_digest_send [OF a] simp_thms)

lemma evolves_digest_open:
  assumes d: "descriptors E fds wlog" and core: "server_core (digest_inv E fds wlog ro) anything E ro"
  shows "evolves (digest_inv E fds wlog ro) anything (process_open E rid)"
proof -
  let ?I = "digest_inv E fds wlog ro"
  note ev = server_core.ev_steps [OF core]
  let ?rest = "\<lambda>handle. bindE (send_handle E rid handle) (\<lambda>_. returnE SSH2_FX_OK)"
  have opened: "evolves ?I anything (bindE (call (sys_open E name flags mode)) (\<lambda>r.
        case r of Inl e \<Rightarrow> returnE (errno_to_portable e)
        | Inr fd \<Rightarrow>
            bindE (new_handle E HANDLE_FILE name fd flags None) (\<lambda>handle.
            if handle < 0
            then bindE (call (sys_close E fd)) (\<lambda>_. returnE SSH2_FX_FAILURE)
            else
              bindE (modify_ht (upd_handle handle (\<lambda>h. h\<lparr>h_md := e_sha_init E\<rparr>))) (\<lambda>_.
              ?rest handle))))" (is "evolves ?I anything ?m") for name flags mode
  proof (rule evolvesI, goal_cases)
    case (1 s)
    obtain r w where run: "sys_open E name flags mode (os s) = (r, w)" by fastforce
    show ?case
    proof (cases r)
      case (Inl e)
      then show ?thesis
        using 1 run descriptors_open_failed [OF d]
        by (simp add: bindE_def call_def digest_inv_def anything_def)
    next
      case (Inr fd)
      obtain i t where new: "handle_new (e_fresh E) HANDLE_FILE name fd flags None (ht s) = (i, t)" by fastforce
      note step = open_step [OF d 1 run [unfolded Inr] new]
      have m: "?m s = (if i < 0 then bindE (call (sys_close E fd)) (\<lambda>_. returnE SSH2_FX_FAILURE) (s\<lparr>os := w, ht := t\<rparr>)
          else ?rest i (s\<lparr>os := w, ht := upd_handle i (\<lambda>h. h\<lparr>h_md := e_sha_init E\<rparr>) t\<rparr>))"
        using run Inr new by (simp add: bindE_def call_def new_handle_def modify_ht_def)
      show ?thesis
      proof (cases "i < 0")
        case True
        then have "?I (snd (?m s))"
          using m step(2) 1 by (simp add: bindE_def call_def digest_inv_def split: prod.splits)
        then show ?thesis by (simp add: anything_def)
      next
        case False
        have "evolves ?I anything (?rest i)" by (intro ev)
        then have "?I (snd (?rest i (s\<lparr>os := w, ht := upd_handle i (\<lambda>h. h\<lparr>h_md := e_sha_init E\<rparr>) t\<rparr>)))"
          using step(1) unfolding evolves_def by blast
        then show ?thesis by (simp only: m False if_False anything_def simp_thms)
      qed
    qed
  qed
  show ?thesis
    unfolding process_open_def by (intro server_core.ev_iq [OF core] opened ev)
qed

lemma keeps_bind_at:
  assumes "I (snd (m s))" and "\<And>x. evolves I anything (f x)"
  shows "I (snd (bindE m f s))"
  using assms by (auto simp: bindE_def evolves_def split: prod.splits sum.splits)

lemma evolves_digest_write:
  assumes d: "descriptors E fds wlog" and core: "server_core (digest_inv E fds wlog ro) anything E ro"
  shows "evolves (digest_inv E fds wlog ro) anything (process_write E rid)"
proof -
  let ?I = "digest_inv E fds wlog ro"
  note ev = server_core.ev_steps [OF core]
  let ?data = "\<lambda>handle fd data. bindE (call (sys_write E fd data)) (\<lambda>ret.
     case ret of Inl e \<Rightarrow> returnE (errno_to_portable e)
     | Inr n \<Rightarrow>
         if n = length data then
           bindE (modify_ht (handle_update_write handle (int n))) (\<lambda>_.
           bindE (modify_ht (handle_update_checksum (e_sha_update E) handle data (int n))) (\<lambda>_.
           returnE SSH2_FX_OK))
         else returnE SSH2_FX_FAILURE)"
  have data: "?I (snd (?data handle fd data s))"
    if "?I s" "handle_to_fd handle (ht s) = fd" "\<not> fd < 0" for handle fd data s
  proof -
    obtain r w where run: "sys_write E fd data (os s) = (r, w)" by fastforce
    note step = write_step [OF d that(1,2) _ run]
    show ?thesis
      using step that(3) run by (cases r) (auto simp: bindE_def call_def modify_ht_def)
  qed
  let ?seek = "\<lambda>handle off fd t. if handle_to_flags handle t AND O_APPEND = 0 then call (sys_lseek E fd off)
     else returnE (Inr ())"
  let ?put = "\<lambda>handle off data t. let fd = handle_to_fd handle t in
     if fd < 0 then returnE SSH2_FX_FAILURE
     else bindE (?seek handle off fd t) (\<lambda>r.
          case r of Inl e \<Rightarrow> returnE (errno_to_portable e) | Inr _ \<Rightarrow> ?data handle fd data)"
  have put: "?I (snd (?put handle off data (ht s) s))" if s: "?I s" for handle off data s
  proof (cases "handle_to_fd handle (ht s) < 0")
    case True
    then show ?thesis using s by simp
  next
    case False
    let ?fd = "handle_to_fd handle (ht s)"
    obtain r w where "(if handle_to_flags handle (ht s) AND O_APPEND = 0 then sys_lseek E ?fd off (os s)
        else (Inr (), os s)) = (r, w)" by fastforce
    then have seek: "?seek handle off ?fd (ht s) s = (Inr r, s\<lparr>os := w\<rparr>)"
      by (auto simp: call_def returnE_def split: if_splits)
    have "?I (snd (?seek handle off ?fd (ht s) s))"
      using s server_core.ev_lseek [OF core, of ?fd off] by (simp add: evolves_def)
    then have "?I (s\<lparr>os := w\<rparr>)" by (simp add: seek)
    then show ?thesis
      using False data [of "s\<lparr>os := w\<rparr>" handle ?fd data]
      by (cases r) (simp_all add: Let_def bindE_Inr [of "?seek handle off ?fd (ht s)", OF seek])
  qed
  have "evolves ?I anything (bindE (getsE ht) (\<lambda>t. bindE (?put handle off data t) (send_status E rid)))"
    for handle off data
  proof (rule evolvesI, goal_cases)
    case (1 s)
    have "?I (snd (bindE (?put handle off data (ht s)) (send_status E rid) s))"
      by (rule keeps_bind_at [where I = ?I]) (rule put [OF 1], rule server_core.ev_send_status [OF core])
    then show ?case by (simp only: bindE_getsE anything_def simp_thms)
  qed
  note written = this [unfolded Let_def]
  note bind = evolution.ev_bind [OF anything_evolution]
  show ?thesis
    unfolding process_write_def Let_def
    by (rule bind, rule server_core.ev_get_handle [OF core], rule bind, rule server_core.ev_u64 [OF core],
        rule bind, rule server_core.ev_string [OF core], rule written)
qed

lemma digest_main:
  assumes d: "descriptors E fds wlog" and c: "calls_quiet E (obs_of fds wlog)"
    and a: "amqp_quiet (e_amqp E) (obs_of fds wlog)"
  shows "main_handlers (digest_inv E fds wlog ro) anything E ro"
proof -
  note core = digest_core [OF d c a]
  have "evolves (digest_inv E fds wlog ro) anything (call (sys_select E rd wr))" for rd wr
    using c by (intro evolves_digest_world) (simp add: calls_quiet_def)
  then show ?thesis
    by (intro main_handlers.intro server_handlers.intro server_handlers_axioms.intro
        main_handlers_axioms.intro core evolves_digest_open [OF d core] evolves_digest_write [OF d core]
        evolves_digest_local)
qed

text \<open>
  A server that starts without open files keeps the invariant, and where it holds closing an
  upload announces the digest of what was written through the handle.
\<close>

lemma digest_kept:
  assumes "descriptors E fds wlog" and "calls_quiet E (obs_of fds wlog)"
    and "amqp_quiet (e_amqp E) (obs_of fds wlog)"
    and "ht s = ht_init" and "brokered (mq_options s)"
  shows "digest_inv E fds wlog (readonly s) (snd (main_loop E n s))"
proof -
  have "digest_inv E fds wlog (readonly s) s"
    using assms(4,5) by (simp add: digest_inv_def ht_init_wf digests_init)
  then show ?thesis
    using main_handlers.ev_main_loop [OF digest_main [OF assms(1-3)]] unfolding evolves_def by blast
qed

lemma digest_announced:
  assumes inv: "digest_inv E fds wlog ro s" and "small (ht s)"
    and sha: "\<And>chunks. e_sha_final E (foldl (e_sha_update E) (e_sha_init E) chunks) = sha (concat chunks)"
    and "records (e_amqp E) log"
    and ok: "handle_is_ok i HANDLE_FILE (ht s)" and h: "h = handles (ht s) ! nat i"
    and "is_upload (h_flags h)"
    and "sys_fstat E (h_fd h) (os s) = (Inr st, w1)" and "sys_close E (h_fd h) w1 = (Inr (), w2)"
  obtains m m' w' where "mq_options s = Some m"
    "handle_close E i s =
       (Inr (Inr ()), s\<lparr>mq_options := Some m', os := w', ht := handle_unused i (ht s)\<rparr>)"
    "announced log (e_json E (upload_object (pw_name s) (h_name h) (sha (concat (wlog (os s) (h_fd h))))
        (sint (st_size st)) (sint (st_mtime st)))) m w2 m' w'"
proof -
  from inv assms(2) have t: "ht_wf (ht s)" "digests E (fds (os s)) (wlog (os s)) (ht s)" "brokered (mq_options s)"
    by (simp_all add: digest_inv_def)
  from t(3) obtain m ex rk where m: "mq_options s = Some m" "addressed m ex rk" by (auto simp: brokered_def)
  have "file_at (ht s) i h" using ok file_ok_at [OF t(1)] h by simp
  from digestsD(1) [OF t(2) this] have d: "e_sha_final E (h_md h) = sha (concat (wlog (os s) (h_fd h)))"
    by (simp add: sha)
  show thesis
    by (rule handle_close_upload [OF assms(4) m ok h assms(7-9)]) (use d m(1) that in simp)
qed

end
