(* ===== verification/Host.thy ===== *)
theory Host
  imports Sftp_Digest
begin

text \<open>
  A concrete host for the SFTP server: an in-memory file system, a client that sends prepared
  packets and a broker that keeps what it is handed. It shows that the assumptions of the
  properties can hold together, and the server runs on it.
\<close>

record host =
  ho_files :: "(bytes \<times> bytes) list"
  ho_open :: "(int \<times> bytes \<times> nat) list"
  ho_next :: int
  ho_writes :: "(int \<times> bytes) list"
  ho_input :: "bytes list"
  ho_output :: bytes
  ho_log :: "published list"

section \<open>File system\<close>

definition host_stat :: "bytes \<Rightarrow> stat" where
  "host_stat content =
     \<lparr>st_mode = 0x81A4, st_nlink = 1, st_uid = 1000, st_gid = 1000,
      st_size = word_of_nat (length content), st_atime = 0, st_mtime = 0\<rparr>"

definition host_set :: "bytes \<Rightarrow> bytes \<Rightarrow> host \<Rightarrow> host" where
  "host_set path content w = w\<lparr>ho_files := alist_add path content (ho_files w)\<rparr>"

definition host_del :: "bytes \<Rightarrow> host \<Rightarrow> host" where
  "host_del path w = w\<lparr>ho_files := filter (\<lambda>(p, _). p \<noteq> path) (ho_files w)\<rparr>"

text \<open>A call on the contents of a path, and one on an open file with its position.\<close>

definition on_path :: "bytes \<Rightarrow> (bytes \<Rightarrow> 'a) \<Rightarrow> (bytes \<Rightarrow> host \<Rightarrow> host) \<Rightarrow> (host, 'a) syscall" where
  "on_path path f g w =
     (case map_of (ho_files w) path of None \<Rightarrow> (Inl ENOENT, w) | Some c \<Rightarrow> (Inr (f c), g c w))"

definition on_file ::
  "int \<Rightarrow> (bytes \<Rightarrow> nat \<Rightarrow> 'a) \<Rightarrow> (bytes \<Rightarrow> bytes \<Rightarrow> nat \<Rightarrow> host \<Rightarrow> host) \<Rightarrow> (host, 'a) syscall" where
  "on_file fd f g w =
     (case map_of (ho_open w) fd of None \<Rightarrow> (Inl EBADF, w)
      | Some (path, pos) \<Rightarrow>
          (case map_of (ho_files w) path of None \<Rightarrow> (Inl EBADF, w)
           | Some c \<Rightarrow> (Inr (f c pos), g path c pos w)))"

definition host_seek :: "int \<Rightarrow> bytes \<Rightarrow> nat \<Rightarrow> host \<Rightarrow> host" where
  "host_seek fd path pos w = w\<lparr>ho_open := alist_add fd (path, pos) (ho_open w)\<rparr>"

text \<open>Descriptors are numbered from 3.\<close>

definition host_fd :: "host \<Rightarrow> int" where
  "host_fd w = (if ho_next w < 3 then 3 else ho_next w)"

definition host_open :: "bytes \<Rightarrow> u32 \<Rightarrow> u32 \<Rightarrow> (host, int) syscall" where
  "host_open path flags mode w =
     (let known = map_of (ho_files w) path \<noteq> None;
          w1 = (if known \<and> flags AND O_TRUNC = 0 \<or> \<not> opens_for_writing flags then w
                else host_set path [] w)
      in if \<not> known \<and> flags AND O_CREAT = 0 then (Inl ENOENT, w)
         else (Inr (host_fd w), host_seek (host_fd w) path 0
                 (w1\<lparr>ho_next := host_fd w + 1, ho_writes := filter (\<lambda>(d, _). d \<noteq> host_fd w) (ho_writes w)\<rparr>)))"

definition host_read :: "int \<Rightarrow> nat \<Rightarrow> (host, bytes) syscall" where
  "host_read fd len w =
     (if fd = STDIN_FILENO
      then (Inr (case ho_input w of [] \<Rightarrow> [] | p # _ \<Rightarrow> take len p), w\<lparr>ho_input := tl (ho_input w)\<rparr>)
      else on_file fd (\<lambda>c pos. take len (drop pos c)) (\<lambda>p c pos. host_seek fd p (pos + len)) w)"

definition host_note :: "int \<Rightarrow> bytes \<Rightarrow> host \<Rightarrow> host" where
  "host_note fd data w = w\<lparr>ho_writes := ho_writes w @ (if data = [] then [] else [(fd, data)])\<rparr>"

definition host_write :: "int \<Rightarrow> bytes \<Rightarrow> (host, nat) syscall" where
  "host_write fd data w =
     (if fd = STDOUT_FILENO then (Inr (length data), host_note fd data (w\<lparr>ho_output := ho_output w @ data\<rparr>))
      else on_file fd (\<lambda>_ _. length data)
             (\<lambda>p c pos w. host_note fd data (host_seek fd p (pos + length data)
                (host_set p (take pos c @ data @ drop (pos + length data) c) w))) w)"

definition refused :: "int \<Rightarrow> (host, 'a) syscall" where
  "refused e w = (Inl e, w)"

section \<open>Broker\<close>

definition host_amqp :: "host amqp_ops" where
  "host_amqp =
     \<lparr>amqp_new_connection = (\<lambda>w. (Some 1, w)),
      amqp_tcp_socket_new = (\<lambda>_ w. (Some 2, w)),
      amqp_ssl_socket_new = (\<lambda>_ w. (Some 2, w)),
      amqp_ssl_socket_set_cacert = (\<lambda>_ _ w. w),
      amqp_ssl_socket_set_verify_peer = (\<lambda>_ _ w. w),
      amqp_ssl_socket_set_verify_hostname = (\<lambda>_ _ w. w),
      amqp_socket_open = (\<lambda>_ _ _ w. (0, w)),
      amqp_login = (\<lambda>_ _ _ _ _ _ _ w. (AMQP_RESPONSE_NORMAL, w)),
      amqp_channel_open = (\<lambda>_ _ w. w),
      amqp_get_rpc_reply = (\<lambda>_ w. (AMQP_RESPONSE_NORMAL, w)),
      amqp_basic_publish =
        (\<lambda>_ _ ex rk _ _ props body w.
           (0, w\<lparr>ho_log := ho_log w @ [\<lparr>pub_rc = 0, pub_exchange = ex, pub_routing_key = rk,
                                        pub_props = props, pub_body = body\<rparr>]\<rparr>)),
      amqp_channel_close = (\<lambda>_ _ _ w. (AMQP_RESPONSE_NORMAL, w)),
      amqp_connection_close = (\<lambda>_ _ w. (AMQP_RESPONSE_NORMAL, w)),
      amqp_uninitialize_ssl_library = (\<lambda>w. (0, w)),
      amqp_destroy_connection = (\<lambda>_ w. (0, w)),
      uuid_generate_unparse = (\<lambda>w. (lit ''00000000-0000-0000-0000-000000000001'', w))\<rparr>"

text \<open>A printer for the messages.\<close>

definition quoted :: "bytes \<Rightarrow> bytes" where
  "quoted s = [34] @ s @ [34]"

fun json_print :: "json \<Rightarrow> bytes" where
  "json_print (JStr s) = quoted s"
| "json_print (JInt i) = dec_int i"
| "json_print (JArr js) = lit ''['' @ join (map json_print js) @ lit '']''"
| "json_print (JObj kvs) =
     lit ''{'' @ join (map (\<lambda>(k, v). quoted k @ lit '':'' @ json_print v) kvs) @ lit ''}''"

section \<open>The environment\<close>

definition host_handle :: "bytes Handle" where
  "host_handle = \<lparr>h_use = HANDLE_UNUSED, h_dirp = None, h_fd = 0, h_flags = 0, h_name = [],
     h_bytes_read = 0, h_bytes_write = 0, h_next_unused = -1, h_md = []\<rparr>"

definition host_ls :: ls_env where
  "host_ls = \<lparr>le_user = (\<lambda>_. lit ''user''), le_group = (\<lambda>_. lit ''group''), le_now = 0,
     le_recent_time = (\<lambda>_. Some (lit ''Jan  1 00:00'')), le_old_time = (\<lambda>_. Some (lit ''Jan  1  1970'')),
     le_sbuf = []\<rparr>"

definition host_env :: "(bytes, host) env" where
  "host_env =
     \<lparr>e_al = (\<lambda>_. True), e_fresh = host_handle, e_stat0 = host_stat [], e_fuel = 200,
      e_ls = (\<lambda>_. host_ls), e_sha_init = [], e_sha_update = (\<lambda>md d. md @ d), e_sha_final = (\<lambda>md. md),
      e_amqp = host_amqp, e_json = json_print,
      sys_open = host_open,
      sys_close = (\<lambda>fd w. if map_of (ho_open w) fd = None then (Inl EBADF, w)
                    else (Inr (), w\<lparr>ho_open := filter (\<lambda>(d, _). d \<noteq> fd) (ho_open w)\<rparr>)),
      sys_lseek = (\<lambda>fd off. on_file fd (\<lambda>_ _. ()) (\<lambda>p c pos. host_seek fd p (unat off))),
      sys_read = host_read, sys_write = host_write,
      sys_stat = (\<lambda>p. on_path p host_stat (\<lambda>_ w. w)),
      sys_lstat = (\<lambda>p. on_path p host_stat (\<lambda>_ w. w)),
      sys_fstat = (\<lambda>fd. on_file fd (\<lambda>c _. host_stat c) (\<lambda>_ _ _ w. w)),
      sys_truncate = (\<lambda>p n. on_path p (\<lambda>_. ()) (\<lambda>c. host_set p (take (unat n) c))),
      sys_ftruncate = (\<lambda>fd n. on_file fd (\<lambda>_ _. ()) (\<lambda>p c _. host_set p (take (unat n) c))),
      sys_chmod = (\<lambda>p _. on_path p (\<lambda>_. ()) (\<lambda>_ w. w)),
      sys_fchmod = (\<lambda>fd _. on_file fd (\<lambda>_ _. ()) (\<lambda>_ _ _ w. w)),
      sys_utimes = (\<lambda>p _. on_path p (\<lambda>_. ()) (\<lambda>_ w. w)),
      sys_futimes = (\<lambda>fd _. on_file fd (\<lambda>_ _. ()) (\<lambda>_ _ _ w. w)),
      sys_chown = (\<lambda>_ _ _. refused EPERM), sys_fchown = (\<lambda>_ _ _. refused EPERM),
      sys_opendir = (\<lambda>p. if p = [SLASH] then (\<lambda>w. (Inr 0, w)) else refused ENOTDIR),
      sys_closedir = (\<lambda>_ w. (Inr (), w)),
      sys_readdir = (\<lambda>_ w. (None, w)),
      sys_unlink = (\<lambda>p. on_path p (\<lambda>_. ()) (\<lambda>_. host_del p)),
      sys_mkdir = (\<lambda>_ _. refused EPERM), sys_rmdir = (\<lambda>_. refused ENOTDIR),
      sys_realpath = (\<lambda>p w. (if length p < PATH_MAX then Inr p else Inl ENAMETOOLONG, w)),
      sys_rename = (\<lambda>p q. on_path p (\<lambda>_. ()) (\<lambda>c w. host_set q c (host_del p w))),
      sys_link = (\<lambda>_ _. refused EPERM),
      sys_readlink = (\<lambda>_ _. refused EINVAL), sys_symlink = (\<lambda>_ _. refused EPERM),
      sys_statvfs = (\<lambda>_. refused ENOSYS), sys_fstatvfs = (\<lambda>_. refused ENOSYS),
      sys_fsync = (\<lambda>fd. on_file fd (\<lambda>_ _. ()) (\<lambda>_ _ _ w. w)),
      sys_select = (\<lambda>rd wr w. (Inr (rd, wr), w))\<rparr>"

lemma on_path_errno: "errno_set (on_path p f g)"
  by (auto simp: errno_set_def on_path_def errnos split: option.splits)

lemma on_file_errno: "errno_set (on_file fd f g)"
  by (auto simp: errno_set_def on_file_def errnos split: option.splits)

lemma host_env_al: "\<forall>n. e_al host_env n"
  by (simp add: host_env_def)

lemma host_errnos: "errnos_set host_env"
proof -
  have "errno_set (host_open p f m)" for p f m
    by (auto simp: errno_set_def host_open_def Let_def errnos split: if_splits)
  moreover have "errno_set (host_read fd n)" for fd n
    using on_file_errno by (fastforce simp: errno_set_def host_read_def split: if_splits)
  ultimately show ?thesis
    by (simp add: errnos_set_def host_env_def on_path_errno on_file_errno)
      (simp add: errno_set_def refused_def errnos)
qed

interpretation host: replying host_env
  by unfold_locales (rule host_env_al, rule host_errnos)

lemma host_bounded: "results_bounded host_env (\<lambda>_ _. 0)"
proof -
  have "length d \<le> n" if "host_read fd n w = (Inr d, w')" for fd n w d w'
    using that by (auto simp: host_read_def on_file_def split: if_splits list.splits option.splits)
  then show ?thesis
    unfolding results_bounded_def
    by (auto simp: host_env_def refused_def split: if_splits)
qed

interpretation host_live: responding host_env "\<lambda>_ _. 0"
  by unfold_locales (rule host_env_al, rule host_bounded)

lemma host_amqp_records: "records host_amqp ho_log"
  by (simp add: records_def unlogged_def host_amqp_def)

lemma host_amqp_quiet: "amqp_quiet (e_amqp host_env) ho_files"
  by (simp add: amqp_quiet_def unlogged_def host_env_def host_amqp_def)

lemma host_readers_quiet: "fs_readers_quiet host_env ho_files"
proof -
  have seek: "ho_files (host_seek fd p n w) = ho_files w" for fd p n w by (simp add: host_seek_def)
  have opened: "unlogged ho_files (on_file fd f g)" if "\<And>p c n w. ho_files (g p c n w) = ho_files w"
    for fd and f :: "bytes \<Rightarrow> nat \<Rightarrow> 'b" and g
    using that by (auto simp: unlogged_def on_file_def split: option.splits)
  have path: "unlogged ho_files (on_path p f (\<lambda>_ w. w))" for p and f :: "bytes \<Rightarrow> 'b"
    by (auto simp: unlogged_def on_path_def split: option.splits)
  have "unlogged ho_files (host_open p f m)" if "\<not> opens_for_writing f" for p f m
    using that by (simp add: unlogged_def host_open_def Let_def seek)
  moreover have "unlogged ho_files (host_read fd n)" for fd n
  proof -
    have "unlogged ho_files (on_file fd (\<lambda>c pos. take n (drop pos c)) (\<lambda>p c pos. host_seek fd p (pos + n)))"
      by (rule opened) (rule seek)
    then show ?thesis by (simp add: unlogged_def host_read_def)
  qed
  moreover have "unlogged ho_files (host_write STDOUT_FILENO d)" for d
    by (simp add: unlogged_def host_write_def host_note_def)
  ultimately show ?thesis
    by (simp add: fs_readers_quiet_def host_env_def path opened seek)
      (simp add: unlogged_def refused_def)
qed

text \<open>Descriptors and what is written through them.\<close>

definition host_fds :: "host \<Rightarrow> int set" where
  "host_fds w = {..<host_fd w}"

definition host_wlog :: "host \<Rightarrow> int \<Rightarrow> bytes list" where
  "host_wlog w fd = map snd (filter (\<lambda>(d, _). d = fd) (ho_writes w))"

definition host_obs :: "host \<Rightarrow> int \<times> (int \<times> bytes) list" where
  "host_obs w = (host_fd w, ho_writes w)"

lemma host_obs_simps [simp]:
  "host_obs (host_seek fd p n w) = host_obs w" "host_obs (host_set p c w) = host_obs w"
  "host_obs (host_del p w) = host_obs w" "host_obs (w\<lparr>ho_input := x\<rparr>) = host_obs w"
  "host_obs (w\<lparr>ho_output := y\<rparr>) = host_obs w" "host_obs (w\<lparr>ho_open := z\<rparr>) = host_obs w"
  "host_obs (w\<lparr>ho_log := l\<rparr>) = host_obs w"
  by (simp_all add: host_obs_def host_fd_def host_seek_def host_set_def host_del_def)

lemma host_obs_eq:
  "host_obs w' = host_obs w \<Longrightarrow> host_fds w' = host_fds w \<and> host_wlog w' = host_wlog w"
  by (auto simp: host_obs_def host_fds_def host_wlog_def)

lemma host_wlog_note:
  "host_wlog (host_note fd d w) = (if d \<noteq> [] then (host_wlog w)(fd := host_wlog w fd @ [d]) else host_wlog w)"
  by (auto simp: host_wlog_def host_note_def)

lemma host_fds_note: "host_fds (host_note fd d w) = host_fds w"
  by (simp add: host_fds_def host_fd_def host_note_def)

lemma host_open_run:
  assumes "host_open p f m w = (Inr fd, w')"
  shows "fd = host_fd w" "host_fd w' = fd + 1" "ho_writes w' = filter (\<lambda>(d, _). d \<noteq> fd) (ho_writes w)"
  using assms
  by (auto simp: host_open_def Let_def host_fd_def host_seek_def host_set_def split: if_splits)

lemma host_opened:
  assumes "host_open p f m w = (Inr fd, w')"
  shows "fd \<notin> host_fds w \<and> host_fds w' = insert fd (host_fds w) \<and> host_wlog w' = (host_wlog w)(fd := [])"
proof -
  note run = host_open_run [OF assms]
  have "host_wlog w' k = ((host_wlog w)(fd := [])) k" for k
    unfolding host_wlog_def run(3) filter_filter
    by (cases "k = fd") (auto simp: filter_empty_conv host_wlog_def intro!: arg_cong [where f = "map snd"] filter_cong)
  then show ?thesis unfolding host_fds_def run(2) using run(1) by auto
qed

lemma host_open_failed: "host_open p f m w = (Inl e, w') \<Longrightarrow> w' = w"
  by (auto simp: host_open_def Let_def split: if_splits)

lemma host_closed: "host_obs (snd (sys_close host_env fd w)) = host_obs w"
  by (simp add: host_env_def)

lemma host_written:
  assumes "host_write fd d w = (r, w')"
  shows "host_fds w' = host_fds w \<and> host_wlog w' =
    (if r = Inr (length d) \<and> d \<noteq> [] then (host_wlog w)(fd := host_wlog w fd @ [d]) else host_wlog w)"
proof -
  have obs: "host_fds (host_note fd d u) = host_fds w \<and> host_wlog (host_note fd d u) =
      (if d \<noteq> [] then (host_wlog w)(fd := host_wlog w fd @ [d]) else host_wlog w)"
    if "host_obs u = host_obs w" for u
    using host_obs_eq [OF that] by (simp add: host_wlog_note host_fds_note)
  from assms consider (NOTED) u where "r = Inr (length d)" "w' = host_note fd d u" "host_obs u = host_obs w"
    | (FAILED) "r = Inl EBADF" "w' = w"
    by (auto simp: host_write_def on_file_def split: if_splits option.splits)
  then show ?thesis
  proof cases
    case NOTED
    then show ?thesis using obs [OF NOTED(3)] by simp
  qed simp
qed

lemma host_descriptors: "descriptors host_env host_fds host_wlog"
proof -
  have out: "STDOUT_FILENO \<in> host_fds w" for w by (simp add: host_fds_def host_fd_def STDOUT_FILENO_def)
  have ops: "sys_open host_env = host_open" "sys_write host_env = host_write"
    by (simp_all add: host_env_def)
  have close: "host_fds w - {fd} \<subseteq> host_fds (snd (sys_close host_env fd w)) \<and>
      host_wlog (snd (sys_close host_env fd w)) = host_wlog w" for fd w
    using host_obs_eq [OF host_closed, of fd w] by blast
  have failed: "host_fds w' = host_fds w \<and> host_wlog w' = host_wlog w" if "host_open p f m w = (Inl e, w')"
    for p f m w e w'
    using host_open_failed [OF that] by simp
  show ?thesis
    unfolding descriptors_def ops
    by (rule conjI, intro allI, rule out, rule conjI, intro allI impI, erule host_opened,
        rule conjI, intro allI impI, erule failed, rule conjI, intro allI, rule close,
        intro allI impI, erule host_written)
qed

lemma host_obs_unlogged:
  assumes "unlogged host_obs f"
  shows "unlogged (obs_of host_fds host_wlog) f"
  unfolding unlogged_def
proof
  fix w
  show "(host_fds (snd (f w)), host_wlog (snd (f w))) = (host_fds w, host_wlog w)"
    using host_obs_eq [of "snd (f w)" w] assms by (simp add: unlogged_def)
qed

lemma host_path_unlogged:
  "(\<And>c w. host_obs (g c w) = host_obs w) \<Longrightarrow> unlogged host_obs (on_path p f g)"
  by (auto simp: unlogged_def on_path_def split: option.splits)

lemma host_file_unlogged:
  "(\<And>p c n w. host_obs (g p c n w) = host_obs w) \<Longrightarrow> unlogged host_obs (on_file fd f g)"
  by (auto simp: unlogged_def on_file_def split: option.splits)

lemma host_read_unlogged: "unlogged host_obs (host_read fd n)"
  using host_file_unlogged [of "\<lambda>p c pos. host_seek fd p (pos + n)" fd "\<lambda>c pos. take n (drop pos c)"]
  by (simp add: unlogged_def host_read_def)

lemma host_calls_quiet: "calls_quiet host_env (obs_of host_fds host_wlog)"
  unfolding calls_quiet_def
  by (intro conjI allI host_obs_unlogged;
      simp add: host_env_def host_path_unlogged host_file_unlogged host_read_unlogged;
      (simp add: unlogged_def refused_def)?)

lemma host_amqp_descriptors: "amqp_quiet (e_amqp host_env) (obs_of host_fds host_wlog)"
  unfolding amqp_quiet_def host_env_def host_amqp_def
  by (intro conjI allI host_obs_unlogged; simp add: unlogged_def)

section \<open>A session\<close>

definition host_options :: mq_options_t where
  "host_options =
     \<lparr>mo_cfgfile = Null, mo_dsn = Null, mo_conn = Some 1, mo_socket = Some 2, mo_connection_opened = False,
      mo_ssl = 0, mo_verify_hostname = 0, mo_verify_peer = 0, mo_cacert = Null,
      mo_host = Str (lit ''localhost''), mo_ip = Str (lit ''127.0.0.1''), mo_port = 5672,
      mo_vhost = Str (lit ''/''), mo_username = Str (lit ''guest''), mo_password = Str (lit ''guest''),
      mo_exchange = Str (lit ''cega''), mo_routing_key = Str (lit ''inbox''), mo_heartbeat = 0\<rparr>"

definition host_start :: "bytes list \<Rightarrow> host" where
  "host_start input = \<lparr>ho_files = [(lit ''/a'', [1, 2, 3])], ho_open = [], ho_next = 3, ho_writes = [], ho_input = input,
     ho_output = [], ho_log = []\<rparr>"

text \<open>The buffers are those of \<open>sshbuf_new\<close>, with \<open>v\<close> put on the input queue.\<close>

definition host_buf :: "bytes \<Rightarrow> sshbuf" where
  "host_buf v = snd (sshbuf_put (\<lambda>_. True) v (the (sshbuf_new (\<lambda>_. True))))"

definition host_srv :: "bool \<Rightarrow> bool \<Rightarrow> bytes \<Rightarrow> (bytes, host) srv" where
  "host_srv ro inited v =
     \<lparr>iqueue = host_buf v, oqueue = host_buf [], version = 3, init_done = inited, readonly = ro,
      request_whitelist = None, request_blacklist = None, ht = ht_init, mq_options = Some host_options,
      pw_name = lit ''jane'', os = host_start []\<rparr>"

end
