(* ===== verification/Host_Runs.thy ===== *)
theory Host_Runs
  imports Host Sftp_Notifications "HOL-Library.Code_Target_Numeral"
begin

text \<open>Runs of the server on the host, evaluated.\<close>

lemma host_buf_writable: "sb_writable (host_buf v) \<and> sb_max_size (host_buf v) = SSHBUF_SIZE_MAX"
  and host_buf_ptr: "length v \<le> SSHBUF_SIZE_MAX \<Longrightarrow> sshbuf_ptr (host_buf v) = v"
proof -
  define b where "b = the (sshbuf_new (\<lambda>_. True))"
  have new: "sshbuf_new (\<lambda>_. True) = Some b" by (simp add: b_def sshbuf_new_def)
  have b: "sb_writable b" "sshbuf_ptr b = []" using sshbuf_new_writable [OF new] by simp_all
  have max: "sb_max_size b = SSHBUF_SIZE_MAX" using new by (auto simp: sshbuf_new_def)
  obtain r c where run: "sshbuf_put (\<lambda>_. True) v b = (r, c)" by fastforce
  have sim: "sim sb_writable sb_abs (sshbuf_put (\<lambda>_. True) v) (bq_put v)" by (rule sshbuf_put_sim) simp
  note st = simD [OF sim b(1) run]
  have c: "host_buf v = c" by (simp add: host_buf_def run flip: b_def)
  show "sb_writable (host_buf v) \<and> sb_max_size (host_buf v) = SSHBUF_SIZE_MAX"
    using st max b by (auto simp: c bq_put_def sb_abs_def split: if_splits)
  show "sshbuf_ptr (host_buf v) = v" if "length v \<le> SSHBUF_SIZE_MAX"
  proof -
    have "bq_put v (sb_abs b) = (Inr (), (sb_abs b)\<lparr>bq_bytes := v\<rparr>)"
      using that max b by (simp add: bq_put_def)
    then show ?thesis unfolding c using st(2) by (simp add: sb_abs_def)
  qed
qed

lemma host_srv_bufs: "bufs_ok (host_srv ro inited v)"
  using host_buf_writable by (simp add: bufs_ok_def host_srv_def)

lemma host_srv_able: "able (host_srv ro inited v)"
  using host_srv_bufs [of ro inited v] by (simp add: able_def brokered_def host_srv_def host_options_def addressed_def)

lemma host_srv_room: "room (host_srv ro inited v)"
  using host_buf_writable [of "[]"] host_buf_ptr [of "[]"]
  by (simp add: room_def host_srv_def sshbuf_consts SFTP_MAX_MSG_LENGTH_def)

definition stat_packet :: bytes where
  "stat_packet = packet SSH2_FXP_STAT 7 (enc_string (lit ''/a''))"

lemma stat_packet_ptr:
  "sshbuf_ptr (iqueue (host_srv ro inited stat_packet)) = packet SSH2_FXP_STAT 7 (enc_string (lit ''/a'')) @ []"
  by (simp add: host_srv_def stat_packet_def host_buf_ptr packet_def enc_string_def lit_def sshbuf_consts)

lemma stat_packet_ok:
  "SSH2_FXP_STAT \<in> set request_types" "length (enc_string (lit ''/a'')) + 5 \<le> SFTP_MAX_MSG_LENGTH"
  "request_ok SSH2_FXP_STAT (enc_string (lit ''/a''))"
proof -
  show "SSH2_FXP_STAT \<in> set request_types" "length (enc_string (lit ''/a'')) + 5 \<le> SFTP_MAX_MSG_LENGTH"
    by (simp_all add: request_types_def SFTP_MAX_MSG_LENGTH_def enc_string_def lit_def)
  have "takes (enc_string (lit ''/a'') @ []) (arg_path (returnE ())) ()"
    unfolding arg_path_def rd_def
    by (rule takes_bindE [OF takes_mapE [OF takes_cstring] takes_returnE])
      (simp_all add: lit_def sshbuf_consts)
  then show "request_ok SSH2_FXP_STAT (enc_string (lit ''/a''))"
    unfolding request_ok_def request_args_eqs by (metis append_Nil2)
qed

lemma stat_run: "fst (process host_env (host_srv False True stat_packet)) = Inr ()"
proof -
  have "init_done (host_srv False True v)" for v by (simp add: host_srv_def)
  from host_live.process_returns [OF stat_packet_ok(1) host_srv_able host_srv_room this
      stat_packet_ptr stat_packet_ok(2,3)]
  show ?thesis by auto
qed

text \<open>The host while the file \<open>/a\<close> is open for writing under handle 0.\<close>

definition open_handle :: "u32 \<Rightarrow> bytes Handle" where
  "open_handle flags = host_handle\<lparr>h_use := HANDLE_FILE, h_fd := 3, h_flags := flags, h_name := lit ''/a'',
     h_md := [1, 2, 3]\<rparr>"

definition open_srv :: "u32 \<Rightarrow> (bytes, host) srv" where
  "open_srv flags = (host_srv False True [])
     \<lparr>ht := \<lparr>handles = [open_handle flags], num_handles = 1, first_unused_handle = -1\<rparr>,
      os := (host_start [])\<lparr>ho_open := [(3, lit ''/a'', 3)], ho_next := 4, ho_writes := [(3, [1, 2]), (3, [3])]\<rparr>\<rparr>"

lemma open_srv_sel:
  "handle_is_ok 0 HANDLE_FILE (ht (open_srv flags))"
  "handles (ht (open_srv flags)) ! nat 0 = open_handle flags"
  "h_flags (open_handle flags) = flags" "h_fd (open_handle flags) = 3"
  "h_name (open_handle flags) = lit ''/a''" "h_md (open_handle flags) = [1, 2, 3]"
  "mq_options (open_srv flags) = Some host_options" "pw_name (open_srv flags) = lit ''jane''"
  by (simp_all add: open_srv_def handle_is_ok_def open_handle_def host_srv_def)

lemma host_addressed: "addressed host_options (lit ''cega'') (lit ''inbox'')"
  by (simp add: addressed_def host_options_def)

lemma open_srv_calls:
  "sys_fstat host_env 3 (os (open_srv flags)) = (Inr (host_stat [1, 2, 3]), os (open_srv flags))"
  "sys_close host_env 3 (os (open_srv flags)) =
     (Inr (), (host_start [])\<lparr>ho_next := 4, ho_writes := [(3, [1, 2]), (3, [3])]\<rparr>)"
  by (simp_all add: host_env_def on_file_def open_srv_def host_start_def)

lemma open_srv_close:
  "sys_fstat host_env (h_fd (handles (ht (open_srv flags)) ! nat 0)) (os (open_srv flags)) =
     (Inr (host_stat [1, 2, 3]), os (open_srv flags))"
  "sys_close host_env (h_fd (handles (ht (open_srv flags)) ! nat 0)) (os (open_srv flags)) =
     (Inr (), (host_start [])\<lparr>ho_next := 4, ho_writes := [(3, [1, 2]), (3, [3])]\<rparr>)"
  unfolding open_srv_sel by (rule open_srv_calls)+

lemma is_upload_flags:
  "is_upload (O_WRONLY OR O_CREAT OR O_TRUNC)" "\<not> is_upload O_RDONLY"
  by (simp_all add: is_upload_def o_flags)

lemma open_srv_digest: "digest_inv host_env host_fds host_wlog False (open_srv flags)" "small (ht (open_srv flags))"
proof -
  let ?t = "ht (open_srv flags)"
  have t: "?t = \<lparr>handles = [open_handle flags], num_handles = 1, first_unused_handle = -1\<rparr>"
    by (simp add: open_srv_def)
  have used: "h_use (open_handle flags) = HANDLE_FILE" by (simp add: open_handle_def)
  have at: "file_at ?t i h \<Longrightarrow> i = 0 \<and> h = open_handle flags" for i h
    by (auto simp: file_at_def ht_live_def t split: if_splits)
  have free: "ht_free ?t []" by (auto simp: ht_free_def unused_slots_def t used)
  then have "ht_wf ?t" unfolding ht_wf_def by (intro conjI exI [of _ "[]"]) (simp_all add: t)
  moreover have "digests host_env (host_fds (os (open_srv flags))) (host_wlog (os (open_srv flags))) ?t"
    by (rule digestsI; drule at; (drule at)?)
      (simp_all add: open_srv_sel open_srv_def host_start_def host_fds_def host_fd_def host_wlog_def
        host_env_def STDOUT_FILENO_def)
  moreover have "brokered (mq_options (open_srv flags))" "\<not> readonly (open_srv flags)"
    by (simp_all add: brokered_def open_srv_def host_srv_def host_options_def addressed_def)
  ultimately show "digest_inv host_env host_fds host_wlog False (open_srv flags)" by (simp add: digest_inv_def)
  show "small ?t" by (simp add: small_def t)
qed

lemma host_sha: "e_sha_final host_env (foldl (e_sha_update host_env) (e_sha_init host_env) chunks) = concat chunks"
proof -
  have "foldl (\<lambda>md d. md @ d) acc chunks = acc @ concat chunks" for acc :: bytes
    by (induction chunks arbitrary: acc) simp_all
  then show ?thesis by (simp add: host_env_def)
qed

end
