(* ===== verification/Amqp_Codec.thy ===== *)
theory Amqp_Codec
  imports Wire
begin

text \<open>
  Integers and strings of AMQP: the inline functions of \<open>src/src/rabbitmq-c/amqp_private.h\<close>.
  A decoder works on a block of bytes with an offset, an encoder on a buffer with an offset.
  Both advance the offset also where they fail. Two calculi, \<open>reads\<close> and \<open>emits\<close>, say what
  composed decoders and encoders do.
\<close>

section \<open>Status codes\<close>

text \<open>The negative values of \<open>amqp_status_enum\<close>, any other negative number that is returned as a
  status, and the ways not to return.\<close>

datatype amqp_status =
  AMQP_STATUS_NO_MEMORY | AMQP_STATUS_BAD_AMQP_DATA | AMQP_STATUS_UNKNOWN_CLASS
| AMQP_STATUS_UNKNOWN_METHOD | AMQP_STATUS_HOSTNAME_RESOLUTION_FAILED
| AMQP_STATUS_INCOMPATIBLE_AMQP_VERSION | AMQP_STATUS_CONNECTION_CLOSED | AMQP_STATUS_BAD_URL
| AMQP_STATUS_SOCKET_ERROR | AMQP_STATUS_INVALID_PARAMETER | AMQP_STATUS_TABLE_TOO_BIG
| AMQP_STATUS_WRONG_METHOD | AMQP_STATUS_TIMEOUT | AMQP_STATUS_TIMER_FAILURE
| AMQP_STATUS_HEARTBEAT_TIMEOUT | AMQP_STATUS_UNEXPECTED_STATE | AMQP_STATUS_SOCKET_CLOSED
| AMQP_STATUS_SOCKET_INUSE | AMQP_STATUS_BROKER_UNSUPPORTED_SASL_METHOD | AMQP_STATUS_UNSUPPORTED
| AMQP_STATUS_TCP_ERROR | AMQP_STATUS_TCP_SOCKETLIB_INIT_ERROR | AMQP_STATUS_SSL_ERROR
| AMQP_STATUS_SSL_HOSTNAME_VERIFY_FAILED | AMQP_STATUS_SSL_PEER_VERIFY_FAILED
| AMQP_STATUS_SSL_CONNECTION_FAILED
| Amqp_Other_Status int
| Amqp_Abort | Undefined_Behaviour | Out_Of_Fuel

section \<open>Memory images\<close>

text \<open>The host is little-endian: \<open>memcpy\<close> of an integer stores its bytes from the lowest.\<close>

definition is_bigendian :: bool where
  "is_bigendian = False"

definition mem16 :: "u16 \<Rightarrow> bytes" where
  "mem16 v = [ucast v, ucast (drop_bit 8 v)]"

definition mem64 :: "u64 \<Rightarrow> bytes" where
  "mem64 v =
     [ucast v, ucast (drop_bit 8 v), ucast (drop_bit 16 v), ucast (drop_bit 24 v),
      ucast (drop_bit 32 v), ucast (drop_bit 40 v), ucast (drop_bit 48 v), ucast (drop_bit 56 v)]"

definition load16 :: "bytes \<Rightarrow> u16" where
  "load16 p = ucast (p ! 0) OR push_bit 8 (ucast (p ! 1))"

definition load64 :: "bytes \<Rightarrow> u64" where
  "load64 p =
     ucast (p ! 0) OR push_bit 8 (ucast (p ! 1)) OR push_bit 16 (ucast (p ! 2)) OR
     push_bit 24 (ucast (p ! 3)) OR push_bit 32 (ucast (p ! 4)) OR push_bit 40 (ucast (p ! 5)) OR
     push_bit 48 (ucast (p ! 6)) OR push_bit 56 (ucast (p ! 7))"

definition swap16 :: "u16 \<Rightarrow> u16" where
  "swap16 val = drop_bit 8 (val AND 0xFF00) OR push_bit 8 (val AND 0x00FF)"

definition swap32 :: "u32 \<Rightarrow> u32" where
  "swap32 val =
     drop_bit 24 (val AND 0xFF000000) OR drop_bit 8 (val AND 0x00FF0000) OR
     push_bit 8 (val AND 0x0000FF00) OR push_bit 24 (val AND 0x000000FF)"

definition swap64 :: "u64 \<Rightarrow> u64" where
  "swap64 val =
     drop_bit 56 (val AND 0xFF00000000000000) OR drop_bit 40 (val AND 0x00FF000000000000) OR
     drop_bit 24 (val AND 0x0000FF0000000000) OR drop_bit 8 (val AND 0x000000FF00000000) OR
     push_bit 8 (val AND 0x00000000FF000000) OR push_bit 24 (val AND 0x0000000000FF0000) OR
     push_bit 40 (val AND 0x000000000000FF00) OR push_bit 56 (val AND 0x00000000000000FF)"

definition amqp_e8 :: "u8 \<Rightarrow> bytes" where
  "amqp_e8 val = [val]"

definition amqp_d8 :: "bytes \<Rightarrow> u8" where
  "amqp_d8 data = data ! 0"

definition amqp_e16 :: "u16 \<Rightarrow> bytes" where
  "amqp_e16 val = mem16 (if \<not> is_bigendian then swap16 val else val)"

definition amqp_d16 :: "bytes \<Rightarrow> u16" where
  "amqp_d16 data = (let val = load16 data in if \<not> is_bigendian then swap16 val else val)"

definition amqp_e32 :: "u32 \<Rightarrow> bytes" where
  "amqp_e32 val = put_u32_le (if \<not> is_bigendian then swap32 val else val)"

definition amqp_d32 :: "bytes \<Rightarrow> u32" where
  "amqp_d32 data = (let val = get_u32_le data in if \<not> is_bigendian then swap32 val else val)"

definition amqp_e64 :: "u64 \<Rightarrow> bytes" where
  "amqp_e64 val = mem64 (if \<not> is_bigendian then swap64 val else val)"

definition amqp_d64 :: "bytes \<Rightarrow> u64" where
  "amqp_d64 data = (let val = load64 data in if \<not> is_bigendian then swap64 val else val)"

text \<open>They are the network byte order.\<close>

lemma byte_mask_bits:
  "bit (0xFF :: int) n \<longleftrightarrow> n < 8" "bit (0xFF00 :: int) n \<longleftrightarrow> 8 \<le> n \<and> n < 16"
  "bit (0xFF0000 :: int) n \<longleftrightarrow> 16 \<le> n \<and> n < 24" "bit (0xFF000000 :: int) n \<longleftrightarrow> 24 \<le> n \<and> n < 32"
  "bit (0xFF00000000 :: int) n \<longleftrightarrow> 32 \<le> n \<and> n < 40"
  "bit (0xFF0000000000 :: int) n \<longleftrightarrow> 40 \<le> n \<and> n < 48"
  "bit (0xFF000000000000 :: int) n \<longleftrightarrow> 48 \<le> n \<and> n < 56"
  "bit (0xFF00000000000000 :: int) n \<longleftrightarrow> 56 \<le> n \<and> n < 64"
proof -
  have byte: "bit (push_bit k (mask 8) :: int) n \<longleftrightarrow> k \<le> n \<and> n < k + 8" for k
    by (auto simp: bit_simps)
  have m: "(0xFF :: int) = push_bit 0 (mask 8)" "(0xFF00 :: int) = push_bit 8 (mask 8)"
    "(0xFF0000 :: int) = push_bit 16 (mask 8)" "(0xFF000000 :: int) = push_bit 24 (mask 8)"
    "(0xFF00000000 :: int) = push_bit 32 (mask 8)" "(0xFF0000000000 :: int) = push_bit 40 (mask 8)"
    "(0xFF000000000000 :: int) = push_bit 48 (mask 8)" "(0xFF00000000000000 :: int) = push_bit 56 (mask 8)"
    by (simp_all add: mask_eq_exp_minus_1 push_bit_eq_mult)
  show "bit (0xFF :: int) n \<longleftrightarrow> n < 8" "bit (0xFF00 :: int) n \<longleftrightarrow> 8 \<le> n \<and> n < 16"
    "bit (0xFF0000 :: int) n \<longleftrightarrow> 16 \<le> n \<and> n < 24" "bit (0xFF000000 :: int) n \<longleftrightarrow> 24 \<le> n \<and> n < 32"
    "bit (0xFF00000000 :: int) n \<longleftrightarrow> 32 \<le> n \<and> n < 40"
    "bit (0xFF0000000000 :: int) n \<longleftrightarrow> 40 \<le> n \<and> n < 48"
    "bit (0xFF000000000000 :: int) n \<longleftrightarrow> 48 \<le> n \<and> n < 56"
    "bit (0xFF00000000000000 :: int) n \<longleftrightarrow> 56 \<le> n \<and> n < 64"
    unfolding m byte by simp_all
qed

lemma bit_swap16: "n < 16 \<Longrightarrow> bit (swap16 v) n \<longleftrightarrow> bit v (if n < 8 then n + 8 else n - 8)"
  unfolding swap16_def by (auto simp: bit_simps byte_mask_bits ac_simps dest: bit_imp_le_length)

lemma bit_swap32:
  "n < 32 \<Longrightarrow> bit (swap32 v) n \<longleftrightarrow>
     bit v (if n < 8 then n + 24 else if n < 16 then n + 8 else if n < 24 then n - 8 else n - 24)"
  unfolding swap32_def by (auto simp: bit_simps byte_mask_bits ac_simps dest: bit_imp_le_length)

lemma bit_swap64:
  assumes "n < 64"
  shows "bit (swap64 v) n \<longleftrightarrow>
     bit v (if n < 8 then n + 56 else if n < 16 then n + 40 else if n < 24 then n + 24 else if n < 32 then n + 8
            else if n < 40 then n - 8 else if n < 48 then n - 24 else if n < 56 then n - 40 else n - 56)"
  using assms unfolding swap64_def
  by (cases rule: byte_position) (simp_all add: bit_simps byte_mask_bits ac_simps)

lemma amqp_e16_eq: "amqp_e16 v = put_u16 v"
  unfolding amqp_e16_def mem16_def put_u16_def is_bigendian_def
  by (simp, intro conjI; rule bit_word_eqI; simp add: bit_simps bit_swap16 ac_simps)

lemma amqp_d16_eq: "amqp_d16 p = get_u16 p"
  unfolding amqp_d16_def load16_def get_u16_def is_bigendian_def
  by (simp, rule bit_word_eqI) (auto simp: bit_simps bit_swap16 u8_bit_ge)

lemma amqp_e32_eq: "amqp_e32 v = put_u32 v"
  unfolding amqp_e32_def put_u32_le_def put_u32_def is_bigendian_def
  by (simp, intro conjI; rule bit_word_eqI; simp add: bit_simps bit_swap32 ac_simps)

lemma amqp_d32_eq: "amqp_d32 p = get_u32 p"
proof (rule bit_word_eqI)
  fix n :: nat assume n: "n < LENGTH(32)"
  then have "n < 64" by simp
  then show "bit (amqp_d32 p) n = bit (get_u32 p) n"
    unfolding amqp_d32_def get_u32_le_def get_u32_def is_bigendian_def using n
    by (cases rule: byte_position) (auto simp: bit_simps bit_swap32 u8_bit_ge)
qed

lemma amqp_e64_eq: "amqp_e64 v = put_u64 v"
  unfolding amqp_e64_def mem64_def put_u64_def is_bigendian_def
  by (simp, intro conjI; rule bit_word_eqI; simp add: bit_simps bit_swap64 ac_simps)

lemma amqp_d64_eq: "amqp_d64 p = get_u64 p"
proof (rule bit_word_eqI)
  fix n :: nat assume "n < LENGTH(64)"
  then have "n < 64" by simp
  then show "bit (amqp_d64 p) n = bit (get_u64 p) n"
    unfolding amqp_d64_def load64_def get_u64_def is_bigendian_def
    by (cases rule: byte_position) (simp_all add: bit_simps bit_swap64 u8_bit_ge le_diff_conv2 less_diff_conv2)
qed

section \<open>Decoding\<close>

text \<open>\<open>encoded\<close> is the block, the state the offset. \<open>Inl ()\<close> is the result 0.\<close>

definition amqp_decode_8 :: "bytes \<Rightarrow> (nat, unit, u8) est" where
  "amqp_decode_8 encoded off =
     (let offset = off + 8 div 8 in
      if offset \<le> length encoded then (Inr (amqp_d8 (drop off encoded)), offset) else (Inl (), offset))"

definition amqp_decode_16 :: "bytes \<Rightarrow> (nat, unit, u16) est" where
  "amqp_decode_16 encoded off =
     (let offset = off + 16 div 8 in
      if offset \<le> length encoded then (Inr (amqp_d16 (drop off encoded)), offset) else (Inl (), offset))"

definition amqp_decode_32 :: "bytes \<Rightarrow> (nat, unit, u32) est" where
  "amqp_decode_32 encoded off =
     (let offset = off + 32 div 8 in
      if offset \<le> length encoded then (Inr (amqp_d32 (drop off encoded)), offset) else (Inl (), offset))"

definition amqp_decode_64 :: "bytes \<Rightarrow> (nat, unit, u64) est" where
  "amqp_decode_64 encoded off =
     (let offset = off + 64 div 8 in
      if offset \<le> length encoded then (Inr (amqp_d64 (drop off encoded)), offset) else (Inl (), offset))"

definition amqp_decode_bytes :: "nat \<Rightarrow> bytes \<Rightarrow> (nat, unit, bytes) est" where
  "amqp_decode_bytes len encoded off =
     (let offset = off + len in
      if offset \<le> length encoded then (Inr (take len (drop off encoded)), offset) else (Inl (), offset))"

text \<open>The result 0 turned into a status.\<close>

definition orelse :: "('s, unit, 'a) est \<Rightarrow> 'e \<Rightarrow> ('s, 'e, 'a) est" where
  "orelse m e = mapE (\<lambda>_. e) m"

section \<open>Encoding\<close>

text \<open>The state is the buffer and the offset.\<close>

type_synonym ebuf = "bytes \<times> nat"

definition put_bytes :: "bytes \<Rightarrow> (ebuf, unit, unit) est" where
  "put_bytes v = (\<lambda>(buf, off).
     let offset = off + length v in
     if offset \<le> length buf then (Inr (), (write_at buf off v, offset)) else (Inl (), (buf, offset)))"

definition amqp_encode_8 :: "u8 \<Rightarrow> (ebuf, unit, unit) est" where
  "amqp_encode_8 input = put_bytes (amqp_e8 input)"

definition amqp_encode_16 :: "u16 \<Rightarrow> (ebuf, unit, unit) est" where
  "amqp_encode_16 input = put_bytes (amqp_e16 input)"

definition amqp_encode_32 :: "u32 \<Rightarrow> (ebuf, unit, unit) est" where
  "amqp_encode_32 input = put_bytes (amqp_e32 input)"

definition amqp_encode_64 :: "u64 \<Rightarrow> (ebuf, unit, unit) est" where
  "amqp_encode_64 input = put_bytes (amqp_e64 input)"

definition amqp_encode_bytes :: "bytes \<Rightarrow> (ebuf, unit, unit) est" where
  "amqp_encode_bytes input = (if length input = 0 then returnE () else put_bytes input)"

section \<open>What decoders read\<close>

text \<open>\<open>reads v m x\<close>: where the block has \<open>v\<close> at the offset, \<open>m\<close> returns \<open>x\<close> and the offset
  behind \<open>v\<close>.\<close>

definition reads :: "bytes \<Rightarrow> (bytes \<Rightarrow> (nat, 'e, 'a) est) \<Rightarrow> 'a \<Rightarrow> bool" where
  "reads v m x \<longleftrightarrow>
     (\<forall>pre rest. m (pre @ v @ rest) (length pre) = (Inr x, length pre + length v))"

named_theorems reads_intros

lemma readsI:
  "(\<And>pre rest. m (pre @ v @ rest) (length pre) = (Inr x, length pre + length v)) \<Longrightarrow> reads v m x"
  by (simp add: reads_def)

lemma readsD: "reads v m x \<Longrightarrow> m (pre @ v @ rest) (length pre) = (Inr x, length pre + length v)"
  by (simp add: reads_def)

lemma reads_return [reads_intros]: "reads [] (\<lambda>_. returnE x) x"
  by (simp add: reads_def)

lemma reads_bind:
  assumes "reads v m x" and "reads w (f x) y"
  shows "reads (v @ w) (\<lambda>enc. bindE (m enc) (\<lambda>x. f x enc)) y"
proof (rule readsI)
  fix pre rest
  have "m (pre @ v @ w @ rest) (length pre) = (Inr x, length pre + length v)"
    using readsD [OF assms(1), of pre "w @ rest"] by simp
  moreover have "f x ((pre @ v) @ w @ rest) (length (pre @ v)) = (Inr y, length (pre @ v) + length w)"
    by (rule readsD [OF assms(2)])
  ultimately show "bindE (m (pre @ (v @ w) @ rest)) (\<lambda>x. f x (pre @ (v @ w) @ rest)) (length pre) =
      (Inr y, length pre + length (v @ w))"
    by (simp add: bindE_def add.assoc)
qed

lemma reads_orelse [reads_intros]:
  "reads v m x \<Longrightarrow> reads v (\<lambda>enc. orelse (m enc) e) x"
  by (simp add: reads_def orelse_def mapE_def)

lemma reads_8 [reads_intros]: "reads [v] amqp_decode_8 v"
  by (rule readsI) (simp add: amqp_decode_8_def amqp_d8_def)

lemma reads_16 [reads_intros]: "reads (put_u16 v) amqp_decode_16 v"
  by (rule readsI) (simp add: amqp_decode_16_def amqp_d16_eq)

lemma reads_32 [reads_intros]: "reads (put_u32 v) amqp_decode_32 v"
  by (rule readsI) (simp add: amqp_decode_32_def amqp_d32_eq)

lemma reads_64 [reads_intros]: "reads (put_u64 v) amqp_decode_64 v"
  by (rule readsI) (simp add: amqp_decode_64_def amqp_d64_eq)

lemma reads_bytes [reads_intros]: "n = length v \<Longrightarrow> reads v (amqp_decode_bytes n) v"
  by (rule readsI) (simp add: amqp_decode_bytes_def)

section \<open>What encoders emit\<close>

text \<open>\<open>emits v m\<close>: \<open>m\<close> writes \<open>v\<close> if it fits, and fails otherwise. Where there is nothing
  to write the offset is not looked at.\<close>

definition emits :: "bytes \<Rightarrow> (ebuf, 'e, unit) est \<Rightarrow> bool" where
  "emits v m \<longleftrightarrow>
     (\<forall>buf off.
        if off + length v \<le> length buf \<or> v = []
        then m (buf, off) = (Inr (), (write_at buf off v, off + length v))
        else \<exists>e t. m (buf, off) = (Inl e, t))"

named_theorems emits_intros

lemma emitsI:
  assumes "\<And>buf off. off + length v \<le> length buf \<or> v = [] \<Longrightarrow>
        m (buf, off) = (Inr (), (write_at buf off v, off + length v))"
    and "\<And>buf off. length buf < off + length v \<Longrightarrow> v \<noteq> [] \<Longrightarrow> \<exists>e t. m (buf, off) = (Inl e, t)"
  shows "emits v m"
  unfolding emits_def using assms by (metis not_le)

lemma emits_fit:
  "emits v m \<Longrightarrow> off + length v \<le> length buf \<or> v = [] \<Longrightarrow>
     m (buf, off) = (Inr (), (write_at buf off v, off + length v))"
  by (simp add: emits_def)

lemma emits_full:
  "emits v m \<Longrightarrow> length buf < off + length v \<Longrightarrow> v \<noteq> [] \<Longrightarrow> \<exists>e t. m (buf, off) = (Inl e, t)"
  unfolding emits_def by (metis not_le)

lemma write_at_append:
  "off + length v + length w \<le> length buf \<Longrightarrow>
     write_at (write_at buf off v) (off + length v) w = write_at buf off (v @ w)"
  by (simp add: write_at_def ac_simps)

lemma emits_return [emits_intros]: "emits [] (returnE ())"
  by (simp add: emits_def)

lemma emits_bind:
  assumes "emits v m" and "emits w n"
  shows "emits (v @ w) (bindE m (\<lambda>_. n))"
proof (rule emitsI)
  fix buf :: bytes and off assume "off + length (v @ w) \<le> length buf \<or> v @ w = []"
  then have fits: "off + length (v @ w) \<le> length buf \<or> v = [] \<and> w = []" by simp
  have "m (buf, off) = (Inr (), (write_at buf off v, off + length v))"
    using fits by (intro emits_fit [OF assms(1)]) auto
  moreover have "n (write_at buf off v, off + length v) =
      (Inr (), (write_at (write_at buf off v) (off + length v) w, off + length v + length w))"
    using fits by (intro emits_fit [OF assms(2)]) auto
  ultimately show "bindE m (\<lambda>_. n) (buf, off) = (Inr (), (write_at buf off (v @ w), off + length (v @ w)))"
    using fits by (auto simp: bindE_def write_at_append add.assoc)
next
  fix buf :: bytes and off
  assume full: "length buf < off + length (v @ w)" "v @ w \<noteq> []"
  show "\<exists>e t. bindE m (\<lambda>_. n) (buf, off) = (Inl e, t)"
  proof (cases "off + length v \<le> length buf \<or> v = []")
    case True
    then have "m (buf, off) = (Inr (), (write_at buf off v, off + length v))" by (rule emits_fit [OF assms(1)])
    moreover have "\<exists>e t. n (write_at buf off v, off + length v) = (Inl e, t)"
    proof (rule emits_full [OF assms(2)])
      show "length (write_at buf off v) < off + length v + length w"
        using True full(1) by (cases "v = []") simp_all
      show "w \<noteq> []" using True full by auto
    qed
    ultimately show ?thesis by (simp add: bindE_def)
  next
    case False
    then have "\<exists>e t. m (buf, off) = (Inl e, t)" by (intro emits_full [OF assms(1)]) simp_all
    then show ?thesis by (auto simp: bindE_def)
  qed
qed

lemma emits_orelse [emits_intros]:
  assumes "emits v m"
  shows "emits v (orelse m e)"
proof (rule emitsI)
  show "orelse m e (buf, off) = (Inr (), (write_at buf off v, off + length v))"
    if "off + length v \<le> length buf \<or> v = []" for buf off
    using emits_fit [OF assms that] by (simp add: orelse_def mapE_def)
  show "\<exists>d t. orelse m e (buf, off) = (Inl d, t)" if "length buf < off + length v" "v \<noteq> []" for buf off
    using emits_full [OF assms that] by (auto simp: orelse_def mapE_def)
qed

lemma emits_put: "v \<noteq> [] \<Longrightarrow> emits v (put_bytes v)"
  by (rule emitsI) (simp_all add: put_bytes_def)

lemma emits_8 [emits_intros]: "emits [v] (amqp_encode_8 v)"
  using emits_put [of "[v]"] by (simp add: amqp_encode_8_def amqp_e8_def)

lemma emits_16 [emits_intros]: "emits (put_u16 v) (amqp_encode_16 v)"
  unfolding amqp_encode_16_def amqp_e16_eq by (rule emits_put) simp

lemma emits_32 [emits_intros]: "emits (put_u32 v) (amqp_encode_32 v)"
  unfolding amqp_encode_32_def amqp_e32_eq by (rule emits_put) simp

lemma emits_64 [emits_intros]: "emits (put_u64 v) (amqp_encode_64 v)"
  unfolding amqp_encode_64_def amqp_e64_eq by (rule emits_put) simp

lemma emits_bytes [emits_intros]: "emits v (amqp_encode_bytes v)"
  using emits_put [of v] emits_return by (auto simp: amqp_encode_bytes_def)

end
