(* ===== verification/Amqp_Table.thy ===== *)
theory Amqp_Table
  imports Amqp_Codec
begin

text \<open>
  Field tables: \<open>src/src/rabbitmq-c/amqp_table.c\<close>. A table is a list of entries whose values
  may be tables and arrays again. The decoder allocates what it returns; the parameter \<open>al\<close>
  says which requests for memory are granted. It recurses as deep as the data nests and loops
  until it has used up a length field, so it gets fuel; the length of the block is enough.
\<close>

section \<open>Values\<close>

text \<open>The kind is the constructor. Signed and floating-point numbers are kept as their bits.\<close>

datatype amqp_field_value =
  FBoolean int | FI8 u8 | FU8 u8 | FI16 u16 | FU16 u16 | FI32 u32 | FU32 u32 | FI64 u64 | FU64 u64
| FF32 u32 | FF64 u64 | FDecimal u8 u32 | FUtf8 bytes | FArray "amqp_field_value list"
| FTimestamp u64 | FTable "(bytes \<times> amqp_field_value) list" | FVoid | FBytes bytes | FOther u8

type_synonym amqp_table_entry = "bytes \<times> amqp_field_value"
type_synonym amqp_table = "amqp_table_entry list"

fun field_kind :: "amqp_field_value \<Rightarrow> u8" where
  "field_kind (FBoolean _) = 0x74"
| "field_kind (FI8 _) = 0x62"
| "field_kind (FU8 _) = 0x42"
| "field_kind (FI16 _) = 0x73"
| "field_kind (FU16 _) = 0x75"
| "field_kind (FI32 _) = 0x49"
| "field_kind (FU32 _) = 0x69"
| "field_kind (FI64 _) = 0x6C"
| "field_kind (FU64 _) = 0x4C"
| "field_kind (FF32 _) = 0x66"
| "field_kind (FF64 _) = 0x64"
| "field_kind (FDecimal _ _) = 0x44"
| "field_kind (FUtf8 _) = 0x53"
| "field_kind (FArray _) = 0x41"
| "field_kind (FTimestamp _) = 0x54"
| "field_kind (FTable _) = 0x46"
| "field_kind FVoid = 0x56"
| "field_kind (FBytes _) = 0x78"
| "field_kind (FOther k) = k"

definition known_kinds :: "u8 list" where
  "known_kinds = [0x74, 0x62, 0x42, 0x73, 0x75, 0x49, 0x69, 0x6C, 0x4C, 0x66, 0x64, 0x44, 0x53, 0x41, 0x54,
     0x46, 0x56, 0x78]"

section \<open>Decoding\<close>

type_synonym 'a dec = "bytes \<Rightarrow> (nat, amqp_status, 'a) est"

definition dec8 :: "u8 dec" where "dec8 enc = orelse (amqp_decode_8 enc) AMQP_STATUS_BAD_AMQP_DATA"
definition dec16 :: "u16 dec" where "dec16 enc = orelse (amqp_decode_16 enc) AMQP_STATUS_BAD_AMQP_DATA"
definition dec32 :: "u32 dec" where "dec32 enc = orelse (amqp_decode_32 enc) AMQP_STATUS_BAD_AMQP_DATA"
definition dec64 :: "u64 dec" where "dec64 enc = orelse (amqp_decode_64 enc) AMQP_STATUS_BAD_AMQP_DATA"
definition decbytes :: "nat \<Rightarrow> bytes dec" where
  "decbytes len enc = orelse (amqp_decode_bytes len enc) AMQP_STATUS_BAD_AMQP_DATA"

definition INITIAL_ARRAY_SIZE :: nat where "INITIAL_ARRAY_SIZE = 16"
definition INITIAL_TABLE_SIZE :: nat where "INITIAL_TABLE_SIZE = 16"
definition SIZEOF_FIELD_VALUE :: nat where "SIZEOF_FIELD_VALUE = 24"
definition SIZEOF_TABLE_ENTRY :: nat where "SIZEOF_TABLE_ENTRY = 40"

text \<open>The growth of the temporary array before entry number \<open>num\<close> is stored.\<close>

definition grow_entries :: "(nat \<Rightarrow> bool) \<Rightarrow> nat \<Rightarrow> nat \<Rightarrow> nat \<Rightarrow> (nat, amqp_status, nat) est" where
  "grow_entries al sz num allocated =
     (if num \<ge> allocated
      then if al (allocated * 2 * sz) then returnE (allocated * 2) else throwE AMQP_STATUS_NO_MEMORY
      else returnE allocated)"

text \<open>The copy into the pool, at the end.\<close>

definition copy_entries :: "(nat \<Rightarrow> bool) \<Rightarrow> nat \<Rightarrow> 'x list \<Rightarrow> (nat, amqp_status, 'x list) est" where
  "copy_entries al sz entries =
     (if entries \<noteq> [] \<and> \<not> al (length entries * sz) then throwE AMQP_STATUS_NO_MEMORY else returnE entries)"

text \<open>The kinds that are not nested.\<close>

definition decode_plain :: "u8 \<Rightarrow> amqp_field_value dec" where
  "decode_plain kind enc =
     (if kind = 0x74 then bindE (dec8 enc) (\<lambda>val. returnE (FBoolean (if val \<noteq> 0 then 1 else 0)))
      else if kind = 0x62 then bindE (dec8 enc) (\<lambda>val. returnE (FI8 val))
      else if kind = 0x42 then bindE (dec8 enc) (\<lambda>val. returnE (FU8 val))
      else if kind = 0x73 then bindE (dec16 enc) (\<lambda>val. returnE (FI16 val))
      else if kind = 0x75 then bindE (dec16 enc) (\<lambda>val. returnE (FU16 val))
      else if kind = 0x49 then bindE (dec32 enc) (\<lambda>val. returnE (FI32 val))
      else if kind = 0x69 then bindE (dec32 enc) (\<lambda>val. returnE (FU32 val))
      else if kind = 0x6C then bindE (dec64 enc) (\<lambda>val. returnE (FI64 val))
      else if kind = 0x4C then bindE (dec64 enc) (\<lambda>val. returnE (FU64 val))
      else if kind = 0x66 then bindE (dec32 enc) (\<lambda>val. returnE (FF32 val))
      else if kind = 0x64 then bindE (dec64 enc) (\<lambda>val. returnE (FF64 val))
      else if kind = 0x44 then
        bindE (dec8 enc) (\<lambda>decimals. bindE (dec32 enc) (\<lambda>val. returnE (FDecimal decimals val)))
      else if kind = 0x53 then
        bindE (dec32 enc) (\<lambda>len. bindE (decbytes (unat len) enc) (\<lambda>bs. returnE (FUtf8 bs)))
      else if kind = 0x78 then
        bindE (dec32 enc) (\<lambda>len. bindE (decbytes (unat len) enc) (\<lambda>bs. returnE (FBytes bs)))
      else if kind = 0x54 then bindE (dec64 enc) (\<lambda>val. returnE (FTimestamp val))
      else if kind = 0x56 then returnE FVoid
      else throwE AMQP_STATUS_BAD_AMQP_DATA)"

text \<open>
  The loops and the decoders of arrays and tables, over the decoder \<open>dv\<close> of their elements.
  Each round uses up a byte at least, so the length of the block is enough fuel for a loop.
\<close>

primrec array_loop ::
  "(nat \<Rightarrow> bool) \<Rightarrow> amqp_field_value dec \<Rightarrow> nat \<Rightarrow> nat \<Rightarrow> nat \<Rightarrow> nat \<Rightarrow> amqp_field_value list dec"
where
  "array_loop al dv 0 num allocated limit enc = throwE Out_Of_Fuel"
| "array_loop al dv (Suc fuel) num allocated limit enc =
     bindE (getsE (\<lambda>offset. offset)) (\<lambda>offset.
     if offset < limit then
       bindE (grow_entries al SIZEOF_FIELD_VALUE num allocated) (\<lambda>allocated.
       bindE (dv enc) (\<lambda>v.
       bindE (array_loop al dv fuel (num + 1) allocated limit enc) (\<lambda>vs.
       returnE (v # vs))))
     else returnE [])"

definition decode_array :: "(nat \<Rightarrow> bool) \<Rightarrow> amqp_field_value dec \<Rightarrow> amqp_field_value list dec" where
  "decode_array al dv enc =
     bindE (dec32 enc) (\<lambda>arraysize.
     bindE (getsE (\<lambda>offset. offset)) (\<lambda>offset.
     if unat arraysize + offset > length enc then throwE AMQP_STATUS_BAD_AMQP_DATA
     else if \<not> al (INITIAL_ARRAY_SIZE * SIZEOF_FIELD_VALUE) then throwE AMQP_STATUS_NO_MEMORY
     else
       bindE (array_loop al dv (Suc (length enc)) 0 INITIAL_ARRAY_SIZE (offset + unat arraysize) enc)
         (copy_entries al SIZEOF_FIELD_VALUE)))"

primrec table_loop ::
  "(nat \<Rightarrow> bool) \<Rightarrow> amqp_field_value dec \<Rightarrow> nat \<Rightarrow> nat \<Rightarrow> nat \<Rightarrow> nat \<Rightarrow> amqp_table dec"
where
  "table_loop al dv 0 num allocated limit enc = throwE Out_Of_Fuel"
| "table_loop al dv (Suc fuel) num allocated limit enc =
     bindE (getsE (\<lambda>offset. offset)) (\<lambda>offset.
     if offset < limit then
       bindE (dec8 enc) (\<lambda>keylen.
       bindE (grow_entries al SIZEOF_TABLE_ENTRY num allocated) (\<lambda>allocated.
       bindE (decbytes (unat keylen) enc) (\<lambda>key.
       bindE (dv enc) (\<lambda>v.
       bindE (table_loop al dv fuel (num + 1) allocated limit enc) (\<lambda>es.
       returnE ((key, v) # es))))))
     else returnE [])"

definition decode_table :: "(nat \<Rightarrow> bool) \<Rightarrow> amqp_field_value dec \<Rightarrow> amqp_table dec" where
  "decode_table al dv enc =
     bindE (dec32 enc) (\<lambda>tablesize.
     bindE (getsE (\<lambda>offset. offset)) (\<lambda>offset.
     if unat tablesize + offset > length enc then throwE AMQP_STATUS_BAD_AMQP_DATA
     else if \<not> al (INITIAL_TABLE_SIZE * SIZEOF_TABLE_ENTRY) then throwE AMQP_STATUS_NO_MEMORY
     else
       bindE (table_loop al dv (Suc (length enc)) 0 INITIAL_TABLE_SIZE (offset + unat tablesize) enc)
         (copy_entries al SIZEOF_TABLE_ENTRY)))"

text \<open>The fuel of \<open>amqp_decode_field_value\<close> is the depth to which values may nest.\<close>

primrec amqp_decode_field_value :: "(nat \<Rightarrow> bool) \<Rightarrow> nat \<Rightarrow> amqp_field_value dec" where
  "amqp_decode_field_value al 0 enc = throwE Out_Of_Fuel"
| "amqp_decode_field_value al (Suc fuel) enc =
     bindE (dec8 enc) (\<lambda>kind.
     if kind = 0x41 then
       bindE (decode_array al (amqp_decode_field_value al fuel) enc) (\<lambda>vs. returnE (FArray vs))
     else if kind = 0x46 then
       bindE (decode_table al (amqp_decode_field_value al fuel) enc) (\<lambda>es. returnE (FTable es))
     else decode_plain kind enc)"

text \<open>Each level of nesting has a kind and a length, so a block of \<open>n\<close> bytes nests less deep
  than \<open>n\<close>.\<close>

definition amqp_decode_table :: "(nat \<Rightarrow> bool) \<Rightarrow> amqp_table dec" where
  "amqp_decode_table al enc = decode_table al (amqp_decode_field_value al (Suc (length enc))) enc"

section \<open>Encoding\<close>

type_synonym enc = "(ebuf, amqp_status, unit) est"

text \<open>A block with its length in front, which is filled in when the block is written.\<close>

definition encode_size :: "nat \<Rightarrow> enc" where
  "encode_size start = (\<lambda>(buf, offset).
     case amqp_encode_32 (word_of_nat (offset - start - 4)) (buf, start) of
       (Inl _, (buf', _)) \<Rightarrow> (Inl AMQP_STATUS_TABLE_TOO_BIG, (buf', offset))
     | (Inr _, (buf', _)) \<Rightarrow> (Inr (), (buf', offset)))"

definition sized :: "enc \<Rightarrow> enc" where
  "sized m =
     bindE (getsE snd) (\<lambda>start.
     bindE (modifyE (\<lambda>(buf, offset). (buf, offset + 4))) (\<lambda>_.
     bindE m (\<lambda>_.
     encode_size start)))"

definition encode_kind :: "amqp_field_value \<Rightarrow> enc" where
  "encode_kind v = orelse (amqp_encode_8 (field_kind v)) AMQP_STATUS_BAD_AMQP_DATA"

definition too_big :: "(ebuf, unit, unit) est \<Rightarrow> enc" where
  "too_big m = orelse m AMQP_STATUS_TABLE_TOO_BIG"

primrec amqp_encode_field_value :: "amqp_field_value \<Rightarrow> enc"
  and encode_items :: "amqp_field_value list \<Rightarrow> enc"
  and encode_entries :: "(bytes \<times> amqp_field_value) list \<Rightarrow> enc"
  and encode_entry :: "bytes \<times> amqp_field_value \<Rightarrow> enc"
where
  "amqp_encode_field_value (FBoolean b) =
     bindE (encode_kind (FBoolean b)) (\<lambda>_. too_big (amqp_encode_8 (if b \<noteq> 0 then 1 else 0)))"
| "amqp_encode_field_value (FI8 x) = bindE (encode_kind (FI8 x)) (\<lambda>_. too_big (amqp_encode_8 x))"
| "amqp_encode_field_value (FU8 x) = bindE (encode_kind (FU8 x)) (\<lambda>_. too_big (amqp_encode_8 x))"
| "amqp_encode_field_value (FI16 x) = bindE (encode_kind (FI16 x)) (\<lambda>_. too_big (amqp_encode_16 x))"
| "amqp_encode_field_value (FU16 x) = bindE (encode_kind (FU16 x)) (\<lambda>_. too_big (amqp_encode_16 x))"
| "amqp_encode_field_value (FI32 x) = bindE (encode_kind (FI32 x)) (\<lambda>_. too_big (amqp_encode_32 x))"
| "amqp_encode_field_value (FU32 x) = bindE (encode_kind (FU32 x)) (\<lambda>_. too_big (amqp_encode_32 x))"
| "amqp_encode_field_value (FI64 x) = bindE (encode_kind (FI64 x)) (\<lambda>_. too_big (amqp_encode_64 x))"
| "amqp_encode_field_value (FU64 x) = bindE (encode_kind (FU64 x)) (\<lambda>_. too_big (amqp_encode_64 x))"
| "amqp_encode_field_value (FF32 x) = bindE (encode_kind (FF32 x)) (\<lambda>_. too_big (amqp_encode_32 x))"
| "amqp_encode_field_value (FF64 x) = bindE (encode_kind (FF64 x)) (\<lambda>_. too_big (amqp_encode_64 x))"
| "amqp_encode_field_value (FDecimal d x) =
     bindE (encode_kind (FDecimal d x)) (\<lambda>_.
     too_big (bindE (amqp_encode_8 d) (\<lambda>_. amqp_encode_32 x)))"
| "amqp_encode_field_value (FUtf8 bs) =
     bindE (encode_kind (FUtf8 bs)) (\<lambda>_.
     too_big (bindE (amqp_encode_32 (word_of_nat (length bs))) (\<lambda>_. amqp_encode_bytes bs)))"
| "amqp_encode_field_value (FArray vs) = bindE (encode_kind (FArray vs)) (\<lambda>_. sized (encode_items vs))"
| "amqp_encode_field_value (FTimestamp x) =
     bindE (encode_kind (FTimestamp x)) (\<lambda>_. too_big (amqp_encode_64 x))"
| "amqp_encode_field_value (FTable es) = bindE (encode_kind (FTable es)) (\<lambda>_. sized (encode_entries es))"
| "amqp_encode_field_value FVoid = encode_kind FVoid"
| "amqp_encode_field_value (FBytes bs) =
     bindE (encode_kind (FBytes bs)) (\<lambda>_.
     too_big (bindE (amqp_encode_32 (word_of_nat (length bs))) (\<lambda>_. amqp_encode_bytes bs)))"
| "amqp_encode_field_value (FOther k) =
     bindE (encode_kind (FOther k)) (\<lambda>_. throwE AMQP_STATUS_INVALID_PARAMETER)"
| "encode_items [] = returnE ()"
| "encode_items (v # vs) = bindE (amqp_encode_field_value v) (\<lambda>_. encode_items vs)"
| "encode_entries [] = returnE ()"
| "encode_entries (e # es) = bindE (encode_entry e) (\<lambda>_. encode_entries es)"
| "encode_entry (key, v) =
     bindE (too_big (amqp_encode_8 (word_of_nat (length key)))) (\<lambda>_.
     bindE (too_big (amqp_encode_bytes key)) (\<lambda>_.
     amqp_encode_field_value v))"

definition amqp_encode_array :: "amqp_field_value list \<Rightarrow> enc" where
  "amqp_encode_array vs = sized (encode_items vs)"

definition amqp_encode_table :: "amqp_table \<Rightarrow> enc" where
  "amqp_encode_table es = sized (encode_entries es)"

section \<open>Comparing, copying and building tables\<close>

text \<open>Of \<open>memcmp\<close>'s result only the sign is specified.\<close>

fun memcmp :: "bytes \<Rightarrow> bytes \<Rightarrow> int" where
  "memcmp (x # xs) (y # ys) = (if x = y then memcmp xs ys else if x < y then - 1 else 1)"
| "memcmp _ _ = 0"

definition amqp_table_entry_cmp :: "amqp_table_entry \<Rightarrow> amqp_table_entry \<Rightarrow> int" where
  "amqp_table_entry_cmp p1 p2 =
     (let minlen = (if length (fst p2) < length (fst p1) then length (fst p2) else length (fst p1));
          d = memcmp (take minlen (fst p1)) (take minlen (fst p2))
      in if d \<noteq> 0 then d else int (length (fst p1)) - int (length (fst p2)))"

text \<open>Copying goes on until the first element that cannot be copied. An empty array has no
  entries, and neither it nor an empty string takes memory.\<close>

fun copy_all :: "('e + 'a) list \<Rightarrow> 'e + 'a list" where
  "copy_all [] = Inr []"
| "copy_all (Inl e # rs) = Inl e"
| "copy_all (Inr x # rs) = map_sum id (Cons x) (copy_all rs)"

definition bytes_clone :: "(nat \<Rightarrow> bool) \<Rightarrow> bytes \<Rightarrow> amqp_status + bytes" where
  "bytes_clone al bs = (if bs = [] \<or> al (length bs) then Inr bs else Inl AMQP_STATUS_NO_MEMORY)"

definition amqp_table_entry_clone ::
  "(nat \<Rightarrow> bool) \<Rightarrow> bytes \<times> (amqp_status + amqp_field_value) \<Rightarrow> amqp_status + amqp_table_entry"
where
  "amqp_table_entry_clone al e = (case e of (key, v) \<Rightarrow>
     if length key = 0 then Inl AMQP_STATUS_INVALID_PARAMETER
     else if \<not> al (length key) then Inl AMQP_STATUS_NO_MEMORY
     else map_sum id (Pair key) v)"

definition entries_clone ::
  "(nat \<Rightarrow> bool) \<Rightarrow> (bytes \<times> (amqp_status + amqp_field_value)) list \<Rightarrow> amqp_status + amqp_table"
where
  "entries_clone al es =
     (if es = [] then Inr []
      else if \<not> al (length es * SIZEOF_TABLE_ENTRY) then Inl AMQP_STATUS_NO_MEMORY
      else copy_all (map (amqp_table_entry_clone al) es))"

primrec amqp_field_value_clone :: "(nat \<Rightarrow> bool) \<Rightarrow> amqp_field_value \<Rightarrow> amqp_status + amqp_field_value" where
  "amqp_field_value_clone al (FBoolean b) = Inr (FBoolean b)"
| "amqp_field_value_clone al (FI8 x) = Inr (FI8 x)"
| "amqp_field_value_clone al (FU8 x) = Inr (FU8 x)"
| "amqp_field_value_clone al (FI16 x) = Inr (FI16 x)"
| "amqp_field_value_clone al (FU16 x) = Inr (FU16 x)"
| "amqp_field_value_clone al (FI32 x) = Inr (FI32 x)"
| "amqp_field_value_clone al (FU32 x) = Inr (FU32 x)"
| "amqp_field_value_clone al (FI64 x) = Inr (FI64 x)"
| "amqp_field_value_clone al (FU64 x) = Inr (FU64 x)"
| "amqp_field_value_clone al (FTimestamp x) = Inr (FTimestamp x)"
| "amqp_field_value_clone al (FF32 x) = Inr (FF32 x)"
| "amqp_field_value_clone al (FF64 x) = Inr (FF64 x)"
| "amqp_field_value_clone al (FDecimal d x) = Inr (FDecimal d x)"
| "amqp_field_value_clone al (FUtf8 bs) = map_sum id FUtf8 (bytes_clone al bs)"
| "amqp_field_value_clone al (FBytes bs) = map_sum id FBytes (bytes_clone al bs)"
| "amqp_field_value_clone al (FArray vs) =
     (if vs = [] then Inr (FArray [])
      else if \<not> al (length vs * SIZEOF_FIELD_VALUE) then Inl AMQP_STATUS_NO_MEMORY
      else map_sum id FArray (copy_all (map (amqp_field_value_clone al) vs)))"
| "amqp_field_value_clone al (FTable es) =
     map_sum id FTable (entries_clone al (map (map_prod id (amqp_field_value_clone al)) es))"
| "amqp_field_value_clone al FVoid = Inr FVoid"
| "amqp_field_value_clone al (FOther k) = Inl AMQP_STATUS_INVALID_PARAMETER"

definition amqp_table_clone :: "(nat \<Rightarrow> bool) \<Rightarrow> amqp_table \<Rightarrow> amqp_status + amqp_table" where
  "amqp_table_clone al es = entries_clone al (map (map_prod id (amqp_field_value_clone al)) es)"

definition amqp_table_construct_utf8_entry :: "bytes \<Rightarrow> bytes \<Rightarrow> amqp_table_entry" where
  "amqp_table_construct_utf8_entry key val = (key, FUtf8 val)"

definition amqp_table_construct_table_entry :: "bytes \<Rightarrow> amqp_table \<Rightarrow> amqp_table_entry" where
  "amqp_table_construct_table_entry key val = (key, FTable val)"

definition amqp_table_construct_bool_entry :: "bytes \<Rightarrow> int \<Rightarrow> amqp_table_entry" where
  "amqp_table_construct_bool_entry key val = (key, FBoolean val)"

fun amqp_table_get_entry_by_key :: "amqp_table \<Rightarrow> bytes \<Rightarrow> amqp_table_entry option" where
  "amqp_table_get_entry_by_key [] key = None"
| "amqp_table_get_entry_by_key (e # es) key =
     (if fst e = key then Some e else amqp_table_get_entry_by_key es key)"

section \<open>The format\<close>

definition sized_bytes :: "bytes \<Rightarrow> bytes" where
  "sized_bytes v = put_u32 (word_of_nat (length v)) @ v"

definition entry_bytes :: "bytes \<times> bytes \<Rightarrow> bytes" where
  "entry_bytes e = word_of_nat (length (fst e)) # fst e @ snd e"

primrec value_bytes :: "amqp_field_value \<Rightarrow> bytes" where
  "value_bytes (FBoolean b) = [0x74, if b \<noteq> 0 then 1 else 0]"
| "value_bytes (FI8 x) = [0x62, x]"
| "value_bytes (FU8 x) = [0x42, x]"
| "value_bytes (FI16 x) = 0x73 # put_u16 x"
| "value_bytes (FU16 x) = 0x75 # put_u16 x"
| "value_bytes (FI32 x) = 0x49 # put_u32 x"
| "value_bytes (FU32 x) = 0x69 # put_u32 x"
| "value_bytes (FI64 x) = 0x6C # put_u64 x"
| "value_bytes (FU64 x) = 0x4C # put_u64 x"
| "value_bytes (FF32 x) = 0x66 # put_u32 x"
| "value_bytes (FF64 x) = 0x64 # put_u64 x"
| "value_bytes (FDecimal d x) = 0x44 # d # put_u32 x"
| "value_bytes (FUtf8 bs) = 0x53 # sized_bytes bs"
| "value_bytes (FArray vs) = 0x41 # sized_bytes (concat (map value_bytes vs))"
| "value_bytes (FTimestamp x) = 0x54 # put_u64 x"
| "value_bytes (FTable es) = 0x46 # sized_bytes (concat (map entry_bytes (map (map_prod id value_bytes) es)))"
| "value_bytes FVoid = [0x56]"
| "value_bytes (FBytes bs) = 0x78 # sized_bytes bs"
| "value_bytes (FOther k) = [k]"

definition entries_bytes :: "amqp_table \<Rightarrow> bytes" where
  "entries_bytes es = concat (map entry_bytes (map (map_prod id value_bytes) es))"

definition table_bytes :: "amqp_table \<Rightarrow> bytes" where
  "table_bytes es = sized_bytes (entries_bytes es)"

lemma entries_bytes_simps [simp]:
  "entries_bytes [] = []"
  "entries_bytes ((k, v) # es) = word_of_nat (length k) # k @ value_bytes v @ entries_bytes es"
  by (simp_all add: entries_bytes_def entry_bytes_def)

text \<open>Values of a known kind, all the way down; and those whose lengths fit their fields.\<close>

primrec known_value :: "amqp_field_value \<Rightarrow> bool" where
  "known_value (FBoolean _) = True"
| "known_value (FI8 _) = True"
| "known_value (FU8 _) = True"
| "known_value (FI16 _) = True"
| "known_value (FU16 _) = True"
| "known_value (FI32 _) = True"
| "known_value (FU32 _) = True"
| "known_value (FI64 _) = True"
| "known_value (FU64 _) = True"
| "known_value (FF32 _) = True"
| "known_value (FF64 _) = True"
| "known_value (FDecimal _ _) = True"
| "known_value (FUtf8 _) = True"
| "known_value (FArray vs) = list_all id (map known_value vs)"
| "known_value (FTimestamp _) = True"
| "known_value (FTable es) = list_all snd (map (map_prod id known_value) es)"
| "known_value FVoid = True"
| "known_value (FBytes _) = True"
| "known_value (FOther _) = False"

primrec value_ok :: "amqp_field_value \<Rightarrow> bool" where
  "value_ok (FBoolean b) = (b = 0 \<or> b = 1)"
| "value_ok (FI8 _) = True"
| "value_ok (FU8 _) = True"
| "value_ok (FI16 _) = True"
| "value_ok (FU16 _) = True"
| "value_ok (FI32 _) = True"
| "value_ok (FU32 _) = True"
| "value_ok (FI64 _) = True"
| "value_ok (FU64 _) = True"
| "value_ok (FF32 _) = True"
| "value_ok (FF64 _) = True"
| "value_ok (FDecimal _ _) = True"
| "value_ok (FUtf8 bs) = (length bs < 2 ^ 32)"
| "value_ok (FArray vs) = (list_all id (map value_ok vs) \<and> length (concat (map value_bytes vs)) < 2 ^ 32)"
| "value_ok (FTimestamp _) = True"
| "value_ok (FTable es) =
     (list_all (\<lambda>(k, ok). ok \<and> length k < 256) (map (map_prod id value_ok) es) \<and>
      length (concat (map entry_bytes (map (map_prod id value_bytes) es))) < 2 ^ 32)"
| "value_ok FVoid = True"
| "value_ok (FBytes bs) = (length bs < 2 ^ 32)"
| "value_ok (FOther _) = False"

definition table_ok :: "amqp_table \<Rightarrow> bool" where
  "table_ok es \<longleftrightarrow> (\<forall>(k, v) \<in> set es. value_ok v \<and> length k < 256) \<and> length (entries_bytes es) < 2 ^ 32"

lemma value_ok_known: "value_ok v \<Longrightarrow> known_value v"
  by (induction v) (auto simp: list_all_iff)

section \<open>Encoding gives the format\<close>

lemma emits_cons:
  "emits [k] m \<Longrightarrow> emits w n \<Longrightarrow> emits (k # w) (bindE m (\<lambda>_. n))"
  using emits_bind [of "[k]" m w n] by simp

lemma emits_kind: "field_kind v = k \<Longrightarrow> emits [k] (encode_kind v)"
  unfolding encode_kind_def by (auto intro: emits_intros)

lemma emits_too_big [emits_intros]: "emits v m \<Longrightarrow> emits v (too_big m)"
  unfolding too_big_def by (rule emits_orelse)

lemma emits_sized_string:
  "emits (sized_bytes bs) (too_big (bindE (amqp_encode_32 (word_of_nat (length bs))) (\<lambda>_. amqp_encode_bytes bs)))"
  unfolding sized_bytes_def by (intro emits_too_big emits_bind emits_32 emits_bytes)

lemma write_at_before:
  "off + length v + length w \<le> length buf \<Longrightarrow>
     write_at (write_at buf (off + length v) w) off v = write_at buf off (v @ w)"
  by (simp add: write_at_def ac_simps)

lemma emits_sized:
  assumes "emits v m"
  shows "emits (sized_bytes v) (sized m)"
proof (rule emitsI)
  fix buf :: bytes and off
  let ?n = "put_u32 (word_of_nat (length v))"
  assume "off + length (sized_bytes v) \<le> length buf \<or> sized_bytes v = []"
  then have fits: "off + 4 + length v \<le> length buf" by (auto simp: sized_bytes_def)
  then have "m (buf, off + 4) = (Inr (), (write_at buf (off + 4) v, off + 4 + length v))"
    by (intro emits_fit [OF assms]) simp
  moreover have "amqp_encode_32 (word_of_nat (length v)) (write_at buf (off + 4) v, off) =
      (Inr (), (write_at (write_at buf (off + 4) v) off ?n, off + length ?n))"
    using fits by (intro emits_fit [OF emits_32]) simp
  moreover have "write_at (write_at buf (off + 4) v) off ?n = write_at buf off (?n @ v)"
    using fits write_at_before [of off ?n v buf] by simp
  ultimately show "sized m (buf, off) =
      (Inr (), (write_at buf off (sized_bytes v), off + length (sized_bytes v)))"
    by (simp add: sized_def encode_size_def bindE_def sized_bytes_def)
next
  fix buf :: bytes and off
  assume "length buf < off + length (sized_bytes v)" "sized_bytes v \<noteq> []"
  then have full: "length buf < off + 4 + length v" by (simp add: sized_bytes_def)
  show "\<exists>e t. sized m (buf, off) = (Inl e, t)"
  proof (cases "v = []")
    case True
    then have "m (buf, off + 4) = (Inr (), (buf, off + 4))"
      using emits_fit [OF assms, of "off + 4" buf] by simp
    moreover obtain e t where "amqp_encode_32 0 (buf, off) = (Inl e, t)"
      using full True emits_full [OF emits_32, of buf off 0] by auto
    ultimately show ?thesis by (simp add: sized_def encode_size_def bindE_def split: prod.splits)
  next
    case False
    then obtain e t where "m (buf, off + 4) = (Inl e, t)"
      using full emits_full [OF assms, of buf "off + 4"] by auto
    then show ?thesis by (simp add: sized_def bindE_def)
  qed
qed

lemma emits_items:
  "(\<And>v. v \<in> set vs \<Longrightarrow> emits (value_bytes v) (amqp_encode_field_value v)) \<Longrightarrow>
     emits (concat (map value_bytes vs)) (encode_items vs)"
  by (induction vs) (auto intro: emits_return emits_bind)

lemma emits_entry:
  assumes "emits (value_bytes v) (amqp_encode_field_value v)"
  shows "emits (entry_bytes (k, value_bytes v)) (encode_entry (k, v))"
  unfolding entry_bytes_def fst_conv snd_conv encode_entry.simps
  by (intro emits_cons emits_bind emits_too_big emits_8 emits_bytes assms)

lemma emits_entries:
  "(\<And>k v. (k, v) \<in> set es \<Longrightarrow> emits (value_bytes v) (amqp_encode_field_value v)) \<Longrightarrow>
     emits (entries_bytes es) (encode_entries es)"
proof (induction es)
  case Nil
  show ?case unfolding entries_bytes_simps encode_entries.simps by (rule emits_return)
next
  case (Cons e es)
  obtain k v where e: "e = (k, v)" by fastforce
  have "emits (entry_bytes (k, value_bytes v) @ entries_bytes es) (bindE (encode_entry (k, v)) (\<lambda>_. encode_entries es))"
    using Cons e by (intro emits_bind emits_entry) auto
  then show ?case by (simp add: e entry_bytes_def)
qed

lemma emits_value:
  "known_value v \<Longrightarrow> emits (value_bytes v) (amqp_encode_field_value v)"
proof (induction v)
  case (FArray vs)
  then have "emits (concat (map value_bytes vs)) (encode_items vs)"
    by (intro emits_items) (simp add: list_all_iff)
  then show ?case by (simp add: emits_cons emits_kind emits_sized)
next
  case (FTable es)
  then have "emits (entries_bytes es) (encode_entries es)"
    by (intro emits_entries) (force simp: list_all_iff)
  then show ?case
    by (simp only: value_bytes.simps amqp_encode_field_value.simps entries_bytes_def [symmetric])
      (simp add: emits_cons emits_kind emits_sized)
qed (simp_all add: emits_cons emits_kind emits_sized_string emits_bind emits_intros)

lemma emits_table:
  assumes "\<And>k v. (k, v) \<in> set es \<Longrightarrow> known_value v"
  shows "emits (table_bytes es) (amqp_encode_table es)"
  unfolding table_bytes_def amqp_encode_table_def
  using assms by (intro emits_sized emits_entries emits_value) auto

section \<open>Decoding takes the format back\<close>

lemma unat_word_of_nat:
  "n < 2 ^ 32 \<Longrightarrow> unat (word_of_nat n :: u32) = n" "n < 256 \<Longrightarrow> unat (word_of_nat n :: u8) = n"
  by (simp_all add: unsigned_of_nat take_bit_nat_eq_self)

lemma reads_dec [reads_intros]:
  "reads [v8] dec8 v8" "reads (put_u16 v16) dec16 v16" "reads (put_u32 v32) dec32 v32"
  "reads (put_u64 v64) dec64 v64" "n = length bs \<Longrightarrow> reads bs (decbytes n) bs"
  unfolding dec8_def [abs_def] dec16_def [abs_def] dec32_def [abs_def] dec64_def [abs_def] decbytes_def [abs_def]
  by (intro reads_orelse reads_8 reads_16 reads_32 reads_64 reads_bytes; simp)+

lemma reads_map:
  assumes "reads v m x"
  shows "reads v (\<lambda>enc. bindE (m enc) (\<lambda>x. returnE (g x))) (g x)"
  using reads_bind [OF assms, of "[]" "\<lambda>x _. returnE (g x)" "g x"] reads_return [of "g x"] by simp

lemma reads_cons:
  "reads [k] m x \<Longrightarrow> reads w (f x) y \<Longrightarrow> reads (k # w) (\<lambda>enc. bindE (m enc) (\<lambda>x. f x enc)) y"
  using reads_bind [of "[k]" m x w f y] by simp

lemma reads_sized_string:
  assumes "length bs < 2 ^ 32"
  shows "reads (sized_bytes bs) (\<lambda>enc. bindE (dec32 enc) (\<lambda>len. bindE (decbytes (unat len) enc) (\<lambda>bs. returnE (g bs)))) (g bs)"
  unfolding sized_bytes_def
  by (intro reads_bind [OF reads_dec(3)] reads_map reads_dec)
    (use assms in \<open>simp add: unat_word_of_nat\<close>)

lemma value_bytes_nonempty [simp]: "value_bytes v \<noteq> []"
  by (cases v) simp_all

lemma grow_granted:
  assumes "\<And>n. al n"
  obtains a where "grow_entries al sz num allocated = returnE a"
  using assms by (cases "num \<ge> allocated") (simp_all add: grow_entries_def)

lemma array_loop_reads:
  assumes "\<And>n. al n"
  shows "(\<And>v. v \<in> set vs \<Longrightarrow> reads (value_bytes v) dv v) \<Longrightarrow>
     length (concat (map value_bytes vs)) < fuel \<Longrightarrow>
     array_loop al dv fuel num allocated (length pre + length (concat (map value_bytes vs)))
        (pre @ concat (map value_bytes vs) @ rest) (length pre) =
      (Inr vs, length pre + length (concat (map value_bytes vs)))"
proof (induction vs arbitrary: fuel num allocated pre)
  case Nil
  then show ?case by (cases fuel) (simp_all add: bindE_def)
next
  case (Cons v vs)
  let ?r = "concat (map value_bytes vs)"
  obtain f where fuel: "fuel = Suc f" using Cons.prems by (cases fuel) auto
  obtain a where grow: "grow_entries al SIZEOF_FIELD_VALUE num allocated = returnE a"
    by (rule grow_granted [OF assms])
  have "dv (pre @ value_bytes v @ ?r @ rest) (length pre) = (Inr v, length pre + length (value_bytes v))"
    using Cons.prems by (intro readsD) simp
  moreover have "length ?r < f"
    using Cons.prems fuel by (cases "value_bytes v") auto
  then have "array_loop al dv f (num + 1) a (length (pre @ value_bytes v) + length ?r)
       ((pre @ value_bytes v) @ ?r @ rest) (length (pre @ value_bytes v)) =
      (Inr vs, length (pre @ value_bytes v) + length ?r)"
    using Cons.prems by (intro Cons.IH) simp_all
  ultimately show ?case by (simp add: fuel grow bindE_def add.assoc)
qed

lemma table_loop_reads:
  assumes "\<And>n. al n"
  shows "(\<And>k v. (k, v) \<in> set es \<Longrightarrow> reads (value_bytes v) dv v \<and> length k < 256) \<Longrightarrow>
     length (entries_bytes es) < fuel \<Longrightarrow>
     table_loop al dv fuel num allocated (length pre + length (entries_bytes es))
        (pre @ entries_bytes es @ rest) (length pre) =
      (Inr es, length pre + length (entries_bytes es))"
proof (induction es arbitrary: fuel num allocated pre)
  case Nil
  then show ?case by (cases fuel) (simp_all add: bindE_def)
next
  case (Cons e es)
  obtain k v where e: "e = (k, v)" by fastforce
  let ?n = "word_of_nat (length k) :: u8" and ?r = "entries_bytes es"
  obtain f where fuel: "fuel = Suc f" using Cons.prems by (cases fuel) auto
  obtain a where grow: "grow_entries al SIZEOF_TABLE_ENTRY num allocated = returnE a"
    by (rule grow_granted [OF assms])
  have v: "reads (value_bytes v) dv v" and k: "unat ?n = length k"
    using Cons.prems(1) [of k v] by (simp_all add: e unat_word_of_nat)
  have 1: "dec8 (pre @ ?n # k @ value_bytes v @ ?r @ rest) (length pre) = (Inr ?n, Suc (length pre))"
    using readsD [OF reads_dec(1), of pre ?n "k @ value_bytes v @ ?r @ rest"] by simp
  have 2: "decbytes (length k) (pre @ ?n # k @ value_bytes v @ ?r @ rest) (Suc (length pre)) =
      (Inr k, Suc (length pre + length k))"
    using readsD [OF reads_dec(5), of "length k" k "pre @ [?n]" "value_bytes v @ ?r @ rest"] by simp
  have 3: "dv (pre @ ?n # k @ value_bytes v @ ?r @ rest) (Suc (length pre + length k)) =
      (Inr v, Suc (length pre + length k + length (value_bytes v)))"
    using readsD [OF v, of "pre @ ?n # k" "?r @ rest"] by simp
  have "length ?r < f"
    using Cons.prems fuel e by (cases "value_bytes v") auto
  then have "table_loop al dv f (num + 1) a (length (pre @ ?n # k @ value_bytes v) + length ?r)
       ((pre @ ?n # k @ value_bytes v) @ ?r @ rest) (length (pre @ ?n # k @ value_bytes v)) =
      (Inr es, length (pre @ ?n # k @ value_bytes v) + length ?r)"
    using Cons.prems by (intro Cons.IH) auto
  then show ?case by (simp add: e fuel grow k bindE_def 1 2 3 add.assoc)
qed

lemma decode_array_reads:
  assumes "\<And>n. al n" "\<And>v. v \<in> set vs \<Longrightarrow> reads (value_bytes v) dv v"
    and "length (concat (map value_bytes vs)) < 2 ^ 32"
  shows "reads (sized_bytes (concat (map value_bytes vs))) (decode_array al dv) vs"
proof (rule readsI)
  fix pre rest
  let ?b = "concat (map value_bytes vs)" and ?n = "word_of_nat (length (concat (map value_bytes vs))) :: u32"
  have "unat ?n = length ?b" using assms(3) by (simp add: unat_word_of_nat)
  moreover have "dec32 (pre @ put_u32 ?n @ ?b @ rest) (length pre) = (Inr ?n, length pre + 4)"
    using readsD [OF reads_dec(3), of pre ?n "?b @ rest"] by simp
  moreover have "array_loop al dv (Suc (length (pre @ put_u32 ?n @ ?b @ rest))) 0 INITIAL_ARRAY_SIZE (length (pre @ put_u32 ?n) + length ?b)
        ((pre @ put_u32 ?n) @ ?b @ rest) (length (pre @ put_u32 ?n)) =
      (Inr vs, length (pre @ put_u32 ?n) + length ?b)"
    by (rule array_loop_reads [OF assms(1,2)]) simp_all
  ultimately show "decode_array al dv (pre @ sized_bytes ?b @ rest) (length pre) =
      (Inr vs, length pre + length (sized_bytes ?b))"
    using assms(1) by (simp add: decode_array_def sized_bytes_def bindE_def copy_entries_def)
qed

lemma decode_table_reads:
  assumes "\<And>n. al n" "\<And>k v. (k, v) \<in> set es \<Longrightarrow> reads (value_bytes v) dv v \<and> length k < 256"
    and "length (entries_bytes es) < 2 ^ 32"
  shows "reads (table_bytes es) (decode_table al dv) es"
proof (rule readsI)
  fix pre rest
  let ?b = "entries_bytes es" and ?n = "word_of_nat (length (entries_bytes es)) :: u32"
  have "unat ?n = length ?b" using assms(3) by (simp add: unat_word_of_nat)
  moreover have "dec32 (pre @ put_u32 ?n @ ?b @ rest) (length pre) = (Inr ?n, length pre + 4)"
    using readsD [OF reads_dec(3), of pre ?n "?b @ rest"] by simp
  moreover have "table_loop al dv (Suc (length (pre @ put_u32 ?n @ ?b @ rest))) 0 INITIAL_TABLE_SIZE (length (pre @ put_u32 ?n) + length ?b)
        ((pre @ put_u32 ?n) @ ?b @ rest) (length (pre @ put_u32 ?n)) =
      (Inr es, length (pre @ put_u32 ?n) + length ?b)"
    by (rule table_loop_reads [OF assms(1,2)]) simp_all
  ultimately show "decode_table al dv (pre @ table_bytes es @ rest) (length pre) =
      (Inr es, length pre + length (table_bytes es))"
    using assms(1) by (simp add: decode_table_def table_bytes_def sized_bytes_def bindE_def copy_entries_def)
qed

text \<open>A value is read back when the fuel is at least the length of its encoding.\<close>

lemma decode_plain_reads:
  assumes "reads w (decode_plain kind) v" "kind \<noteq> 0x41" "kind \<noteq> 0x46" "0 < fuel"
  shows "reads (kind # w) (amqp_decode_field_value al fuel) v"
proof (rule readsI)
  fix pre rest
  have "dec8 (pre @ kind # w @ rest) (length pre) = (Inr kind, Suc (length pre))"
    using readsD [OF reads_dec(1), of pre kind "w @ rest"] by simp
  moreover have "decode_plain kind (pre @ kind # w @ rest) (Suc (length pre)) = (Inr v, Suc (length pre + length w))"
    using readsD [OF assms(1), of "pre @ [kind]" rest] by simp
  ultimately show "amqp_decode_field_value al fuel (pre @ (kind # w) @ rest) (length pre) =
      (Inr v, length pre + length (kind # w))"
    using assms(2-) by (cases fuel) (simp_all add: bindE_def)
qed

lemma decode_nested_reads:
  assumes "0 < fuel"
  shows "reads w (decode_array al (amqp_decode_field_value al (fuel - 1))) vs \<Longrightarrow>
      reads (0x41 # w) (amqp_decode_field_value al fuel) (FArray vs)"
    and "reads w (decode_table al (amqp_decode_field_value al (fuel - 1))) es \<Longrightarrow>
      reads (0x46 # w) (amqp_decode_field_value al fuel) (FTable es)"
proof -
  have kind: "dec8 (pre @ kind # w @ rest) (length pre) = (Inr kind, Suc (length pre))" for kind pre rest
    using readsD [OF reads_dec(1), of pre kind "w @ rest"] by simp
  have at: "m (pre @ kind # w @ rest) (Suc (length pre)) = (Inr x, Suc (length pre + length w))"
    if "reads w m x" for m :: "'x dec" and x kind pre rest
    using readsD [OF that, of "pre @ [kind]" rest] by simp
  show "reads (0x41 # w) (amqp_decode_field_value al fuel) (FArray vs)"
    if "reads w (decode_array al (amqp_decode_field_value al (fuel - 1))) vs"
    using assms kind at [OF that] by (cases fuel) (simp_all add: reads_def bindE_def)
  show "reads (0x46 # w) (amqp_decode_field_value al fuel) (FTable es)"
    if "reads w (decode_table al (amqp_decode_field_value al (fuel - 1))) es"
    using assms kind at [OF that] by (cases fuel) (simp_all add: reads_def bindE_def)
qed

lemma reads_plain:
  "b = 0 \<or> b = 1 \<Longrightarrow> reads [if b \<noteq> 0 then 1 else 0] (decode_plain 0x74) (FBoolean b)"
  "reads [x8] (decode_plain 0x62) (FI8 x8)"
  "reads [x8] (decode_plain 0x42) (FU8 x8)"
  "reads (put_u16 x16) (decode_plain 0x73) (FI16 x16)"
  "reads (put_u16 x16) (decode_plain 0x75) (FU16 x16)"
  "reads (put_u32 x32) (decode_plain 0x49) (FI32 x32)"
  "reads (put_u32 x32) (decode_plain 0x69) (FU32 x32)"
  "reads (put_u64 x64) (decode_plain 0x6C) (FI64 x64)"
  "reads (put_u64 x64) (decode_plain 0x4C) (FU64 x64)"
  "reads (put_u32 x32) (decode_plain 0x66) (FF32 x32)"
  "reads (put_u64 x64) (decode_plain 0x64) (FF64 x64)"
  "reads (x8 # put_u32 x32) (decode_plain 0x44) (FDecimal x8 x32)"
  "length bs < 2 ^ 32 \<Longrightarrow> reads (sized_bytes bs) (decode_plain 0x53) (FUtf8 bs)"
  "length bs < 2 ^ 32 \<Longrightarrow> reads (sized_bytes bs) (decode_plain 0x78) (FBytes bs)"
  "reads (put_u64 x64) (decode_plain 0x54) (FTimestamp x64)"
  "reads [] (decode_plain 0x56) FVoid"
  using reads_map [OF reads_dec(1), where g = "\<lambda>val. FBoolean (if val \<noteq> 0 then 1 else 0)"]
  by (auto simp: decode_plain_def [abs_def]
      intro!: reads_map reads_cons reads_dec reads_return reads_sized_string)

lemma reads_value:
  assumes "\<And>n. al n"
  shows "value_ok v \<Longrightarrow> length (value_bytes v) \<le> fuel \<Longrightarrow> reads (value_bytes v) (amqp_decode_field_value al fuel) v"
proof (induction v arbitrary: fuel)
  case (FArray vs)
  let ?b = "concat (map value_bytes vs)"
  have le: "length (value_bytes v) \<le> fuel - 1" if "v \<in> set vs" for v
    using FArray.prems(2) member_le_sum_list [of "length (value_bytes v)" "map (length \<circ> value_bytes) vs"] that
    by (simp add: sized_bytes_def length_concat comp_def)
  have "reads (sized_bytes ?b) (decode_array al (amqp_decode_field_value al (fuel - 1))) vs"
    using FArray le by (intro decode_array_reads [OF assms]) (simp_all add: list_all_iff)
  then show ?case using FArray.prems decode_nested_reads(1) [of fuel] by simp
next
  case (FTable es)
  have le: "length (value_bytes v) \<le> fuel - 1" if "(k, v) \<in> set es" for k v
  proof -
    have "length (value_bytes v) \<le> length (entries_bytes es)" using that by (induction es) auto
    then show ?thesis using FTable.prems(2) by (simp add: sized_bytes_def entries_bytes_def)
  qed
  have "reads (table_bytes es) (decode_table al (amqp_decode_field_value al (fuel - 1))) es"
  proof (rule decode_table_reads [OF assms])
    fix k v assume "(k, v) \<in> set es"
    then show "reads (value_bytes v) (amqp_decode_field_value al (fuel - 1)) v \<and> length k < 256"
      using FTable.IH [of "(k, v)" v "fuel - 1"] FTable.prems(1) le by (auto simp: list_all_iff)
  qed (use FTable.prems(1) in \<open>simp add: entries_bytes_def\<close>)
  then show ?case using FTable.prems decode_nested_reads(2) [of fuel]
    by (simp add: table_bytes_def entries_bytes_def)
qed (simp_all add: decode_plain_reads reads_plain)

lemma reads_table:
  assumes "\<And>n. al n" and "table_ok es"
  shows "reads (table_bytes es) (amqp_decode_table al) es"
proof (rule readsI)
  fix pre rest
  let ?enc = "pre @ table_bytes es @ rest"
  have "reads (table_bytes es) (decode_table al (amqp_decode_field_value al (Suc (length ?enc)))) es"
  proof (rule decode_table_reads [OF assms(1)])
    fix k v assume "(k, v) \<in> set es"
    then have "value_ok v" "length k < 256" "length (value_bytes v) \<le> length (entries_bytes es)"
      using assms(2) by (auto simp: table_ok_def) (induction es; auto)
    then show "reads (value_bytes v) (amqp_decode_field_value al (Suc (length ?enc))) v \<and> length k < 256"
      using reads_value [OF assms(1)] by (simp add: table_bytes_def sized_bytes_def)
  qed (use assms(2) in \<open>simp add: table_ok_def\<close>)
  then show "amqp_decode_table al ?enc (length pre) = (Inr es, length pre + length (table_bytes es))"
    unfolding amqp_decode_table_def by (rule readsD)
qed

section \<open>Decoding ends\<close>

text \<open>\<open>uses k n enc m\<close>: with fewer than \<open>n\<close> bytes left, \<open>m\<close> does not run out of fuel, and where
  it succeeds it has used up at least \<open>k\<close> bytes of the block.\<close>

definition uses :: "nat \<Rightarrow> nat \<Rightarrow> bytes \<Rightarrow> (nat, amqp_status, 'a) est \<Rightarrow> bool" where
  "uses k n enc m \<longleftrightarrow>
     (\<forall>off \<le> length enc. length enc - off < n \<longrightarrow>
        (case m off of
           (Inl e, _) \<Rightarrow> e \<noteq> Out_Of_Fuel
         | (Inr _, off') \<Rightarrow> off + k \<le> off' \<and> off' \<le> length enc))"

named_theorems uses_intros

lemma uses_return [uses_intros]: "uses 0 n enc (returnE x)"
  by (simp add: uses_def)

lemma uses_throw [uses_intros]: "e \<noteq> Out_Of_Fuel \<Longrightarrow> uses k n enc (throwE e)"
  by (simp add: uses_def)

lemma uses_mono: "uses k n enc m \<Longrightarrow> l \<le> k \<Longrightarrow> n' \<le> n \<Longrightarrow> uses l n' enc m"
  unfolding uses_def by (fastforce split: prod.splits sum.splits)

lemma uses_bind:
  assumes "uses k n enc m" "\<And>x. uses l (n - k) enc (f x)"
  shows "uses (k + l) n enc (bindE m f)"
  unfolding uses_def
proof (intro allI impI)
  fix off assume off: "off \<le> length enc" "length enc - off < n"
  show "case bindE m f off of
      (Inl e, _) \<Rightarrow> e \<noteq> Out_Of_Fuel
    | (Inr _, off') \<Rightarrow> off + (k + l) \<le> off' \<and> off' \<le> length enc"
  proof (cases "m off")
    case (Pair r off')
    show ?thesis
    proof (cases r)
      case (Inl e)
      then show ?thesis using assms(1) off Pair by (auto simp: uses_def bindE_def)
    next
      case (Inr x)
      then have "off + k \<le> off'" "off' \<le> length enc" using assms(1) off Pair by (auto simp: uses_def)
      moreover from this have "length enc - off' < n - k" using off by linarith
      ultimately show ?thesis
        using assms(2) [of x] Pair Inr unfolding uses_def
        by (fastforce simp: bindE_def split: prod.splits sum.splits)
    qed
  qed
qed

lemma uses_gets: "(\<And>x. uses k n enc (f x)) \<Longrightarrow> uses k n enc (bindE (getsE g) f)"
  by (simp add: uses_def bindE_def)

lemma uses_dec:
  "uses 1 n enc (dec8 enc)" "uses 2 n enc (dec16 enc)" "uses 4 n enc (dec32 enc)" "uses 8 n enc (dec64 enc)"
  "uses len n enc (decbytes len enc)"
  by (simp_all add: uses_def dec8_def dec16_def dec32_def dec64_def decbytes_def orelse_def mapE_def
      amqp_decode_8_def amqp_decode_16_def amqp_decode_32_def amqp_decode_64_def amqp_decode_bytes_def Let_def)

lemma uses_any: "uses k n enc m \<Longrightarrow> uses 0 n enc m"
  by (erule uses_mono) simp_all

lemma uses_bind0: "uses k n enc m \<Longrightarrow> (\<And>x. uses 0 n enc (f x)) \<Longrightarrow> uses 0 n enc (bindE m f)"
  by (rule uses_any [OF uses_bind [of k n enc m 0]]) (simp_all add: uses_mono [of 0 n])

lemmas uses_dec0 = uses_dec [THEN uses_any]

lemma uses_plain: "uses 0 n enc (decode_plain kind enc)"
  unfolding decode_plain_def
  by (simp add: uses_bind0 [OF uses_dec0(1)] uses_bind0 [OF uses_dec0(2)] uses_bind0 [OF uses_dec0(3)]
      uses_bind0 [OF uses_dec0(4)] uses_bind0 [OF uses_dec0(5)] uses_return uses_throw)

lemma uses_grow: "uses 0 n enc (grow_entries al sz num allocated)"
  by (simp add: grow_entries_def uses_return uses_throw)

lemma uses_copy: "uses 0 n enc (copy_entries al sz entries)"
  by (simp add: copy_entries_def uses_return uses_throw)

lemma uses_array_loop:
  assumes "uses 1 m enc (dv enc)"
  shows "uses 0 (min m fuel) enc (array_loop al dv fuel num allocated limit enc)"
proof (induction fuel arbitrary: num allocated)
  case 0
  then show ?case by (simp add: uses_def)
next
  case (Suc fuel)
  have dv: "uses 1 (min m (Suc fuel)) enc (dv enc)" by (rule uses_mono [OF assms]) simp_all
  have "uses 0 (min m (Suc fuel) - 1) enc (array_loop al dv fuel (num + 1) a limit enc)" for a
    by (rule uses_mono [OF Suc.IH]) linarith+
  then have "uses 0 (min m (Suc fuel) - 1) enc
      (bindE (array_loop al dv fuel (num + 1) a limit enc) (\<lambda>vs. returnE (v # vs)))" for v a
    by (rule uses_bind0) (rule uses_return)
  then have "uses 0 (min m (Suc fuel)) enc
      (bindE (dv enc) (\<lambda>v. bindE (array_loop al dv fuel (num + 1) a limit enc) (\<lambda>vs. returnE (v # vs))))" for a
    by (intro uses_any [OF uses_bind [OF dv]])
  then show ?case
    unfolding array_loop.simps by (intro uses_gets) (simp add: uses_bind0 [OF uses_grow] uses_return)
qed

lemma uses_table_loop:
  assumes "uses 1 m enc (dv enc)"
  shows "uses 0 (min m fuel) enc (table_loop al dv fuel num allocated limit enc)"
proof (induction fuel arbitrary: num allocated)
  case 0
  then show ?case by (simp add: uses_def)
next
  case (Suc fuel)
  have dv: "uses 1 (min m (Suc fuel)) enc (dv enc)" by (rule uses_mono [OF assms]) simp_all
  have "uses 0 (min m (Suc fuel) - 1) enc (table_loop al dv fuel (num + 1) a limit enc)" for a
    by (rule uses_mono [OF Suc.IH]) linarith+
  then have "uses 0 (min m (Suc fuel) - 1) enc
      (bindE (table_loop al dv fuel (num + 1) a limit enc) (\<lambda>es. returnE ((key, v) # es)))" for key v a
    by (rule uses_bind0) (rule uses_return)
  then have "uses 0 (min m (Suc fuel)) enc
      (bindE (dv enc) (\<lambda>v. bindE (table_loop al dv fuel (num + 1) a limit enc) (\<lambda>es. returnE ((key, v) # es))))"
    for key a
    by (intro uses_any [OF uses_bind [OF dv]])
  then show ?case
    unfolding table_loop.simps
    by (intro uses_gets) (simp add: uses_bind0 [OF uses_grow] uses_bind0 [OF uses_dec0(1)]
        uses_bind0 [OF uses_dec0(5)] uses_return)
qed

lemma uses_enough: "uses k (min n (Suc (length enc))) enc m \<Longrightarrow> uses k n enc m"
  by (auto simp: uses_def)

lemma uses_decode_array:
  assumes "uses 1 n enc (dv enc)"
  shows "uses 0 n enc (decode_array al dv enc)"
  unfolding decode_array_def
  by (intro uses_bind0 [OF uses_dec0(3)] uses_gets)
    (simp del: array_loop.simps table_loop.simps add: uses_throw uses_bind0 [OF uses_enough [OF uses_array_loop [where dv = dv, OF assms]]] uses_copy)

lemma uses_decode_table:
  assumes "uses 1 n enc (dv enc)"
  shows "uses 0 n enc (decode_table al dv enc)"
  unfolding decode_table_def
  by (intro uses_bind0 [OF uses_dec0(3)] uses_gets)
    (simp del: array_loop.simps table_loop.simps add: uses_throw uses_bind0 [OF uses_enough [OF uses_table_loop [where dv = dv, OF assms]]] uses_copy)

lemma uses_value: "uses 1 fuel enc (amqp_decode_field_value al fuel enc)"
proof (induction fuel)
  case 0
  then show ?case by (simp add: uses_def)
next
  case (Suc fuel)
  note parts = uses_bind0 [OF uses_decode_array [where dv = "amqp_decode_field_value al fuel", OF Suc.IH]]
    uses_bind0 [OF uses_decode_table [where dv = "amqp_decode_field_value al fuel", OF Suc.IH]]
  have "uses (1 + 0) (Suc fuel) enc (amqp_decode_field_value al (Suc fuel) enc)"
    unfolding amqp_decode_field_value.simps
    by (rule uses_bind [OF uses_dec(1)]) (simp add: parts uses_return uses_plain)
  then show ?case by simp
qed

lemma table_decoder_ends:
  assumes "amqp_decode_table al enc off = (r, off')"
  shows "r \<noteq> Inl Out_Of_Fuel"
proof (cases "off \<le> length enc")
  case True
  have "uses 0 (Suc (length enc)) enc (amqp_decode_table al enc)"
    unfolding amqp_decode_table_def by (rule uses_decode_table [OF uses_value])
  then show ?thesis using assms True by (auto simp: uses_def)
next
  case False
  then show ?thesis using assms
    by (auto simp: amqp_decode_table_def decode_table_def dec32_def orelse_def mapE_def amqp_decode_32_def bindE_def)
qed

section \<open>Comparing and copying, correct\<close>

text \<open>The order of \<open>amqp_table_entry_cmp\<close> is the lexicographic order of the keys.\<close>

lemma table_entry_cmp_simps:
  "amqp_table_entry_cmp ([], v) (k, w) = - int (length k)"
  "amqp_table_entry_cmp (k, v) ([], w) = int (length k)"
  "amqp_table_entry_cmp (x # xs, v) (y # ys, w) =
     (if x = y then amqp_table_entry_cmp (xs, v) (ys, w) else if x < y then - 1 else 1)"
  by (simp_all add: amqp_table_entry_cmp_def Let_def)

lemma table_entry_cmp_neg: "amqp_table_entry_cmp (k, v) (l, w) < 0 \<longleftrightarrow> ord_class.lexordp k l"
  by (induction k l rule: list_induct2') (auto simp: table_entry_cmp_simps)

lemma table_entry_cmp_zero: "amqp_table_entry_cmp (k, v) (l, w) = 0 \<longleftrightarrow> k = l"
  by (induction k l rule: list_induct2') (auto simp: table_entry_cmp_simps)

lemma table_entry_cmp_swap: "amqp_table_entry_cmp (l, w) (k, v) < 0 \<longleftrightarrow> 0 < amqp_table_entry_cmp (k, v) (l, w)"
  by (induction k l rule: list_induct2') (auto simp: table_entry_cmp_simps)

text \<open>A copy is the original; it can be made unless a key is empty or a kind is not known.\<close>

lemma copy_all_same:
  "copy_all rs = Inr ys \<Longrightarrow> list_all2 (\<lambda>r x. \<forall>y. r = Inr y \<longrightarrow> y = x) rs xs \<Longrightarrow> ys = xs"
proof (induction rs arbitrary: xs ys)
  case (Cons r rs)
  then show ?case by (cases r; cases "copy_all rs") (auto simp: list_all2_Cons1)
qed simp

lemma copy_all_defined: "(\<And>r. r \<in> set rs \<Longrightarrow> isl r = False) \<Longrightarrow> \<exists>ys. copy_all rs = Inr ys"
proof (induction rs)
  case (Cons r rs)
  then show ?case by (cases r) fastforce+
qed simp

lemma entry_clone_same:
  assumes "\<And>y. amqp_field_value_clone al v = Inr y \<Longrightarrow> y = v"
    and "amqp_table_entry_clone al (k, amqp_field_value_clone al v) = Inr e"
  shows "e = (k, v)"
  using assms by (cases "amqp_field_value_clone al v") (auto simp: amqp_table_entry_clone_def split: if_splits)

lemma entries_clone_same:
  assumes "\<And>k v y. (k, v) \<in> set es \<Longrightarrow> amqp_field_value_clone al v = Inr y \<Longrightarrow> y = v"
    and "entries_clone al (map (map_prod id (amqp_field_value_clone al)) es) = Inr ys"
  shows "ys = es"
proof -
  have "list_all2 (\<lambda>r x. \<forall>y. r = Inr y \<longrightarrow> y = x)
      (map (amqp_table_entry_clone al) (map (map_prod id (amqp_field_value_clone al)) es)) es"
    using assms(1)
  proof (induction es)
    case (Cons e es)
    obtain k v where e: "e = (k, v)" by fastforce
    have "\<forall>y. amqp_table_entry_clone al (k, amqp_field_value_clone al v) = Inr y \<longrightarrow> y = (k, v)"
      using Cons.prems [of k v] by (intro allI impI entry_clone_same [of al v k]) (simp_all add: e)
    moreover have "list_all2 (\<lambda>r x. \<forall>y. r = Inr y \<longrightarrow> y = x)
        (map (amqp_table_entry_clone al) (map (map_prod id (amqp_field_value_clone al)) es)) es"
    proof (rule Cons.IH)
      show "y = v" if "(k, v) \<in> set es" "amqp_field_value_clone al v = Inr y" for k v y
        using that by (intro Cons.prems) auto
    qed
    ultimately show ?case by (simp add: e id_def)
  qed simp
  then show ?thesis
    using assms(2) by (cases "es = []") (simp_all add: entries_clone_def copy_all_same split: if_splits)
qed

lemma value_clone_same: "amqp_field_value_clone al v = Inr y \<Longrightarrow> y = v"
proof (induction v arbitrary: y)
  case (FArray vs)
  then have "list_all2 (\<lambda>r x. \<forall>y. r = Inr y \<longrightarrow> y = x) (map (amqp_field_value_clone al) vs) vs"
    by (auto simp: list_all2_conv_all_nth)
  then show ?case
    using FArray.prems copy_all_same
    by (cases "copy_all (map (amqp_field_value_clone al) vs)") (auto split: if_splits)
next
  case (FTable es)
  have same: "x = w" if "(k, w) \<in> set es" "amqp_field_value_clone al w = Inr x" for k w x
    using FTable.IH [OF that(1), of w x] that(2) by simp
  have "ys = es" if "entries_clone al (map (map_prod id (amqp_field_value_clone al)) es) = Inr ys" for ys
  proof (rule entries_clone_same [OF _ that])
    show "x = w" if "(k, w) \<in> set es" "amqp_field_value_clone al w = Inr x" for k w x
      using that by (rule same)
  qed
  then show ?case
    using FTable.prems
    by (cases "entries_clone al (map (map_prod id (amqp_field_value_clone al)) es)") simp_all
qed (auto simp: bytes_clone_def split: if_splits)

lemma table_clone_same: "amqp_table_clone al es = Inr ys \<Longrightarrow> ys = es"
  unfolding amqp_table_clone_def by (erule entries_clone_same [rotated]) (rule value_clone_same)

end
