(* ===== verification/Amqp_Methods.thy ===== *)
theory Amqp_Methods
  imports Amqp_Table
begin

text \<open>
  The methods of AMQP 0-9-1: their numbers and their arguments, from
  \<open>src/src/rabbitmq-c/amqp_framing.h\<close>. A structure of that file is a record here; a structure
  that only has a dummy field has no record. \<open>amqp_method\<close> is what the C code keeps as a method
  number and a pointer to the structure that goes with it. Of an \<open>amqp_boolean_t\<close> only the truth
  value is kept.
\<close>

section \<open>Method numbers\<close>

named_theorems method_ids

definition AMQP_CONNECTION_START_METHOD :: u32 where [method_ids]: "AMQP_CONNECTION_START_METHOD = 0x000A000A"
definition AMQP_CONNECTION_START_OK_METHOD :: u32 where [method_ids]: "AMQP_CONNECTION_START_OK_METHOD = 0x000A000B"
definition AMQP_CONNECTION_SECURE_METHOD :: u32 where [method_ids]: "AMQP_CONNECTION_SECURE_METHOD = 0x000A0014"
definition AMQP_CONNECTION_SECURE_OK_METHOD :: u32 where [method_ids]: "AMQP_CONNECTION_SECURE_OK_METHOD = 0x000A0015"
definition AMQP_CONNECTION_TUNE_METHOD :: u32 where [method_ids]: "AMQP_CONNECTION_TUNE_METHOD = 0x000A001E"
definition AMQP_CONNECTION_TUNE_OK_METHOD :: u32 where [method_ids]: "AMQP_CONNECTION_TUNE_OK_METHOD = 0x000A001F"
definition AMQP_CONNECTION_OPEN_METHOD :: u32 where [method_ids]: "AMQP_CONNECTION_OPEN_METHOD = 0x000A0028"
definition AMQP_CONNECTION_OPEN_OK_METHOD :: u32 where [method_ids]: "AMQP_CONNECTION_OPEN_OK_METHOD = 0x000A0029"
definition AMQP_CONNECTION_CLOSE_METHOD :: u32 where [method_ids]: "AMQP_CONNECTION_CLOSE_METHOD = 0x000A0032"
definition AMQP_CONNECTION_CLOSE_OK_METHOD :: u32 where [method_ids]: "AMQP_CONNECTION_CLOSE_OK_METHOD = 0x000A0033"
definition AMQP_CONNECTION_BLOCKED_METHOD :: u32 where [method_ids]: "AMQP_CONNECTION_BLOCKED_METHOD = 0x000A003C"
definition AMQP_CONNECTION_UNBLOCKED_METHOD :: u32 where [method_ids]: "AMQP_CONNECTION_UNBLOCKED_METHOD = 0x000A003D"
definition AMQP_CHANNEL_OPEN_METHOD :: u32 where [method_ids]: "AMQP_CHANNEL_OPEN_METHOD = 0x0014000A"
definition AMQP_CHANNEL_OPEN_OK_METHOD :: u32 where [method_ids]: "AMQP_CHANNEL_OPEN_OK_METHOD = 0x0014000B"
definition AMQP_CHANNEL_FLOW_METHOD :: u32 where [method_ids]: "AMQP_CHANNEL_FLOW_METHOD = 0x00140014"
definition AMQP_CHANNEL_FLOW_OK_METHOD :: u32 where [method_ids]: "AMQP_CHANNEL_FLOW_OK_METHOD = 0x00140015"
definition AMQP_CHANNEL_CLOSE_METHOD :: u32 where [method_ids]: "AMQP_CHANNEL_CLOSE_METHOD = 0x00140028"
definition AMQP_CHANNEL_CLOSE_OK_METHOD :: u32 where [method_ids]: "AMQP_CHANNEL_CLOSE_OK_METHOD = 0x00140029"
definition AMQP_ACCESS_REQUEST_METHOD :: u32 where [method_ids]: "AMQP_ACCESS_REQUEST_METHOD = 0x001E000A"
definition AMQP_ACCESS_REQUEST_OK_METHOD :: u32 where [method_ids]: "AMQP_ACCESS_REQUEST_OK_METHOD = 0x001E000B"
definition AMQP_EXCHANGE_DECLARE_METHOD :: u32 where [method_ids]: "AMQP_EXCHANGE_DECLARE_METHOD = 0x0028000A"
definition AMQP_EXCHANGE_DECLARE_OK_METHOD :: u32 where [method_ids]: "AMQP_EXCHANGE_DECLARE_OK_METHOD = 0x0028000B"
definition AMQP_EXCHANGE_DELETE_METHOD :: u32 where [method_ids]: "AMQP_EXCHANGE_DELETE_METHOD = 0x00280014"
definition AMQP_EXCHANGE_DELETE_OK_METHOD :: u32 where [method_ids]: "AMQP_EXCHANGE_DELETE_OK_METHOD = 0x00280015"
definition AMQP_EXCHANGE_BIND_METHOD :: u32 where [method_ids]: "AMQP_EXCHANGE_BIND_METHOD = 0x0028001E"
definition AMQP_EXCHANGE_BIND_OK_METHOD :: u32 where [method_ids]: "AMQP_EXCHANGE_BIND_OK_METHOD = 0x0028001F"
definition AMQP_EXCHANGE_UNBIND_METHOD :: u32 where [method_ids]: "AMQP_EXCHANGE_UNBIND_METHOD = 0x00280028"
definition AMQP_EXCHANGE_UNBIND_OK_METHOD :: u32 where [method_ids]: "AMQP_EXCHANGE_UNBIND_OK_METHOD = 0x00280033"
definition AMQP_QUEUE_DECLARE_METHOD :: u32 where [method_ids]: "AMQP_QUEUE_DECLARE_METHOD = 0x0032000A"
definition AMQP_QUEUE_DECLARE_OK_METHOD :: u32 where [method_ids]: "AMQP_QUEUE_DECLARE_OK_METHOD = 0x0032000B"
definition AMQP_QUEUE_BIND_METHOD :: u32 where [method_ids]: "AMQP_QUEUE_BIND_METHOD = 0x00320014"
definition AMQP_QUEUE_BIND_OK_METHOD :: u32 where [method_ids]: "AMQP_QUEUE_BIND_OK_METHOD = 0x00320015"
definition AMQP_QUEUE_PURGE_METHOD :: u32 where [method_ids]: "AMQP_QUEUE_PURGE_METHOD = 0x0032001E"
definition AMQP_QUEUE_PURGE_OK_METHOD :: u32 where [method_ids]: "AMQP_QUEUE_PURGE_OK_METHOD = 0x0032001F"
definition AMQP_QUEUE_DELETE_METHOD :: u32 where [method_ids]: "AMQP_QUEUE_DELETE_METHOD = 0x00320028"
definition AMQP_QUEUE_DELETE_OK_METHOD :: u32 where [method_ids]: "AMQP_QUEUE_DELETE_OK_METHOD = 0x00320029"
definition AMQP_QUEUE_UNBIND_METHOD :: u32 where [method_ids]: "AMQP_QUEUE_UNBIND_METHOD = 0x00320032"
definition AMQP_QUEUE_UNBIND_OK_METHOD :: u32 where [method_ids]: "AMQP_QUEUE_UNBIND_OK_METHOD = 0x00320033"
definition AMQP_BASIC_QOS_METHOD :: u32 where [method_ids]: "AMQP_BASIC_QOS_METHOD = 0x003C000A"
definition AMQP_BASIC_QOS_OK_METHOD :: u32 where [method_ids]: "AMQP_BASIC_QOS_OK_METHOD = 0x003C000B"
definition AMQP_BASIC_CONSUME_METHOD :: u32 where [method_ids]: "AMQP_BASIC_CONSUME_METHOD = 0x003C0014"
definition AMQP_BASIC_CONSUME_OK_METHOD :: u32 where [method_ids]: "AMQP_BASIC_CONSUME_OK_METHOD = 0x003C0015"
definition AMQP_BASIC_CANCEL_METHOD :: u32 where [method_ids]: "AMQP_BASIC_CANCEL_METHOD = 0x003C001E"
definition AMQP_BASIC_CANCEL_OK_METHOD :: u32 where [method_ids]: "AMQP_BASIC_CANCEL_OK_METHOD = 0x003C001F"
definition AMQP_BASIC_PUBLISH_METHOD :: u32 where [method_ids]: "AMQP_BASIC_PUBLISH_METHOD = 0x003C0028"
definition AMQP_BASIC_RETURN_METHOD :: u32 where [method_ids]: "AMQP_BASIC_RETURN_METHOD = 0x003C0032"
definition AMQP_BASIC_DELIVER_METHOD :: u32 where [method_ids]: "AMQP_BASIC_DELIVER_METHOD = 0x003C003C"
definition AMQP_BASIC_GET_METHOD :: u32 where [method_ids]: "AMQP_BASIC_GET_METHOD = 0x003C0046"
definition AMQP_BASIC_GET_OK_METHOD :: u32 where [method_ids]: "AMQP_BASIC_GET_OK_METHOD = 0x003C0047"
definition AMQP_BASIC_GET_EMPTY_METHOD :: u32 where [method_ids]: "AMQP_BASIC_GET_EMPTY_METHOD = 0x003C0048"
definition AMQP_BASIC_ACK_METHOD :: u32 where [method_ids]: "AMQP_BASIC_ACK_METHOD = 0x003C0050"
definition AMQP_BASIC_REJECT_METHOD :: u32 where [method_ids]: "AMQP_BASIC_REJECT_METHOD = 0x003C005A"
definition AMQP_BASIC_RECOVER_ASYNC_METHOD :: u32 where [method_ids]: "AMQP_BASIC_RECOVER_ASYNC_METHOD = 0x003C0064"
definition AMQP_BASIC_RECOVER_METHOD :: u32 where [method_ids]: "AMQP_BASIC_RECOVER_METHOD = 0x003C006E"
definition AMQP_BASIC_RECOVER_OK_METHOD :: u32 where [method_ids]: "AMQP_BASIC_RECOVER_OK_METHOD = 0x003C006F"
definition AMQP_BASIC_NACK_METHOD :: u32 where [method_ids]: "AMQP_BASIC_NACK_METHOD = 0x003C0078"
definition AMQP_TX_SELECT_METHOD :: u32 where [method_ids]: "AMQP_TX_SELECT_METHOD = 0x005A000A"
definition AMQP_TX_SELECT_OK_METHOD :: u32 where [method_ids]: "AMQP_TX_SELECT_OK_METHOD = 0x005A000B"
definition AMQP_TX_COMMIT_METHOD :: u32 where [method_ids]: "AMQP_TX_COMMIT_METHOD = 0x005A0014"
definition AMQP_TX_COMMIT_OK_METHOD :: u32 where [method_ids]: "AMQP_TX_COMMIT_OK_METHOD = 0x005A0015"
definition AMQP_TX_ROLLBACK_METHOD :: u32 where [method_ids]: "AMQP_TX_ROLLBACK_METHOD = 0x005A001E"
definition AMQP_TX_ROLLBACK_OK_METHOD :: u32 where [method_ids]: "AMQP_TX_ROLLBACK_OK_METHOD = 0x005A001F"
definition AMQP_CONFIRM_SELECT_METHOD :: u32 where [method_ids]: "AMQP_CONFIRM_SELECT_METHOD = 0x0055000A"
definition AMQP_CONFIRM_SELECT_OK_METHOD :: u32 where [method_ids]: "AMQP_CONFIRM_SELECT_OK_METHOD = 0x0055000B"

section \<open>Arguments\<close>

record amqp_connection_start_t =
  version_major :: u8
  version_minor :: u8
  server_properties :: amqp_table
  mechanisms :: bytes
  "locales" :: bytes

record amqp_connection_start_ok_t =
  client_properties :: amqp_table
  mechanism :: bytes
  response :: bytes
  "locale" :: bytes

record amqp_connection_secure_t =
  challenge :: bytes

record amqp_connection_secure_ok_t =
  response :: bytes

record amqp_connection_tune_t =
  channel_max :: u16
  frame_max :: u32
  heartbeat :: u16

record amqp_connection_tune_ok_t =
  channel_max :: u16
  frame_max :: u32
  heartbeat :: u16

record amqp_connection_open_t =
  virtual_host :: bytes
  capabilities :: bytes
  insist :: bool

record amqp_connection_open_ok_t =
  known_hosts :: bytes

record amqp_connection_close_t =
  reply_code :: u16
  reply_text :: bytes
  class_id :: u16
  method_id :: u16

record amqp_connection_blocked_t =
  reason :: bytes

record amqp_channel_open_t =
  out_of_band :: bytes

record amqp_channel_open_ok_t =
  channel_id :: bytes

record amqp_channel_flow_t =
  active :: bool

record amqp_channel_flow_ok_t =
  active :: bool

record amqp_channel_close_t =
  reply_code :: u16
  reply_text :: bytes
  class_id :: u16
  method_id :: u16

record amqp_access_request_t =
  realm :: bytes
  exclusive :: bool
  "passive" :: bool
  active :: bool
  "write" :: bool
  read :: bool

record amqp_access_request_ok_t =
  ticket :: u16

record amqp_exchange_declare_t =
  ticket :: u16
  exchange :: bytes
  type' :: bytes
  "passive" :: bool
  durable :: bool
  auto_delete :: bool
  internal :: bool
  nowait :: bool
  arguments :: amqp_table

record amqp_exchange_delete_t =
  ticket :: u16
  exchange :: bytes
  if_unused :: bool
  nowait :: bool

record amqp_exchange_bind_t =
  ticket :: u16
  destination :: bytes
  source :: bytes
  routing_key :: bytes
  nowait :: bool
  arguments :: amqp_table

record amqp_exchange_unbind_t =
  ticket :: u16
  destination :: bytes
  source :: bytes
  routing_key :: bytes
  nowait :: bool
  arguments :: amqp_table

record amqp_queue_declare_t =
  ticket :: u16
  queue :: bytes
  "passive" :: bool
  durable :: bool
  exclusive :: bool
  auto_delete :: bool
  nowait :: bool
  arguments :: amqp_table

record amqp_queue_declare_ok_t =
  queue :: bytes
  message_count :: u32
  consumer_count :: u32

record amqp_queue_bind_t =
  ticket :: u16
  queue :: bytes
  exchange :: bytes
  routing_key :: bytes
  nowait :: bool
  arguments :: amqp_table

record amqp_queue_purge_t =
  ticket :: u16
  queue :: bytes
  nowait :: bool

record amqp_queue_purge_ok_t =
  message_count :: u32

record amqp_queue_delete_t =
  ticket :: u16
  queue :: bytes
  if_unused :: bool
  if_empty :: bool
  nowait :: bool

record amqp_queue_delete_ok_t =
  message_count :: u32

record amqp_queue_unbind_t =
  ticket :: u16
  queue :: bytes
  exchange :: bytes
  routing_key :: bytes
  arguments :: amqp_table

record amqp_basic_qos_t =
  prefetch_size :: u32
  prefetch_count :: u16
  global :: bool

record amqp_basic_consume_t =
  ticket :: u16
  queue :: bytes
  consumer_tag :: bytes
  no_local :: bool
  no_ack :: bool
  exclusive :: bool
  nowait :: bool
  arguments :: amqp_table

record amqp_basic_consume_ok_t =
  consumer_tag :: bytes

record amqp_basic_cancel_t =
  consumer_tag :: bytes
  nowait :: bool

record amqp_basic_cancel_ok_t =
  consumer_tag :: bytes

record amqp_basic_publish_t =
  ticket :: u16
  exchange :: bytes
  routing_key :: bytes
  mandatory :: bool
  immediate :: bool

record amqp_basic_return_t =
  reply_code :: u16
  reply_text :: bytes
  exchange :: bytes
  routing_key :: bytes

record amqp_basic_deliver_t =
  consumer_tag :: bytes
  delivery_tag :: u64
  redelivered :: bool
  exchange :: bytes
  routing_key :: bytes

record amqp_basic_get_t =
  ticket :: u16
  queue :: bytes
  no_ack :: bool

record amqp_basic_get_ok_t =
  delivery_tag :: u64
  redelivered :: bool
  exchange :: bytes
  routing_key :: bytes
  message_count :: u32

record amqp_basic_get_empty_t =
  cluster_id :: bytes

record amqp_basic_ack_t =
  delivery_tag :: u64
  multiple :: bool

record amqp_basic_reject_t =
  delivery_tag :: u64
  requeue :: bool

record amqp_basic_recover_async_t =
  requeue :: bool

record amqp_basic_recover_t =
  requeue :: bool

record amqp_basic_nack_t =
  delivery_tag :: u64
  multiple :: bool
  requeue :: bool

record amqp_confirm_select_t =
  nowait :: bool

section \<open>Methods\<close>

datatype (plugins only: code size) amqp_method =
  Connection_start amqp_connection_start_t
  | Connection_start_ok amqp_connection_start_ok_t
  | Connection_secure amqp_connection_secure_t
  | Connection_secure_ok amqp_connection_secure_ok_t
  | Connection_tune amqp_connection_tune_t
  | Connection_tune_ok amqp_connection_tune_ok_t
  | Connection_open amqp_connection_open_t
  | Connection_open_ok amqp_connection_open_ok_t
  | Connection_close amqp_connection_close_t
  | Connection_close_ok
  | Connection_blocked amqp_connection_blocked_t
  | Connection_unblocked
  | Channel_open amqp_channel_open_t
  | Channel_open_ok amqp_channel_open_ok_t
  | Channel_flow amqp_channel_flow_t
  | Channel_flow_ok amqp_channel_flow_ok_t
  | Channel_close amqp_channel_close_t
  | Channel_close_ok
  | Access_request amqp_access_request_t
  | Access_request_ok amqp_access_request_ok_t
  | Exchange_declare amqp_exchange_declare_t
  | Exchange_declare_ok
  | Exchange_delete amqp_exchange_delete_t
  | Exchange_delete_ok
  | Exchange_bind amqp_exchange_bind_t
  | Exchange_bind_ok
  | Exchange_unbind amqp_exchange_unbind_t
  | Exchange_unbind_ok
  | Queue_declare amqp_queue_declare_t
  | Queue_declare_ok amqp_queue_declare_ok_t
  | Queue_bind amqp_queue_bind_t
  | Queue_bind_ok
  | Queue_purge amqp_queue_purge_t
  | Queue_purge_ok amqp_queue_purge_ok_t
  | Queue_delete amqp_queue_delete_t
  | Queue_delete_ok amqp_queue_delete_ok_t
  | Queue_unbind amqp_queue_unbind_t
  | Queue_unbind_ok
  | Basic_qos amqp_basic_qos_t
  | Basic_qos_ok
  | Basic_consume amqp_basic_consume_t
  | Basic_consume_ok amqp_basic_consume_ok_t
  | Basic_cancel amqp_basic_cancel_t
  | Basic_cancel_ok amqp_basic_cancel_ok_t
  | Basic_publish amqp_basic_publish_t
  | Basic_return amqp_basic_return_t
  | Basic_deliver amqp_basic_deliver_t
  | Basic_get amqp_basic_get_t
  | Basic_get_ok amqp_basic_get_ok_t
  | Basic_get_empty amqp_basic_get_empty_t
  | Basic_ack amqp_basic_ack_t
  | Basic_reject amqp_basic_reject_t
  | Basic_recover_async amqp_basic_recover_async_t
  | Basic_recover amqp_basic_recover_t
  | Basic_recover_ok
  | Basic_nack amqp_basic_nack_t
  | Tx_select
  | Tx_select_ok
  | Tx_commit
  | Tx_commit_ok
  | Tx_rollback
  | Tx_rollback_ok
  | Confirm_select amqp_confirm_select_t
  | Confirm_select_ok

primrec method_number :: "amqp_method \<Rightarrow> u32" where
  "method_number (Connection_start m) = AMQP_CONNECTION_START_METHOD"
| "method_number (Connection_start_ok m) = AMQP_CONNECTION_START_OK_METHOD"
| "method_number (Connection_secure m) = AMQP_CONNECTION_SECURE_METHOD"
| "method_number (Connection_secure_ok m) = AMQP_CONNECTION_SECURE_OK_METHOD"
| "method_number (Connection_tune m) = AMQP_CONNECTION_TUNE_METHOD"
| "method_number (Connection_tune_ok m) = AMQP_CONNECTION_TUNE_OK_METHOD"
| "method_number (Connection_open m) = AMQP_CONNECTION_OPEN_METHOD"
| "method_number (Connection_open_ok m) = AMQP_CONNECTION_OPEN_OK_METHOD"
| "method_number (Connection_close m) = AMQP_CONNECTION_CLOSE_METHOD"
| "method_number Connection_close_ok = AMQP_CONNECTION_CLOSE_OK_METHOD"
| "method_number (Connection_blocked m) = AMQP_CONNECTION_BLOCKED_METHOD"
| "method_number Connection_unblocked = AMQP_CONNECTION_UNBLOCKED_METHOD"
| "method_number (Channel_open m) = AMQP_CHANNEL_OPEN_METHOD"
| "method_number (Channel_open_ok m) = AMQP_CHANNEL_OPEN_OK_METHOD"
| "method_number (Channel_flow m) = AMQP_CHANNEL_FLOW_METHOD"
| "method_number (Channel_flow_ok m) = AMQP_CHANNEL_FLOW_OK_METHOD"
| "method_number (Channel_close m) = AMQP_CHANNEL_CLOSE_METHOD"
| "method_number Channel_close_ok = AMQP_CHANNEL_CLOSE_OK_METHOD"
| "method_number (Access_request m) = AMQP_ACCESS_REQUEST_METHOD"
| "method_number (Access_request_ok m) = AMQP_ACCESS_REQUEST_OK_METHOD"
| "method_number (Exchange_declare m) = AMQP_EXCHANGE_DECLARE_METHOD"
| "method_number Exchange_declare_ok = AMQP_EXCHANGE_DECLARE_OK_METHOD"
| "method_number (Exchange_delete m) = AMQP_EXCHANGE_DELETE_METHOD"
| "method_number Exchange_delete_ok = AMQP_EXCHANGE_DELETE_OK_METHOD"
| "method_number (Exchange_bind m) = AMQP_EXCHANGE_BIND_METHOD"
| "method_number Exchange_bind_ok = AMQP_EXCHANGE_BIND_OK_METHOD"
| "method_number (Exchange_unbind m) = AMQP_EXCHANGE_UNBIND_METHOD"
| "method_number Exchange_unbind_ok = AMQP_EXCHANGE_UNBIND_OK_METHOD"
| "method_number (Queue_declare m) = AMQP_QUEUE_DECLARE_METHOD"
| "method_number (Queue_declare_ok m) = AMQP_QUEUE_DECLARE_OK_METHOD"
| "method_number (Queue_bind m) = AMQP_QUEUE_BIND_METHOD"
| "method_number Queue_bind_ok = AMQP_QUEUE_BIND_OK_METHOD"
| "method_number (Queue_purge m) = AMQP_QUEUE_PURGE_METHOD"
| "method_number (Queue_purge_ok m) = AMQP_QUEUE_PURGE_OK_METHOD"
| "method_number (Queue_delete m) = AMQP_QUEUE_DELETE_METHOD"
| "method_number (Queue_delete_ok m) = AMQP_QUEUE_DELETE_OK_METHOD"
| "method_number (Queue_unbind m) = AMQP_QUEUE_UNBIND_METHOD"
| "method_number Queue_unbind_ok = AMQP_QUEUE_UNBIND_OK_METHOD"
| "method_number (Basic_qos m) = AMQP_BASIC_QOS_METHOD"
| "method_number Basic_qos_ok = AMQP_BASIC_QOS_OK_METHOD"
| "method_number (Basic_consume m) = AMQP_BASIC_CONSUME_METHOD"
| "method_number (Basic_consume_ok m) = AMQP_BASIC_CONSUME_OK_METHOD"
| "method_number (Basic_cancel m) = AMQP_BASIC_CANCEL_METHOD"
| "method_number (Basic_cancel_ok m) = AMQP_BASIC_CANCEL_OK_METHOD"
| "method_number (Basic_publish m) = AMQP_BASIC_PUBLISH_METHOD"
| "method_number (Basic_return m) = AMQP_BASIC_RETURN_METHOD"
| "method_number (Basic_deliver m) = AMQP_BASIC_DELIVER_METHOD"
| "method_number (Basic_get m) = AMQP_BASIC_GET_METHOD"
| "method_number (Basic_get_ok m) = AMQP_BASIC_GET_OK_METHOD"
| "method_number (Basic_get_empty m) = AMQP_BASIC_GET_EMPTY_METHOD"
| "method_number (Basic_ack m) = AMQP_BASIC_ACK_METHOD"
| "method_number (Basic_reject m) = AMQP_BASIC_REJECT_METHOD"
| "method_number (Basic_recover_async m) = AMQP_BASIC_RECOVER_ASYNC_METHOD"
| "method_number (Basic_recover m) = AMQP_BASIC_RECOVER_METHOD"
| "method_number Basic_recover_ok = AMQP_BASIC_RECOVER_OK_METHOD"
| "method_number (Basic_nack m) = AMQP_BASIC_NACK_METHOD"
| "method_number Tx_select = AMQP_TX_SELECT_METHOD"
| "method_number Tx_select_ok = AMQP_TX_SELECT_OK_METHOD"
| "method_number Tx_commit = AMQP_TX_COMMIT_METHOD"
| "method_number Tx_commit_ok = AMQP_TX_COMMIT_OK_METHOD"
| "method_number Tx_rollback = AMQP_TX_ROLLBACK_METHOD"
| "method_number Tx_rollback_ok = AMQP_TX_ROLLBACK_OK_METHOD"
| "method_number (Confirm_select m) = AMQP_CONFIRM_SELECT_METHOD"
| "method_number Confirm_select_ok = AMQP_CONFIRM_SELECT_OK_METHOD"

definition amqp_method_name :: "u32 \<Rightarrow> string option" where
  "amqp_method_name methodNumber =
     (if methodNumber = AMQP_CONNECTION_START_METHOD then Some ''AMQP_CONNECTION_START_METHOD''
      else if methodNumber = AMQP_CONNECTION_START_OK_METHOD then Some ''AMQP_CONNECTION_START_OK_METHOD''
      else if methodNumber = AMQP_CONNECTION_SECURE_METHOD then Some ''AMQP_CONNECTION_SECURE_METHOD''
      else if methodNumber = AMQP_CONNECTION_SECURE_OK_METHOD then Some ''AMQP_CONNECTION_SECURE_OK_METHOD''
      else if methodNumber = AMQP_CONNECTION_TUNE_METHOD then Some ''AMQP_CONNECTION_TUNE_METHOD''
      else if methodNumber = AMQP_CONNECTION_TUNE_OK_METHOD then Some ''AMQP_CONNECTION_TUNE_OK_METHOD''
      else if methodNumber = AMQP_CONNECTION_OPEN_METHOD then Some ''AMQP_CONNECTION_OPEN_METHOD''
      else if methodNumber = AMQP_CONNECTION_OPEN_OK_METHOD then Some ''AMQP_CONNECTION_OPEN_OK_METHOD''
      else if methodNumber = AMQP_CONNECTION_CLOSE_METHOD then Some ''AMQP_CONNECTION_CLOSE_METHOD''
      else if methodNumber = AMQP_CONNECTION_CLOSE_OK_METHOD then Some ''AMQP_CONNECTION_CLOSE_OK_METHOD''
      else if methodNumber = AMQP_CONNECTION_BLOCKED_METHOD then Some ''AMQP_CONNECTION_BLOCKED_METHOD''
      else if methodNumber = AMQP_CONNECTION_UNBLOCKED_METHOD then Some ''AMQP_CONNECTION_UNBLOCKED_METHOD''
      else if methodNumber = AMQP_CHANNEL_OPEN_METHOD then Some ''AMQP_CHANNEL_OPEN_METHOD''
      else if methodNumber = AMQP_CHANNEL_OPEN_OK_METHOD then Some ''AMQP_CHANNEL_OPEN_OK_METHOD''
      else if methodNumber = AMQP_CHANNEL_FLOW_METHOD then Some ''AMQP_CHANNEL_FLOW_METHOD''
      else if methodNumber = AMQP_CHANNEL_FLOW_OK_METHOD then Some ''AMQP_CHANNEL_FLOW_OK_METHOD''
      else if methodNumber = AMQP_CHANNEL_CLOSE_METHOD then Some ''AMQP_CHANNEL_CLOSE_METHOD''
      else if methodNumber = AMQP_CHANNEL_CLOSE_OK_METHOD then Some ''AMQP_CHANNEL_CLOSE_OK_METHOD''
      else if methodNumber = AMQP_ACCESS_REQUEST_METHOD then Some ''AMQP_ACCESS_REQUEST_METHOD''
      else if methodNumber = AMQP_ACCESS_REQUEST_OK_METHOD then Some ''AMQP_ACCESS_REQUEST_OK_METHOD''
      else if methodNumber = AMQP_EXCHANGE_DECLARE_METHOD then Some ''AMQP_EXCHANGE_DECLARE_METHOD''
      else if methodNumber = AMQP_EXCHANGE_DECLARE_OK_METHOD then Some ''AMQP_EXCHANGE_DECLARE_OK_METHOD''
      else if methodNumber = AMQP_EXCHANGE_DELETE_METHOD then Some ''AMQP_EXCHANGE_DELETE_METHOD''
      else if methodNumber = AMQP_EXCHANGE_DELETE_OK_METHOD then Some ''AMQP_EXCHANGE_DELETE_OK_METHOD''
      else if methodNumber = AMQP_EXCHANGE_BIND_METHOD then Some ''AMQP_EXCHANGE_BIND_METHOD''
      else if methodNumber = AMQP_EXCHANGE_BIND_OK_METHOD then Some ''AMQP_EXCHANGE_BIND_OK_METHOD''
      else if methodNumber = AMQP_EXCHANGE_UNBIND_METHOD then Some ''AMQP_EXCHANGE_UNBIND_METHOD''
      else if methodNumber = AMQP_EXCHANGE_UNBIND_OK_METHOD then Some ''AMQP_EXCHANGE_UNBIND_OK_METHOD''
      else if methodNumber = AMQP_QUEUE_DECLARE_METHOD then Some ''AMQP_QUEUE_DECLARE_METHOD''
      else if methodNumber = AMQP_QUEUE_DECLARE_OK_METHOD then Some ''AMQP_QUEUE_DECLARE_OK_METHOD''
      else if methodNumber = AMQP_QUEUE_BIND_METHOD then Some ''AMQP_QUEUE_BIND_METHOD''
      else if methodNumber = AMQP_QUEUE_BIND_OK_METHOD then Some ''AMQP_QUEUE_BIND_OK_METHOD''
      else if methodNumber = AMQP_QUEUE_PURGE_METHOD then Some ''AMQP_QUEUE_PURGE_METHOD''
      else if methodNumber = AMQP_QUEUE_PURGE_OK_METHOD then Some ''AMQP_QUEUE_PURGE_OK_METHOD''
      else if methodNumber = AMQP_QUEUE_DELETE_METHOD then Some ''AMQP_QUEUE_DELETE_METHOD''
      else if methodNumber = AMQP_QUEUE_DELETE_OK_METHOD then Some ''AMQP_QUEUE_DELETE_OK_METHOD''
      else if methodNumber = AMQP_QUEUE_UNBIND_METHOD then Some ''AMQP_QUEUE_UNBIND_METHOD''
      else if methodNumber = AMQP_QUEUE_UNBIND_OK_METHOD then Some ''AMQP_QUEUE_UNBIND_OK_METHOD''
      else if methodNumber = AMQP_BASIC_QOS_METHOD then Some ''AMQP_BASIC_QOS_METHOD''
      else if methodNumber = AMQP_BASIC_QOS_OK_METHOD then Some ''AMQP_BASIC_QOS_OK_METHOD''
      else if methodNumber = AMQP_BASIC_CONSUME_METHOD then Some ''AMQP_BASIC_CONSUME_METHOD''
      else if methodNumber = AMQP_BASIC_CONSUME_OK_METHOD then Some ''AMQP_BASIC_CONSUME_OK_METHOD''
      else if methodNumber = AMQP_BASIC_CANCEL_METHOD then Some ''AMQP_BASIC_CANCEL_METHOD''
      else if methodNumber = AMQP_BASIC_CANCEL_OK_METHOD then Some ''AMQP_BASIC_CANCEL_OK_METHOD''
      else if methodNumber = AMQP_BASIC_PUBLISH_METHOD then Some ''AMQP_BASIC_PUBLISH_METHOD''
      else if methodNumber = AMQP_BASIC_RETURN_METHOD then Some ''AMQP_BASIC_RETURN_METHOD''
      else if methodNumber = AMQP_BASIC_DELIVER_METHOD then Some ''AMQP_BASIC_DELIVER_METHOD''
      else if methodNumber = AMQP_BASIC_GET_METHOD then Some ''AMQP_BASIC_GET_METHOD''
      else if methodNumber = AMQP_BASIC_GET_OK_METHOD then Some ''AMQP_BASIC_GET_OK_METHOD''
      else if methodNumber = AMQP_BASIC_GET_EMPTY_METHOD then Some ''AMQP_BASIC_GET_EMPTY_METHOD''
      else if methodNumber = AMQP_BASIC_ACK_METHOD then Some ''AMQP_BASIC_ACK_METHOD''
      else if methodNumber = AMQP_BASIC_REJECT_METHOD then Some ''AMQP_BASIC_REJECT_METHOD''
      else if methodNumber = AMQP_BASIC_RECOVER_ASYNC_METHOD then Some ''AMQP_BASIC_RECOVER_ASYNC_METHOD''
      else if methodNumber = AMQP_BASIC_RECOVER_METHOD then Some ''AMQP_BASIC_RECOVER_METHOD''
      else if methodNumber = AMQP_BASIC_RECOVER_OK_METHOD then Some ''AMQP_BASIC_RECOVER_OK_METHOD''
      else if methodNumber = AMQP_BASIC_NACK_METHOD then Some ''AMQP_BASIC_NACK_METHOD''
      else if methodNumber = AMQP_TX_SELECT_METHOD then Some ''AMQP_TX_SELECT_METHOD''
      else if methodNumber = AMQP_TX_SELECT_OK_METHOD then Some ''AMQP_TX_SELECT_OK_METHOD''
      else if methodNumber = AMQP_TX_COMMIT_METHOD then Some ''AMQP_TX_COMMIT_METHOD''
      else if methodNumber = AMQP_TX_COMMIT_OK_METHOD then Some ''AMQP_TX_COMMIT_OK_METHOD''
      else if methodNumber = AMQP_TX_ROLLBACK_METHOD then Some ''AMQP_TX_ROLLBACK_METHOD''
      else if methodNumber = AMQP_TX_ROLLBACK_OK_METHOD then Some ''AMQP_TX_ROLLBACK_OK_METHOD''
      else if methodNumber = AMQP_CONFIRM_SELECT_METHOD then Some ''AMQP_CONFIRM_SELECT_METHOD''
      else if methodNumber = AMQP_CONFIRM_SELECT_OK_METHOD then Some ''AMQP_CONFIRM_SELECT_OK_METHOD''
      else None)"

definition amqp_method_has_content :: "u32 \<Rightarrow> bool" where
  "amqp_method_has_content methodNumber =
     (if methodNumber = AMQP_BASIC_PUBLISH_METHOD then True
      else if methodNumber = AMQP_BASIC_RETURN_METHOD then True
      else if methodNumber = AMQP_BASIC_DELIVER_METHOD then True
      else if methodNumber = AMQP_BASIC_GET_OK_METHOD then True
      else False)"

section \<open>Constants\<close>

named_theorems amqp_constants

definition AMQP_FRAME_METHOD :: int where [amqp_constants]: "AMQP_FRAME_METHOD = 1"
definition AMQP_FRAME_HEADER :: int where [amqp_constants]: "AMQP_FRAME_HEADER = 2"
definition AMQP_FRAME_BODY :: int where [amqp_constants]: "AMQP_FRAME_BODY = 3"
definition AMQP_FRAME_HEARTBEAT :: int where [amqp_constants]: "AMQP_FRAME_HEARTBEAT = 8"
definition AMQP_FRAME_MIN_SIZE :: int where [amqp_constants]: "AMQP_FRAME_MIN_SIZE = 4096"
definition AMQP_FRAME_END :: int where [amqp_constants]: "AMQP_FRAME_END = 206"
definition AMQP_REPLY_SUCCESS :: int where [amqp_constants]: "AMQP_REPLY_SUCCESS = 200"
definition AMQP_CONTENT_TOO_LARGE :: int where [amqp_constants]: "AMQP_CONTENT_TOO_LARGE = 311"
definition AMQP_NO_ROUTE :: int where [amqp_constants]: "AMQP_NO_ROUTE = 312"
definition AMQP_NO_CONSUMERS :: int where [amqp_constants]: "AMQP_NO_CONSUMERS = 313"
definition AMQP_ACCESS_REFUSED :: int where [amqp_constants]: "AMQP_ACCESS_REFUSED = 403"
definition AMQP_NOT_FOUND :: int where [amqp_constants]: "AMQP_NOT_FOUND = 404"
definition AMQP_RESOURCE_LOCKED :: int where [amqp_constants]: "AMQP_RESOURCE_LOCKED = 405"
definition AMQP_PRECONDITION_FAILED :: int where [amqp_constants]: "AMQP_PRECONDITION_FAILED = 406"
definition AMQP_CONNECTION_FORCED :: int where [amqp_constants]: "AMQP_CONNECTION_FORCED = 320"
definition AMQP_INVALID_PATH :: int where [amqp_constants]: "AMQP_INVALID_PATH = 402"
definition AMQP_FRAME_ERROR :: int where [amqp_constants]: "AMQP_FRAME_ERROR = 501"
definition AMQP_SYNTAX_ERROR :: int where [amqp_constants]: "AMQP_SYNTAX_ERROR = 502"
definition AMQP_COMMAND_INVALID :: int where [amqp_constants]: "AMQP_COMMAND_INVALID = 503"
definition AMQP_CHANNEL_ERROR :: int where [amqp_constants]: "AMQP_CHANNEL_ERROR = 504"
definition AMQP_UNEXPECTED_FRAME :: int where [amqp_constants]: "AMQP_UNEXPECTED_FRAME = 505"
definition AMQP_RESOURCE_ERROR :: int where [amqp_constants]: "AMQP_RESOURCE_ERROR = 506"
definition AMQP_NOT_ALLOWED :: int where [amqp_constants]: "AMQP_NOT_ALLOWED = 530"
definition AMQP_NOT_IMPLEMENTED :: int where [amqp_constants]: "AMQP_NOT_IMPLEMENTED = 540"
definition AMQP_INTERNAL_ERROR :: int where [amqp_constants]: "AMQP_INTERNAL_ERROR = 541"

definition amqp_constant_name :: "int \<Rightarrow> string" where
  "amqp_constant_name constantNumber =
     (if constantNumber = AMQP_FRAME_METHOD then ''AMQP_FRAME_METHOD''
      else if constantNumber = AMQP_FRAME_HEADER then ''AMQP_FRAME_HEADER''
      else if constantNumber = AMQP_FRAME_BODY then ''AMQP_FRAME_BODY''
      else if constantNumber = AMQP_FRAME_HEARTBEAT then ''AMQP_FRAME_HEARTBEAT''
      else if constantNumber = AMQP_FRAME_MIN_SIZE then ''AMQP_FRAME_MIN_SIZE''
      else if constantNumber = AMQP_FRAME_END then ''AMQP_FRAME_END''
      else if constantNumber = AMQP_REPLY_SUCCESS then ''AMQP_REPLY_SUCCESS''
      else if constantNumber = AMQP_CONTENT_TOO_LARGE then ''AMQP_CONTENT_TOO_LARGE''
      else if constantNumber = AMQP_NO_ROUTE then ''AMQP_NO_ROUTE''
      else if constantNumber = AMQP_NO_CONSUMERS then ''AMQP_NO_CONSUMERS''
      else if constantNumber = AMQP_ACCESS_REFUSED then ''AMQP_ACCESS_REFUSED''
      else if constantNumber = AMQP_NOT_FOUND then ''AMQP_NOT_FOUND''
      else if constantNumber = AMQP_RESOURCE_LOCKED then ''AMQP_RESOURCE_LOCKED''
      else if constantNumber = AMQP_PRECONDITION_FAILED then ''AMQP_PRECONDITION_FAILED''
      else if constantNumber = AMQP_CONNECTION_FORCED then ''AMQP_CONNECTION_FORCED''
      else if constantNumber = AMQP_INVALID_PATH then ''AMQP_INVALID_PATH''
      else if constantNumber = AMQP_FRAME_ERROR then ''AMQP_FRAME_ERROR''
      else if constantNumber = AMQP_SYNTAX_ERROR then ''AMQP_SYNTAX_ERROR''
      else if constantNumber = AMQP_COMMAND_INVALID then ''AMQP_COMMAND_INVALID''
      else if constantNumber = AMQP_CHANNEL_ERROR then ''AMQP_CHANNEL_ERROR''
      else if constantNumber = AMQP_UNEXPECTED_FRAME then ''AMQP_UNEXPECTED_FRAME''
      else if constantNumber = AMQP_RESOURCE_ERROR then ''AMQP_RESOURCE_ERROR''
      else if constantNumber = AMQP_NOT_ALLOWED then ''AMQP_NOT_ALLOWED''
      else if constantNumber = AMQP_NOT_IMPLEMENTED then ''AMQP_NOT_IMPLEMENTED''
      else if constantNumber = AMQP_INTERNAL_ERROR then ''AMQP_INTERNAL_ERROR''
      else ''(unknown)'')"

definition amqp_constant_is_hard_error :: "int \<Rightarrow> bool" where
  "amqp_constant_is_hard_error constantNumber =
     (if constantNumber = AMQP_CONNECTION_FORCED then True
      else if constantNumber = AMQP_INVALID_PATH then True
      else if constantNumber = AMQP_FRAME_ERROR then True
      else if constantNumber = AMQP_SYNTAX_ERROR then True
      else if constantNumber = AMQP_COMMAND_INVALID then True
      else if constantNumber = AMQP_CHANNEL_ERROR then True
      else if constantNumber = AMQP_UNEXPECTED_FRAME then True
      else if constantNumber = AMQP_RESOURCE_ERROR then True
      else if constantNumber = AMQP_NOT_ALLOWED then True
      else if constantNumber = AMQP_NOT_IMPLEMENTED then True
      else if constantNumber = AMQP_INTERNAL_ERROR then True
      else False)"

end
