(* ===== verification/Amqp_Decode.thy ===== *)
theory Amqp_Decode
  imports Amqp_Methods
begin

text \<open>
  Decoding methods: \<open>amqp_decode_method\<close> of \<open>src/src/rabbitmq-c/amqp_framing.c\<close>. There is a
  definition for each case of its switch that reads something. \<open>al\<close> says which requests for
  memory the pool grants; the sizes are those of the structures on a 64-bit machine.
\<close>

unbundle bit_operations_syntax

definition pool_alloc :: "(nat \<Rightarrow> bool) \<Rightarrow> nat \<Rightarrow> (nat, amqp_status, unit) est" where
  "pool_alloc al amount = (if al amount then returnE () else throwE AMQP_STATUS_NO_MEMORY)"

definition dec_short :: "bytes dec" where
  "dec_short enc = bindE (dec8 enc) (\<lambda>len. decbytes (unat len) enc)"

definition dec_long :: "bytes dec" where
  "dec_long enc = bindE (dec32 enc) (\<lambda>len. decbytes (unat len) enc)"

definition flag :: "u8 \<Rightarrow> nat \<Rightarrow> bool" where
  "flag bit_buffer i \<longleftrightarrow> bit_buffer AND push_bit i 1 \<noteq> 0"

definition as_method :: "('m \<Rightarrow> amqp_method) \<Rightarrow> 'm dec \<Rightarrow> amqp_method dec" where
  "as_method c d enc = bindE (d enc) (\<lambda>m. returnE (c m))"

section \<open>One method at a time\<close>


definition decode_connection_start :: "(nat \<Rightarrow> bool) \<Rightarrow> amqp_connection_start_t dec" where
  "decode_connection_start al enc =
     bindE (pool_alloc al 56) (\<lambda>_.
     bindE (dec8 enc) (\<lambda>version_major.
     bindE (dec8 enc) (\<lambda>version_minor.
     bindE (amqp_decode_table al enc) (\<lambda>server_properties.
     bindE (dec_long enc) (\<lambda>mechanisms.
     bindE (dec_long enc) (\<lambda>locales.
     returnE \<lparr>amqp_connection_start_t.version_major = version_major,
       amqp_connection_start_t.version_minor = version_minor,
       amqp_connection_start_t.server_properties = server_properties,
       amqp_connection_start_t.mechanisms = mechanisms,
       amqp_connection_start_t.locales = locales\<rparr>))))))"

definition decode_connection_start_ok :: "(nat \<Rightarrow> bool) \<Rightarrow> amqp_connection_start_ok_t dec" where
  "decode_connection_start_ok al enc =
     bindE (pool_alloc al 64) (\<lambda>_.
     bindE (amqp_decode_table al enc) (\<lambda>client_properties.
     bindE (dec_short enc) (\<lambda>mechanism.
     bindE (dec_long enc) (\<lambda>response.
     bindE (dec_short enc) (\<lambda>locale.
     returnE \<lparr>amqp_connection_start_ok_t.client_properties = client_properties,
       amqp_connection_start_ok_t.mechanism = mechanism,
       amqp_connection_start_ok_t.response = response,
       amqp_connection_start_ok_t.locale = locale\<rparr>)))))"

definition decode_connection_secure :: "(nat \<Rightarrow> bool) \<Rightarrow> amqp_connection_secure_t dec" where
  "decode_connection_secure al enc =
     bindE (pool_alloc al 16) (\<lambda>_.
     bindE (dec_long enc) (\<lambda>challenge.
     returnE \<lparr>amqp_connection_secure_t.challenge = challenge\<rparr>))"

definition decode_connection_secure_ok :: "(nat \<Rightarrow> bool) \<Rightarrow> amqp_connection_secure_ok_t dec" where
  "decode_connection_secure_ok al enc =
     bindE (pool_alloc al 16) (\<lambda>_.
     bindE (dec_long enc) (\<lambda>response.
     returnE \<lparr>amqp_connection_secure_ok_t.response = response\<rparr>))"

definition decode_connection_tune :: "(nat \<Rightarrow> bool) \<Rightarrow> amqp_connection_tune_t dec" where
  "decode_connection_tune al enc =
     bindE (pool_alloc al 12) (\<lambda>_.
     bindE (dec16 enc) (\<lambda>channel_max.
     bindE (dec32 enc) (\<lambda>frame_max.
     bindE (dec16 enc) (\<lambda>heartbeat.
     returnE \<lparr>amqp_connection_tune_t.channel_max = channel_max,
       amqp_connection_tune_t.frame_max = frame_max,
       amqp_connection_tune_t.heartbeat = heartbeat\<rparr>))))"

definition decode_connection_tune_ok :: "(nat \<Rightarrow> bool) \<Rightarrow> amqp_connection_tune_ok_t dec" where
  "decode_connection_tune_ok al enc =
     bindE (pool_alloc al 12) (\<lambda>_.
     bindE (dec16 enc) (\<lambda>channel_max.
     bindE (dec32 enc) (\<lambda>frame_max.
     bindE (dec16 enc) (\<lambda>heartbeat.
     returnE \<lparr>amqp_connection_tune_ok_t.channel_max = channel_max,
       amqp_connection_tune_ok_t.frame_max = frame_max,
       amqp_connection_tune_ok_t.heartbeat = heartbeat\<rparr>))))"

definition decode_connection_open :: "(nat \<Rightarrow> bool) \<Rightarrow> amqp_connection_open_t dec" where
  "decode_connection_open al enc =
     bindE (pool_alloc al 40) (\<lambda>_.
     bindE (dec_short enc) (\<lambda>virtual_host.
     bindE (dec_short enc) (\<lambda>capabilities.
     bindE (dec8 enc) (\<lambda>bit_buffer.
     returnE \<lparr>amqp_connection_open_t.virtual_host = virtual_host,
       amqp_connection_open_t.capabilities = capabilities,
       amqp_connection_open_t.insist = flag bit_buffer 0\<rparr>))))"

definition decode_connection_open_ok :: "(nat \<Rightarrow> bool) \<Rightarrow> amqp_connection_open_ok_t dec" where
  "decode_connection_open_ok al enc =
     bindE (pool_alloc al 16) (\<lambda>_.
     bindE (dec_short enc) (\<lambda>known_hosts.
     returnE \<lparr>amqp_connection_open_ok_t.known_hosts = known_hosts\<rparr>))"

definition decode_connection_close :: "(nat \<Rightarrow> bool) \<Rightarrow> amqp_connection_close_t dec" where
  "decode_connection_close al enc =
     bindE (pool_alloc al 32) (\<lambda>_.
     bindE (dec16 enc) (\<lambda>reply_code.
     bindE (dec_short enc) (\<lambda>reply_text.
     bindE (dec16 enc) (\<lambda>class_id.
     bindE (dec16 enc) (\<lambda>method_id.
     returnE \<lparr>amqp_connection_close_t.reply_code = reply_code,
       amqp_connection_close_t.reply_text = reply_text,
       amqp_connection_close_t.class_id = class_id,
       amqp_connection_close_t.method_id = method_id\<rparr>)))))"

definition decode_connection_blocked :: "(nat \<Rightarrow> bool) \<Rightarrow> amqp_connection_blocked_t dec" where
  "decode_connection_blocked al enc =
     bindE (pool_alloc al 16) (\<lambda>_.
     bindE (dec_short enc) (\<lambda>reason.
     returnE \<lparr>amqp_connection_blocked_t.reason = reason\<rparr>))"

definition decode_channel_open :: "(nat \<Rightarrow> bool) \<Rightarrow> amqp_channel_open_t dec" where
  "decode_channel_open al enc =
     bindE (pool_alloc al 16) (\<lambda>_.
     bindE (dec_short enc) (\<lambda>out_of_band.
     returnE \<lparr>amqp_channel_open_t.out_of_band = out_of_band\<rparr>))"

definition decode_channel_open_ok :: "(nat \<Rightarrow> bool) \<Rightarrow> amqp_channel_open_ok_t dec" where
  "decode_channel_open_ok al enc =
     bindE (pool_alloc al 16) (\<lambda>_.
     bindE (dec_long enc) (\<lambda>channel_id.
     returnE \<lparr>amqp_channel_open_ok_t.channel_id = channel_id\<rparr>))"

definition decode_channel_flow :: "(nat \<Rightarrow> bool) \<Rightarrow> amqp_channel_flow_t dec" where
  "decode_channel_flow al enc =
     bindE (pool_alloc al 4) (\<lambda>_.
     bindE (dec8 enc) (\<lambda>bit_buffer.
     returnE \<lparr>amqp_channel_flow_t.active = flag bit_buffer 0\<rparr>))"

definition decode_channel_flow_ok :: "(nat \<Rightarrow> bool) \<Rightarrow> amqp_channel_flow_ok_t dec" where
  "decode_channel_flow_ok al enc =
     bindE (pool_alloc al 4) (\<lambda>_.
     bindE (dec8 enc) (\<lambda>bit_buffer.
     returnE \<lparr>amqp_channel_flow_ok_t.active = flag bit_buffer 0\<rparr>))"

definition decode_channel_close :: "(nat \<Rightarrow> bool) \<Rightarrow> amqp_channel_close_t dec" where
  "decode_channel_close al enc =
     bindE (pool_alloc al 32) (\<lambda>_.
     bindE (dec16 enc) (\<lambda>reply_code.
     bindE (dec_short enc) (\<lambda>reply_text.
     bindE (dec16 enc) (\<lambda>class_id.
     bindE (dec16 enc) (\<lambda>method_id.
     returnE \<lparr>amqp_channel_close_t.reply_code = reply_code,
       amqp_channel_close_t.reply_text = reply_text,
       amqp_channel_close_t.class_id = class_id,
       amqp_channel_close_t.method_id = method_id\<rparr>)))))"

definition decode_access_request :: "(nat \<Rightarrow> bool) \<Rightarrow> amqp_access_request_t dec" where
  "decode_access_request al enc =
     bindE (pool_alloc al 40) (\<lambda>_.
     bindE (dec_short enc) (\<lambda>realm.
     bindE (dec8 enc) (\<lambda>bit_buffer.
     returnE \<lparr>amqp_access_request_t.realm = realm,
       amqp_access_request_t.exclusive = flag bit_buffer 0,
       amqp_access_request_t.passive = flag bit_buffer 1,
       amqp_access_request_t.active = flag bit_buffer 2,
       amqp_access_request_t.write = flag bit_buffer 3,
       amqp_access_request_t.read = flag bit_buffer 4\<rparr>)))"

definition decode_access_request_ok :: "(nat \<Rightarrow> bool) \<Rightarrow> amqp_access_request_ok_t dec" where
  "decode_access_request_ok al enc =
     bindE (pool_alloc al 2) (\<lambda>_.
     bindE (dec16 enc) (\<lambda>ticket.
     returnE \<lparr>amqp_access_request_ok_t.ticket = ticket\<rparr>))"

definition decode_exchange_declare :: "(nat \<Rightarrow> bool) \<Rightarrow> amqp_exchange_declare_t dec" where
  "decode_exchange_declare al enc =
     bindE (pool_alloc al 80) (\<lambda>_.
     bindE (dec16 enc) (\<lambda>ticket.
     bindE (dec_short enc) (\<lambda>exchange.
     bindE (dec_short enc) (\<lambda>kind.
     bindE (dec8 enc) (\<lambda>bit_buffer.
     bindE (amqp_decode_table al enc) (\<lambda>arguments.
     returnE \<lparr>amqp_exchange_declare_t.ticket = ticket,
       amqp_exchange_declare_t.exchange = exchange,
       amqp_exchange_declare_t.type' = kind,
       amqp_exchange_declare_t.passive = flag bit_buffer 0,
       amqp_exchange_declare_t.durable = flag bit_buffer 1,
       amqp_exchange_declare_t.auto_delete = flag bit_buffer 2,
       amqp_exchange_declare_t.internal = flag bit_buffer 3,
       amqp_exchange_declare_t.nowait = flag bit_buffer 4,
       amqp_exchange_declare_t.arguments = arguments\<rparr>))))))"

definition decode_exchange_delete :: "(nat \<Rightarrow> bool) \<Rightarrow> amqp_exchange_delete_t dec" where
  "decode_exchange_delete al enc =
     bindE (pool_alloc al 32) (\<lambda>_.
     bindE (dec16 enc) (\<lambda>ticket.
     bindE (dec_short enc) (\<lambda>exchange.
     bindE (dec8 enc) (\<lambda>bit_buffer.
     returnE \<lparr>amqp_exchange_delete_t.ticket = ticket,
       amqp_exchange_delete_t.exchange = exchange,
       amqp_exchange_delete_t.if_unused = flag bit_buffer 0,
       amqp_exchange_delete_t.nowait = flag bit_buffer 1\<rparr>))))"

definition decode_exchange_bind :: "(nat \<Rightarrow> bool) \<Rightarrow> amqp_exchange_bind_t dec" where
  "decode_exchange_bind al enc =
     bindE (pool_alloc al 80) (\<lambda>_.
     bindE (dec16 enc) (\<lambda>ticket.
     bindE (dec_short enc) (\<lambda>destination.
     bindE (dec_short enc) (\<lambda>source.
     bindE (dec_short enc) (\<lambda>routing_key.
     bindE (dec8 enc) (\<lambda>bit_buffer.
     bindE (amqp_decode_table al enc) (\<lambda>arguments.
     returnE \<lparr>amqp_exchange_bind_t.ticket = ticket,
       amqp_exchange_bind_t.destination = destination,
       amqp_exchange_bind_t.source = source,
       amqp_exchange_bind_t.routing_key = routing_key,
       amqp_exchange_bind_t.nowait = flag bit_buffer 0,
       amqp_exchange_bind_t.arguments = arguments\<rparr>)))))))"

definition decode_exchange_unbind :: "(nat \<Rightarrow> bool) \<Rightarrow> amqp_exchange_unbind_t dec" where
  "decode_exchange_unbind al enc =
     bindE (pool_alloc al 80) (\<lambda>_.
     bindE (dec16 enc) (\<lambda>ticket.
     bindE (dec_short enc) (\<lambda>destination.
     bindE (dec_short enc) (\<lambda>source.
     bindE (dec_short enc) (\<lambda>routing_key.
     bindE (dec8 enc) (\<lambda>bit_buffer.
     bindE (amqp_decode_table al enc) (\<lambda>arguments.
     returnE \<lparr>amqp_exchange_unbind_t.ticket = ticket,
       amqp_exchange_unbind_t.destination = destination,
       amqp_exchange_unbind_t.source = source,
       amqp_exchange_unbind_t.routing_key = routing_key,
       amqp_exchange_unbind_t.nowait = flag bit_buffer 0,
       amqp_exchange_unbind_t.arguments = arguments\<rparr>)))))))"

definition decode_queue_declare :: "(nat \<Rightarrow> bool) \<Rightarrow> amqp_queue_declare_t dec" where
  "decode_queue_declare al enc =
     bindE (pool_alloc al 64) (\<lambda>_.
     bindE (dec16 enc) (\<lambda>ticket.
     bindE (dec_short enc) (\<lambda>queue.
     bindE (dec8 enc) (\<lambda>bit_buffer.
     bindE (amqp_decode_table al enc) (\<lambda>arguments.
     returnE \<lparr>amqp_queue_declare_t.ticket = ticket,
       amqp_queue_declare_t.queue = queue,
       amqp_queue_declare_t.passive = flag bit_buffer 0,
       amqp_queue_declare_t.durable = flag bit_buffer 1,
       amqp_queue_declare_t.exclusive = flag bit_buffer 2,
       amqp_queue_declare_t.auto_delete = flag bit_buffer 3,
       amqp_queue_declare_t.nowait = flag bit_buffer 4,
       amqp_queue_declare_t.arguments = arguments\<rparr>)))))"

definition decode_queue_declare_ok :: "(nat \<Rightarrow> bool) \<Rightarrow> amqp_queue_declare_ok_t dec" where
  "decode_queue_declare_ok al enc =
     bindE (pool_alloc al 24) (\<lambda>_.
     bindE (dec_short enc) (\<lambda>queue.
     bindE (dec32 enc) (\<lambda>message_count.
     bindE (dec32 enc) (\<lambda>consumer_count.
     returnE \<lparr>amqp_queue_declare_ok_t.queue = queue,
       amqp_queue_declare_ok_t.message_count = message_count,
       amqp_queue_declare_ok_t.consumer_count = consumer_count\<rparr>))))"

definition decode_queue_bind :: "(nat \<Rightarrow> bool) \<Rightarrow> amqp_queue_bind_t dec" where
  "decode_queue_bind al enc =
     bindE (pool_alloc al 80) (\<lambda>_.
     bindE (dec16 enc) (\<lambda>ticket.
     bindE (dec_short enc) (\<lambda>queue.
     bindE (dec_short enc) (\<lambda>exchange.
     bindE (dec_short enc) (\<lambda>routing_key.
     bindE (dec8 enc) (\<lambda>bit_buffer.
     bindE (amqp_decode_table al enc) (\<lambda>arguments.
     returnE \<lparr>amqp_queue_bind_t.ticket = ticket,
       amqp_queue_bind_t.queue = queue,
       amqp_queue_bind_t.exchange = exchange,
       amqp_queue_bind_t.routing_key = routing_key,
       amqp_queue_bind_t.nowait = flag bit_buffer 0,
       amqp_queue_bind_t.arguments = arguments\<rparr>)))))))"

definition decode_queue_purge :: "(nat \<Rightarrow> bool) \<Rightarrow> amqp_queue_purge_t dec" where
  "decode_queue_purge al enc =
     bindE (pool_alloc al 32) (\<lambda>_.
     bindE (dec16 enc) (\<lambda>ticket.
     bindE (dec_short enc) (\<lambda>queue.
     bindE (dec8 enc) (\<lambda>bit_buffer.
     returnE \<lparr>amqp_queue_purge_t.ticket = ticket,
       amqp_queue_purge_t.queue = queue,
       amqp_queue_purge_t.nowait = flag bit_buffer 0\<rparr>))))"

definition decode_queue_purge_ok :: "(nat \<Rightarrow> bool) \<Rightarrow> amqp_queue_purge_ok_t dec" where
  "decode_queue_purge_ok al enc =
     bindE (pool_alloc al 4) (\<lambda>_.
     bindE (dec32 enc) (\<lambda>message_count.
     returnE \<lparr>amqp_queue_purge_ok_t.message_count = message_count\<rparr>))"

definition decode_queue_delete :: "(nat \<Rightarrow> bool) \<Rightarrow> amqp_queue_delete_t dec" where
  "decode_queue_delete al enc =
     bindE (pool_alloc al 40) (\<lambda>_.
     bindE (dec16 enc) (\<lambda>ticket.
     bindE (dec_short enc) (\<lambda>queue.
     bindE (dec8 enc) (\<lambda>bit_buffer.
     returnE \<lparr>amqp_queue_delete_t.ticket = ticket,
       amqp_queue_delete_t.queue = queue,
       amqp_queue_delete_t.if_unused = flag bit_buffer 0,
       amqp_queue_delete_t.if_empty = flag bit_buffer 1,
       amqp_queue_delete_t.nowait = flag bit_buffer 2\<rparr>))))"

definition decode_queue_delete_ok :: "(nat \<Rightarrow> bool) \<Rightarrow> amqp_queue_delete_ok_t dec" where
  "decode_queue_delete_ok al enc =
     bindE (pool_alloc al 4) (\<lambda>_.
     bindE (dec32 enc) (\<lambda>message_count.
     returnE \<lparr>amqp_queue_delete_ok_t.message_count = message_count\<rparr>))"

definition decode_queue_unbind :: "(nat \<Rightarrow> bool) \<Rightarrow> amqp_queue_unbind_t dec" where
  "decode_queue_unbind al enc =
     bindE (pool_alloc al 72) (\<lambda>_.
     bindE (dec16 enc) (\<lambda>ticket.
     bindE (dec_short enc) (\<lambda>queue.
     bindE (dec_short enc) (\<lambda>exchange.
     bindE (dec_short enc) (\<lambda>routing_key.
     bindE (amqp_decode_table al enc) (\<lambda>arguments.
     returnE \<lparr>amqp_queue_unbind_t.ticket = ticket,
       amqp_queue_unbind_t.queue = queue,
       amqp_queue_unbind_t.exchange = exchange,
       amqp_queue_unbind_t.routing_key = routing_key,
       amqp_queue_unbind_t.arguments = arguments\<rparr>))))))"

definition decode_basic_qos :: "(nat \<Rightarrow> bool) \<Rightarrow> amqp_basic_qos_t dec" where
  "decode_basic_qos al enc =
     bindE (pool_alloc al 12) (\<lambda>_.
     bindE (dec32 enc) (\<lambda>prefetch_size.
     bindE (dec16 enc) (\<lambda>prefetch_count.
     bindE (dec8 enc) (\<lambda>bit_buffer.
     returnE \<lparr>amqp_basic_qos_t.prefetch_size = prefetch_size,
       amqp_basic_qos_t.prefetch_count = prefetch_count,
       amqp_basic_qos_t.global = flag bit_buffer 0\<rparr>))))"

definition decode_basic_consume :: "(nat \<Rightarrow> bool) \<Rightarrow> amqp_basic_consume_t dec" where
  "decode_basic_consume al enc =
     bindE (pool_alloc al 72) (\<lambda>_.
     bindE (dec16 enc) (\<lambda>ticket.
     bindE (dec_short enc) (\<lambda>queue.
     bindE (dec_short enc) (\<lambda>consumer_tag.
     bindE (dec8 enc) (\<lambda>bit_buffer.
     bindE (amqp_decode_table al enc) (\<lambda>arguments.
     returnE \<lparr>amqp_basic_consume_t.ticket = ticket,
       amqp_basic_consume_t.queue = queue,
       amqp_basic_consume_t.consumer_tag = consumer_tag,
       amqp_basic_consume_t.no_local = flag bit_buffer 0,
       amqp_basic_consume_t.no_ack = flag bit_buffer 1,
       amqp_basic_consume_t.exclusive = flag bit_buffer 2,
       amqp_basic_consume_t.nowait = flag bit_buffer 3,
       amqp_basic_consume_t.arguments = arguments\<rparr>))))))"

definition decode_basic_consume_ok :: "(nat \<Rightarrow> bool) \<Rightarrow> amqp_basic_consume_ok_t dec" where
  "decode_basic_consume_ok al enc =
     bindE (pool_alloc al 16) (\<lambda>_.
     bindE (dec_short enc) (\<lambda>consumer_tag.
     returnE \<lparr>amqp_basic_consume_ok_t.consumer_tag = consumer_tag\<rparr>))"

definition decode_basic_cancel :: "(nat \<Rightarrow> bool) \<Rightarrow> amqp_basic_cancel_t dec" where
  "decode_basic_cancel al enc =
     bindE (pool_alloc al 24) (\<lambda>_.
     bindE (dec_short enc) (\<lambda>consumer_tag.
     bindE (dec8 enc) (\<lambda>bit_buffer.
     returnE \<lparr>amqp_basic_cancel_t.consumer_tag = consumer_tag,
       amqp_basic_cancel_t.nowait = flag bit_buffer 0\<rparr>)))"

definition decode_basic_cancel_ok :: "(nat \<Rightarrow> bool) \<Rightarrow> amqp_basic_cancel_ok_t dec" where
  "decode_basic_cancel_ok al enc =
     bindE (pool_alloc al 16) (\<lambda>_.
     bindE (dec_short enc) (\<lambda>consumer_tag.
     returnE \<lparr>amqp_basic_cancel_ok_t.consumer_tag = consumer_tag\<rparr>))"

definition decode_basic_publish :: "(nat \<Rightarrow> bool) \<Rightarrow> amqp_basic_publish_t dec" where
  "decode_basic_publish al enc =
     bindE (pool_alloc al 48) (\<lambda>_.
     bindE (dec16 enc) (\<lambda>ticket.
     bindE (dec_short enc) (\<lambda>exchange.
     bindE (dec_short enc) (\<lambda>routing_key.
     bindE (dec8 enc) (\<lambda>bit_buffer.
     returnE \<lparr>amqp_basic_publish_t.ticket = ticket,
       amqp_basic_publish_t.exchange = exchange,
       amqp_basic_publish_t.routing_key = routing_key,
       amqp_basic_publish_t.mandatory = flag bit_buffer 0,
       amqp_basic_publish_t.immediate = flag bit_buffer 1\<rparr>)))))"

definition decode_basic_return :: "(nat \<Rightarrow> bool) \<Rightarrow> amqp_basic_return_t dec" where
  "decode_basic_return al enc =
     bindE (pool_alloc al 56) (\<lambda>_.
     bindE (dec16 enc) (\<lambda>reply_code.
     bindE (dec_short enc) (\<lambda>reply_text.
     bindE (dec_short enc) (\<lambda>exchange.
     bindE (dec_short enc) (\<lambda>routing_key.
     returnE \<lparr>amqp_basic_return_t.reply_code = reply_code,
       amqp_basic_return_t.reply_text = reply_text,
       amqp_basic_return_t.exchange = exchange,
       amqp_basic_return_t.routing_key = routing_key\<rparr>)))))"

definition decode_basic_deliver :: "(nat \<Rightarrow> bool) \<Rightarrow> amqp_basic_deliver_t dec" where
  "decode_basic_deliver al enc =
     bindE (pool_alloc al 64) (\<lambda>_.
     bindE (dec_short enc) (\<lambda>consumer_tag.
     bindE (dec64 enc) (\<lambda>delivery_tag.
     bindE (dec8 enc) (\<lambda>bit_buffer.
     bindE (dec_short enc) (\<lambda>exchange.
     bindE (dec_short enc) (\<lambda>routing_key.
     returnE \<lparr>amqp_basic_deliver_t.consumer_tag = consumer_tag,
       amqp_basic_deliver_t.delivery_tag = delivery_tag,
       amqp_basic_deliver_t.redelivered = flag bit_buffer 0,
       amqp_basic_deliver_t.exchange = exchange,
       amqp_basic_deliver_t.routing_key = routing_key\<rparr>))))))"

definition decode_basic_get :: "(nat \<Rightarrow> bool) \<Rightarrow> amqp_basic_get_t dec" where
  "decode_basic_get al enc =
     bindE (pool_alloc al 32) (\<lambda>_.
     bindE (dec16 enc) (\<lambda>ticket.
     bindE (dec_short enc) (\<lambda>queue.
     bindE (dec8 enc) (\<lambda>bit_buffer.
     returnE \<lparr>amqp_basic_get_t.ticket = ticket,
       amqp_basic_get_t.queue = queue,
       amqp_basic_get_t.no_ack = flag bit_buffer 0\<rparr>))))"

definition decode_basic_get_ok :: "(nat \<Rightarrow> bool) \<Rightarrow> amqp_basic_get_ok_t dec" where
  "decode_basic_get_ok al enc =
     bindE (pool_alloc al 56) (\<lambda>_.
     bindE (dec64 enc) (\<lambda>delivery_tag.
     bindE (dec8 enc) (\<lambda>bit_buffer.
     bindE (dec_short enc) (\<lambda>exchange.
     bindE (dec_short enc) (\<lambda>routing_key.
     bindE (dec32 enc) (\<lambda>message_count.
     returnE \<lparr>amqp_basic_get_ok_t.delivery_tag = delivery_tag,
       amqp_basic_get_ok_t.redelivered = flag bit_buffer 0,
       amqp_basic_get_ok_t.exchange = exchange,
       amqp_basic_get_ok_t.routing_key = routing_key,
       amqp_basic_get_ok_t.message_count = message_count\<rparr>))))))"

definition decode_basic_get_empty :: "(nat \<Rightarrow> bool) \<Rightarrow> amqp_basic_get_empty_t dec" where
  "decode_basic_get_empty al enc =
     bindE (pool_alloc al 16) (\<lambda>_.
     bindE (dec_short enc) (\<lambda>cluster_id.
     returnE \<lparr>amqp_basic_get_empty_t.cluster_id = cluster_id\<rparr>))"

definition decode_basic_ack :: "(nat \<Rightarrow> bool) \<Rightarrow> amqp_basic_ack_t dec" where
  "decode_basic_ack al enc =
     bindE (pool_alloc al 16) (\<lambda>_.
     bindE (dec64 enc) (\<lambda>delivery_tag.
     bindE (dec8 enc) (\<lambda>bit_buffer.
     returnE \<lparr>amqp_basic_ack_t.delivery_tag = delivery_tag,
       amqp_basic_ack_t.multiple = flag bit_buffer 0\<rparr>)))"

definition decode_basic_reject :: "(nat \<Rightarrow> bool) \<Rightarrow> amqp_basic_reject_t dec" where
  "decode_basic_reject al enc =
     bindE (pool_alloc al 16) (\<lambda>_.
     bindE (dec64 enc) (\<lambda>delivery_tag.
     bindE (dec8 enc) (\<lambda>bit_buffer.
     returnE \<lparr>amqp_basic_reject_t.delivery_tag = delivery_tag,
       amqp_basic_reject_t.requeue = flag bit_buffer 0\<rparr>)))"

definition decode_basic_recover_async :: "(nat \<Rightarrow> bool) \<Rightarrow> amqp_basic_recover_async_t dec" where
  "decode_basic_recover_async al enc =
     bindE (pool_alloc al 4) (\<lambda>_.
     bindE (dec8 enc) (\<lambda>bit_buffer.
     returnE \<lparr>amqp_basic_recover_async_t.requeue = flag bit_buffer 0\<rparr>))"

definition decode_basic_recover :: "(nat \<Rightarrow> bool) \<Rightarrow> amqp_basic_recover_t dec" where
  "decode_basic_recover al enc =
     bindE (pool_alloc al 4) (\<lambda>_.
     bindE (dec8 enc) (\<lambda>bit_buffer.
     returnE \<lparr>amqp_basic_recover_t.requeue = flag bit_buffer 0\<rparr>))"

definition decode_basic_nack :: "(nat \<Rightarrow> bool) \<Rightarrow> amqp_basic_nack_t dec" where
  "decode_basic_nack al enc =
     bindE (pool_alloc al 16) (\<lambda>_.
     bindE (dec64 enc) (\<lambda>delivery_tag.
     bindE (dec8 enc) (\<lambda>bit_buffer.
     returnE \<lparr>amqp_basic_nack_t.delivery_tag = delivery_tag,
       amqp_basic_nack_t.multiple = flag bit_buffer 0,
       amqp_basic_nack_t.requeue = flag bit_buffer 1\<rparr>)))"

definition decode_confirm_select :: "(nat \<Rightarrow> bool) \<Rightarrow> amqp_confirm_select_t dec" where
  "decode_confirm_select al enc =
     bindE (pool_alloc al 4) (\<lambda>_.
     bindE (dec8 enc) (\<lambda>bit_buffer.
     returnE \<lparr>amqp_confirm_select_t.nowait = flag bit_buffer 0\<rparr>))"

text \<open>The methods without arguments only have their dummy structure allocated.\<close>

definition decode_empty :: "(nat \<Rightarrow> bool) \<Rightarrow> unit dec" where
  "decode_empty al enc = pool_alloc al 1"

definition method_decoders :: "(nat \<Rightarrow> bool) \<Rightarrow> (u32 \<times> amqp_method dec) list" where
  "method_decoders al =
    [(AMQP_CONNECTION_START_METHOD, as_method Connection_start (decode_connection_start al)),
     (AMQP_CONNECTION_START_OK_METHOD, as_method Connection_start_ok (decode_connection_start_ok al)),
     (AMQP_CONNECTION_SECURE_METHOD, as_method Connection_secure (decode_connection_secure al)),
     (AMQP_CONNECTION_SECURE_OK_METHOD, as_method Connection_secure_ok (decode_connection_secure_ok al)),
     (AMQP_CONNECTION_TUNE_METHOD, as_method Connection_tune (decode_connection_tune al)),
     (AMQP_CONNECTION_TUNE_OK_METHOD, as_method Connection_tune_ok (decode_connection_tune_ok al)),
     (AMQP_CONNECTION_OPEN_METHOD, as_method Connection_open (decode_connection_open al)),
     (AMQP_CONNECTION_OPEN_OK_METHOD, as_method Connection_open_ok (decode_connection_open_ok al)),
     (AMQP_CONNECTION_CLOSE_METHOD, as_method Connection_close (decode_connection_close al)),
     (AMQP_CONNECTION_CLOSE_OK_METHOD, as_method (\<lambda>_. Connection_close_ok) (decode_empty al)),
     (AMQP_CONNECTION_BLOCKED_METHOD, as_method Connection_blocked (decode_connection_blocked al)),
     (AMQP_CONNECTION_UNBLOCKED_METHOD, as_method (\<lambda>_. Connection_unblocked) (decode_empty al)),
     (AMQP_CHANNEL_OPEN_METHOD, as_method Channel_open (decode_channel_open al)),
     (AMQP_CHANNEL_OPEN_OK_METHOD, as_method Channel_open_ok (decode_channel_open_ok al)),
     (AMQP_CHANNEL_FLOW_METHOD, as_method Channel_flow (decode_channel_flow al)),
     (AMQP_CHANNEL_FLOW_OK_METHOD, as_method Channel_flow_ok (decode_channel_flow_ok al)),
     (AMQP_CHANNEL_CLOSE_METHOD, as_method Channel_close (decode_channel_close al)),
     (AMQP_CHANNEL_CLOSE_OK_METHOD, as_method (\<lambda>_. Channel_close_ok) (decode_empty al)),
     (AMQP_ACCESS_REQUEST_METHOD, as_method Access_request (decode_access_request al)),
     (AMQP_ACCESS_REQUEST_OK_METHOD, as_method Access_request_ok (decode_access_request_ok al)),
     (AMQP_EXCHANGE_DECLARE_METHOD, as_method Exchange_declare (decode_exchange_declare al)),
     (AMQP_EXCHANGE_DECLARE_OK_METHOD, as_method (\<lambda>_. Exchange_declare_ok) (decode_empty al)),
     (AMQP_EXCHANGE_DELETE_METHOD, as_method Exchange_delete (decode_exchange_delete al)),
     (AMQP_EXCHANGE_DELETE_OK_METHOD, as_method (\<lambda>_. Exchange_delete_ok) (decode_empty al)),
     (AMQP_EXCHANGE_BIND_METHOD, as_method Exchange_bind (decode_exchange_bind al)),
     (AMQP_EXCHANGE_BIND_OK_METHOD, as_method (\<lambda>_. Exchange_bind_ok) (decode_empty al)),
     (AMQP_EXCHANGE_UNBIND_METHOD, as_method Exchange_unbind (decode_exchange_unbind al)),
     (AMQP_EXCHANGE_UNBIND_OK_METHOD, as_method (\<lambda>_. Exchange_unbind_ok) (decode_empty al)),
     (AMQP_QUEUE_DECLARE_METHOD, as_method Queue_declare (decode_queue_declare al)),
     (AMQP_QUEUE_DECLARE_OK_METHOD, as_method Queue_declare_ok (decode_queue_declare_ok al)),
     (AMQP_QUEUE_BIND_METHOD, as_method Queue_bind (decode_queue_bind al)),
     (AMQP_QUEUE_BIND_OK_METHOD, as_method (\<lambda>_. Queue_bind_ok) (decode_empty al)),
     (AMQP_QUEUE_PURGE_METHOD, as_method Queue_purge (decode_queue_purge al)),
     (AMQP_QUEUE_PURGE_OK_METHOD, as_method Queue_purge_ok (decode_queue_purge_ok al)),
     (AMQP_QUEUE_DELETE_METHOD, as_method Queue_delete (decode_queue_delete al)),
     (AMQP_QUEUE_DELETE_OK_METHOD, as_method Queue_delete_ok (decode_queue_delete_ok al)),
     (AMQP_QUEUE_UNBIND_METHOD, as_method Queue_unbind (decode_queue_unbind al)),
     (AMQP_QUEUE_UNBIND_OK_METHOD, as_method (\<lambda>_. Queue_unbind_ok) (decode_empty al)),
     (AMQP_BASIC_QOS_METHOD, as_method Basic_qos (decode_basic_qos al)),
     (AMQP_BASIC_QOS_OK_METHOD, as_method (\<lambda>_. Basic_qos_ok) (decode_empty al)),
     (AMQP_BASIC_CONSUME_METHOD, as_method Basic_consume (decode_basic_consume al)),
     (AMQP_BASIC_CONSUME_OK_METHOD, as_method Basic_consume_ok (decode_basic_consume_ok al)),
     (AMQP_BASIC_CANCEL_METHOD, as_method Basic_cancel (decode_basic_cancel al)),
     (AMQP_BASIC_CANCEL_OK_METHOD, as_method Basic_cancel_ok (decode_basic_cancel_ok al)),
     (AMQP_BASIC_PUBLISH_METHOD, as_method Basic_publish (decode_basic_publish al)),
     (AMQP_BASIC_RETURN_METHOD, as_method Basic_return (decode_basic_return al)),
     (AMQP_BASIC_DELIVER_METHOD, as_method Basic_deliver (decode_basic_deliver al)),
     (AMQP_BASIC_GET_METHOD, as_method Basic_get (decode_basic_get al)),
     (AMQP_BASIC_GET_OK_METHOD, as_method Basic_get_ok (decode_basic_get_ok al)),
     (AMQP_BASIC_GET_EMPTY_METHOD, as_method Basic_get_empty (decode_basic_get_empty al)),
     (AMQP_BASIC_ACK_METHOD, as_method Basic_ack (decode_basic_ack al)),
     (AMQP_BASIC_REJECT_METHOD, as_method Basic_reject (decode_basic_reject al)),
     (AMQP_BASIC_RECOVER_ASYNC_METHOD, as_method Basic_recover_async (decode_basic_recover_async al)),
     (AMQP_BASIC_RECOVER_METHOD, as_method Basic_recover (decode_basic_recover al)),
     (AMQP_BASIC_RECOVER_OK_METHOD, as_method (\<lambda>_. Basic_recover_ok) (decode_empty al)),
     (AMQP_BASIC_NACK_METHOD, as_method Basic_nack (decode_basic_nack al)),
     (AMQP_TX_SELECT_METHOD, as_method (\<lambda>_. Tx_select) (decode_empty al)),
     (AMQP_TX_SELECT_OK_METHOD, as_method (\<lambda>_. Tx_select_ok) (decode_empty al)),
     (AMQP_TX_COMMIT_METHOD, as_method (\<lambda>_. Tx_commit) (decode_empty al)),
     (AMQP_TX_COMMIT_OK_METHOD, as_method (\<lambda>_. Tx_commit_ok) (decode_empty al)),
     (AMQP_TX_ROLLBACK_METHOD, as_method (\<lambda>_. Tx_rollback) (decode_empty al)),
     (AMQP_TX_ROLLBACK_OK_METHOD, as_method (\<lambda>_. Tx_rollback_ok) (decode_empty al)),
     (AMQP_CONFIRM_SELECT_METHOD, as_method Confirm_select (decode_confirm_select al)),
     (AMQP_CONFIRM_SELECT_OK_METHOD, as_method (\<lambda>_. Confirm_select_ok) (decode_empty al))]"

definition amqp_decode_method :: "(nat \<Rightarrow> bool) \<Rightarrow> u32 \<Rightarrow> bytes \<Rightarrow> amqp_status + amqp_method" where
  "amqp_decode_method al methodNumber encoded =
     (case map_of (method_decoders al) methodNumber of
        None \<Rightarrow> Inl AMQP_STATUS_UNKNOWN_METHOD
      | Some d \<Rightarrow> fst (d encoded 0))"

end

