(* ===== verification/Amqp_Encode.thy ===== *)
theory Amqp_Encode
  imports Amqp_Decode
begin

text \<open>
  Encoding methods: \<open>amqp_encode_method\<close> of \<open>src/src/rabbitmq-c/amqp_framing.c\<close>, and that what
  is encoded is decoded again. \<open>wire e d x\<close> says so of an encoder and a decoder; its rules
  follow the way encoders and decoders are put together, so that each method is settled by them.
\<close>

unbundle bit_operations_syntax

definition enc8 :: "u8 \<Rightarrow> enc" where "enc8 v = orelse (amqp_encode_8 v) AMQP_STATUS_BAD_AMQP_DATA"
definition enc16 :: "u16 \<Rightarrow> enc" where "enc16 v = orelse (amqp_encode_16 v) AMQP_STATUS_BAD_AMQP_DATA"
definition enc32 :: "u32 \<Rightarrow> enc" where "enc32 v = orelse (amqp_encode_32 v) AMQP_STATUS_BAD_AMQP_DATA"
definition enc64 :: "u64 \<Rightarrow> enc" where "enc64 v = orelse (amqp_encode_64 v) AMQP_STATUS_BAD_AMQP_DATA"
definition encbytes :: "bytes \<Rightarrow> enc" where
  "encbytes v = orelse (amqp_encode_bytes v) AMQP_STATUS_BAD_AMQP_DATA"

definition short_ok :: "bytes \<Rightarrow> bool" where "short_ok s \<longleftrightarrow> length s \<le> 255"
definition long_ok :: "bytes \<Rightarrow> bool" where "long_ok s \<longleftrightarrow> length s \<le> 4294967295"

definition enc_short :: "bytes \<Rightarrow> enc" where
  "enc_short s =
     (if 255 < length s then throwE AMQP_STATUS_BAD_AMQP_DATA
      else bindE (enc8 (word_of_nat (length s))) (\<lambda>_. encbytes s))"

definition enc_long :: "bytes \<Rightarrow> enc" where
  "enc_long s =
     (if 4294967295 < length s then throwE AMQP_STATUS_BAD_AMQP_DATA
      else bindE (enc32 (word_of_nat (length s))) (\<lambda>_. encbytes s))"

definition or_bit :: "nat \<Rightarrow> bool \<Rightarrow> u8 \<Rightarrow> u8" where
  "or_bit i b bit_buffer = (if b then bit_buffer OR push_bit i 1 else bit_buffer)"

section \<open>One method at a time\<close>


definition encode_connection_start :: "amqp_connection_start_t \<Rightarrow> enc" where
  "encode_connection_start m =
     bindE (enc8 (amqp_connection_start_t.version_major m)) (\<lambda>_.
     bindE (enc8 (amqp_connection_start_t.version_minor m)) (\<lambda>_.
     bindE (amqp_encode_table (amqp_connection_start_t.server_properties m)) (\<lambda>_.
     bindE (enc_long (amqp_connection_start_t.mechanisms m)) (\<lambda>_.
     bindE (enc_long (amqp_connection_start_t.locales m)) (\<lambda>_.
     returnE ())))))"

definition encode_connection_start_ok :: "amqp_connection_start_ok_t \<Rightarrow> enc" where
  "encode_connection_start_ok m =
     bindE (amqp_encode_table (amqp_connection_start_ok_t.client_properties m)) (\<lambda>_.
     bindE (enc_short (amqp_connection_start_ok_t.mechanism m)) (\<lambda>_.
     bindE (enc_long (amqp_connection_start_ok_t.response m)) (\<lambda>_.
     bindE (enc_short (amqp_connection_start_ok_t.locale m)) (\<lambda>_.
     returnE ()))))"

definition encode_connection_secure :: "amqp_connection_secure_t \<Rightarrow> enc" where
  "encode_connection_secure m =
     bindE (enc_long (amqp_connection_secure_t.challenge m)) (\<lambda>_.
     returnE ())"

definition encode_connection_secure_ok :: "amqp_connection_secure_ok_t \<Rightarrow> enc" where
  "encode_connection_secure_ok m =
     bindE (enc_long (amqp_connection_secure_ok_t.response m)) (\<lambda>_.
     returnE ())"

definition encode_connection_tune :: "amqp_connection_tune_t \<Rightarrow> enc" where
  "encode_connection_tune m =
     bindE (enc16 (amqp_connection_tune_t.channel_max m)) (\<lambda>_.
     bindE (enc32 (amqp_connection_tune_t.frame_max m)) (\<lambda>_.
     bindE (enc16 (amqp_connection_tune_t.heartbeat m)) (\<lambda>_.
     returnE ())))"

definition encode_connection_tune_ok :: "amqp_connection_tune_ok_t \<Rightarrow> enc" where
  "encode_connection_tune_ok m =
     bindE (enc16 (amqp_connection_tune_ok_t.channel_max m)) (\<lambda>_.
     bindE (enc32 (amqp_connection_tune_ok_t.frame_max m)) (\<lambda>_.
     bindE (enc16 (amqp_connection_tune_ok_t.heartbeat m)) (\<lambda>_.
     returnE ())))"

definition encode_connection_open :: "amqp_connection_open_t \<Rightarrow> enc" where
  "encode_connection_open m =
     bindE (enc_short (amqp_connection_open_t.virtual_host m)) (\<lambda>_.
     bindE (enc_short (amqp_connection_open_t.capabilities m)) (\<lambda>_.
     bindE (enc8 (or_bit 0 (amqp_connection_open_t.insist m) 0)) (\<lambda>_.
     returnE ())))"

definition encode_connection_open_ok :: "amqp_connection_open_ok_t \<Rightarrow> enc" where
  "encode_connection_open_ok m =
     bindE (enc_short (amqp_connection_open_ok_t.known_hosts m)) (\<lambda>_.
     returnE ())"

definition encode_connection_close :: "amqp_connection_close_t \<Rightarrow> enc" where
  "encode_connection_close m =
     bindE (enc16 (amqp_connection_close_t.reply_code m)) (\<lambda>_.
     bindE (enc_short (amqp_connection_close_t.reply_text m)) (\<lambda>_.
     bindE (enc16 (amqp_connection_close_t.class_id m)) (\<lambda>_.
     bindE (enc16 (amqp_connection_close_t.method_id m)) (\<lambda>_.
     returnE ()))))"

definition encode_connection_blocked :: "amqp_connection_blocked_t \<Rightarrow> enc" where
  "encode_connection_blocked m =
     bindE (enc_short (amqp_connection_blocked_t.reason m)) (\<lambda>_.
     returnE ())"

definition encode_channel_open :: "amqp_channel_open_t \<Rightarrow> enc" where
  "encode_channel_open m =
     bindE (enc_short (amqp_channel_open_t.out_of_band m)) (\<lambda>_.
     returnE ())"

definition encode_channel_open_ok :: "amqp_channel_open_ok_t \<Rightarrow> enc" where
  "encode_channel_open_ok m =
     bindE (enc_long (amqp_channel_open_ok_t.channel_id m)) (\<lambda>_.
     returnE ())"

definition encode_channel_flow :: "amqp_channel_flow_t \<Rightarrow> enc" where
  "encode_channel_flow m =
     bindE (enc8 (or_bit 0 (amqp_channel_flow_t.active m) 0)) (\<lambda>_.
     returnE ())"

definition encode_channel_flow_ok :: "amqp_channel_flow_ok_t \<Rightarrow> enc" where
  "encode_channel_flow_ok m =
     bindE (enc8 (or_bit 0 (amqp_channel_flow_ok_t.active m) 0)) (\<lambda>_.
     returnE ())"

definition encode_channel_close :: "amqp_channel_close_t \<Rightarrow> enc" where
  "encode_channel_close m =
     bindE (enc16 (amqp_channel_close_t.reply_code m)) (\<lambda>_.
     bindE (enc_short (amqp_channel_close_t.reply_text m)) (\<lambda>_.
     bindE (enc16 (amqp_channel_close_t.class_id m)) (\<lambda>_.
     bindE (enc16 (amqp_channel_close_t.method_id m)) (\<lambda>_.
     returnE ()))))"

definition encode_access_request :: "amqp_access_request_t \<Rightarrow> enc" where
  "encode_access_request m =
     bindE (enc_short (amqp_access_request_t.realm m)) (\<lambda>_.
     bindE (enc8 (or_bit 4 (amqp_access_request_t.read m) (or_bit 3 (amqp_access_request_t.write m) (or_bit 2 (amqp_access_request_t.active m) (or_bit 1 (amqp_access_request_t.passive m) (or_bit 0 (amqp_access_request_t.exclusive m) 0)))))) (\<lambda>_.
     returnE ()))"

definition encode_access_request_ok :: "amqp_access_request_ok_t \<Rightarrow> enc" where
  "encode_access_request_ok m =
     bindE (enc16 (amqp_access_request_ok_t.ticket m)) (\<lambda>_.
     returnE ())"

definition encode_exchange_declare :: "amqp_exchange_declare_t \<Rightarrow> enc" where
  "encode_exchange_declare m =
     bindE (enc16 (amqp_exchange_declare_t.ticket m)) (\<lambda>_.
     bindE (enc_short (amqp_exchange_declare_t.exchange m)) (\<lambda>_.
     bindE (enc_short (amqp_exchange_declare_t.type' m)) (\<lambda>_.
     bindE (enc8 (or_bit 4 (amqp_exchange_declare_t.nowait m) (or_bit 3 (amqp_exchange_declare_t.internal m) (or_bit 2 (amqp_exchange_declare_t.auto_delete m) (or_bit 1 (amqp_exchange_declare_t.durable m) (or_bit 0 (amqp_exchange_declare_t.passive m) 0)))))) (\<lambda>_.
     bindE (amqp_encode_table (amqp_exchange_declare_t.arguments m)) (\<lambda>_.
     returnE ())))))"

definition encode_exchange_delete :: "amqp_exchange_delete_t \<Rightarrow> enc" where
  "encode_exchange_delete m =
     bindE (enc16 (amqp_exchange_delete_t.ticket m)) (\<lambda>_.
     bindE (enc_short (amqp_exchange_delete_t.exchange m)) (\<lambda>_.
     bindE (enc8 (or_bit 1 (amqp_exchange_delete_t.nowait m) (or_bit 0 (amqp_exchange_delete_t.if_unused m) 0))) (\<lambda>_.
     returnE ())))"

definition encode_exchange_bind :: "amqp_exchange_bind_t \<Rightarrow> enc" where
  "encode_exchange_bind m =
     bindE (enc16 (amqp_exchange_bind_t.ticket m)) (\<lambda>_.
     bindE (enc_short (amqp_exchange_bind_t.destination m)) (\<lambda>_.
     bindE (enc_short (amqp_exchange_bind_t.source m)) (\<lambda>_.
     bindE (enc_short (amqp_exchange_bind_t.routing_key m)) (\<lambda>_.
     bindE (enc8 (or_bit 0 (amqp_exchange_bind_t.nowait m) 0)) (\<lambda>_.
     bindE (amqp_encode_table (amqp_exchange_bind_t.arguments m)) (\<lambda>_.
     returnE ()))))))"

definition encode_exchange_unbind :: "amqp_exchange_unbind_t \<Rightarrow> enc" where
  "encode_exchange_unbind m =
     bindE (enc16 (amqp_exchange_unbind_t.ticket m)) (\<lambda>_.
     bindE (enc_short (amqp_exchange_unbind_t.destination m)) (\<lambda>_.
     bindE (enc_short (amqp_exchange_unbind_t.source m)) (\<lambda>_.
     bindE (enc_short (amqp_exchange_unbind_t.routing_key m)) (\<lambda>_.
     bindE (enc8 (or_bit 0 (amqp_exchange_unbind_t.nowait m) 0)) (\<lambda>_.
     bindE (amqp_encode_table (amqp_exchange_unbind_t.arguments m)) (\<lambda>_.
     returnE ()))))))"

definition encode_queue_declare :: "amqp_queue_declare_t \<Rightarrow> enc" where
  "encode_queue_declare m =
     bindE (enc16 (amqp_queue_declare_t.ticket m)) (\<lambda>_.
     bindE (enc_short (amqp_queue_declare_t.queue m)) (\<lambda>_.
     bindE (enc8 (or_bit 4 (amqp_queue_declare_t.nowait m) (or_bit 3 (amqp_queue_declare_t.auto_delete m) (or_bit 2 (amqp_queue_declare_t.exclusive m) (or_bit 1 (amqp_queue_declare_t.durable m) (or_bit 0 (amqp_queue_declare_t.passive m) 0)))))) (\<lambda>_.
     bindE (amqp_encode_table (amqp_queue_declare_t.arguments m)) (\<lambda>_.
     returnE ()))))"

definition encode_queue_declare_ok :: "amqp_queue_declare_ok_t \<Rightarrow> enc" where
  "encode_queue_declare_ok m =
     bindE (enc_short (amqp_queue_declare_ok_t.queue m)) (\<lambda>_.
     bindE (enc32 (amqp_queue_declare_ok_t.message_count m)) (\<lambda>_.
     bindE (enc32 (amqp_queue_declare_ok_t.consumer_count m)) (\<lambda>_.
     returnE ())))"

definition encode_queue_bind :: "amqp_queue_bind_t \<Rightarrow> enc" where
  "encode_queue_bind m =
     bindE (enc16 (amqp_queue_bind_t.ticket m)) (\<lambda>_.
     bindE (enc_short (amqp_queue_bind_t.queue m)) (\<lambda>_.
     bindE (enc_short (amqp_queue_bind_t.exchange m)) (\<lambda>_.
     bindE (enc_short (amqp_queue_bind_t.routing_key m)) (\<lambda>_.
     bindE (enc8 (or_bit 0 (amqp_queue_bind_t.nowait m) 0)) (\<lambda>_.
     bindE (amqp_encode_table (amqp_queue_bind_t.arguments m)) (\<lambda>_.
     returnE ()))))))"

definition encode_queue_purge :: "amqp_queue_purge_t \<Rightarrow> enc" where
  "encode_queue_purge m =
     bindE (enc16 (amqp_queue_purge_t.ticket m)) (\<lambda>_.
     bindE (enc_short (amqp_queue_purge_t.queue m)) (\<lambda>_.
     bindE (enc8 (or_bit 0 (amqp_queue_purge_t.nowait m) 0)) (\<lambda>_.
     returnE ())))"

definition encode_queue_purge_ok :: "amqp_queue_purge_ok_t \<Rightarrow> enc" where
  "encode_queue_purge_ok m =
     bindE (enc32 (amqp_queue_purge_ok_t.message_count m)) (\<lambda>_.
     returnE ())"

definition encode_queue_delete :: "amqp_queue_delete_t \<Rightarrow> enc" where
  "encode_queue_delete m =
     bindE (enc16 (amqp_queue_delete_t.ticket m)) (\<lambda>_.
     bindE (enc_short (amqp_queue_delete_t.queue m)) (\<lambda>_.
     bindE (enc8 (or_bit 2 (amqp_queue_delete_t.nowait m) (or_bit 1 (amqp_queue_delete_t.if_empty m) (or_bit 0 (amqp_queue_delete_t.if_unused m) 0)))) (\<lambda>_.
     returnE ())))"

definition encode_queue_delete_ok :: "amqp_queue_delete_ok_t \<Rightarrow> enc" where
  "encode_queue_delete_ok m =
     bindE (enc32 (amqp_queue_delete_ok_t.message_count m)) (\<lambda>_.
     returnE ())"

definition encode_queue_unbind :: "amqp_queue_unbind_t \<Rightarrow> enc" where
  "encode_queue_unbind m =
     bindE (enc16 (amqp_queue_unbind_t.ticket m)) (\<lambda>_.
     bindE (enc_short (amqp_queue_unbind_t.queue m)) (\<lambda>_.
     bindE (enc_short (amqp_queue_unbind_t.exchange m)) (\<lambda>_.
     bindE (enc_short (amqp_queue_unbind_t.routing_key m)) (\<lambda>_.
     bindE (amqp_encode_table (amqp_queue_unbind_t.arguments m)) (\<lambda>_.
     returnE ())))))"

definition encode_basic_qos :: "amqp_basic_qos_t \<Rightarrow> enc" where
  "encode_basic_qos m =
     bindE (enc32 (amqp_basic_qos_t.prefetch_size m)) (\<lambda>_.
     bindE (enc16 (amqp_basic_qos_t.prefetch_count m)) (\<lambda>_.
     bindE (enc8 (or_bit 0 (amqp_basic_qos_t.global m) 0)) (\<lambda>_.
     returnE ())))"

definition encode_basic_consume :: "amqp_basic_consume_t \<Rightarrow> enc" where
  "encode_basic_consume m =
     bindE (enc16 (amqp_basic_consume_t.ticket m)) (\<lambda>_.
     bindE (enc_short (amqp_basic_consume_t.queue m)) (\<lambda>_.
     bindE (enc_short (amqp_basic_consume_t.consumer_tag m)) (\<lambda>_.
     bindE (enc8 (or_bit 3 (amqp_basic_consume_t.nowait m) (or_bit 2 (amqp_basic_consume_t.exclusive m) (or_bit 1 (amqp_basic_consume_t.no_ack m) (or_bit 0 (amqp_basic_consume_t.no_local m) 0))))) (\<lambda>_.
     bindE (amqp_encode_table (amqp_basic_consume_t.arguments m)) (\<lambda>_.
     returnE ())))))"

definition encode_basic_consume_ok :: "amqp_basic_consume_ok_t \<Rightarrow> enc" where
  "encode_basic_consume_ok m =
     bindE (enc_short (amqp_basic_consume_ok_t.consumer_tag m)) (\<lambda>_.
     returnE ())"

definition encode_basic_cancel :: "amqp_basic_cancel_t \<Rightarrow> enc" where
  "encode_basic_cancel m =
     bindE (enc_short (amqp_basic_cancel_t.consumer_tag m)) (\<lambda>_.
     bindE (enc8 (or_bit 0 (amqp_basic_cancel_t.nowait m) 0)) (\<lambda>_.
     returnE ()))"

definition encode_basic_cancel_ok :: "amqp_basic_cancel_ok_t \<Rightarrow> enc" where
  "encode_basic_cancel_ok m =
     bindE (enc_short (amqp_basic_cancel_ok_t.consumer_tag m)) (\<lambda>_.
     returnE ())"

definition encode_basic_publish :: "amqp_basic_publish_t \<Rightarrow> enc" where
  "encode_basic_publish m =
     bindE (enc16 (amqp_basic_publish_t.ticket m)) (\<lambda>_.
     bindE (enc_short (amqp_basic_publish_t.exchange m)) (\<lambda>_.
     bindE (enc_short (amqp_basic_publish_t.routing_key m)) (\<lambda>_.
     bindE (enc8 (or_bit 1 (amqp_basic_publish_t.immediate m) (or_bit 0 (amqp_basic_publish_t.mandatory m) 0))) (\<lambda>_.
     returnE ()))))"

definition encode_basic_return :: "amqp_basic_return_t \<Rightarrow> enc" where
  "encode_basic_return m =
     bindE (enc16 (amqp_basic_return_t.reply_code m)) (\<lambda>_.
     bindE (enc_short (amqp_basic_return_t.reply_text m)) (\<lambda>_.
     bindE (enc_short (amqp_basic_return_t.exchange m)) (\<lambda>_.
     bindE (enc_short (amqp_basic_return_t.routing_key m)) (\<lambda>_.
     returnE ()))))"

definition encode_basic_deliver :: "amqp_basic_deliver_t \<Rightarrow> enc" where
  "encode_basic_deliver m =
     bindE (enc_short (amqp_basic_deliver_t.consumer_tag m)) (\<lambda>_.
     bindE (enc64 (amqp_basic_deliver_t.delivery_tag m)) (\<lambda>_.
     bindE (enc8 (or_bit 0 (amqp_basic_deliver_t.redelivered m) 0)) (\<lambda>_.
     bindE (enc_short (amqp_basic_deliver_t.exchange m)) (\<lambda>_.
     bindE (enc_short (amqp_basic_deliver_t.routing_key m)) (\<lambda>_.
     returnE ())))))"

definition encode_basic_get :: "amqp_basic_get_t \<Rightarrow> enc" where
  "encode_basic_get m =
     bindE (enc16 (amqp_basic_get_t.ticket m)) (\<lambda>_.
     bindE (enc_short (amqp_basic_get_t.queue m)) (\<lambda>_.
     bindE (enc8 (or_bit 0 (amqp_basic_get_t.no_ack m) 0)) (\<lambda>_.
     returnE ())))"

definition encode_basic_get_ok :: "amqp_basic_get_ok_t \<Rightarrow> enc" where
  "encode_basic_get_ok m =
     bindE (enc64 (amqp_basic_get_ok_t.delivery_tag m)) (\<lambda>_.
     bindE (enc8 (or_bit 0 (amqp_basic_get_ok_t.redelivered m) 0)) (\<lambda>_.
     bindE (enc_short (amqp_basic_get_ok_t.exchange m)) (\<lambda>_.
     bindE (enc_short (amqp_basic_get_ok_t.routing_key m)) (\<lambda>_.
     bindE (enc32 (amqp_basic_get_ok_t.message_count m)) (\<lambda>_.
     returnE ())))))"

definition encode_basic_get_empty :: "amqp_basic_get_empty_t \<Rightarrow> enc" where
  "encode_basic_get_empty m =
     bindE (enc_short (amqp_basic_get_empty_t.cluster_id m)) (\<lambda>_.
     returnE ())"

definition encode_basic_ack :: "amqp_basic_ack_t \<Rightarrow> enc" where
  "encode_basic_ack m =
     bindE (enc64 (amqp_basic_ack_t.delivery_tag m)) (\<lambda>_.
     bindE (enc8 (or_bit 0 (amqp_basic_ack_t.multiple m) 0)) (\<lambda>_.
     returnE ()))"

definition encode_basic_reject :: "amqp_basic_reject_t \<Rightarrow> enc" where
  "encode_basic_reject m =
     bindE (enc64 (amqp_basic_reject_t.delivery_tag m)) (\<lambda>_.
     bindE (enc8 (or_bit 0 (amqp_basic_reject_t.requeue m) 0)) (\<lambda>_.
     returnE ()))"

definition encode_basic_recover_async :: "amqp_basic_recover_async_t \<Rightarrow> enc" where
  "encode_basic_recover_async m =
     bindE (enc8 (or_bit 0 (amqp_basic_recover_async_t.requeue m) 0)) (\<lambda>_.
     returnE ())"

definition encode_basic_recover :: "amqp_basic_recover_t \<Rightarrow> enc" where
  "encode_basic_recover m =
     bindE (enc8 (or_bit 0 (amqp_basic_recover_t.requeue m) 0)) (\<lambda>_.
     returnE ())"

definition encode_basic_nack :: "amqp_basic_nack_t \<Rightarrow> enc" where
  "encode_basic_nack m =
     bindE (enc64 (amqp_basic_nack_t.delivery_tag m)) (\<lambda>_.
     bindE (enc8 (or_bit 1 (amqp_basic_nack_t.requeue m) (or_bit 0 (amqp_basic_nack_t.multiple m) 0))) (\<lambda>_.
     returnE ()))"

definition encode_confirm_select :: "amqp_confirm_select_t \<Rightarrow> enc" where
  "encode_confirm_select m =
     bindE (enc8 (or_bit 0 (amqp_confirm_select_t.nowait m) 0)) (\<lambda>_.
     returnE ())"

primrec encode_arguments :: "amqp_method \<Rightarrow> enc" where
  "encode_arguments (Connection_start m) = encode_connection_start m"
| "encode_arguments (Connection_start_ok m) = encode_connection_start_ok m"
| "encode_arguments (Connection_secure m) = encode_connection_secure m"
| "encode_arguments (Connection_secure_ok m) = encode_connection_secure_ok m"
| "encode_arguments (Connection_tune m) = encode_connection_tune m"
| "encode_arguments (Connection_tune_ok m) = encode_connection_tune_ok m"
| "encode_arguments (Connection_open m) = encode_connection_open m"
| "encode_arguments (Connection_open_ok m) = encode_connection_open_ok m"
| "encode_arguments (Connection_close m) = encode_connection_close m"
| "encode_arguments Connection_close_ok = returnE ()"
| "encode_arguments (Connection_blocked m) = encode_connection_blocked m"
| "encode_arguments Connection_unblocked = returnE ()"
| "encode_arguments (Channel_open m) = encode_channel_open m"
| "encode_arguments (Channel_open_ok m) = encode_channel_open_ok m"
| "encode_arguments (Channel_flow m) = encode_channel_flow m"
| "encode_arguments (Channel_flow_ok m) = encode_channel_flow_ok m"
| "encode_arguments (Channel_close m) = encode_channel_close m"
| "encode_arguments Channel_close_ok = returnE ()"
| "encode_arguments (Access_request m) = encode_access_request m"
| "encode_arguments (Access_request_ok m) = encode_access_request_ok m"
| "encode_arguments (Exchange_declare m) = encode_exchange_declare m"
| "encode_arguments Exchange_declare_ok = returnE ()"
| "encode_arguments (Exchange_delete m) = encode_exchange_delete m"
| "encode_arguments Exchange_delete_ok = returnE ()"
| "encode_arguments (Exchange_bind m) = encode_exchange_bind m"
| "encode_arguments Exchange_bind_ok = returnE ()"
| "encode_arguments (Exchange_unbind m) = encode_exchange_unbind m"
| "encode_arguments Exchange_unbind_ok = returnE ()"
| "encode_arguments (Queue_declare m) = encode_queue_declare m"
| "encode_arguments (Queue_declare_ok m) = encode_queue_declare_ok m"
| "encode_arguments (Queue_bind m) = encode_queue_bind m"
| "encode_arguments Queue_bind_ok = returnE ()"
| "encode_arguments (Queue_purge m) = encode_queue_purge m"
| "encode_arguments (Queue_purge_ok m) = encode_queue_purge_ok m"
| "encode_arguments (Queue_delete m) = encode_queue_delete m"
| "encode_arguments (Queue_delete_ok m) = encode_queue_delete_ok m"
| "encode_arguments (Queue_unbind m) = encode_queue_unbind m"
| "encode_arguments Queue_unbind_ok = returnE ()"
| "encode_arguments (Basic_qos m) = encode_basic_qos m"
| "encode_arguments Basic_qos_ok = returnE ()"
| "encode_arguments (Basic_consume m) = encode_basic_consume m"
| "encode_arguments (Basic_consume_ok m) = encode_basic_consume_ok m"
| "encode_arguments (Basic_cancel m) = encode_basic_cancel m"
| "encode_arguments (Basic_cancel_ok m) = encode_basic_cancel_ok m"
| "encode_arguments (Basic_publish m) = encode_basic_publish m"
| "encode_arguments (Basic_return m) = encode_basic_return m"
| "encode_arguments (Basic_deliver m) = encode_basic_deliver m"
| "encode_arguments (Basic_get m) = encode_basic_get m"
| "encode_arguments (Basic_get_ok m) = encode_basic_get_ok m"
| "encode_arguments (Basic_get_empty m) = encode_basic_get_empty m"
| "encode_arguments (Basic_ack m) = encode_basic_ack m"
| "encode_arguments (Basic_reject m) = encode_basic_reject m"
| "encode_arguments (Basic_recover_async m) = encode_basic_recover_async m"
| "encode_arguments (Basic_recover m) = encode_basic_recover m"
| "encode_arguments Basic_recover_ok = returnE ()"
| "encode_arguments (Basic_nack m) = encode_basic_nack m"
| "encode_arguments Tx_select = returnE ()"
| "encode_arguments Tx_select_ok = returnE ()"
| "encode_arguments Tx_commit = returnE ()"
| "encode_arguments Tx_commit_ok = returnE ()"
| "encode_arguments Tx_rollback = returnE ()"
| "encode_arguments Tx_rollback_ok = returnE ()"
| "encode_arguments (Confirm_select m) = encode_confirm_select m"
| "encode_arguments Confirm_select_ok = returnE ()"

text \<open>The strings and tables of a method fit their length fields.\<close>

fun method_ok :: "amqp_method \<Rightarrow> bool" where
  "method_ok (Connection_start m) \<longleftrightarrow> table_ok (amqp_connection_start_t.server_properties m) \<and>
     long_ok (amqp_connection_start_t.mechanisms m) \<and>
     long_ok (amqp_connection_start_t.locales m)"
| "method_ok (Connection_start_ok m) \<longleftrightarrow> table_ok (amqp_connection_start_ok_t.client_properties m) \<and>
     short_ok (amqp_connection_start_ok_t.mechanism m) \<and>
     long_ok (amqp_connection_start_ok_t.response m) \<and>
     short_ok (amqp_connection_start_ok_t.locale m)"
| "method_ok (Connection_secure m) \<longleftrightarrow> long_ok (amqp_connection_secure_t.challenge m)"
| "method_ok (Connection_secure_ok m) \<longleftrightarrow> long_ok (amqp_connection_secure_ok_t.response m)"
| "method_ok (Connection_open m) \<longleftrightarrow> short_ok (amqp_connection_open_t.virtual_host m) \<and>
     short_ok (amqp_connection_open_t.capabilities m)"
| "method_ok (Connection_open_ok m) \<longleftrightarrow> short_ok (amqp_connection_open_ok_t.known_hosts m)"
| "method_ok (Connection_close m) \<longleftrightarrow> short_ok (amqp_connection_close_t.reply_text m)"
| "method_ok (Connection_blocked m) \<longleftrightarrow> short_ok (amqp_connection_blocked_t.reason m)"
| "method_ok (Channel_open m) \<longleftrightarrow> short_ok (amqp_channel_open_t.out_of_band m)"
| "method_ok (Channel_open_ok m) \<longleftrightarrow> long_ok (amqp_channel_open_ok_t.channel_id m)"
| "method_ok (Channel_close m) \<longleftrightarrow> short_ok (amqp_channel_close_t.reply_text m)"
| "method_ok (Access_request m) \<longleftrightarrow> short_ok (amqp_access_request_t.realm m)"
| "method_ok (Exchange_declare m) \<longleftrightarrow> short_ok (amqp_exchange_declare_t.exchange m) \<and>
     short_ok (amqp_exchange_declare_t.type' m) \<and>
     table_ok (amqp_exchange_declare_t.arguments m)"
| "method_ok (Exchange_delete m) \<longleftrightarrow> short_ok (amqp_exchange_delete_t.exchange m)"
| "method_ok (Exchange_bind m) \<longleftrightarrow> short_ok (amqp_exchange_bind_t.destination m) \<and>
     short_ok (amqp_exchange_bind_t.source m) \<and>
     short_ok (amqp_exchange_bind_t.routing_key m) \<and>
     table_ok (amqp_exchange_bind_t.arguments m)"
| "method_ok (Exchange_unbind m) \<longleftrightarrow> short_ok (amqp_exchange_unbind_t.destination m) \<and>
     short_ok (amqp_exchange_unbind_t.source m) \<and>
     short_ok (amqp_exchange_unbind_t.routing_key m) \<and>
     table_ok (amqp_exchange_unbind_t.arguments m)"
| "method_ok (Queue_declare m) \<longleftrightarrow> short_ok (amqp_queue_declare_t.queue m) \<and>
     table_ok (amqp_queue_declare_t.arguments m)"
| "method_ok (Queue_declare_ok m) \<longleftrightarrow> short_ok (amqp_queue_declare_ok_t.queue m)"
| "method_ok (Queue_bind m) \<longleftrightarrow> short_ok (amqp_queue_bind_t.queue m) \<and>
     short_ok (amqp_queue_bind_t.exchange m) \<and>
     short_ok (amqp_queue_bind_t.routing_key m) \<and>
     table_ok (amqp_queue_bind_t.arguments m)"
| "method_ok (Queue_purge m) \<longleftrightarrow> short_ok (amqp_queue_purge_t.queue m)"
| "method_ok (Queue_delete m) \<longleftrightarrow> short_ok (amqp_queue_delete_t.queue m)"
| "method_ok (Queue_unbind m) \<longleftrightarrow> short_ok (amqp_queue_unbind_t.queue m) \<and>
     short_ok (amqp_queue_unbind_t.exchange m) \<and>
     short_ok (amqp_queue_unbind_t.routing_key m) \<and>
     table_ok (amqp_queue_unbind_t.arguments m)"
| "method_ok (Basic_consume m) \<longleftrightarrow> short_ok (amqp_basic_consume_t.queue m) \<and>
     short_ok (amqp_basic_consume_t.consumer_tag m) \<and>
     table_ok (amqp_basic_consume_t.arguments m)"
| "method_ok (Basic_consume_ok m) \<longleftrightarrow> short_ok (amqp_basic_consume_ok_t.consumer_tag m)"
| "method_ok (Basic_cancel m) \<longleftrightarrow> short_ok (amqp_basic_cancel_t.consumer_tag m)"
| "method_ok (Basic_cancel_ok m) \<longleftrightarrow> short_ok (amqp_basic_cancel_ok_t.consumer_tag m)"
| "method_ok (Basic_publish m) \<longleftrightarrow> short_ok (amqp_basic_publish_t.exchange m) \<and>
     short_ok (amqp_basic_publish_t.routing_key m)"
| "method_ok (Basic_return m) \<longleftrightarrow> short_ok (amqp_basic_return_t.reply_text m) \<and>
     short_ok (amqp_basic_return_t.exchange m) \<and>
     short_ok (amqp_basic_return_t.routing_key m)"
| "method_ok (Basic_deliver m) \<longleftrightarrow> short_ok (amqp_basic_deliver_t.consumer_tag m) \<and>
     short_ok (amqp_basic_deliver_t.exchange m) \<and>
     short_ok (amqp_basic_deliver_t.routing_key m)"
| "method_ok (Basic_get m) \<longleftrightarrow> short_ok (amqp_basic_get_t.queue m)"
| "method_ok (Basic_get_ok m) \<longleftrightarrow> short_ok (amqp_basic_get_ok_t.exchange m) \<and>
     short_ok (amqp_basic_get_ok_t.routing_key m)"
| "method_ok (Basic_get_empty m) \<longleftrightarrow> short_ok (amqp_basic_get_empty_t.cluster_id m)"
| "method_ok _ \<longleftrightarrow> True"

text \<open>The structure that is passed must be the one that goes with the number.\<close>

definition amqp_encode_method :: "u32 \<Rightarrow> amqp_method \<Rightarrow> bytes \<Rightarrow> (amqp_status + nat) \<times> bytes" where
  "amqp_encode_method methodNumber decoded encoded =
     (if amqp_method_name methodNumber = None then (Inl AMQP_STATUS_UNKNOWN_METHOD, encoded)
      else if methodNumber \<noteq> method_number decoded then (Inl Undefined_Behaviour, encoded)
      else
        case encode_arguments decoded (encoded, 0) of
          (Inl e, (buf, _)) \<Rightarrow> (Inl e, buf)
        | (Inr _, (buf, offset)) \<Rightarrow> (Inr offset, buf))"

section \<open>What is encoded is decoded\<close>

definition wire :: "enc \<Rightarrow> 'a dec \<Rightarrow> 'a \<Rightarrow> bool" where
  "wire e d x \<longleftrightarrow> (\<exists>v. emits v e \<and> reads v d x)"

named_theorems wire_intros

lemma wireI: "emits v e \<Longrightarrow> reads v d x \<Longrightarrow> wire e d x"
  by (auto simp: wire_def)

lemma wire_return [wire_intros]: "y = x \<Longrightarrow> wire (returnE ()) (\<lambda>_. returnE y) x"
  by (rule wireI [OF emits_return]) (simp add: reads_return)

lemma wire_bind:
  assumes "wire e d x" "wire e' (d' x) y"
  shows "wire (bindE e (\<lambda>_. e')) (\<lambda>enc. bindE (d enc) (\<lambda>x. d' x enc)) y"
  using assms unfolding wire_def by (blast intro: emits_bind reads_bind)

lemma wire_alloc:
  "al n \<Longrightarrow> wire e d x \<Longrightarrow> wire e (\<lambda>enc. bindE (pool_alloc al n) (\<lambda>_. d enc)) x"
  by (simp add: pool_alloc_def)

lemma wire_int:
  "wire (enc8 v8) dec8 v8" "wire (enc16 v16) dec16 v16" "wire (enc32 v32) dec32 v32" "wire (enc64 v64) dec64 v64"
  unfolding enc8_def enc16_def enc32_def enc64_def
  by (rule wireI, rule emits_orelse, rule emits_intros, rule reads_dec)+

lemma emits_encbytes: "emits v (encbytes v)"
  unfolding encbytes_def by (intro emits_orelse emits_bytes)

lemma wire_short: "short_ok s \<Longrightarrow> wire (enc_short s) dec_short s"
  unfolding enc_short_def dec_short_def [abs_def] short_ok_def
  by (simp, intro wire_bind [OF wire_int(1)] wireI [OF emits_encbytes] reads_dec) (simp add: unat_word_of_nat)

lemma wire_long: "long_ok s \<Longrightarrow> wire (enc_long s) dec_long s"
  unfolding enc_long_def dec_long_def [abs_def] long_ok_def
  by (simp, intro wire_bind [OF wire_int(3)] wireI [OF emits_encbytes] reads_dec) (simp add: unat_word_of_nat)

lemma wire_table:
  assumes "\<And>n. al n" "table_ok t"
  shows "wire (amqp_encode_table t) (amqp_decode_table al) t"
  using assms(2) by (intro wireI [OF emits_table reads_table [OF assms]])
    (auto simp: table_ok_def intro: value_ok_known)

lemmas wire_fields [wire_intros] =
  wire_int [THEN wire_bind] wire_short [THEN wire_bind] wire_long [THEN wire_bind] wire_table [THEN wire_bind]

lemma flag_bit: "flag w i \<longleftrightarrow> bit w i"
  by (simp add: flag_def bit_iff_and_push_bit_not_eq_0)

lemma flag_or_bit [simp]:
  "flag (or_bit i b buf) j \<longleftrightarrow> i = j \<and> b \<and> i < 8 \<or> flag buf j" "\<not> flag 0 j"
  by (auto simp: flag_bit or_bit_def bit_simps)

lemma wire_as_method: "wire e d m \<Longrightarrow> wire e (as_method c d) (c m)"
  unfolding wire_def as_method_def [abs_def] by (blast intro: reads_map)

lemma wire_empty: "al 1 \<Longrightarrow> wire (returnE ()) (as_method (\<lambda>_. c) (decode_empty al)) c"
  by (rule wireI [OF emits_return]) (simp add: reads_def as_method_def decode_empty_def pool_alloc_def)


lemmas method_codec_defs =
  decode_connection_start_def encode_connection_start_def
  decode_connection_start_ok_def encode_connection_start_ok_def
  decode_connection_secure_def encode_connection_secure_def
  decode_connection_secure_ok_def encode_connection_secure_ok_def
  decode_connection_tune_def encode_connection_tune_def
  decode_connection_tune_ok_def encode_connection_tune_ok_def
  decode_connection_open_def encode_connection_open_def
  decode_connection_open_ok_def encode_connection_open_ok_def
  decode_connection_close_def encode_connection_close_def
  decode_connection_blocked_def encode_connection_blocked_def
  decode_channel_open_def encode_channel_open_def
  decode_channel_open_ok_def encode_channel_open_ok_def
  decode_channel_flow_def encode_channel_flow_def
  decode_channel_flow_ok_def encode_channel_flow_ok_def
  decode_channel_close_def encode_channel_close_def
  decode_access_request_def encode_access_request_def
  decode_access_request_ok_def encode_access_request_ok_def
  decode_exchange_declare_def encode_exchange_declare_def
  decode_exchange_delete_def encode_exchange_delete_def
  decode_exchange_bind_def encode_exchange_bind_def
  decode_exchange_unbind_def encode_exchange_unbind_def
  decode_queue_declare_def encode_queue_declare_def
  decode_queue_declare_ok_def encode_queue_declare_ok_def
  decode_queue_bind_def encode_queue_bind_def
  decode_queue_purge_def encode_queue_purge_def
  decode_queue_purge_ok_def encode_queue_purge_ok_def
  decode_queue_delete_def encode_queue_delete_def
  decode_queue_delete_ok_def encode_queue_delete_ok_def
  decode_queue_unbind_def encode_queue_unbind_def
  decode_basic_qos_def encode_basic_qos_def
  decode_basic_consume_def encode_basic_consume_def
  decode_basic_consume_ok_def encode_basic_consume_ok_def
  decode_basic_cancel_def encode_basic_cancel_def
  decode_basic_cancel_ok_def encode_basic_cancel_ok_def
  decode_basic_publish_def encode_basic_publish_def
  decode_basic_return_def encode_basic_return_def
  decode_basic_deliver_def encode_basic_deliver_def
  decode_basic_get_def encode_basic_get_def
  decode_basic_get_ok_def encode_basic_get_ok_def
  decode_basic_get_empty_def encode_basic_get_empty_def
  decode_basic_ack_def encode_basic_ack_def
  decode_basic_reject_def encode_basic_reject_def
  decode_basic_recover_async_def encode_basic_recover_async_def
  decode_basic_recover_def encode_basic_recover_def
  decode_basic_nack_def encode_basic_nack_def
  decode_confirm_select_def encode_confirm_select_def

lemma wire_arguments:
  assumes "\<And>n. al n"
  shows
    "method_ok (Connection_start m0) \<Longrightarrow> wire (encode_connection_start m0) (decode_connection_start al) m0"
    "method_ok (Connection_start_ok m1) \<Longrightarrow> wire (encode_connection_start_ok m1) (decode_connection_start_ok al) m1"
    "method_ok (Connection_secure m2) \<Longrightarrow> wire (encode_connection_secure m2) (decode_connection_secure al) m2"
    "method_ok (Connection_secure_ok m3) \<Longrightarrow> wire (encode_connection_secure_ok m3) (decode_connection_secure_ok al) m3"
    "wire (encode_connection_tune m4) (decode_connection_tune al) m4"
    "wire (encode_connection_tune_ok m5) (decode_connection_tune_ok al) m5"
    "method_ok (Connection_open m6) \<Longrightarrow> wire (encode_connection_open m6) (decode_connection_open al) m6"
    "method_ok (Connection_open_ok m7) \<Longrightarrow> wire (encode_connection_open_ok m7) (decode_connection_open_ok al) m7"
    "method_ok (Connection_close m8) \<Longrightarrow> wire (encode_connection_close m8) (decode_connection_close al) m8"
    "method_ok (Connection_blocked m9) \<Longrightarrow> wire (encode_connection_blocked m9) (decode_connection_blocked al) m9"
    "method_ok (Channel_open m10) \<Longrightarrow> wire (encode_channel_open m10) (decode_channel_open al) m10"
    "method_ok (Channel_open_ok m11) \<Longrightarrow> wire (encode_channel_open_ok m11) (decode_channel_open_ok al) m11"
    "wire (encode_channel_flow m12) (decode_channel_flow al) m12"
    "wire (encode_channel_flow_ok m13) (decode_channel_flow_ok al) m13"
    "method_ok (Channel_close m14) \<Longrightarrow> wire (encode_channel_close m14) (decode_channel_close al) m14"
    "method_ok (Access_request m15) \<Longrightarrow> wire (encode_access_request m15) (decode_access_request al) m15"
    "wire (encode_access_request_ok m16) (decode_access_request_ok al) m16"
    "method_ok (Exchange_declare m17) \<Longrightarrow> wire (encode_exchange_declare m17) (decode_exchange_declare al) m17"
    "method_ok (Exchange_delete m18) \<Longrightarrow> wire (encode_exchange_delete m18) (decode_exchange_delete al) m18"
    "method_ok (Exchange_bind m19) \<Longrightarrow> wire (encode_exchange_bind m19) (decode_exchange_bind al) m19"
    "method_ok (Exchange_unbind m20) \<Longrightarrow> wire (encode_exchange_unbind m20) (decode_exchange_unbind al) m20"
    "method_ok (Queue_declare m21) \<Longrightarrow> wire (encode_queue_declare m21) (decode_queue_declare al) m21"
    "method_ok (Queue_declare_ok m22) \<Longrightarrow> wire (encode_queue_declare_ok m22) (decode_queue_declare_ok al) m22"
    "method_ok (Queue_bind m23) \<Longrightarrow> wire (encode_queue_bind m23) (decode_queue_bind al) m23"
    "method_ok (Queue_purge m24) \<Longrightarrow> wire (encode_queue_purge m24) (decode_queue_purge al) m24"
    "wire (encode_queue_purge_ok m25) (decode_queue_purge_ok al) m25"
    "method_ok (Queue_delete m26) \<Longrightarrow> wire (encode_queue_delete m26) (decode_queue_delete al) m26"
    "wire (encode_queue_delete_ok m27) (decode_queue_delete_ok al) m27"
    "method_ok (Queue_unbind m28) \<Longrightarrow> wire (encode_queue_unbind m28) (decode_queue_unbind al) m28"
    "wire (encode_basic_qos m29) (decode_basic_qos al) m29"
    "method_ok (Basic_consume m30) \<Longrightarrow> wire (encode_basic_consume m30) (decode_basic_consume al) m30"
    "method_ok (Basic_consume_ok m31) \<Longrightarrow> wire (encode_basic_consume_ok m31) (decode_basic_consume_ok al) m31"
    "method_ok (Basic_cancel m32) \<Longrightarrow> wire (encode_basic_cancel m32) (decode_basic_cancel al) m32"
    "method_ok (Basic_cancel_ok m33) \<Longrightarrow> wire (encode_basic_cancel_ok m33) (decode_basic_cancel_ok al) m33"
    "method_ok (Basic_publish m34) \<Longrightarrow> wire (encode_basic_publish m34) (decode_basic_publish al) m34"
    "method_ok (Basic_return m35) \<Longrightarrow> wire (encode_basic_return m35) (decode_basic_return al) m35"
    "method_ok (Basic_deliver m36) \<Longrightarrow> wire (encode_basic_deliver m36) (decode_basic_deliver al) m36"
    "method_ok (Basic_get m37) \<Longrightarrow> wire (encode_basic_get m37) (decode_basic_get al) m37"
    "method_ok (Basic_get_ok m38) \<Longrightarrow> wire (encode_basic_get_ok m38) (decode_basic_get_ok al) m38"
    "method_ok (Basic_get_empty m39) \<Longrightarrow> wire (encode_basic_get_empty m39) (decode_basic_get_empty al) m39"
    "wire (encode_basic_ack m40) (decode_basic_ack al) m40"
    "wire (encode_basic_reject m41) (decode_basic_reject al) m41"
    "wire (encode_basic_recover_async m42) (decode_basic_recover_async al) m42"
    "wire (encode_basic_recover m43) (decode_basic_recover al) m43"
    "wire (encode_basic_nack m44) (decode_basic_nack al) m44"
    "wire (encode_confirm_select m45) (decode_confirm_select al) m45"
  unfolding method_codec_defs [abs_def] by (rule wire_alloc, rule assms, use assms in \<open>intro wire_intros; simp\<close>)+

lemma method_decoded:
  assumes "\<And>n. al n" "method_ok m"
  shows "\<exists>d. map_of (method_decoders al) (method_number m) = Some d \<and> wire (encode_arguments m) d m"
  using assms wire_arguments [of al]
  by (cases m) (simp_all add: method_decoders_def method_ids wire_as_method wire_empty)

lemma method_named: "amqp_method_name (method_number m) \<noteq> None"
  by (cases m) (simp_all add: amqp_method_name_def)

text \<open>An encoder that is run from the start of a buffer either fills as much of it as it needs, or
  does not fit.\<close>

lemma wire_run:
  assumes "wire e d x"
  obtains v where
    "\<forall>buf. if length v \<le> length buf then e (buf, 0) = (Inr (), (v @ drop (length v) buf, length v))
       else \<exists>err t. e (buf, 0) = (Inl err, t)"
    "d v 0 = (Inr x, length v)"
proof -
  obtain v where v: "emits v e" "reads v d x" using assms by (auto simp: wire_def)
  show thesis
  proof (rule that [of v])
    show "\<forall>buf. if length v \<le> length buf then e (buf, 0) = (Inr (), (v @ drop (length v) buf, length v))
       else \<exists>err t. e (buf, 0) = (Inl err, t)"
      using emits_fit [OF v(1), of 0] emits_full [OF v(1), where off = 0] by (cases "v = []") (auto simp: write_at_def)
    show "d v 0 = (Inr x, length v)" using readsD [OF v(2), of "[]" "[]"] by simp
  qed
qed

lemma encode_method_decoded:
  assumes "\<And>n. al n" "method_ok m"
  obtains v where
    "\<forall>buf. if length v \<le> length buf
       then amqp_encode_method (method_number m) m buf = (Inr (length v), v @ drop (length v) buf)
       else \<exists>err buf'. amqp_encode_method (method_number m) m buf = (Inl err, buf')"
    "amqp_decode_method al (method_number m) v = Inr m"
proof -
  obtain d where d: "map_of (method_decoders al) (method_number m) = Some d" and w: "wire (encode_arguments m) d m"
    using method_decoded [of al m, OF assms] by auto
  obtain v where
    v: "\<forall>buf. if length v \<le> length buf
        then encode_arguments m (buf, 0) = (Inr (), (v @ drop (length v) buf, length v))
        else \<exists>err t. encode_arguments m (buf, 0) = (Inl err, t)" and dv: "d v 0 = (Inr m, length v)"
    by (rule wire_run [OF w])
  show thesis
  proof (rule that [of v])
    show "\<forall>buf. if length v \<le> length buf
      then amqp_encode_method (method_number m) m buf = (Inr (length v), v @ drop (length v) buf)
      else \<exists>err buf'. amqp_encode_method (method_number m) m buf = (Inl err, buf')"
      using v method_named [of m] by (auto simp: amqp_encode_method_def split: if_splits)
    show "amqp_decode_method al (method_number m) v = Inr m"
      using d dv by (simp add: amqp_decode_method_def)
  qed
qed

end

