(* ===== verification/Amqp_Properties.thy ===== *)
theory Amqp_Properties
  imports Amqp_Encode
begin

text \<open>
  Content properties: \<open>amqp_decode_properties\<close> and \<open>amqp_encode_properties\<close> of
  \<open>src/src/rabbitmq-c/amqp_framing.c\<close>. Only the class \<open>basic\<close> has properties besides the flags.
  The decoder sets the fields whose flag is set and leaves the others as the pool memory has
  them; \<open>block\<close> is what that memory holds.
\<close>

unbundle bit_operations_syntax

section \<open>Properties\<close>

definition AMQP_BASIC_CONTENT_TYPE_FLAG :: u32 where "AMQP_BASIC_CONTENT_TYPE_FLAG = push_bit 15 1"
definition AMQP_BASIC_CONTENT_ENCODING_FLAG :: u32 where "AMQP_BASIC_CONTENT_ENCODING_FLAG = push_bit 14 1"
definition AMQP_BASIC_HEADERS_FLAG :: u32 where "AMQP_BASIC_HEADERS_FLAG = push_bit 13 1"
definition AMQP_BASIC_DELIVERY_MODE_FLAG :: u32 where "AMQP_BASIC_DELIVERY_MODE_FLAG = push_bit 12 1"
definition AMQP_BASIC_PRIORITY_FLAG :: u32 where "AMQP_BASIC_PRIORITY_FLAG = push_bit 11 1"
definition AMQP_BASIC_CORRELATION_ID_FLAG :: u32 where "AMQP_BASIC_CORRELATION_ID_FLAG = push_bit 10 1"
definition AMQP_BASIC_REPLY_TO_FLAG :: u32 where "AMQP_BASIC_REPLY_TO_FLAG = push_bit 9 1"
definition AMQP_BASIC_EXPIRATION_FLAG :: u32 where "AMQP_BASIC_EXPIRATION_FLAG = push_bit 8 1"
definition AMQP_BASIC_MESSAGE_ID_FLAG :: u32 where "AMQP_BASIC_MESSAGE_ID_FLAG = push_bit 7 1"
definition AMQP_BASIC_TIMESTAMP_FLAG :: u32 where "AMQP_BASIC_TIMESTAMP_FLAG = push_bit 6 1"
definition AMQP_BASIC_TYPE_FLAG :: u32 where "AMQP_BASIC_TYPE_FLAG = push_bit 5 1"
definition AMQP_BASIC_USER_ID_FLAG :: u32 where "AMQP_BASIC_USER_ID_FLAG = push_bit 4 1"
definition AMQP_BASIC_APP_ID_FLAG :: u32 where "AMQP_BASIC_APP_ID_FLAG = push_bit 3 1"
definition AMQP_BASIC_CLUSTER_ID_FLAG :: u32 where "AMQP_BASIC_CLUSTER_ID_FLAG = push_bit 2 1"

lemmas basic_flags =
  AMQP_BASIC_CONTENT_TYPE_FLAG_def
  AMQP_BASIC_CONTENT_ENCODING_FLAG_def
  AMQP_BASIC_HEADERS_FLAG_def
  AMQP_BASIC_DELIVERY_MODE_FLAG_def
  AMQP_BASIC_PRIORITY_FLAG_def
  AMQP_BASIC_CORRELATION_ID_FLAG_def
  AMQP_BASIC_REPLY_TO_FLAG_def
  AMQP_BASIC_EXPIRATION_FLAG_def
  AMQP_BASIC_MESSAGE_ID_FLAG_def
  AMQP_BASIC_TIMESTAMP_FLAG_def
  AMQP_BASIC_TYPE_FLAG_def
  AMQP_BASIC_USER_ID_FLAG_def
  AMQP_BASIC_APP_ID_FLAG_def
  AMQP_BASIC_CLUSTER_ID_FLAG_def

record amqp_basic_properties_t =
  basic_flags_set :: u32
  content_type :: bytes
  content_encoding :: bytes
  headers :: amqp_table
  delivery_mode :: u8
  priority :: u8
  correlation_id :: bytes
  reply_to :: bytes
  expiration :: bytes
  message_id :: bytes
  timestamp :: u64
  type' :: bytes
  user_id :: bytes
  app_id :: bytes
  cluster_id :: bytes

datatype amqp_properties =
  Flags_Only u32
| Basic_Properties amqp_basic_properties_t

primrec properties_flags :: "amqp_properties \<Rightarrow> u32" where
  "properties_flags (Flags_Only flags) = flags"
| "properties_flags (Basic_Properties p) = basic_flags_set p"

definition AMQP_BASIC_CLASS :: u16 where "AMQP_BASIC_CLASS = 60"

definition plain_classes :: "u16 list" where
  "plain_classes = [10, 20, 30, 40, 50, 90, 85]"

definition has :: "u32 \<Rightarrow> u32 \<Rightarrow> bool" where
  "has flags f \<longleftrightarrow> flags AND f \<noteq> 0"

section \<open>Decoding\<close>

text \<open>
  The flag words: a word whose lowest bit is set is followed by another one. Word number \<open>i\<close> is
  shifted by \<open>16 * i\<close>; shifting the 32-bit value by 32, for a third word, is not defined.
\<close>

primrec decode_flags :: "nat \<Rightarrow> nat \<Rightarrow> u32 \<Rightarrow> u32 dec" where
  "decode_flags 0 flagword_index flags enc = bindE (dec16 enc) (\<lambda>_. throwE Undefined_Behaviour)"
| "decode_flags (Suc n) flagword_index flags enc =
     bindE (dec16 enc) (\<lambda>partial_flags.
     let flags = flags OR push_bit (flagword_index * 16) (ucast partial_flags) in
     if partial_flags AND 1 \<noteq> 0 then decode_flags n (flagword_index + 1) flags enc else returnE flags)"

definition decode_basic_properties ::
  "(nat \<Rightarrow> bool) \<Rightarrow> amqp_basic_properties_t \<Rightarrow> u32 \<Rightarrow> amqp_basic_properties_t dec"
where
  "decode_basic_properties al block flags enc =
     bindE (pool_alloc al 200) (\<lambda>_.
     let p = block\<lparr>basic_flags_set := flags\<rparr> in
     bindE (if has flags AMQP_BASIC_CONTENT_TYPE_FLAG
            then bindE (dec_short enc) (\<lambda>x. returnE (p\<lparr>content_type := x\<rparr>)) else returnE p) (\<lambda>p.
     bindE (if has flags AMQP_BASIC_CONTENT_ENCODING_FLAG
            then bindE (dec_short enc) (\<lambda>x. returnE (p\<lparr>content_encoding := x\<rparr>)) else returnE p) (\<lambda>p.
     bindE (if has flags AMQP_BASIC_HEADERS_FLAG
            then bindE (amqp_decode_table al enc) (\<lambda>x. returnE (p\<lparr>headers := x\<rparr>)) else returnE p) (\<lambda>p.
     bindE (if has flags AMQP_BASIC_DELIVERY_MODE_FLAG
            then bindE (dec8 enc) (\<lambda>x. returnE (p\<lparr>delivery_mode := x\<rparr>)) else returnE p) (\<lambda>p.
     bindE (if has flags AMQP_BASIC_PRIORITY_FLAG
            then bindE (dec8 enc) (\<lambda>x. returnE (p\<lparr>priority := x\<rparr>)) else returnE p) (\<lambda>p.
     bindE (if has flags AMQP_BASIC_CORRELATION_ID_FLAG
            then bindE (dec_short enc) (\<lambda>x. returnE (p\<lparr>correlation_id := x\<rparr>)) else returnE p) (\<lambda>p.
     bindE (if has flags AMQP_BASIC_REPLY_TO_FLAG
            then bindE (dec_short enc) (\<lambda>x. returnE (p\<lparr>reply_to := x\<rparr>)) else returnE p) (\<lambda>p.
     bindE (if has flags AMQP_BASIC_EXPIRATION_FLAG
            then bindE (dec_short enc) (\<lambda>x. returnE (p\<lparr>expiration := x\<rparr>)) else returnE p) (\<lambda>p.
     bindE (if has flags AMQP_BASIC_MESSAGE_ID_FLAG
            then bindE (dec_short enc) (\<lambda>x. returnE (p\<lparr>message_id := x\<rparr>)) else returnE p) (\<lambda>p.
     bindE (if has flags AMQP_BASIC_TIMESTAMP_FLAG
            then bindE (dec64 enc) (\<lambda>x. returnE (p\<lparr>timestamp := x\<rparr>)) else returnE p) (\<lambda>p.
     bindE (if has flags AMQP_BASIC_TYPE_FLAG
            then bindE (dec_short enc) (\<lambda>x. returnE (p\<lparr>type' := x\<rparr>)) else returnE p) (\<lambda>p.
     bindE (if has flags AMQP_BASIC_USER_ID_FLAG
            then bindE (dec_short enc) (\<lambda>x. returnE (p\<lparr>user_id := x\<rparr>)) else returnE p) (\<lambda>p.
     bindE (if has flags AMQP_BASIC_APP_ID_FLAG
            then bindE (dec_short enc) (\<lambda>x. returnE (p\<lparr>app_id := x\<rparr>)) else returnE p) (\<lambda>p.
     bindE (if has flags AMQP_BASIC_CLUSTER_ID_FLAG
            then bindE (dec_short enc) (\<lambda>x. returnE (p\<lparr>cluster_id := x\<rparr>)) else returnE p) (\<lambda>p.
     returnE p)))))))))))))))"

definition decode_properties ::
  "(nat \<Rightarrow> bool) \<Rightarrow> amqp_basic_properties_t \<Rightarrow> u16 \<Rightarrow> amqp_properties dec"
where
  "decode_properties al block cls enc =
     bindE (decode_flags 2 0 0 enc) (\<lambda>flags.
     if cls \<in> set plain_classes then bindE (pool_alloc al 8) (\<lambda>_. returnE (Flags_Only flags))
     else if cls = AMQP_BASIC_CLASS then
       bindE (decode_basic_properties al block flags enc) (\<lambda>p. returnE (Basic_Properties p))
     else throwE AMQP_STATUS_UNKNOWN_CLASS)"

definition amqp_decode_properties ::
  "(nat \<Rightarrow> bool) \<Rightarrow> amqp_basic_properties_t \<Rightarrow> u16 \<Rightarrow> bytes \<Rightarrow> amqp_status + amqp_properties"
where
  "amqp_decode_properties al block cls encoded = fst (decode_properties al block cls encoded 0)"

section \<open>Encoding\<close>

function encode_flags :: "u32 \<Rightarrow> enc" where
  "encode_flags remaining_flags =
     (let remainder = drop_bit 16 remaining_flags;
          partial_flags = ucast (remaining_flags AND 0xFFFE) OR (if remainder \<noteq> 0 then 1 else 0)
      in bindE (enc16 partial_flags) (\<lambda>_.
         if remainder \<noteq> 0 then encode_flags remainder else returnE ()))"
  by auto

lemma drop_bit_word_less:
  assumes "drop_bit 16 (w :: u32) \<noteq> 0"
  shows "unat (drop_bit 16 w) < unat w"
proof -
  have "unat (drop_bit 16 w) = unat w div 2 ^ 16" 
    by (simp only: unat_drop_bit_eq) (simp only: drop_bit_eq_div)
  moreover have "0 < unat w" using assms by (cases "w = 0") (simp_all add: unat_gt_0)
  ultimately show ?thesis by simp
qed

termination encode_flags
  by (relation "measure unat") (simp_all add: drop_bit_word_less)

declare encode_flags.simps [simp del]

definition encode_basic_properties :: "amqp_basic_properties_t \<Rightarrow> enc" where
  "encode_basic_properties p =
     (let flags = basic_flags_set p in
     bindE (if has flags AMQP_BASIC_CONTENT_TYPE_FLAG then enc_short (amqp_basic_properties_t.content_type p) else returnE ()) (\<lambda>_.
     bindE (if has flags AMQP_BASIC_CONTENT_ENCODING_FLAG then enc_short (amqp_basic_properties_t.content_encoding p) else returnE ()) (\<lambda>_.
     bindE (if has flags AMQP_BASIC_HEADERS_FLAG then amqp_encode_table (amqp_basic_properties_t.headers p) else returnE ()) (\<lambda>_.
     bindE (if has flags AMQP_BASIC_DELIVERY_MODE_FLAG then enc8 (amqp_basic_properties_t.delivery_mode p) else returnE ()) (\<lambda>_.
     bindE (if has flags AMQP_BASIC_PRIORITY_FLAG then enc8 (amqp_basic_properties_t.priority p) else returnE ()) (\<lambda>_.
     bindE (if has flags AMQP_BASIC_CORRELATION_ID_FLAG then enc_short (amqp_basic_properties_t.correlation_id p) else returnE ()) (\<lambda>_.
     bindE (if has flags AMQP_BASIC_REPLY_TO_FLAG then enc_short (amqp_basic_properties_t.reply_to p) else returnE ()) (\<lambda>_.
     bindE (if has flags AMQP_BASIC_EXPIRATION_FLAG then enc_short (amqp_basic_properties_t.expiration p) else returnE ()) (\<lambda>_.
     bindE (if has flags AMQP_BASIC_MESSAGE_ID_FLAG then enc_short (amqp_basic_properties_t.message_id p) else returnE ()) (\<lambda>_.
     bindE (if has flags AMQP_BASIC_TIMESTAMP_FLAG then enc64 (amqp_basic_properties_t.timestamp p) else returnE ()) (\<lambda>_.
     bindE (if has flags AMQP_BASIC_TYPE_FLAG then enc_short (amqp_basic_properties_t.type' p) else returnE ()) (\<lambda>_.
     bindE (if has flags AMQP_BASIC_USER_ID_FLAG then enc_short (amqp_basic_properties_t.user_id p) else returnE ()) (\<lambda>_.
     bindE (if has flags AMQP_BASIC_APP_ID_FLAG then enc_short (amqp_basic_properties_t.app_id p) else returnE ()) (\<lambda>_.
     bindE (if has flags AMQP_BASIC_CLUSTER_ID_FLAG then enc_short (amqp_basic_properties_t.cluster_id p) else returnE ()) (\<lambda>_.
     returnE ())))))))))))))))"

text \<open>The structure must be the one of the class.\<close>

definition encode_properties :: "u16 \<Rightarrow> amqp_properties \<Rightarrow> enc" where
  "encode_properties cls p =
     bindE (encode_flags (properties_flags p)) (\<lambda>_.
     if cls \<in> set plain_classes then returnE ()
     else if cls = AMQP_BASIC_CLASS then
       (case p of Basic_Properties p \<Rightarrow> encode_basic_properties p | _ \<Rightarrow> throwE Undefined_Behaviour)
     else throwE AMQP_STATUS_UNKNOWN_CLASS)"

definition amqp_encode_properties :: "u16 \<Rightarrow> amqp_properties \<Rightarrow> bytes \<Rightarrow> (amqp_status + nat) \<times> bytes" where
  "amqp_encode_properties cls decoded encoded =
     (case encode_properties cls decoded (encoded, 0) of
        (Inl e, (buf, _)) \<Rightarrow> (Inl e, buf)
      | (Inr _, (buf, offset)) \<Rightarrow> (Inr offset, buf))"

section \<open>Properties that are encoded are decoded\<close>

text \<open>Flags of one word, the lowest bit of which says that there are no more.\<close>

definition flags_ok :: "u32 \<Rightarrow> bool" where
  "flags_ok flags \<longleftrightarrow> drop_bit 16 flags = 0 \<and> even flags"

definition basic_ok :: "amqp_basic_properties_t \<Rightarrow> bool" where
  "basic_ok p \<longleftrightarrow> flags_ok (basic_flags_set p) \<and> table_ok (headers p) \<and>
     list_all short_ok [amqp_basic_properties_t.content_type p, amqp_basic_properties_t.content_encoding p, amqp_basic_properties_t.correlation_id p, amqp_basic_properties_t.reply_to p, amqp_basic_properties_t.expiration p, amqp_basic_properties_t.message_id p, amqp_basic_properties_t.type' p, amqp_basic_properties_t.user_id p, amqp_basic_properties_t.app_id p, amqp_basic_properties_t.cluster_id p]"

primrec properties_ok :: "amqp_properties \<Rightarrow> bool" where
  "properties_ok (Flags_Only flags) \<longleftrightarrow> flags_ok flags"
| "properties_ok (Basic_Properties p) \<longleftrightarrow> basic_ok p"

text \<open>What is decoded: the fields whose flag is set, and the memory otherwise.\<close>

definition present :: "amqp_basic_properties_t \<Rightarrow> amqp_basic_properties_t \<Rightarrow> amqp_basic_properties_t" where
  "present p block =
     \<lparr>basic_flags_set = basic_flags_set p,
      content_type = (if has (basic_flags_set p) AMQP_BASIC_CONTENT_TYPE_FLAG then amqp_basic_properties_t.content_type p else amqp_basic_properties_t.content_type block),
      content_encoding = (if has (basic_flags_set p) AMQP_BASIC_CONTENT_ENCODING_FLAG then amqp_basic_properties_t.content_encoding p else amqp_basic_properties_t.content_encoding block),
      headers = (if has (basic_flags_set p) AMQP_BASIC_HEADERS_FLAG then amqp_basic_properties_t.headers p else amqp_basic_properties_t.headers block),
      delivery_mode = (if has (basic_flags_set p) AMQP_BASIC_DELIVERY_MODE_FLAG then amqp_basic_properties_t.delivery_mode p else amqp_basic_properties_t.delivery_mode block),
      priority = (if has (basic_flags_set p) AMQP_BASIC_PRIORITY_FLAG then amqp_basic_properties_t.priority p else amqp_basic_properties_t.priority block),
      correlation_id = (if has (basic_flags_set p) AMQP_BASIC_CORRELATION_ID_FLAG then amqp_basic_properties_t.correlation_id p else amqp_basic_properties_t.correlation_id block),
      reply_to = (if has (basic_flags_set p) AMQP_BASIC_REPLY_TO_FLAG then amqp_basic_properties_t.reply_to p else amqp_basic_properties_t.reply_to block),
      expiration = (if has (basic_flags_set p) AMQP_BASIC_EXPIRATION_FLAG then amqp_basic_properties_t.expiration p else amqp_basic_properties_t.expiration block),
      message_id = (if has (basic_flags_set p) AMQP_BASIC_MESSAGE_ID_FLAG then amqp_basic_properties_t.message_id p else amqp_basic_properties_t.message_id block),
      timestamp = (if has (basic_flags_set p) AMQP_BASIC_TIMESTAMP_FLAG then amqp_basic_properties_t.timestamp p else amqp_basic_properties_t.timestamp block),
      type' = (if has (basic_flags_set p) AMQP_BASIC_TYPE_FLAG then amqp_basic_properties_t.type' p else amqp_basic_properties_t.type' block),
      user_id = (if has (basic_flags_set p) AMQP_BASIC_USER_ID_FLAG then amqp_basic_properties_t.user_id p else amqp_basic_properties_t.user_id block),
      app_id = (if has (basic_flags_set p) AMQP_BASIC_APP_ID_FLAG then amqp_basic_properties_t.app_id p else amqp_basic_properties_t.app_id block),
      cluster_id = (if has (basic_flags_set p) AMQP_BASIC_CLUSTER_ID_FLAG then amqp_basic_properties_t.cluster_id p else amqp_basic_properties_t.cluster_id block)\<rparr>"

lemma wire_when:
  assumes "wire e d x" and upd: "\<And>p. upd (\<lambda>v. v) p = p"
  shows "wire (if b then e else returnE ())
     (\<lambda>enc. if b then bindE (d enc) (\<lambda>x. returnE (upd (\<lambda>_. x) p)) else returnE p)
     (upd (\<lambda>v. if b then x else v) p)"
  using assms by (cases b) (auto simp: wire_def intro: reads_map emits_return reads_return)

lemma basic_update_id:
  "amqp_basic_properties_t.content_type_update (\<lambda>v. v) (p :: amqp_basic_properties_t) = p"
  "amqp_basic_properties_t.content_encoding_update (\<lambda>v. v) (p :: amqp_basic_properties_t) = p"
  "amqp_basic_properties_t.headers_update (\<lambda>v. v) (p :: amqp_basic_properties_t) = p"
  "amqp_basic_properties_t.delivery_mode_update (\<lambda>v. v) (p :: amqp_basic_properties_t) = p"
  "amqp_basic_properties_t.priority_update (\<lambda>v. v) (p :: amqp_basic_properties_t) = p"
  "amqp_basic_properties_t.correlation_id_update (\<lambda>v. v) (p :: amqp_basic_properties_t) = p"
  "amqp_basic_properties_t.reply_to_update (\<lambda>v. v) (p :: amqp_basic_properties_t) = p"
  "amqp_basic_properties_t.expiration_update (\<lambda>v. v) (p :: amqp_basic_properties_t) = p"
  "amqp_basic_properties_t.message_id_update (\<lambda>v. v) (p :: amqp_basic_properties_t) = p"
  "amqp_basic_properties_t.timestamp_update (\<lambda>v. v) (p :: amqp_basic_properties_t) = p"
  "amqp_basic_properties_t.type'_update (\<lambda>v. v) (p :: amqp_basic_properties_t) = p"
  "amqp_basic_properties_t.user_id_update (\<lambda>v. v) (p :: amqp_basic_properties_t) = p"
  "amqp_basic_properties_t.app_id_update (\<lambda>v. v) (p :: amqp_basic_properties_t) = p"
  "amqp_basic_properties_t.cluster_id_update (\<lambda>v. v) (p :: amqp_basic_properties_t) = p"
  by (cases p; simp)+

lemmas wire_optional =
  wire_bind [OF wire_when [where upd = amqp_basic_properties_t.content_type_update, OF wire_short basic_update_id(1)]]
  wire_bind [OF wire_when [where upd = amqp_basic_properties_t.content_encoding_update, OF wire_short basic_update_id(2)]]
  wire_bind [OF wire_when [where upd = amqp_basic_properties_t.headers_update, OF wire_table basic_update_id(3)]]
  wire_bind [OF wire_when [where upd = amqp_basic_properties_t.delivery_mode_update, OF wire_int(1) basic_update_id(4)]]
  wire_bind [OF wire_when [where upd = amqp_basic_properties_t.priority_update, OF wire_int(1) basic_update_id(5)]]
  wire_bind [OF wire_when [where upd = amqp_basic_properties_t.correlation_id_update, OF wire_short basic_update_id(6)]]
  wire_bind [OF wire_when [where upd = amqp_basic_properties_t.reply_to_update, OF wire_short basic_update_id(7)]]
  wire_bind [OF wire_when [where upd = amqp_basic_properties_t.expiration_update, OF wire_short basic_update_id(8)]]
  wire_bind [OF wire_when [where upd = amqp_basic_properties_t.message_id_update, OF wire_short basic_update_id(9)]]
  wire_bind [OF wire_when [where upd = amqp_basic_properties_t.timestamp_update, OF wire_int(4) basic_update_id(10)]]
  wire_bind [OF wire_when [where upd = amqp_basic_properties_t.type'_update, OF wire_short basic_update_id(11)]]
  wire_bind [OF wire_when [where upd = amqp_basic_properties_t.user_id_update, OF wire_short basic_update_id(12)]]
  wire_bind [OF wire_when [where upd = amqp_basic_properties_t.app_id_update, OF wire_short basic_update_id(13)]]
  wire_bind [OF wire_when [where upd = amqp_basic_properties_t.cluster_id_update, OF wire_short basic_update_id(14)]]

lemma wire_basic:
  assumes "\<And>n. al n" "basic_ok p"
  shows "wire (encode_basic_properties p) (decode_basic_properties al block (basic_flags_set p)) (present p block)"
proof -
  have ok: "table_ok (headers p)" "list_all short_ok [amqp_basic_properties_t.content_type p, amqp_basic_properties_t.content_encoding p, amqp_basic_properties_t.correlation_id p, amqp_basic_properties_t.reply_to p, amqp_basic_properties_t.expiration p, amqp_basic_properties_t.message_id p, amqp_basic_properties_t.type' p, amqp_basic_properties_t.user_id p, amqp_basic_properties_t.app_id p, amqp_basic_properties_t.cluster_id p]"
    using assms(2) by (simp_all add: basic_ok_def)
  show ?thesis
    unfolding encode_basic_properties_def decode_basic_properties_def [abs_def] Let_def
    by (rule wire_alloc, rule assms, intro wire_optional wire_return)
      (use assms(1) ok in \<open>simp_all add: present_def\<close>)
qed

lemma flag_word:
  assumes "flags_ok flags"
  shows "ucast (flags AND 0xFFFE) = (ucast flags :: u16)" "even (ucast flags :: u16)"
    "ucast (ucast flags :: u16) = flags"
proof -
  have eq: "(0xFFFE :: u32) = push_bit 1 (mask 15)" by (simp add: mask_eq_exp_minus_1 push_bit_eq_mult)
  have bits: "bit (0xFFFE :: u32) n \<longleftrightarrow> 0 < n \<and> n < 16" for n
    unfolding eq by (auto simp only: bit_push_bit_iff bit_mask_iff possible_bit_word) auto
  have "n \<noteq> 0" if "bit flags n" for n
    using that assms by (cases n) (auto simp: flags_ok_def bit_0)
  then show "ucast (flags AND 0xFFFE) = (ucast flags :: u16)"
    by (intro bit_eqI) (auto simp only: bit_unsigned_iff bit_and_iff bits possible_bit_word, simp_all)
  have "bit (ucast flags :: u16) 0 \<longleftrightarrow> bit flags 0" by (simp only: bit_unsigned_iff possible_bit_word) simp
  then show "even (ucast flags :: u16)" using assms by (simp only: bit_0 flags_ok_def) simp
  have "n < 16" if "bit flags n" for n
  proof (rule ccontr)
    assume "\<not> n < 16"
    then have "bit (drop_bit 16 flags) (n - 16)" using that by (simp add: bit_drop_bit_eq)
    then show False using assms by (simp add: flags_ok_def)
  qed
  then show "ucast (ucast flags :: u16) = flags"
    by (auto simp: bit_eq_iff bit_simps)
qed

lemma wire_flags:
  assumes "flags_ok flags"
  shows "wire (encode_flags flags) (decode_flags 2 0 0) flags"
proof -
  have e: "encode_flags flags = bindE (enc16 (ucast flags)) (\<lambda>_. returnE ())"
    using assms by (simp add: encode_flags.simps [of flags] flag_word(1) [OF assms] flags_ok_def Let_def)
  let ?w = "\<lambda>w :: u16. 0 OR push_bit (0 * 16) (ucast w) :: u32"
  let ?k = "\<lambda>w enc. if w AND 1 \<noteq> 0 then decode_flags (Suc 0) (0 + 1) (?w w) enc else returnE (?w w)"
  have d: "decode_flags 2 0 0 = (\<lambda>enc. bindE (dec16 enc) (\<lambda>w. ?k w enc))"
    by (rule ext) (simp only: numeral_2_eq_2 decode_flags.simps Let_def)
  have "ucast flags AND 1 = (0 :: u16)"
    using flag_word(2) [OF assms] by (simp only: and_one_eq even_iff_mod_2_eq_zero)
  then have "wire (bindE (enc16 (ucast flags)) (\<lambda>_. returnE ())) (\<lambda>enc. bindE (dec16 enc) (\<lambda>w. ?k w enc)) flags"
    by (intro wire_bind [OF wire_int(2)]) (simp add: flag_word(3) [OF assms] wire_return)
  then show ?thesis by (simp only: e d)
qed

definition class_ok :: "u16 \<Rightarrow> amqp_properties \<Rightarrow> bool" where
  "class_ok cls p \<longleftrightarrow>
     (case p of Flags_Only _ \<Rightarrow> cls \<in> set plain_classes | Basic_Properties _ \<Rightarrow> cls = AMQP_BASIC_CLASS)"

primrec decoded_properties :: "amqp_basic_properties_t \<Rightarrow> amqp_properties \<Rightarrow> amqp_properties" where
  "decoded_properties block (Flags_Only flags) = Flags_Only flags"
| "decoded_properties block (Basic_Properties p) = Basic_Properties (present p block)"

lemma wire_properties:
  assumes "\<And>n. al n" "properties_ok p" "class_ok cls p"
  shows "wire (encode_properties cls p) (decode_properties al block cls) (decoded_properties block p)"
proof (cases p)
  case (Flags_Only flags)
  then have ok: "flags_ok flags" and cls: "cls \<in> set plain_classes" using assms by (simp_all add: class_ok_def)
  have "wire (returnE ()) (\<lambda>enc. bindE (pool_alloc al 8) (\<lambda>_. returnE (Flags_Only flags))) (Flags_Only flags)"
    by (intro wire_alloc wire_return refl assms)
  then show ?thesis
    unfolding encode_properties_def decode_properties_def [abs_def] Flags_Only properties_flags.simps
      decoded_properties.simps if_P [OF cls]
    by (rule wire_bind [OF wire_flags [OF ok]])
next
  case (Basic_Properties q)
  have "wire (encode_basic_properties q) (\<lambda>enc. bindE (decode_basic_properties al block (basic_flags_set q) enc)
      (\<lambda>p. returnE (Basic_Properties p))) (Basic_Properties (present q block))"
    using wire_basic [OF assms(1), where p = q and block = block] assms(2) Basic_Properties
    unfolding wire_def by (fastforce intro: reads_map)
  then show ?thesis using assms Basic_Properties
    unfolding encode_properties_def decode_properties_def [abs_def]
    by (auto simp: class_ok_def basic_ok_def AMQP_BASIC_CLASS_def plain_classes_def intro!: wire_bind [OF wire_flags])
qed

lemma encode_properties_decoded:
  assumes "\<And>n. al n" "properties_ok p" "class_ok cls p"
  obtains v where
    "\<forall>buf. if length v \<le> length buf
       then amqp_encode_properties cls p buf = (Inr (length v), v @ drop (length v) buf)
       else \<exists>err buf'. amqp_encode_properties cls p buf = (Inl err, buf')"
    "amqp_decode_properties al block cls v = Inr (decoded_properties block p)"
proof -
  obtain v where
    v: "\<forall>buf. if length v \<le> length buf
        then encode_properties cls p (buf, 0) = (Inr (), (v @ drop (length v) buf, length v))
        else \<exists>err t. encode_properties cls p (buf, 0) = (Inl err, t)"
    and d: "decode_properties al block cls v 0 = (Inr (decoded_properties block p), length v)"
    by (rule wire_run [OF wire_properties [where al = al and block = block, OF assms]])
  show thesis
  proof (rule that [of v])
    show "\<forall>buf. if length v \<le> length buf
      then amqp_encode_properties cls p buf = (Inr (length v), v @ drop (length v) buf)
      else \<exists>err buf'. amqp_encode_properties cls p buf = (Inl err, buf')"
      using v by (auto simp: amqp_encode_properties_def split: if_splits)
    show "amqp_decode_properties al block cls v = Inr (decoded_properties block p)"
      using d by (simp add: amqp_decode_properties_def)
  qed
qed

end
