(* ===== verification/Amqp_Frames.thy ===== *)
theory Amqp_Frames
  imports Amqp_Properties
begin

text \<open>
  Frames and their bytes: \<open>amqp_frame_t\<close> of \<open>src/src/rabbitmq-c/amqp.h\<close> and
  \<open>amqp_frame_to_bytes\<close> of \<open>amqp_connection.c\<close>. The payload is the union of the C structure,
  with the frame type as its tag. Writing behind the end of the buffer is
  \<open>Undefined_Behaviour\<close>, since the C code writes without looking at the length.
\<close>

section \<open>Frames\<close>

definition HEADER_SIZE :: nat where "HEADER_SIZE = 7"
definition FOOTER_SIZE :: nat where "FOOTER_SIZE = 1"
definition AMQP_PSEUDOFRAME_PROTOCOL_HEADER :: u8 where "AMQP_PSEUDOFRAME_PROTOCOL_HEADER = 0x41"

datatype amqp_payload =
  P_Method amqp_method
| P_Header u16 u64 amqp_properties bytes
| P_Body bytes
| P_Heartbeat
| P_Protocol_Header u8 u8 u8 u8
| P_Other u8

fun frame_type :: "amqp_payload \<Rightarrow> u8" where
  "frame_type (P_Method _) = 1"
| "frame_type (P_Header _ _ _ _) = 2"
| "frame_type (P_Body _) = 3"
| "frame_type P_Heartbeat = 8"
| "frame_type (P_Protocol_Header _ _ _ _) = AMQP_PSEUDOFRAME_PROTOCOL_HEADER"
| "frame_type (P_Other t) = t"

record amqp_frame_t =
  frame_channel :: u16
  frame_payload :: amqp_payload

text \<open>The frame that stands for no frame, or for one that is ignored.\<close>

definition no_frame :: amqp_frame_t where
  "no_frame = \<lparr>frame_channel = 0, frame_payload = P_Other 0\<rparr>"

section \<open>Writing frames\<close>

type_synonym 'a ebuf_run = "(bytes, amqp_status, 'a) est"

definition poke :: "nat \<Rightarrow> bytes \<Rightarrow> unit ebuf_run" where
  "poke offset v buf =
     (if offset + length v \<le> length buf then (Inr (), write_at buf offset v) else (Inl Undefined_Behaviour, buf))"

text \<open>An encoder that is given the rest of the buffer from \<open>offset\<close>, but for the footer. The
  length of that rest is a difference of unsigned numbers; where it would be negative, the encoder
  is told a length that the buffer does not have.\<close>

definition encode_rest :: "nat \<Rightarrow> (bytes \<Rightarrow> (amqp_status + nat) \<times> bytes) \<Rightarrow> nat ebuf_run" where
  "encode_rest offset f buf =
     (if length buf < offset + FOOTER_SIZE then (Inl Undefined_Behaviour, buf)
      else
        case f (take (length buf - offset - FOOTER_SIZE) (drop offset buf)) of
          (r, sub) \<Rightarrow> (r, write_at buf offset sub))"

definition payload_to_bytes :: "amqp_payload \<Rightarrow> nat ebuf_run" where
  "payload_to_bytes p =
     (case p of
        P_Body body \<Rightarrow> bindE (poke HEADER_SIZE body) (\<lambda>_. returnE (length body))
      | P_Method m \<Rightarrow>
          bindE (poke HEADER_SIZE (amqp_e32 (method_number m))) (\<lambda>_.
          bindE (encode_rest (HEADER_SIZE + 4) (amqp_encode_method (method_number m) m)) (\<lambda>res.
          returnE (res + 4)))
      | P_Header cls body_size decoded raw \<Rightarrow>
          bindE (poke HEADER_SIZE (amqp_e16 cls)) (\<lambda>_.
          bindE (poke (HEADER_SIZE + 2) (amqp_e16 0)) (\<lambda>_.
          bindE (poke (HEADER_SIZE + 4) (amqp_e64 body_size)) (\<lambda>_.
          bindE (encode_rest (HEADER_SIZE + 12) (amqp_encode_properties cls decoded)) (\<lambda>res.
          returnE (res + 12)))))
      | P_Heartbeat \<Rightarrow> returnE 0
      | _ \<Rightarrow> throwE AMQP_STATUS_INVALID_PARAMETER)"

definition amqp_frame_to_bytes :: "amqp_frame_t \<Rightarrow> nat ebuf_run" where
  "amqp_frame_to_bytes frame =
     bindE (poke 0 (amqp_e8 (frame_type (frame_payload frame)))) (\<lambda>_.
     bindE (poke 1 (amqp_e16 (frame_channel frame))) (\<lambda>_.
     bindE (payload_to_bytes (frame_payload frame)) (\<lambda>out_frame_len.
     bindE (poke 3 (amqp_e32 (word_of_nat out_frame_len))) (\<lambda>_.
     bindE (poke (HEADER_SIZE + out_frame_len) (amqp_e8 (word_of_int AMQP_FRAME_END))) (\<lambda>_.
     returnE (out_frame_len + HEADER_SIZE + FOOTER_SIZE))))))"

section \<open>The bytes of a frame\<close>

definition frame_bytes :: "u8 \<Rightarrow> u16 \<Rightarrow> bytes \<Rightarrow> bytes" where
  "frame_bytes t chan body = t # put_u16 chan @ put_u32 (word_of_nat (length body)) @ body @ [0xCE]"

lemma length_frame_bytes [simp]: "length (frame_bytes t chan body) = length body + 8"
  by (simp add: frame_bytes_def)

text \<open>
  \<open>carries al block p v q\<close>: \<open>v\<close> is the encoding of the payload \<open>p\<close>, which is decoded as \<open>q\<close>.
  It is written when, and only when, the buffer has room for the whole frame.
\<close>

inductive carries :: "(nat \<Rightarrow> bool) \<Rightarrow> amqp_basic_properties_t \<Rightarrow> amqp_payload \<Rightarrow> bytes \<Rightarrow> amqp_payload \<Rightarrow> bool"
  for al block where
  body: "carries al block (P_Body b) b (P_Body b)"
| heartbeat: "carries al block P_Heartbeat [] P_Heartbeat"
| method_:
    "(\<And>buf. length v \<le> length buf \<Longrightarrow>
        amqp_encode_method (method_number m) m buf = (Inr (length v), v @ drop (length v) buf)) \<Longrightarrow>
     (\<And>buf. length buf < length v \<Longrightarrow> \<exists>err buf'. amqp_encode_method (method_number m) m buf = (Inl err, buf')) \<Longrightarrow>
     amqp_decode_method al (method_number m) v = Inr m \<Longrightarrow>
     carries al block (P_Method m) (put_u32 (method_number m) @ v) (P_Method m)"
| header:
    "(\<And>buf. length v \<le> length buf \<Longrightarrow>
        amqp_encode_properties cls p buf = (Inr (length v), v @ drop (length v) buf)) \<Longrightarrow>
     (\<And>buf. length buf < length v \<Longrightarrow> \<exists>err buf'. amqp_encode_properties cls p buf = (Inl err, buf')) \<Longrightarrow>
     amqp_decode_properties al block cls v = Inr (decoded_properties block p) \<Longrightarrow>
     carries al block (P_Header cls body_size p raw) (put_u16 cls @ put_u16 0 @ put_u64 body_size @ v)
       (P_Header cls body_size (decoded_properties block p) v)"

inductive_cases carries_cases: "carries al block p v q"

text \<open>Every payload whose parts fit their length fields is carried.\<close>

primrec payload_ok :: "amqp_payload \<Rightarrow> bool" where
  "payload_ok (P_Method m) \<longleftrightarrow> method_ok m"
| "payload_ok (P_Header cls body_size p raw) \<longleftrightarrow> properties_ok p \<and> class_ok cls p"
| "payload_ok (P_Body b) \<longleftrightarrow> True"
| "payload_ok P_Heartbeat \<longleftrightarrow> True"
| "payload_ok (P_Protocol_Header _ _ _ _) \<longleftrightarrow> False"
| "payload_ok (P_Other _) \<longleftrightarrow> False"

lemma payload_carried:
  assumes al: "\<And>n. al n" and ok: "payload_ok p"
  obtains v q where "carries al block p v q"
proof (cases p)
  case (P_Method m)
  obtain v where "\<forall>buf. if length v \<le> length buf
       then amqp_encode_method (method_number m) m buf = (Inr (length v), v @ drop (length v) buf)
       else \<exists>err buf'. amqp_encode_method (method_number m) m buf = (Inl err, buf')"
    and dec: "amqp_decode_method al (method_number m) v = Inr m"
    using ok P_Method by (auto intro: encode_method_decoded [where al = al and m = m, OF al])
  then have "length v \<le> length buf \<Longrightarrow> amqp_encode_method (method_number m) m buf = (Inr (length v), v @ drop (length v) buf)"
      "length buf < length v \<Longrightarrow> \<exists>err buf'. amqp_encode_method (method_number m) m buf = (Inl err, buf')" for buf
    by (simp_all add: not_le [symmetric])
  then show thesis using P_Method that carries.method_ dec by metis
next
  case (P_Header cls body_size pr raw)
  obtain v where "\<forall>buf. if length v \<le> length buf
       then amqp_encode_properties cls pr buf = (Inr (length v), v @ drop (length v) buf)
       else \<exists>err buf'. amqp_encode_properties cls pr buf = (Inl err, buf')"
    and dec: "amqp_decode_properties al block cls v = Inr (decoded_properties block pr)"
    using ok P_Header by (auto intro: encode_properties_decoded [where al = al and block = block and p = pr and cls = cls, OF al])
  then have "length v \<le> length buf \<Longrightarrow> amqp_encode_properties cls pr buf = (Inr (length v), v @ drop (length v) buf)"
      "length buf < length v \<Longrightarrow> \<exists>err buf'. amqp_encode_properties cls pr buf = (Inl err, buf')" for buf
    by (simp_all add: not_le [symmetric])
  then show thesis using P_Header that carries.header dec by metis
qed (use ok in \<open>auto intro: that carries.intros\<close>)

text \<open>Writing into a buffer piece by piece.\<close>

lemma write_at_same:
  "length v \<le> k \<Longrightarrow> off + k \<le> length buf \<Longrightarrow>
     write_at buf off (v @ drop (length v) (take k (drop off buf))) = write_at buf off v"
proof -
  assume "length v \<le> k" "off + k \<le> length buf"
  then have "drop (length v) (take k (drop off buf)) @ drop (off + k) buf = drop (off + length v) buf"
    using append_take_drop_id [of "k - length v" "drop (off + length v) buf"]
    by (simp add: drop_take add.commute)
  then show ?thesis using \<open>length v \<le> k\<close> \<open>off + k \<le> length buf\<close> by (simp add: write_at_def)
qed

lemma poke_fits [simp]: "off + length v \<le> length buf \<Longrightarrow> poke off v buf = (Inr (), write_at buf off v)"
  by (simp add: poke_def)

lemma encode_rest_fits:
  assumes "f (take (length buf - off - 1) (drop off buf)) =
      (Inr (length v), v @ drop (length v) (take (length buf - off - 1) (drop off buf)))"
    and "off + length v + 1 \<le> length buf"
  shows "encode_rest off f buf = (Inr (length v), write_at buf off v)"
  using assms write_at_same [of v "length buf - off - 1" off buf]
  by (simp add: encode_rest_def FOOTER_SIZE_def)

lemma payload_written:
  assumes "carries al block p v q" "8 + length v \<le> length buf"
  shows "payload_to_bytes p buf = (Inr (length v), write_at buf 7 v)"
  using assms
proof cases
  case body
  then show ?thesis using assms(2) by (simp add: payload_to_bytes_def HEADER_SIZE_def bindE_def)
next
  case heartbeat
  then show ?thesis by (simp add: payload_to_bytes_def)
next
  case (method_ w m)
  let ?n = "put_u32 (method_number m)"
  have "encode_rest 11 (amqp_encode_method (method_number m) m) (write_at buf 7 ?n) =
      (Inr (length w), write_at (write_at buf 7 ?n) 11 w)"
    using method_ assms(2) by (intro encode_rest_fits) simp_all
  moreover have "write_at (write_at buf 7 ?n) 11 w = write_at buf 7 v"
    using method_ assms(2) write_at_append [of 7 ?n w buf] by simp
  ultimately show ?thesis
    using method_ assms(2) by (simp add: payload_to_bytes_def HEADER_SIZE_def bindE_def amqp_e32_eq)
next
  case (header w cls pr body_size raw)
  let ?c = "put_u16 cls" and ?z = "put_u16 0" and ?b = "put_u64 body_size"
  let ?buf = "write_at (write_at (write_at buf 7 ?c) 9 ?z) 11 ?b"
  have len: "length ?buf = length buf" using header assms(2) by simp
  have "?buf = write_at buf 7 (?c @ ?z @ ?b)"
    using header assms(2) write_at_append [of 7 ?c ?z buf] write_at_append [of 7 "?c @ ?z" ?b buf] by simp
  then have "write_at ?buf 19 w = write_at buf 7 v"
    using header assms(2) write_at_append [of 7 "?c @ ?z @ ?b" w buf] by simp
  moreover have "encode_rest 19 (amqp_encode_properties cls pr) ?buf = (Inr (length w), write_at ?buf 19 w)"
    using header assms(2) len by (intro encode_rest_fits) simp_all
  ultimately show ?thesis
    using header assms(2)
    by (simp add: payload_to_bytes_def HEADER_SIZE_def bindE_def amqp_e16_eq amqp_e64_eq)
qed

lemma frame_written:
  assumes "carries al block p v q" "8 + length v \<le> length buf"
  shows "amqp_frame_to_bytes \<lparr>frame_channel = chan, frame_payload = p\<rparr> buf =
    (Inr (length v + 8), frame_bytes (frame_type p) chan v @ drop (length v + 8) buf)"
proof -
  let ?t = "[frame_type p]" and ?c = "put_u16 chan" and ?n = "put_u32 (word_of_nat (length v)) :: bytes"
  have 1: "write_at (write_at buf 0 ?t) 1 ?c = write_at buf 0 (?t @ ?c)"
    using assms(2) write_at_append [of 0 ?t ?c buf] by simp
  let ?b = "write_at buf 0 (?t @ ?c)"
  have len: "length ?b = length buf" using assms(2) by simp
  have 2: "write_at (write_at ?b 7 v) 3 ?n = write_at buf 0 (?t @ ?c @ ?n @ v)"
    using assms(2) len write_at_before [of 3 ?n v ?b] write_at_append [of 0 "?t @ ?c" "?n @ v" buf] by simp
  have 3: "write_at (write_at buf 0 (?t @ ?c @ ?n @ v)) (7 + length v) [0xCE] =
      write_at buf 0 (frame_bytes (frame_type p) chan v)"
    using assms(2) write_at_append [of 0 "?t @ ?c @ ?n @ v" "[0xCE]" buf] by (simp add: frame_bytes_def)
  have "payload_to_bytes p ?b = (Inr (length v), write_at ?b 7 v)"
    using assms len by (intro payload_written) simp_all
  then show ?thesis
    using assms(2) len 1 2 3
    by (simp add: amqp_frame_to_bytes_def bindE_def HEADER_SIZE_def FOOTER_SIZE_def amqp_e8_def
        amqp_e16_eq amqp_e32_eq AMQP_FRAME_END_def write_at_def [of buf 0 "frame_bytes _ _ _"] add.commute)
qed

text \<open>Nothing is reported as written that did not fit.\<close>

lemma poke_InrD: "poke off v buf = (Inr u, buf') \<Longrightarrow> off + length v \<le> length buf \<and> length buf' = length buf"
  by (auto simp: poke_def split: if_splits)

lemma encode_rest_InrD:
  assumes "\<And>b. length w \<le> length b \<Longrightarrow> f b = (Inr (length w), w @ drop (length w) b)"
    "\<And>b. length b < length w \<Longrightarrow> \<exists>e b'. f b = (Inl e, b')" "encode_rest off f buf = (Inr n, buf')"
  shows "n = length w \<and> length buf' = length buf"
proof -
  let ?b = "take (length buf - off - 1) (drop off buf)"
  have off: "off + 1 \<le> length buf" using assms(3) by (auto simp: encode_rest_def FOOTER_SIZE_def split: if_splits)
  have "length w \<le> length ?b"
  proof (rule ccontr)
    assume "\<not> length w \<le> length ?b"
    then obtain e b' where "f ?b = (Inl e, b')" using assms(2) [of ?b] by auto
    then show False using assms(3) off by (simp add: encode_rest_def FOOTER_SIZE_def)
  qed
  then show ?thesis using assms(1) [of ?b] assms(3) off by (auto simp: encode_rest_def FOOTER_SIZE_def)
qed

lemma payload_InrD:
  assumes "carries al block p v q" "payload_to_bytes p buf = (Inr n, buf')"
  shows "n = length v \<and> length buf' = length buf"
  using assms
proof cases
  case body
  then show ?thesis using assms(2) by (auto simp: payload_to_bytes_def elim!: bindE_InrE dest!: poke_InrD)
next
  case heartbeat
  then show ?thesis using assms(2) by (simp add: payload_to_bytes_def)
next
  case (method_ w m)
  have "n' = length w \<and> length b' = length b" if "encode_rest off (amqp_encode_method (method_number m) m) b = (Inr n', b')" for off n' b b'
    using method_(4,5) that by (rule encode_rest_InrD)
  then show ?thesis
    using assms(2) method_(1,2) by (auto simp: payload_to_bytes_def elim!: bindE_InrE dest!: poke_InrD)
next
  case (header w cls pr body_size raw)
  have "n' = length w \<and> length b' = length b" if "encode_rest off (amqp_encode_properties cls pr) b = (Inr n', b')" for off n' b b'
    using header(4,5) that by (rule encode_rest_InrD)
  then show ?thesis
    using assms(2) header(1,2) by (auto simp: payload_to_bytes_def elim!: bindE_InrE dest!: poke_InrD)
qed

lemma frame_fits:
  assumes "carries al block p v q" "amqp_frame_to_bytes \<lparr>frame_channel = chan, frame_payload = p\<rparr> buf = (Inr n, buf')"
  shows "8 + length v \<le> length buf"
  using assms(2)
  by (auto simp: amqp_frame_to_bytes_def HEADER_SIZE_def amqp_e8_def elim!: bindE_InrE
      dest!: poke_InrD payload_InrD [OF assms(1)])

end
