(* ===== verification/Amqp_Time.thy ===== *)
theory Amqp_Time
  imports Amqp_Codec
begin

text \<open>
  Points in time of the monotonic clock: \<open>src/src/rabbitmq-c/amqp_time.c\<close>. What the clock says,
  in nanoseconds, is an argument (0 if it cannot be read); 64-bit sums wrap around.
\<close>

type_synonym amqp_time = u64

record timeval =
  tv_sec :: int
  tv_usec :: int

definition AMQP_NS_PER_S :: u64 where "AMQP_NS_PER_S = 1000000000"
definition AMQP_NS_PER_MS :: u64 where "AMQP_NS_PER_MS = 1000000"
definition AMQP_NS_PER_US :: u64 where "AMQP_NS_PER_US = 1000"

definition amqp_time_immediate :: amqp_time where "amqp_time_immediate = 0"
definition amqp_time_infinite :: amqp_time where "amqp_time_infinite = 0xFFFFFFFFFFFFFFFF"

definition later :: "u64 \<Rightarrow> u64 \<Rightarrow> amqp_status + amqp_time" where
  "later now_ns delta_ns =
     (if now_ns = 0 then Inl AMQP_STATUS_TIMER_FAILURE
      else
        let t = now_ns + delta_ns in
        if now_ns > t \<or> delta_ns > t then Inl AMQP_STATUS_INVALID_PARAMETER else Inr t)"

definition amqp_time_from_now :: "u64 \<Rightarrow> timeval option \<Rightarrow> amqp_status + amqp_time" where
  "amqp_time_from_now now_ns timeout =
     (case timeout of
        None \<Rightarrow> Inr amqp_time_infinite
      | Some tv \<Rightarrow>
          if tv_sec tv = 0 \<and> tv_usec tv = 0 then Inr amqp_time_immediate
          else if tv_sec tv < 0 \<or> tv_usec tv < 0 then Inl AMQP_STATUS_INVALID_PARAMETER
          else later now_ns (word_of_int (tv_sec tv) * AMQP_NS_PER_S + word_of_int (tv_usec tv) * AMQP_NS_PER_US))"

definition amqp_time_s_from_now :: "u64 \<Rightarrow> int \<Rightarrow> amqp_status + amqp_time" where
  "amqp_time_s_from_now now_ns seconds =
     (if 0 \<ge> seconds then Inr amqp_time_infinite
      else later now_ns (word_of_int seconds * AMQP_NS_PER_S))"

text \<open>The milliseconds are cut to an \<open>int\<close>, so a time that is far away gives any number.\<close>

definition amqp_time_ms_until :: "u64 \<Rightarrow> amqp_time \<Rightarrow> amqp_status + int" where
  "amqp_time_ms_until now_ns t =
     (if t = amqp_time_infinite then Inr (- 1)
      else if t = 0 then Inr 0
      else if now_ns = 0 then Inl AMQP_STATUS_TIMER_FAILURE
      else if now_ns \<ge> t then Inr 0
      else Inr (sint (ucast ((t - now_ns) div AMQP_NS_PER_MS) :: 32 word)))"

definition amqp_time_tv_until :: "u64 \<Rightarrow> amqp_time \<Rightarrow> amqp_status + timeval option" where
  "amqp_time_tv_until now_ns t =
     (if t = amqp_time_infinite then Inr None
      else if t = 0 then Inr (Some \<lparr>tv_sec = 0, tv_usec = 0\<rparr>)
      else if now_ns = 0 then Inl AMQP_STATUS_TIMER_FAILURE
      else if now_ns \<ge> t then Inr (Some \<lparr>tv_sec = 0, tv_usec = 0\<rparr>)
      else
        let delta_ns = t - now_ns in
        Inr (Some \<lparr>tv_sec = sint (ucast (delta_ns div AMQP_NS_PER_S) :: 32 word),
                   tv_usec = sint (ucast ((delta_ns mod AMQP_NS_PER_S) div AMQP_NS_PER_US) :: 32 word)\<rparr>))"

datatype time_verdict = Not_Past | Past | Timer_Failed

definition amqp_time_has_past :: "u64 \<Rightarrow> amqp_time \<Rightarrow> time_verdict" where
  "amqp_time_has_past now_ns t =
     (if t = amqp_time_infinite then Not_Past
      else if now_ns = 0 then Timer_Failed
      else if now_ns > t then Past
      else Not_Past)"

definition amqp_time_first :: "amqp_time \<Rightarrow> amqp_time \<Rightarrow> amqp_time" where
  "amqp_time_first l r = (if l < r then l else r)"

definition amqp_time_equal :: "amqp_time \<Rightarrow> amqp_time \<Rightarrow> bool" where
  "amqp_time_equal l r \<longleftrightarrow> l = r"

section \<open>Deadlines\<close>

text \<open>A deadline is the sum without wrap-around, or there is none.\<close>

lemma later_Inr:
  assumes "later now_ns delta_ns = Inr t"
  shows "uint t = uint now_ns + uint delta_ns"
proof -
  have "now_ns \<le> now_ns + delta_ns" and t: "t = now_ns + delta_ns"
    using assms by (auto simp: later_def Let_def not_less split: if_splits)
  then show ?thesis by (simp add: uint_plus_simple)
qed

lemma time_first_commute: "amqp_time_first l r = amqp_time_first r l"
  by (auto simp: amqp_time_first_def)

lemma time_first_infinite [simp]:
  "amqp_time_first l amqp_time_infinite = l" "amqp_time_first amqp_time_infinite l = l"
proof -
  have "amqp_time_infinite = - 1" by (simp add: amqp_time_infinite_def)
  then have "l \<le> amqp_time_infinite" using word_order.extremum [of l] by (simp only:)
  then show "amqp_time_first l amqp_time_infinite = l" "amqp_time_first amqp_time_infinite l = l"
    by (auto simp: amqp_time_first_def)
qed

end
