(* ===== verification/Amqp_Connection.thy ===== *)
theory Amqp_Connection
  imports Amqp_Frames Amqp_Time
begin

text \<open>
  The connection and its input: \<open>amqp_connection.c\<close> of \<open>src/src/rabbitmq-c\<close>. The state is
  \<open>amqp_connection_state_t\<close>. Bytes from the socket are gathered in the header buffer until the
  length of the frame is known, then in a block of the channel's pool.

  \<open>mem\<close> is the memory: which requests are granted, what a fresh block of the pool holds, and
  what a block for properties holds. Reading or writing outside of a block is
  \<open>Undefined_Behaviour\<close>.
\<close>

section \<open>State\<close>

record mem =
  m_al :: "nat \<Rightarrow> bool"
  m_fresh :: "nat \<Rightarrow> bytes"
  m_block :: amqp_basic_properties_t

datatype amqp_connection_state_enum =
  CONNECTION_STATE_IDLE | CONNECTION_STATE_INITIAL | CONNECTION_STATE_HEADER | CONNECTION_STATE_BODY

text \<open>What \<open>inbound_buffer\<close> points to.\<close>

datatype inbound = In_Header | In_Block bytes

datatype amqp_rpc_reply =
  Reply_None
| Reply_Normal "amqp_method option"
| Reply_Library_Exception amqp_status
| Reply_Server_Exception amqp_method

record amqp_conn =
  c_pools :: "u16 list"
  c_state :: amqp_connection_state_enum
  c_channel_max :: int
  c_frame_max :: int
  c_heartbeat :: int
  c_next_recv :: amqp_time
  c_next_send :: amqp_time
  c_header_buffer :: bytes
  c_inbound :: inbound
  c_inbound_offset :: nat
  c_target_size :: nat
  c_outbound :: bytes
  c_sock_buffer :: bytes
  c_sock_offset :: nat
  c_sock_limit :: nat
  c_queued :: "amqp_frame_t list"
  c_result :: amqp_rpc_reply
  c_server_properties :: amqp_table
  c_client_properties :: amqp_table
  c_handshake_timeout :: "timeval option"
  c_rpc_timeout :: "timeval option"

type_synonym 'a conn_run = "(amqp_conn, amqp_status, 'a) est"

definition AMQP_INITIAL_FRAME_POOL_PAGE_SIZE :: int where "AMQP_INITIAL_FRAME_POOL_PAGE_SIZE = 65536"
definition AMQP_INITIAL_INBOUND_SOCK_BUFFER_SIZE :: nat where "AMQP_INITIAL_INBOUND_SOCK_BUFFER_SIZE = 131072"
definition AMQP_DEFAULT_LOGIN_TIMEOUT_SEC :: int where "AMQP_DEFAULT_LOGIN_TIMEOUT_SEC = 12"
definition SIZEOF_CONNECTION :: nat where "SIZEOF_CONNECTION = 448"
definition SIZEOF_POOL_ENTRY :: nat where "SIZEOF_POOL_ENTRY = 80"

definition lift_result :: "amqp_status + 'a \<Rightarrow> 'a conn_run" where
  "lift_result r = (case r of Inl e \<Rightarrow> throwE e | Inr x \<Rightarrow> returnE x)"

text \<open>The pool of a channel is made when the channel is first used.\<close>

definition amqp_get_or_create_channel_pool :: "mem \<Rightarrow> u16 \<Rightarrow> unit conn_run" where
  "amqp_get_or_create_channel_pool M chan =
     bindE (getsE c_pools) (\<lambda>pools.
     if chan \<in> set pools then returnE ()
     else if \<not> m_al M SIZEOF_POOL_ENTRY then throwE AMQP_STATUS_NO_MEMORY
     else modifyE (\<lambda>c. c\<lparr>c_pools := chan # pools\<rparr>))"

section \<open>Making and tuning connections\<close>

definition amqp_heartbeat_send :: "amqp_conn \<Rightarrow> int" where
  "amqp_heartbeat_send c = c_heartbeat c"

definition amqp_heartbeat_recv :: "amqp_conn \<Rightarrow> int" where
  "amqp_heartbeat_recv c = 2 * c_heartbeat c"

text \<open>The conversion of an \<open>int\<close> to \<open>size_t\<close>.\<close>

definition size_of_int :: "int \<Rightarrow> nat" where
  "size_of_int i = nat (i mod 2 ^ 64)"

definition grown :: "nat \<Rightarrow> bytes \<Rightarrow> bytes" where
  "grown n buf = take n buf @ replicate (n - length buf) 0"

text \<open>When the outbound buffer cannot be resized, it stays as it is; the C code has then recorded the new
  length for the old block, and its callers give the connection up.\<close>

definition amqp_tune_connection :: "mem \<Rightarrow> u64 \<Rightarrow> int \<Rightarrow> int \<Rightarrow> int \<Rightarrow> unit conn_run" where
  "amqp_tune_connection M now chan_max fr_max hb =
     bindE (getsE c_state) (\<lambda>st.
     if st \<noteq> CONNECTION_STATE_IDLE then throwE Amqp_Abort
     else
       bindE (modifyE (\<lambda>c. c\<lparr>c_channel_max := chan_max, c_frame_max := fr_max,
                             c_heartbeat := (if 0 > hb then 0 else hb)\<rparr>)) (\<lambda>_.
       bindE (getsE amqp_heartbeat_send) (\<lambda>send.
       bindE (lift_result (amqp_time_s_from_now now send)) (\<lambda>t.
       bindE (modifyE (\<lambda>c. c\<lparr>c_next_send := t\<rparr>)) (\<lambda>_.
       bindE (getsE amqp_heartbeat_recv) (\<lambda>recv.
       bindE (lift_result (amqp_time_s_from_now now recv)) (\<lambda>t.
       bindE (modifyE (\<lambda>c. c\<lparr>c_next_recv := t\<rparr>)) (\<lambda>_.
       if \<not> m_al M (size_of_int fr_max) then throwE AMQP_STATUS_NO_MEMORY
       else modifyE (\<lambda>c. c\<lparr>c_outbound := grown (size_of_int fr_max) (c_outbound c)\<rparr>)))))))))"

definition zero_connection :: amqp_conn where
  "zero_connection =
     \<lparr>c_pools = [], c_state = CONNECTION_STATE_IDLE, c_channel_max = 0, c_frame_max = 0, c_heartbeat = 0,
      c_next_recv = 0, c_next_send = 0, c_header_buffer = replicate 8 0, c_inbound = In_Block [],
      c_inbound_offset = 0, c_target_size = 0, c_outbound = [], c_sock_buffer = [], c_sock_offset = 0,
      c_sock_limit = 0, c_queued = [], c_result = Reply_None, c_server_properties = [],
      c_client_properties = [], c_handshake_timeout = None, c_rpc_timeout = None\<rparr>"

definition amqp_new_connection :: "mem \<Rightarrow> u64 \<Rightarrow> amqp_conn option" where
  "amqp_new_connection M now =
     (if \<not> m_al M SIZEOF_CONNECTION then None
      else
        case amqp_tune_connection M now 0 AMQP_INITIAL_FRAME_POOL_PAGE_SIZE 0 zero_connection of
          (Inl _, _) \<Rightarrow> None
        | (Inr _, c) \<Rightarrow>
            if \<not> m_al M AMQP_INITIAL_INBOUND_SOCK_BUFFER_SIZE then None
            else
              Some (c\<lparr>c_inbound := In_Header, c_state := CONNECTION_STATE_INITIAL, c_target_size := 8,
                      c_sock_buffer := m_fresh M AMQP_INITIAL_INBOUND_SOCK_BUFFER_SIZE,
                      c_handshake_timeout := Some \<lparr>tv_sec = AMQP_DEFAULT_LOGIN_TIMEOUT_SEC, tv_usec = 0\<rparr>\<rparr>))"

section \<open>Input\<close>

definition inbound_bytes :: "amqp_conn \<Rightarrow> bytes" where
  "inbound_bytes c = (case c_inbound c of In_Header \<Rightarrow> c_header_buffer c | In_Block b \<Rightarrow> b)"

definition set_inbound_bytes :: "bytes \<Rightarrow> amqp_conn \<Rightarrow> amqp_conn" where
  "set_inbound_bytes b c =
     (case c_inbound c of In_Header \<Rightarrow> c\<lparr>c_header_buffer := b\<rparr> | In_Block _ \<Rightarrow> c\<lparr>c_inbound := In_Block b\<rparr>)"

definition return_to_idle :: "amqp_conn \<Rightarrow> amqp_conn" where
  "return_to_idle c =
     c\<lparr>c_inbound := In_Header, c_inbound_offset := 0, c_target_size := HEADER_SIZE,
       c_state := CONNECTION_STATE_IDLE\<rparr>"

text \<open>The room that is left is a difference of unsigned numbers.\<close>

definition room_left :: "amqp_conn \<Rightarrow> nat" where
  "room_left c =
     (if c_inbound_offset c \<le> c_target_size c then c_target_size c - c_inbound_offset c
      else 2 ^ 64 - (c_inbound_offset c - c_target_size c))"

definition consume_data :: "bytes \<Rightarrow> nat conn_run" where
  "consume_data data c =
     (let n = min (length data) (room_left c) in
      if c_inbound_offset c + n \<le> length (inbound_bytes c)
      then (Inr n, (set_inbound_bytes (write_at (inbound_bytes c) (c_inbound_offset c) (take n data)) c)
                     \<lparr>c_inbound_offset := c_inbound_offset c + n\<rparr>)
      else (Inl Undefined_Behaviour, c))"

definition decode_payload :: "mem \<Rightarrow> nat \<Rightarrow> bytes \<Rightarrow> amqp_status + amqp_payload" where
  "decode_payload M target raw =
     (if raw ! 0 = 1 then
        if target < HEADER_SIZE + 4 + FOOTER_SIZE then Inl Undefined_Behaviour
        else
          map_sum id P_Method
            (amqp_decode_method (m_al M) (amqp_d32 (drop HEADER_SIZE raw))
               (take (target - HEADER_SIZE - 4 - FOOTER_SIZE) (drop (HEADER_SIZE + 4) raw)))
      else if raw ! 0 = 2 then
        if target < HEADER_SIZE + 12 + FOOTER_SIZE then Inl Undefined_Behaviour
        else
          let cls = amqp_d16 (drop HEADER_SIZE raw);
              encoded = take (target - HEADER_SIZE - 12 - FOOTER_SIZE) (drop (HEADER_SIZE + 12) raw)
          in map_sum id (\<lambda>p. P_Header cls (amqp_d64 (drop (HEADER_SIZE + 4) raw)) p encoded)
               (amqp_decode_properties (m_al M) (m_block M) cls encoded)
      else if raw ! 0 = 3 then
        if target < HEADER_SIZE + FOOTER_SIZE then Inl Undefined_Behaviour
        else Inr (P_Body (take (target - HEADER_SIZE - FOOTER_SIZE) (drop HEADER_SIZE raw)))
      else if raw ! 0 = 8 then Inr P_Heartbeat
      else Inr (P_Other 0))"

definition handle_body :: "mem \<Rightarrow> nat \<Rightarrow> (nat \<times> amqp_frame_t) conn_run" where
  "handle_body M bytes_consumed =
     bindE (getsE inbound_bytes) (\<lambda>raw.
     bindE (getsE c_target_size) (\<lambda>target.
     if target = 0 \<or> length raw < target then throwE Undefined_Behaviour
     else if raw ! (target - 1) \<noteq> word_of_int AMQP_FRAME_END then throwE AMQP_STATUS_BAD_AMQP_DATA
     else
       bindE (amqp_get_or_create_channel_pool M (amqp_d16 (drop 1 raw))) (\<lambda>_.
       bindE (lift_result (decode_payload M target raw)) (\<lambda>p.
       bindE (modifyE return_to_idle) (\<lambda>_.
       returnE (bytes_consumed, \<lparr>frame_channel = amqp_d16 (drop 1 raw), frame_payload = p\<rparr>))))))"

definition handle_header :: "mem \<Rightarrow> nat \<Rightarrow> bytes \<Rightarrow> (nat \<times> amqp_frame_t) conn_run" where
  "handle_header M bytes_consumed received =
     bindE (getsE inbound_bytes) (\<lambda>raw.
     let target = unat (amqp_d32 (drop 3 raw) + 7 + 1) in
     bindE (modifyE (\<lambda>c. c\<lparr>c_target_size := target\<rparr>)) (\<lambda>_.
     bindE (getsE c_frame_max) (\<lambda>fr_max.
     if size_of_int fr_max < target then throwE AMQP_STATUS_BAD_AMQP_DATA
     else
       bindE (amqp_get_or_create_channel_pool M (amqp_d16 (drop 1 raw))) (\<lambda>_.
       if target = 0 \<or> \<not> m_al M target then
         bindE (modifyE (\<lambda>c. c\<lparr>c_inbound := In_Block []\<rparr>)) (\<lambda>_. throwE AMQP_STATUS_NO_MEMORY)
       else if target < HEADER_SIZE then throwE Undefined_Behaviour
       else
         bindE (modifyE (\<lambda>c. c\<lparr>c_inbound := In_Block (write_at (m_fresh M target) 0
                                                   (take HEADER_SIZE (c_header_buffer c))),
                               c_state := CONNECTION_STATE_BODY\<rparr>)) (\<lambda>_.
         bindE (consume_data received) (\<lambda>n.
         bindE (getsE (\<lambda>c. c_inbound_offset c < c_target_size c)) (\<lambda>incomplete.
         if incomplete then returnE (bytes_consumed + n, no_frame)
         else handle_body M (bytes_consumed + n))))))))"

definition protocol_header :: "bytes \<Rightarrow> amqp_frame_t" where
  "protocol_header raw =
     \<lparr>frame_channel = 0,
      frame_payload = P_Protocol_Header (amqp_d8 (drop 4 raw)) (amqp_d8 (drop 5 raw))
                        (amqp_d8 (drop 6 raw)) (amqp_d8 (drop 7 raw))\<rparr>"

definition amqp_handle_input :: "mem \<Rightarrow> bytes \<Rightarrow> (nat \<times> amqp_frame_t) conn_run" where
  "amqp_handle_input M received =
     (if received = [] then returnE (0, no_frame)
      else
        bindE (modifyE (\<lambda>c. if c_state c = CONNECTION_STATE_IDLE then c\<lparr>c_state := CONNECTION_STATE_HEADER\<rparr> else c)) (\<lambda>_.
        bindE (consume_data received) (\<lambda>n.
        bindE (getsE (\<lambda>c. c_inbound_offset c < c_target_size c)) (\<lambda>incomplete.
        if incomplete then returnE (n, no_frame)
        else
          bindE (getsE c_state) (\<lambda>st.
          bindE (getsE inbound_bytes) (\<lambda>raw.
          case st of
            CONNECTION_STATE_INITIAL \<Rightarrow>
              if take 4 raw = lit ''AMQP''
              then bindE (modifyE return_to_idle) (\<lambda>_. returnE (n, protocol_header raw))
              else handle_header M n (drop n received)
          | CONNECTION_STATE_HEADER \<Rightarrow> handle_header M n (drop n received)
          | CONNECTION_STATE_BODY \<Rightarrow> handle_body M n
          | CONNECTION_STATE_IDLE \<Rightarrow> throwE Amqp_Abort))))))"

section \<open>Buffers\<close>

definition amqp_release_buffers_ok :: "amqp_conn \<Rightarrow> bool" where
  "amqp_release_buffers_ok c \<longleftrightarrow> c_state c = CONNECTION_STATE_IDLE"

text \<open>Whether the pool of a channel is recycled: only between frames, and only when no queued frame
  is kept in it.\<close>

definition amqp_maybe_release_buffers_on_channel :: "amqp_conn \<Rightarrow> u16 \<Rightarrow> bool" where
  "amqp_maybe_release_buffers_on_channel c chan \<longleftrightarrow>
     c_state c = CONNECTION_STATE_IDLE \<and> list_all (\<lambda>f. frame_channel f \<noteq> chan) (c_queued c) \<and>
     chan \<in> set (c_pools c)"

definition amqp_release_buffers :: "amqp_conn \<Rightarrow> amqp_status + u16 list" where
  "amqp_release_buffers c =
     (if c_state c \<noteq> CONNECTION_STATE_IDLE then Inl Amqp_Abort
      else Inr (filter (amqp_maybe_release_buffers_on_channel c) (c_pools c)))"

end
