(* ===== verification/Amqp_Input.thy ===== *)
theory Amqp_Input
  imports Amqp_Connection
begin

text \<open>
  How frames are put together from the bytes of the socket: what \<open>amqp_handle_input\<close> does does not
  depend on how the stream is cut into pieces. \<open>partial c fb p\<close> says that the connection has seen
  the proper part \<open>p\<close> of the frame \<open>fb\<close>.
\<close>

section \<open>Frames as the decoder sees them\<close>

definition mem_ok :: "mem \<Rightarrow> bool" where
  "mem_ok M \<longleftrightarrow> (\<forall>n. m_al M n) \<and> (\<forall>n. length (m_fresh M n) = n)"

definition incoming :: "mem \<Rightarrow> bytes \<Rightarrow> amqp_frame_t \<Rightarrow> bool" where
  "incoming M fb f \<longleftrightarrow>
     8 \<le> length fb \<and> unat (amqp_d32 (drop 3 fb) + 7 + 1) = length fb \<and> fb ! (length fb - 1) = 0xCE \<and>
     amqp_d16 (drop 1 fb) = frame_channel f \<and> decode_payload M (length fb) fb = Inr (frame_payload f)"

lemma d16_take: "take 3 xs = take 3 ys \<Longrightarrow> 3 \<le> length xs \<Longrightarrow> 3 \<le> length ys \<Longrightarrow> amqp_d16 (drop 1 xs) = amqp_d16 (drop 1 ys)"
  by (simp add: amqp_d16_eq get_u16_def) (metis nth_take numeral_3_eq_3 lessI less_SucI One_nat_def numeral_2_eq_2)

lemma d32_take: "take 7 xs = take 7 ys \<Longrightarrow> 7 \<le> length xs \<Longrightarrow> 7 \<le> length ys \<Longrightarrow> amqp_d32 (drop 3 xs) = amqp_d32 (drop 3 ys)"
proof -
  assume t: "take 7 xs = take 7 ys" and "7 \<le> length xs" "7 \<le> length ys"
  have "xs ! i = ys ! i" if "i < 7" for i using t that by (metis nth_take)
  then show ?thesis using \<open>7 \<le> length xs\<close> \<open>7 \<le> length ys\<close> by (simp add: amqp_d32_eq get_u32_def)
qed

lemma carried_incoming:
  assumes "carries (m_al M) (m_block M) p v q" and "length v < 2 ^ 32 - 8"
  shows "incoming M (frame_bytes (frame_type p) chan v) \<lparr>frame_channel = chan, frame_payload = q\<rparr>"
proof -
  let ?fb = "frame_bytes (frame_type p) chan v"
  have d3: "drop 3 ?fb = put_u32 (word_of_nat (length v)) @ v @ [0xCE]"
    by (simp add: frame_bytes_def numeral_3_eq_3 put_u16_def)
  have d1: "drop 1 ?fb = put_u16 chan @ put_u32 (word_of_nat (length v)) @ v @ [0xCE]"
    by (simp add: frame_bytes_def)
  have d7: "drop 7 ?fb = v @ [0xCE]"
    using drop_drop [of 4 3 ?fb] by (simp add: d3)
  have target: "unat (amqp_d32 (drop 3 ?fb) + 7 + 1) = length ?fb"
  proof -
    have "amqp_d32 (drop 3 ?fb) + 7 + 1 = word_of_nat (length v + 8)"
      unfolding d3 by (simp add: amqp_d32_eq add.assoc)
    moreover have "unat (word_of_nat (length v + 8) :: u32) = length v + 8"
      using assms(2) by (intro unat_word_of_nat) simp
    ultimately show ?thesis by (simp only: length_frame_bytes)
  qed
  have foot: "?fb ! (length ?fb - 1) = 0xCE"
    by (simp add: frame_bytes_def nth_append)
  have t: "?fb ! 0 = frame_type p" by (simp add: frame_bytes_def)
  have d: "drop (7 + n) ?fb = drop n v @ drop (n - length v) [0xCE]" for n
    using drop_drop [of n 7 ?fb] by (simp add: d7 add.commute)
  from assms(1) have "decode_payload M (length ?fb) ?fb = Inr q"
  proof cases
    case (method_ w m)
    have "amqp_d32 (drop 7 ?fb) = method_number m" unfolding d7 using method_ by (simp add: amqp_d32_eq)
    moreover have "drop 11 ?fb = w @ [0xCE]" using method_ d [of 4] by simp
    ultimately show ?thesis
      using method_ t by (simp add: decode_payload_def HEADER_SIZE_def FOOTER_SIZE_def)
  next
    case (header w cls pr body_size raw)
    have "amqp_d16 (drop 7 ?fb) = cls" unfolding d7 using header by (simp add: amqp_d16_eq)
    moreover have "drop 11 ?fb = put_u64 body_size @ w @ [0xCE]" "drop 19 ?fb = w @ [0xCE]"
      using header d [of 4] d [of 12] by simp_all
    then have "amqp_d64 (drop 11 ?fb) = body_size" "drop 19 ?fb = w @ [0xCE]"  by (simp_all add: amqp_d64_eq)
    ultimately show ?thesis
      using header t by (simp add: decode_payload_def HEADER_SIZE_def FOOTER_SIZE_def Let_def)
  qed (use t d7 in \<open>simp_all add: decode_payload_def HEADER_SIZE_def FOOTER_SIZE_def\<close>)
  then show ?thesis
    using target foot d1 by (simp add: incoming_def amqp_d16_eq)
qed

section \<open>Partial frames\<close>

definition idle :: "amqp_conn \<Rightarrow> bool" where
  "idle c \<longleftrightarrow>
     c_state c = CONNECTION_STATE_IDLE \<and> c_inbound c = In_Header \<and> c_inbound_offset c = 0 \<and>
     c_target_size c = 7 \<and> length (c_header_buffer c) = 8"

definition in_header :: "amqp_conn \<Rightarrow> bytes \<Rightarrow> bool" where
  "in_header c p \<longleftrightarrow>
     c_inbound c = In_Header \<and> c_inbound_offset c = length p \<and> c_target_size c = 7 \<and> length p \<le> 7 \<and>
     length (c_header_buffer c) = 8 \<and> take (length p) (c_header_buffer c) = p"

definition in_block :: "amqp_conn \<Rightarrow> nat \<Rightarrow> bytes \<Rightarrow> bool" where
  "in_block c n p \<longleftrightarrow>
     c_state c = CONNECTION_STATE_BODY \<and> c_target_size c = n \<and> length p \<le> n \<and> c_inbound_offset c = length p \<and>
     (\<exists>b. c_inbound c = In_Block b \<and> length b = n \<and> take (length p) b = p) \<and> length (c_header_buffer c) = 8"

definition partial :: "amqp_conn \<Rightarrow> bytes \<Rightarrow> bytes \<Rightarrow> bool" where
  "partial c fb p \<longleftrightarrow>
     length p < length fb \<and> p = take (length p) fb \<and>
     (if length p < 7
      then in_header c p \<and> c_state c = (if p = [] then CONNECTION_STATE_IDLE else CONNECTION_STATE_HEADER)
      else in_block c (length fb) p)"

text \<open>The part of the state that input does not touch.\<close>

definition same_rest :: "amqp_conn \<Rightarrow> amqp_conn \<Rightarrow> bool" where
  "same_rest c c' \<longleftrightarrow>
     c_queued c' = c_queued c \<and> c_frame_max c' = c_frame_max c \<and> c_sock_buffer c' = c_sock_buffer c \<and>
     c_sock_offset c' = c_sock_offset c \<and> c_sock_limit c' = c_sock_limit c \<and> c_outbound c' = c_outbound c \<and>
     c_next_send c' = c_next_send c \<and> c_next_recv c' = c_next_recv c \<and> c_heartbeat c' = c_heartbeat c"

lemma same_rest_refl [simp]: "same_rest c c"
  by (simp add: same_rest_def)

lemma same_rest_trans: "same_rest c d \<Longrightarrow> same_rest d e \<Longrightarrow> same_rest c e"
  by (simp add: same_rest_def)

lemma idle_partial: "idle c \<Longrightarrow> 8 \<le> length fb \<Longrightarrow> partial c fb []"
  by (auto simp: idle_def partial_def in_header_def)

lemma room_header: "in_header c p \<Longrightarrow> room_left c = 7 - length p"
  by (simp add: in_header_def room_left_def)

lemma room_block: "in_block c n p \<Longrightarrow> room_left c = n - length p"
  by (simp add: in_block_def room_left_def)

lemma consume_header:
  assumes "in_header c p"
  obtains c' where "consume_data d c = (Inr (min (length d) (7 - length p)), c')"
    "in_header c' (p @ take (7 - length p) d)" "same_rest c c'" "c_state c' = c_state c" "c_pools c' = c_pools c"
proof -
  let ?n = "min (length d) (7 - length p)"
  let ?c = "c\<lparr>c_header_buffer := write_at (c_header_buffer c) (length p) (take ?n d), c_inbound_offset := length p + ?n\<rparr>"
  have le: "length p + ?n \<le> 8" using assms by (auto simp: in_header_def)
  show thesis
  proof (rule that [of ?c])
    show "consume_data d c = (Inr ?n, ?c)"
      using assms le by (simp add: consume_data_def room_header [OF assms] Let_def in_header_def inbound_bytes_def
          set_inbound_bytes_def)
    have t: "take ?n d = take (7 - length p) d" by (simp add: min_def)
    show "in_header ?c (p @ take (7 - length p) d)"
      using assms take_write_at_end [of "length p" "c_header_buffer c" "take ?n d"]
      by (auto simp: in_header_def t min_def split: if_splits)
  qed (simp_all add: same_rest_def)
qed

lemma consume_block:
  assumes "in_block c n p"
  obtains c' where "consume_data d c = (Inr (min (length d) (n - length p)), c')"
    "in_block c' n (p @ take (n - length p) d)" "same_rest c c'"
proof -
  let ?n = "min (length d) (n - length p)"
  obtain b where b: "c_inbound c = In_Block b" "length b = n" "take (length p) b = p"
    using assms by (auto simp: in_block_def)
  let ?c = "c\<lparr>c_inbound := In_Block (write_at b (length p) (take ?n d)), c_inbound_offset := length p + ?n\<rparr>"
  have p: "length p \<le> n" using assms by (simp add: in_block_def)
  show thesis
  proof (rule that [of ?c])
    have "length p + ?n \<le> n" using p by auto
    then show "consume_data d c = (Inr ?n, ?c)"
      using assms b by (simp add: consume_data_def room_block [OF assms] Let_def in_block_def inbound_bytes_def
          set_inbound_bytes_def)
    have t: "take ?n d = take (n - length p) d" by (simp add: min_def)
    show "in_block ?c n (p @ take (n - length p) d)"
      using assms b p take_write_at_end [of "length p" b "take ?n d"]
      by (auto simp: in_block_def t min_def split: if_splits)
  qed (simp add: same_rest_def)
qed

section \<open>Complete frames\<close>

lemma get_pool:
  assumes "mem_ok M"
  obtains c' where "amqp_get_or_create_channel_pool M chan c = (Inr (), c')" "same_rest c c'"
    "c' = c\<lparr>c_pools := c_pools c'\<rparr>"
  using assms by (cases "chan \<in> set (c_pools c)")
    (auto simp: amqp_get_or_create_channel_pool_def mem_ok_def same_rest_def)

lemma body_complete:
  assumes "mem_ok M" "incoming M fb f" "in_block c (length fb) fb"
  obtains c' where "handle_body M n c = (Inr (n, f), c')" "idle c'" "same_rest c c'"
proof -
  have raw: "inbound_bytes c = fb" and target: "c_target_size c = length fb"
    using assms(3) by (auto simp: in_block_def inbound_bytes_def)
  obtain c1 where c1: "amqp_get_or_create_channel_pool M (amqp_d16 (drop 1 fb)) c = (Inr (), c1)" "same_rest c c1"
      "c1 = c\<lparr>c_pools := c_pools c1\<rparr>"
    by (rule get_pool [OF assms(1)])
  show thesis
  proof (rule that [of "return_to_idle c1"])
    have f: "f = \<lparr>frame_channel = amqp_d16 (drop 1 fb), frame_payload = frame_payload f\<rparr>"
      using assms(2) by (simp add: incoming_def)
    have "fb \<noteq> []" using assms(2) by (auto simp: incoming_def)
    then show "handle_body M n c = (Inr (n, f), return_to_idle c1)"
      using assms(2) c1(1) f
      by (simp add: handle_body_def raw target incoming_def AMQP_FRAME_END_def bindE_def lift_result_def)
    show "idle (return_to_idle c1)"
      using assms(3) by (subst c1(3)) (simp add: idle_def return_to_idle_def HEADER_SIZE_def in_block_def)
    show "same_rest c (return_to_idle c1)"
      using c1(2) by (simp add: same_rest_def return_to_idle_def)
  qed
qed

text \<open>The header is complete: the frame's length is known and the rest is read into a block.\<close>

lemma header_complete:
  assumes M: "mem_ok M" and f: "incoming M fb f" and max: "length fb \<le> size_of_int (c_frame_max c)"
    and c: "in_header c (take 7 fb)"
  obtains (more) c' where "7 + length d < length fb" "handle_header M n d c = (Inr (n + length d, no_frame), c')"
      "in_block c' (length fb) (take 7 fb @ d)" "same_rest c c'"
    | (complete) c' where "take (length fb - 7) d = drop 7 fb \<longrightarrow>
        handle_header M n d c = (Inr (n + (length fb - 7), f), c') \<and> idle c' \<and> same_rest c c'"
      "length fb \<le> 7 + length d"
proof -
  let ?raw = "c_header_buffer c"
  have len: "8 \<le> length fb" "length ?raw = 8" "take 7 ?raw = take 7 fb"
    using f c by (simp_all add: incoming_def in_header_def)
  then have raw: "inbound_bytes c = ?raw" "amqp_d32 (drop 3 ?raw) = amqp_d32 (drop 3 fb)"
      "amqp_d16 (drop 1 ?raw) = frame_channel f"
    using c f d32_take [of ?raw fb] d16_take [of ?raw fb] take_take [of 3 7 ?raw] take_take [of 3 7 fb]
    by (auto simp: in_header_def inbound_bytes_def incoming_def)
  have target: "unat (amqp_d32 (drop 3 ?raw) + 7 + 1) = length fb" using f raw(2) by (simp only: incoming_def)
  let ?c0 = "c\<lparr>c_target_size := length fb\<rparr>"
  obtain c1 where c1: "amqp_get_or_create_channel_pool M (frame_channel f) ?c0 = (Inr (), c1)" "same_rest ?c0 c1"
      "c1 = ?c0\<lparr>c_pools := c_pools c1\<rparr>"
    by (rule get_pool [OF M])
  let ?b = "write_at (m_fresh M (length fb)) 0 (take 7 fb)"
  let ?c2 = "c1\<lparr>c_inbound := In_Block ?b, c_state := CONNECTION_STATE_BODY\<rparr>"
  have fresh: "length (m_fresh M (length fb)) = length fb" "m_al M (length fb)" using M by (simp_all add: mem_ok_def)
  have hb: "c_header_buffer c1 = ?raw" "c_inbound_offset c1 = 7" "c_target_size c1 = length fb"
    using c len by (subst c1(3), simp add: in_header_def)+
  have same2: "same_rest c ?c2" using c1(2) by (simp add: same_rest_def)
  have "in_block ?c2 (length fb) (take 7 fb)"
    using len fresh hb by (simp add: in_block_def write_at_def)
  then obtain c3 where c3: "consume_data d ?c2 = (Inr (min (length d) (length fb - 7)), c3)"
      "in_block c3 (length fb) (take 7 fb @ take (length fb - 7) d)" "same_rest ?c2 c3"
    using len by (auto elim: consume_block [where d = d])
  have same3: "same_rest c c3" using same2 c3(3) by (rule same_rest_trans)
  have run: "handle_header M n d c =
      (if 7 + length d < length fb then (Inr (n + length d, no_frame), c3)
       else handle_body M (n + (length fb - 7)) c3)"
  proof -
    have m: "min (length d) (length fb - 7) = (if 7 + length d < length fb then length d else length fb - 7)" by auto
    have "c_inbound_offset c3 < c_target_size c3 \<longleftrightarrow> 7 + length d < length fb" using c3(2) len by (auto simp: in_block_def)
    then show ?thesis
      using max fresh target c1(1) c3(1) [unfolded m] hb len raw
      by (auto simp: handle_header_def Let_def bindE_def HEADER_SIZE_def)
  qed
  show thesis
  proof (cases "7 + length d < length fb")
    case True
    then show thesis using run c3(2) same3 by (intro more) simp_all
  next
    case False
    show thesis
    proof (cases "take (length fb - 7) d = drop 7 fb")
      case True
      then have "in_block c3 (length fb) fb" using c3(2) append_take_drop_id [of 7 fb] by simp
      then obtain c4 where "handle_body M (n + (length fb - 7)) c3 = (Inr (n + (length fb - 7), f), c4)" "idle c4"
          "same_rest c3 c4"
        by (rule body_complete [OF M f])
      then show thesis using run False same3 same_rest_trans by (intro complete [of c4]) auto
    next
      case ne: False
      then show thesis using False by (intro complete [of c]) auto
    qed
  qed
qed

section \<open>Input in pieces\<close>

text \<open>The state a piece of input is put into.\<close>

definition started :: "amqp_conn \<Rightarrow> amqp_conn" where
  "started c = (if c_state c = CONNECTION_STATE_IDLE then c\<lparr>c_state := CONNECTION_STATE_HEADER\<rparr> else c)"

lemma started_header:
  "in_header (started c) p \<longleftrightarrow> in_header c p" "same_rest c (started c)" "c_frame_max (started c) = c_frame_max c"
  by (simp_all add: started_def in_header_def same_rest_def)

lemma input_header:
  assumes "partial c fb p" "length p < 7" "d \<noteq> []"
  obtains (short) c' where "length p + length d < 7" "amqp_handle_input M d c = (Inr (length d, no_frame), c')"
      "in_header c' (p @ d)" "c_state c' = CONNECTION_STATE_HEADER" "same_rest c c'"
    | (long) c' where "7 \<le> length p + length d" "in_header c' (p @ take (7 - length p) d)" "same_rest c c'"
      "amqp_handle_input M d c = handle_header M (7 - length p) (drop (7 - length p) d) c'"
proof -
  have c0: "in_header (started c) p" "c_state (started c) = CONNECTION_STATE_HEADER"
    using assms by (auto simp: partial_def started_header) (auto simp: started_def)
  obtain c1 where c1: "consume_data d (started c) = (Inr (min (length d) (7 - length p)), c1)"
      "in_header c1 (p @ take (7 - length p) d)" "same_rest (started c) c1" "c_state c1 = c_state (started c)"
    by (rule consume_header [OF c0(1)])
  have same: "same_rest c c1" using started_header(2) c1(3) by (rule same_rest_trans)
  have run: "amqp_handle_input M d c =
      (if c_inbound_offset c1 < c_target_size c1 then (Inr (min (length d) (7 - length p), no_frame), c1)
       else handle_header M (min (length d) (7 - length p)) (drop (min (length d) (7 - length p)) d) c1)"
    using assms(3) c0 c1 by (simp add: amqp_handle_input_def bindE_def started_def split: if_splits)
  show thesis
  proof (cases "length p + length d < 7")
    case True
    then have "min (length d) (7 - length p) = length d" "take (7 - length p) d = d" by auto
    then show thesis using True run c0 c1 same by (intro short [of c1]) (auto simp: in_header_def)
  next
    case False
    then have "min (length d) (7 - length p) = 7 - length p" by auto
    then show thesis using False assms(2) run c0 c1 same by (intro long [of c1]) (auto simp: in_header_def)
  qed
qed

lemma input_block:
  assumes "partial c fb p" "7 \<le> length p" "d \<noteq> []"
  obtains c' where "in_block c' (length fb) (p @ take (length fb - length p) d)" "same_rest c c'"
    "amqp_handle_input M d c =
      (if length p + length d < length fb then (Inr (length d, no_frame), c') else handle_body M (length fb - length p) c')"
proof -
  have c: "in_block c (length fb) p" "length p < length fb" using assms by (simp_all add: partial_def)
  obtain c1 where c1: "consume_data d c = (Inr (min (length d) (length fb - length p)), c1)"
      "in_block c1 (length fb) (p @ take (length fb - length p) d)" "same_rest c c1"
    by (rule consume_block [OF c(1)])
  have m: "min (length d) (length fb - length p) =
      (if length p + length d < length fb then length d else length fb - length p)" by auto
  have "c_inbound_offset c1 < c_target_size c1 \<longleftrightarrow> length p + length d < length fb"
    using c1(2) c(2) by (auto simp: in_block_def)
  then have "amqp_handle_input M d c =
      (if length p + length d < length fb then (Inr (length d, no_frame), c1) else handle_body M (length fb - length p) c1)"
    using assms(3) c c1(1) [unfolded m] c1(2)
    by (auto simp: amqp_handle_input_def bindE_def in_block_def)
  then show thesis using c1 that by blast
qed

text \<open>A piece that does not end the frame is kept, and one that does yields the frame and leaves the
  rest of the piece alone.\<close>

lemma input_more:
  assumes "mem_ok M" "incoming M fb f" "length fb \<le> size_of_int (c_frame_max c)" "partial c fb p" "d \<noteq> []"
    and "length p + length d < length fb" "p @ d = take (length p + length d) fb"
  obtains c' where "amqp_handle_input M d c = (Inr (length d, no_frame), c')" "partial c' fb (p @ d)" "same_rest c c'"
proof (cases "length p < 7")
  case True
  show thesis
  proof (rule input_header [OF assms(4) True assms(5), of M])
    fix c' assume "length p + length d < 7" "amqp_handle_input M d c = (Inr (length d, no_frame), c')"
      "in_header c' (p @ d)" "c_state c' = CONNECTION_STATE_HEADER" "same_rest c c'"
    then show thesis using assms(5-7) by (intro that [of c']) (auto simp: partial_def)
  next
    fix c' assume c': "7 \<le> length p + length d" "in_header c' (p @ take (7 - length p) d)" "same_rest c c'"
      "amqp_handle_input M d c = handle_header M (7 - length p) (drop (7 - length p) d) c'"
    have t: "p @ take (7 - length p) d = take 7 fb"
      using True c'(1) arg_cong [OF assms(7), of "take 7"] by simp
    have max: "length fb \<le> size_of_int (c_frame_max c')" using assms(3) c'(3) by (simp add: same_rest_def)
    show thesis
    proof (rule header_complete [OF assms(1,2) max c'(2) [unfolded t], of "drop (7 - length p) d" "7 - length p"])
      fix c2 assume c2: "handle_header M (7 - length p) (drop (7 - length p) d) c' =
          (Inr (7 - length p + length (drop (7 - length p) d), no_frame), c2)"
        "in_block c2 (length fb) (take 7 fb @ drop (7 - length p) d)" "same_rest c' c2"
      have "take 7 fb @ drop (7 - length p) d = p @ d" using t by (metis append.assoc append_take_drop_id)
      then show thesis using assms(6,7) c' c2 True same_rest_trans by (intro that [of c2]) (auto simp: partial_def)
    next
      assume "length fb \<le> 7 + length (drop (7 - length p) d)"
      then show thesis using assms(6) c'(1) True by simp
    qed
  qed
next
  case False
  show thesis
  proof (rule input_block [OF assms(4) _ assms(5), of M])
    fix c' assume "in_block c' (length fb) (p @ take (length fb - length p) d)" "same_rest c c'"
      "amqp_handle_input M d c =
        (if length p + length d < length fb then (Inr (length d, no_frame), c') else handle_body M (length fb - length p) c')"
    then show thesis using assms(6,7) False by (intro that [of c']) (simp_all add: partial_def)
  qed (use False in simp)
qed

lemma input_complete:
  assumes "mem_ok M" "incoming M fb f" "length fb \<le> size_of_int (c_frame_max c)" "partial c fb p"
    and "take (length fb - length p) d = drop (length p) fb" "length fb \<le> length p + length d"
  obtains c' where "amqp_handle_input M d c = (Inr (length fb - length p, f), c')" "idle c'" "same_rest c c'"
proof -
  have p: "length p < length fb" "p = take (length p) fb" using assms(4) by (simp_all add: partial_def)
  then have ne: "d \<noteq> []" using assms(6) by auto
  show thesis
  proof (cases "length p < 7")
    case True
    have fb: "8 \<le> length fb" using assms(2) by (simp add: incoming_def)
    show thesis
    proof (rule input_header [OF assms(4) True ne, of M])
      assume "length p + length d < 7"
      then show thesis using assms(6) fb by simp
    next
      fix c' assume c': "in_header c' (p @ take (7 - length p) d)" "same_rest c c'"
        "amqp_handle_input M d c = handle_header M (7 - length p) (drop (7 - length p) d) c'"
      have "take (7 - length p) d = take (7 - length p) (take (length fb - length p) d)" using fb True by simp
      also have "\<dots> = take (7 - length p) (drop (length p) fb)" using assms(5) by simp
      finally have t: "p @ take (7 - length p) d = take 7 fb"
        using p True take_add [of "length p" "7 - length p" fb] by simp
      have max: "length fb \<le> size_of_int (c_frame_max c')" using assms(3) c'(2) by (simp add: same_rest_def)
      have d: "take (length fb - 7) (drop (7 - length p) d) = drop 7 fb"
      proof -
        have "take (length fb - 7) (drop (7 - length p) d) = drop (7 - length p) (take (length fb - length p) d)"
          using True fb by (simp add: drop_take)
        also have "\<dots> = drop 7 fb" using assms(5) True by simp
        finally show ?thesis .
      qed
      show thesis
      proof (rule header_complete [OF assms(1,2) max c'(1) [unfolded t], of "drop (7 - length p) d" "7 - length p"])
        assume "7 + length (drop (7 - length p) d) < length fb"
        then show thesis using assms(6) True fb by simp
      next
        fix c2 assume "take (length fb - 7) (drop (7 - length p) d) = drop 7 fb \<longrightarrow>
          handle_header M (7 - length p) (drop (7 - length p) d) c' = (Inr (7 - length p + (length fb - 7), f), c2) \<and>
          idle c2 \<and> same_rest c' c2"
        then show thesis
          using d c' True fb same_rest_trans by (intro that [of c2]) auto
      qed
    qed
  next
    case False
    show thesis
    proof (rule input_block [OF assms(4) _ ne, of M])
      fix c' assume c': "in_block c' (length fb) (p @ take (length fb - length p) d)" "same_rest c c'"
        "amqp_handle_input M d c =
          (if length p + length d < length fb then (Inr (length d, no_frame), c') else handle_body M (length fb - length p) c')"
      have "p @ take (length fb - length p) d = fb" using assms(5) p by (metis append_take_drop_id)
      then have "in_block c' (length fb) fb" using c'(1) by simp
      then obtain c2 where "handle_body M (length fb - length p) c' = (Inr (length fb - length p, f), c2)" "idle c2"
          "same_rest c' c2"
        by (rule body_complete [OF assms(1,2)])
      then show thesis using c' assms(6) same_rest_trans by (intro that [of c2]) auto
    qed (use False in simp)
  qed
qed

end
