(* ===== verification/Amqp_Socket.thy ===== *)
theory Amqp_Socket
  imports Amqp_Input
begin

text \<open>
  Sending and receiving: \<open>amqp_socket.c\<close> of \<open>src/src/rabbitmq-c\<close> and \<open>amqp_send_frame_inner\<close> of
  \<open>amqp_connection.c\<close>. The operations of the socket class, the clock and \<open>poll\<close> are the fields of
  a record \<open>net\<close> over a state \<open>'w\<close> of the outside; a computation works on the connection and that
  state. The clock is read once where the C code reads it at most once.

  Loops that wait for the outside (interrupted polls, partial sends, frames for others) get fuel.
\<close>

section \<open>The outside\<close>

datatype 'a io = Done 'a | Need_Read | Need_Write | Io_Error amqp_status

datatype poll_result = Poll_Ready | Poll_Timeout | Poll_Interrupted | Poll_Error

datatype poll_event = POLL_IN | POLL_OUT

record 'w net =
  n_clock :: "'w \<Rightarrow> u64 \<times> 'w"
  n_send :: "bytes \<Rightarrow> nat \<Rightarrow> 'w \<Rightarrow> nat io \<times> 'w"
  n_recv :: "nat \<Rightarrow> 'w \<Rightarrow> bytes io \<times> 'w"
  n_poll :: "poll_event \<Rightarrow> int \<Rightarrow> 'w \<Rightarrow> poll_result \<times> 'w"
  n_open :: "'w \<Rightarrow> bool"
  n_close :: "'w \<Rightarrow> 'w"

type_synonym ('w, 'a) run = "(amqp_conn \<times> 'w, amqp_status, 'a) est"

definition conn :: "'a conn_run \<Rightarrow> ('w, 'a) run" where
  "conn m = (\<lambda>(c, w). case m c of (r, c') \<Rightarrow> (r, (c', w)))"

definition outside :: "('w \<Rightarrow> 'a \<times> 'w) \<Rightarrow> ('w, 'a) run" where
  "outside f = (\<lambda>(c, w). case f w of (x, w') \<Rightarrow> (Inr x, (c, w')))"

definition socket_close :: "'w net \<Rightarrow> ('w, unit) run" where
  "socket_close N = outside (\<lambda>w. ((), n_close N w))"

text \<open>The status that a computation returns as a value. What does not return has no status.\<close>

definition crash :: "amqp_status \<Rightarrow> bool" where
  "crash e \<longleftrightarrow> e = Amqp_Abort \<or> e = Undefined_Behaviour \<or> e = Out_Of_Fuel"

definition catchE :: "('s, amqp_status, 'a) est \<Rightarrow> ('s, amqp_status, amqp_status + 'a) est" where
  "catchE m s =
     (case m s of
        (Inl e, s') \<Rightarrow> if crash e then (Inl e, s') else (Inr (Inl e), s')
      | (Inr x, s') \<Rightarrow> (Inr (Inr x), s'))"

definition AMQP_SF_NONE :: nat where "AMQP_SF_NONE = 0"
definition AMQP_SF_MORE :: nat where "AMQP_SF_MORE = 1"
definition SIZEOF_FRAME :: nat where "SIZEOF_FRAME = 48"
definition SIZEOF_LINK :: nat where "SIZEOF_LINK = 16"

section \<open>Waiting and sending\<close>

primrec amqp_poll :: "'w net \<Rightarrow> nat \<Rightarrow> poll_event \<Rightarrow> amqp_time \<Rightarrow> ('w, unit) run" where
  "amqp_poll N 0 event deadline = throwE Out_Of_Fuel"
| "amqp_poll N (Suc fuel) event deadline =
     bindE (outside (n_clock N)) (\<lambda>now.
     bindE (conn (lift_result (amqp_time_ms_until now deadline))) (\<lambda>timeout_ms.
     if - 1 > timeout_ms then throwE (Amqp_Other_Status timeout_ms)
     else
       bindE (outside (n_poll N event timeout_ms)) (\<lambda>res.
       case res of
         Poll_Ready \<Rightarrow> returnE ()
       | Poll_Timeout \<Rightarrow> throwE AMQP_STATUS_TIMEOUT
       | Poll_Interrupted \<Rightarrow> amqp_poll N fuel event deadline
       | Poll_Error \<Rightarrow> throwE AMQP_STATUS_SOCKET_ERROR)))"

definition do_poll :: "'w net \<Rightarrow> nat \<Rightarrow> 'a io \<Rightarrow> amqp_time \<Rightarrow> ('w, unit) run" where
  "do_poll N fuel res deadline =
     bindE (getsE (\<lambda>(c, w). n_open N w)) (\<lambda>is_open.
     if \<not> is_open then throwE AMQP_STATUS_SOCKET_CLOSED
     else
       case res of
         Need_Read \<Rightarrow> amqp_poll N fuel POLL_IN deadline
       | Need_Write \<Rightarrow> amqp_poll N fuel POLL_OUT deadline
       | Io_Error e \<Rightarrow> throwE e
       | Done _ \<Rightarrow> returnE ())"

text \<open>\<open>len\<close> bytes have been sent already, and \<open>left\<close> is what is left to send.\<close>

primrec try_send_loop :: "'w net \<Rightarrow> nat \<Rightarrow> nat \<Rightarrow> bytes \<Rightarrow> amqp_time \<Rightarrow> nat \<Rightarrow> ('w, nat) run" where
  "try_send_loop N 0 len left deadline flags = throwE Out_Of_Fuel"
| "try_send_loop N (Suc fuel) len left deadline flags =
     bindE (outside (n_send N left flags)) (\<lambda>res.
     let wait =
       bindE (catchE (do_poll N fuel res deadline)) (\<lambda>r.
       case r of
         Inr _ \<Rightarrow> try_send_loop N fuel len left deadline flags
       | Inl e \<Rightarrow> if e = AMQP_STATUS_TIMEOUT then returnE len else throwE e)
     in case res of
          Done n \<Rightarrow>
            if 0 < n then
              if n = length left then returnE (len + n)
              else if length left < n then throwE Undefined_Behaviour
              else try_send_loop N fuel (len + n) (drop n left) deadline flags
            else wait
        | _ \<Rightarrow> wait)"

definition amqp_try_send :: "'w net \<Rightarrow> nat \<Rightarrow> bytes \<Rightarrow> amqp_time \<Rightarrow> nat \<Rightarrow> ('w, nat) run" where
  "amqp_try_send N fuel buf deadline flags = try_send_loop N fuel 0 buf deadline flags"

section \<open>Receiving\<close>

definition amqp_frames_enqueued :: "amqp_conn \<Rightarrow> bool" where
  "amqp_frames_enqueued c \<longleftrightarrow> c_queued c \<noteq> []"

definition amqp_data_in_buffer :: "amqp_conn \<Rightarrow> bool" where
  "amqp_data_in_buffer c \<longleftrightarrow> c_sock_offset c < c_sock_limit c"

definition consume_one_frame :: "mem \<Rightarrow> amqp_frame_t conn_run" where
  "consume_one_frame M =
     bindE (getsE (\<lambda>c. take (c_sock_limit c - c_sock_offset c) (drop (c_sock_offset c) (c_sock_buffer c)))) (\<lambda>buffer.
     bindE (amqp_handle_input M buffer) (\<lambda>(res, frame).
     bindE (modifyE (\<lambda>c. c\<lparr>c_sock_offset := c_sock_offset c + res\<rparr>)) (\<lambda>_.
     returnE frame)))"

definition amqp_create_link_for_frame :: "mem \<Rightarrow> amqp_frame_t \<Rightarrow> unit conn_run" where
  "amqp_create_link_for_frame M frame =
     bindE (amqp_get_or_create_channel_pool M (frame_channel frame)) (\<lambda>_.
     if m_al M SIZEOF_LINK \<and> m_al M SIZEOF_FRAME then returnE () else throwE AMQP_STATUS_NO_MEMORY)"

definition amqp_queue_frame :: "mem \<Rightarrow> amqp_frame_t \<Rightarrow> unit conn_run" where
  "amqp_queue_frame M frame =
     bindE (amqp_create_link_for_frame M frame) (\<lambda>_.
     modifyE (\<lambda>c. c\<lparr>c_queued := c_queued c @ [frame]\<rparr>))"

definition amqp_put_back_frame :: "mem \<Rightarrow> amqp_frame_t \<Rightarrow> unit conn_run" where
  "amqp_put_back_frame M frame =
     bindE (amqp_create_link_for_frame M frame) (\<lambda>_.
     modifyE (\<lambda>c. c\<lparr>c_queued := frame # c_queued c\<rparr>))"

text \<open>Everything in the socket buffer is put together into frames, which are queued. Each round uses
  up a byte, so the number of bytes is enough fuel.\<close>

primrec queue_input :: "mem \<Rightarrow> nat \<Rightarrow> unit conn_run" where
  "queue_input M 0 = throwE Out_Of_Fuel"
| "queue_input M (Suc fuel) =
     bindE (getsE amqp_data_in_buffer) (\<lambda>data.
     if \<not> data then returnE ()
     else
       bindE (consume_one_frame M) (\<lambda>frame.
       bindE (if frame_type (frame_payload frame) \<noteq> 0 then amqp_queue_frame M frame else returnE ()) (\<lambda>_.
       queue_input M fuel)))"

definition received :: "bytes \<Rightarrow> amqp_conn \<Rightarrow> amqp_conn" where
  "received bs c =
     c\<lparr>c_sock_buffer := write_at (c_sock_buffer c) 0 bs, c_sock_limit := length bs, c_sock_offset := 0\<rparr>"

primrec recv_with_timeout :: "'w net \<Rightarrow> nat \<Rightarrow> amqp_time \<Rightarrow> ('w, unit) run" where
  "recv_with_timeout N 0 timeout = throwE Out_Of_Fuel"
| "recv_with_timeout N (Suc fuel) timeout =
     bindE (getsE (\<lambda>(c, w). length (c_sock_buffer c))) (\<lambda>size.
     bindE (outside (n_recv N size)) (\<lambda>res.
     case res of
       Done bs \<Rightarrow>
         bindE (conn (modifyE (received bs))) (\<lambda>_.
         bindE (outside (n_clock N)) (\<lambda>now.
         bindE (getsE (\<lambda>(c, w). amqp_heartbeat_recv c)) (\<lambda>hb.
         bindE (conn (lift_result (amqp_time_s_from_now now hb))) (\<lambda>t.
         conn (modifyE (\<lambda>c. c\<lparr>c_next_recv := t\<rparr>))))))
     | _ \<Rightarrow>
         bindE (getsE (\<lambda>(c, w). n_open N w)) (\<lambda>is_open.
         if \<not> is_open then throwE AMQP_STATUS_CONNECTION_CLOSED
         else
           bindE (do_poll N fuel res timeout) (\<lambda>_.
           recv_with_timeout N fuel timeout))))"

definition amqp_try_recv :: "'w net \<Rightarrow> mem \<Rightarrow> nat \<Rightarrow> ('w, unit) run" where
  "amqp_try_recv N M fuel =
     bindE (getsE (\<lambda>(c, w). c_sock_limit c)) (\<lambda>limit.
     bindE (conn (queue_input M (Suc limit))) (\<lambda>_.
     recv_with_timeout N fuel amqp_time_immediate))"

section \<open>Sending frames\<close>

primrec send_frame_loop :: "'w net \<Rightarrow> mem \<Rightarrow> nat \<Rightarrow> bytes \<Rightarrow> nat \<Rightarrow> amqp_time \<Rightarrow> ('w, unit) run" where
  "send_frame_loop N M 0 encoded flags deadline = throwE Out_Of_Fuel"
| "send_frame_loop N M (Suc fuel) encoded flags deadline =
     bindE (getsE (\<lambda>(c, w). amqp_time_first deadline (c_next_recv c))) (\<lambda>next_timeout.
     bindE (amqp_try_send N fuel encoded next_timeout flags) (\<lambda>sent.
     if length encoded \<noteq> sent then
       if amqp_time_equal next_timeout deadline then throwE AMQP_STATUS_TIMEOUT
       else
         bindE (catchE (amqp_try_recv N M fuel)) (\<lambda>r.
         case r of
           Inl e \<Rightarrow> throwE (if e = AMQP_STATUS_TIMEOUT then AMQP_STATUS_HEARTBEAT_TIMEOUT else e)
         | Inr _ \<Rightarrow> send_frame_loop N M fuel (drop sent encoded) flags deadline)
     else
       bindE (outside (n_clock N)) (\<lambda>now.
       bindE (getsE (\<lambda>(c, w). amqp_heartbeat_send c)) (\<lambda>hb.
       bindE (conn (lift_result (amqp_time_s_from_now now hb))) (\<lambda>t.
       conn (modifyE (\<lambda>c. c\<lparr>c_next_send := t\<rparr>)))))))"

definition encode_outbound :: "amqp_frame_t \<Rightarrow> bytes conn_run" where
  "encode_outbound frame c =
     (case amqp_frame_to_bytes frame (c_outbound c) of
        (Inl e, buf) \<Rightarrow> (Inl e, c\<lparr>c_outbound := buf\<rparr>)
      | (Inr len, buf) \<Rightarrow> (Inr (take len buf), c\<lparr>c_outbound := buf\<rparr>))"

definition amqp_send_frame_inner :: "'w net \<Rightarrow> mem \<Rightarrow> nat \<Rightarrow> amqp_frame_t \<Rightarrow> nat \<Rightarrow> amqp_time \<Rightarrow> ('w, unit) run" where
  "amqp_send_frame_inner N M fuel frame flags deadline =
     bindE (conn (encode_outbound frame)) (\<lambda>encoded.
     send_frame_loop N M fuel encoded flags deadline)"

definition amqp_send_frame :: "'w net \<Rightarrow> mem \<Rightarrow> nat \<Rightarrow> amqp_frame_t \<Rightarrow> ('w, unit) run" where
  "amqp_send_frame N M fuel frame = amqp_send_frame_inner N M fuel frame AMQP_SF_NONE amqp_time_infinite"

definition amqp_send_method_inner ::
  "'w net \<Rightarrow> mem \<Rightarrow> nat \<Rightarrow> u16 \<Rightarrow> amqp_method \<Rightarrow> nat \<Rightarrow> amqp_time \<Rightarrow> ('w, unit) run"
where
  "amqp_send_method_inner N M fuel chan m flags deadline =
     amqp_send_frame_inner N M fuel \<lparr>frame_channel = chan, frame_payload = P_Method m\<rparr> flags deadline"

definition amqp_send_method :: "'w net \<Rightarrow> mem \<Rightarrow> nat \<Rightarrow> u16 \<Rightarrow> amqp_method \<Rightarrow> ('w, unit) run" where
  "amqp_send_method N M fuel chan m = amqp_send_method_inner N M fuel chan m AMQP_SF_NONE amqp_time_infinite"

section \<open>Waiting for frames\<close>

text \<open>The next complete frame in the socket buffer, if there is one. A heartbeat is dropped; that the
  pool of channel 0 may then be recycled has no effect on this state.\<close>

primrec next_frame :: "mem \<Rightarrow> nat \<Rightarrow> amqp_frame_t option conn_run" where
  "next_frame M 0 = throwE Out_Of_Fuel"
| "next_frame M (Suc fuel) =
     bindE (getsE amqp_data_in_buffer) (\<lambda>data.
     if \<not> data then returnE None
     else
       bindE (consume_one_frame M) (\<lambda>frame.
       if frame_type (frame_payload frame) = word_of_int AMQP_FRAME_HEARTBEAT then next_frame M fuel
       else if frame_type (frame_payload frame) \<noteq> 0 then returnE (Some frame)
       else next_frame M fuel))"

definition heartbeat_frame :: amqp_frame_t where
  "heartbeat_frame = \<lparr>frame_channel = 0, frame_payload = P_Heartbeat\<rparr>"

text \<open>\<open>look\<close> is false when the loop is entered at the label \<open>beginrecv\<close>.\<close>

primrec wait_frame_loop :: "'w net \<Rightarrow> mem \<Rightarrow> nat \<Rightarrow> bool \<Rightarrow> amqp_time \<Rightarrow> ('w, amqp_frame_t) run" where
  "wait_frame_loop N M 0 look timeout_deadline = throwE Out_Of_Fuel"
| "wait_frame_loop N M (Suc fuel) look timeout_deadline =
     bindE (getsE (\<lambda>(c, w). c_sock_limit c)) (\<lambda>limit.
     bindE (if look then conn (next_frame M (Suc limit)) else returnE None) (\<lambda>found.
     case found of
       Some frame \<Rightarrow> returnE frame
     | None \<Rightarrow>
         bindE (outside (n_clock N)) (\<lambda>now.
         bindE (getsE (\<lambda>(c, w). amqp_time_has_past now (c_next_send c))) (\<lambda>past.
         bindE (case past of
                  Timer_Failed \<Rightarrow> throwE AMQP_STATUS_TIMER_FAILURE
                | Past \<Rightarrow> amqp_send_frame N M fuel heartbeat_frame
                | Not_Past \<Rightarrow> returnE ()) (\<lambda>_.
         bindE (getsE (\<lambda>(c, w). amqp_time_first timeout_deadline
                                    (amqp_time_first (c_next_recv c) (c_next_send c)))) (\<lambda>deadline.
         bindE (catchE (recv_with_timeout N fuel deadline)) (\<lambda>res.
         case res of
           Inr _ \<Rightarrow> wait_frame_loop N M fuel True timeout_deadline
         | Inl e \<Rightarrow>
             if e = AMQP_STATUS_TIMEOUT then
               bindE (getsE fst) (\<lambda>c.
               if amqp_time_equal deadline (c_next_recv c) then
                 bindE (socket_close N) (\<lambda>_. throwE AMQP_STATUS_HEARTBEAT_TIMEOUT)
               else if amqp_time_equal deadline timeout_deadline then throwE AMQP_STATUS_TIMEOUT
               else if amqp_time_equal deadline (c_next_send c) then
                 wait_frame_loop N M fuel False timeout_deadline
               else throwE Amqp_Abort)
             else throwE e)))))))"

definition wait_frame_inner :: "'w net \<Rightarrow> mem \<Rightarrow> nat \<Rightarrow> amqp_time \<Rightarrow> ('w, amqp_frame_t) run" where
  "wait_frame_inner N M fuel timeout_deadline = wait_frame_loop N M fuel True timeout_deadline"

text \<open>The queue is searched for a frame of the channel; it then starts behind that frame.\<close>

fun unqueue :: "u16 \<Rightarrow> amqp_frame_t list \<Rightarrow> (amqp_frame_t \<times> amqp_frame_t list) option" where
  "unqueue chan [] = None"
| "unqueue chan (f # fs) = (if frame_channel f = chan then Some (f, fs) else unqueue chan fs)"

primrec wait_on_channel :: "'w net \<Rightarrow> mem \<Rightarrow> nat \<Rightarrow> nat \<Rightarrow> u16 \<Rightarrow> ('w, amqp_frame_t) run" where
  "wait_on_channel N M fuel 0 chan = throwE Out_Of_Fuel"
| "wait_on_channel N M fuel (Suc k) chan =
     bindE (wait_frame_inner N M fuel amqp_time_infinite) (\<lambda>frame.
     if chan = frame_channel frame then returnE frame
     else
       bindE (conn (amqp_queue_frame M frame)) (\<lambda>_.
       wait_on_channel N M fuel k chan))"

definition amqp_simple_wait_frame_on_channel :: "'w net \<Rightarrow> mem \<Rightarrow> nat \<Rightarrow> u16 \<Rightarrow> ('w, amqp_frame_t) run" where
  "amqp_simple_wait_frame_on_channel N M fuel chan =
     bindE (getsE (\<lambda>(c, w). unqueue chan (c_queued c))) (\<lambda>found.
     case found of
       Some (frame, rest) \<Rightarrow>
         bindE (conn (modifyE (\<lambda>c. c\<lparr>c_queued := rest\<rparr>))) (\<lambda>_. returnE frame)
     | None \<Rightarrow> wait_on_channel N M fuel fuel chan)"

definition amqp_simple_wait_frame_noblock :: "'w net \<Rightarrow> mem \<Rightarrow> nat \<Rightarrow> timeval option \<Rightarrow> ('w, amqp_frame_t) run" where
  "amqp_simple_wait_frame_noblock N M fuel timeout =
     bindE (outside (n_clock N)) (\<lambda>now.
     bindE (conn (lift_result (amqp_time_from_now now timeout))) (\<lambda>deadline.
     bindE (getsE (\<lambda>(c, w). c_queued c)) (\<lambda>queued.
     case queued of
       f # fs \<Rightarrow> bindE (conn (modifyE (\<lambda>c. c\<lparr>c_queued := fs\<rparr>))) (\<lambda>_. returnE f)
     | [] \<Rightarrow> wait_frame_inner N M fuel deadline)))"

definition amqp_simple_wait_frame :: "'w net \<Rightarrow> mem \<Rightarrow> nat \<Rightarrow> ('w, amqp_frame_t) run" where
  "amqp_simple_wait_frame N M fuel = amqp_simple_wait_frame_noblock N M fuel None"

section \<open>Waiting for methods and calling the broker\<close>

text \<open>The lists of method numbers are given without the 0 that ends them.\<close>

primrec amqp_id_in_reply_list :: "u32 \<Rightarrow> u32 list \<Rightarrow> bool" where
  "amqp_id_in_reply_list expected [] = False"
| "amqp_id_in_reply_list expected (x # xs) = (x = expected \<or> amqp_id_in_reply_list expected xs)"

definition amqp_simple_wait_method_list ::
  "'w net \<Rightarrow> mem \<Rightarrow> nat \<Rightarrow> u16 \<Rightarrow> u32 list \<Rightarrow> amqp_time \<Rightarrow> ('w, amqp_method) run"
where
  "amqp_simple_wait_method_list N M fuel expected_channel expected_methods deadline =
     bindE (outside (n_clock N)) (\<lambda>now.
     bindE (conn (lift_result (amqp_time_tv_until now deadline))) (\<lambda>tvp.
     bindE (amqp_simple_wait_frame_noblock N M fuel tvp) (\<lambda>frame.
     case frame_payload frame of
       P_Method m \<Rightarrow>
         if expected_channel \<noteq> frame_channel frame \<or> \<not> amqp_id_in_reply_list (method_number m) expected_methods
         then throwE AMQP_STATUS_WRONG_METHOD
         else returnE m
     | _ \<Rightarrow> throwE AMQP_STATUS_WRONG_METHOD)))"

definition simple_wait_method_inner ::
  "'w net \<Rightarrow> mem \<Rightarrow> nat \<Rightarrow> u16 \<Rightarrow> u32 \<Rightarrow> amqp_time \<Rightarrow> ('w, amqp_method) run"
where
  "simple_wait_method_inner N M fuel expected_channel expected_method deadline =
     amqp_simple_wait_method_list N M fuel expected_channel [expected_method] deadline"

definition amqp_simple_wait_method :: "'w net \<Rightarrow> mem \<Rightarrow> nat \<Rightarrow> u16 \<Rightarrow> u32 \<Rightarrow> ('w, amqp_method) run" where
  "amqp_simple_wait_method N M fuel expected_channel expected_method =
     simple_wait_method_inner N M fuel expected_channel expected_method amqp_time_infinite"

text \<open>The method of a frame that ends a call on the channel.\<close>

definition answer :: "u16 \<Rightarrow> u32 list \<Rightarrow> amqp_frame_t \<Rightarrow> amqp_method option" where
  "answer chan expected_reply_ids frame =
     (case frame_payload frame of
        P_Method m \<Rightarrow>
          if frame_channel frame = chan \<and>
               (amqp_id_in_reply_list (method_number m) expected_reply_ids \<or>
                method_number m = AMQP_CHANNEL_CLOSE_METHOD) \<or>
             frame_channel frame = 0 \<and> method_number m = AMQP_CONNECTION_CLOSE_METHOD
          then Some m else None
      | _ \<Rightarrow> None)"

primrec rpc_wait ::
  "'w net \<Rightarrow> mem \<Rightarrow> nat \<Rightarrow> nat \<Rightarrow> u16 \<Rightarrow> u32 list \<Rightarrow> amqp_time \<Rightarrow> ('w, amqp_rpc_reply) run"
where
  "rpc_wait N M fuel 0 chan expected_reply_ids deadline = throwE Out_Of_Fuel"
| "rpc_wait N M fuel (Suc k) chan expected_reply_ids deadline =
     bindE (catchE (wait_frame_inner N M fuel deadline)) (\<lambda>status.
     case status of
       Inl e \<Rightarrow>
         bindE (if e = AMQP_STATUS_TIMEOUT then socket_close N else returnE ()) (\<lambda>_.
         returnE (Reply_Library_Exception e))
     | Inr frame \<Rightarrow>
         case answer chan expected_reply_ids frame of
           None \<Rightarrow>
             bindE (catchE (conn (amqp_queue_frame M frame))) (\<lambda>queued.
             case queued of
               Inl e \<Rightarrow> returnE (Reply_Library_Exception e)
             | Inr _ \<Rightarrow> rpc_wait N M fuel k chan expected_reply_ids deadline)
         | Some m \<Rightarrow>
             returnE (if amqp_id_in_reply_list (method_number m) expected_reply_ids
                      then Reply_Normal (Some m) else Reply_Server_Exception m))"

definition simple_rpc_inner ::
  "'w net \<Rightarrow> mem \<Rightarrow> nat \<Rightarrow> u16 \<Rightarrow> amqp_method \<Rightarrow> u32 list \<Rightarrow> amqp_time \<Rightarrow> ('w, amqp_rpc_reply) run"
where
  "simple_rpc_inner N M fuel chan request expected_reply_ids deadline =
     bindE (catchE (amqp_send_method N M fuel chan request)) (\<lambda>status.
     case status of
       Inl e \<Rightarrow> returnE (Reply_Library_Exception e)
     | Inr _ \<Rightarrow> rpc_wait N M fuel fuel chan expected_reply_ids deadline)"

definition amqp_simple_rpc ::
  "'w net \<Rightarrow> mem \<Rightarrow> nat \<Rightarrow> u16 \<Rightarrow> amqp_method \<Rightarrow> u32 list \<Rightarrow> ('w, amqp_rpc_reply) run"
where
  "amqp_simple_rpc N M fuel chan request expected_reply_ids =
     bindE (outside (n_clock N)) (\<lambda>now.
     bindE (getsE (\<lambda>(c, w). amqp_time_from_now now (c_rpc_timeout c))) (\<lambda>res.
     case res of
       Inl e \<Rightarrow> returnE (Reply_Library_Exception e)
     | Inr deadline \<Rightarrow> simple_rpc_inner N M fuel chan request expected_reply_ids deadline))"

definition amqp_simple_rpc_decoded ::
  "'w net \<Rightarrow> mem \<Rightarrow> nat \<Rightarrow> u16 \<Rightarrow> amqp_method \<Rightarrow> u32 \<Rightarrow> ('w, amqp_method option) run"
where
  "amqp_simple_rpc_decoded N M fuel chan request reply_id =
     bindE (amqp_simple_rpc N M fuel chan request [reply_id]) (\<lambda>reply.
     bindE (conn (modifyE (\<lambda>c. c\<lparr>c_result := reply\<rparr>))) (\<lambda>_.
     returnE (case reply of Reply_Normal m \<Rightarrow> m | _ \<Rightarrow> None)))"

definition amqp_get_rpc_reply :: "amqp_conn \<Rightarrow> amqp_rpc_reply" where
  "amqp_get_rpc_reply c = c_result c"

end
