(* ===== verification/Amqp_Login.thy ===== *)
theory Amqp_Login
  imports Amqp_Socket
begin

text \<open>
  Opening a session with the broker: the SASL mechanisms, the merging of the client's properties and
  the handshake of \<open>amqp_socket.c\<close> in \<open>src/src/rabbitmq-c\<close>. C strings are byte lists without a NUL.
\<close>

section \<open>SASL\<close>

datatype amqp_sasl_method_enum =
  AMQP_SASL_METHOD_UNDEFINED | AMQP_SASL_METHOD_PLAIN | AMQP_SASL_METHOD_EXTERNAL

definition sasl_method_name :: "amqp_sasl_method_enum \<Rightarrow> amqp_status + bytes" where
  "sasl_method_name m =
     (case m of
        AMQP_SASL_METHOD_PLAIN \<Rightarrow> Inr (lit ''PLAIN'')
      | AMQP_SASL_METHOD_EXTERNAL \<Rightarrow> Inr (lit ''EXTERNAL'')
      | AMQP_SASL_METHOD_UNDEFINED \<Rightarrow> Inl Amqp_Abort)"

text \<open>The loop over the words, which are separated by single spaces.\<close>

function mechanism_loop :: "bytes \<Rightarrow> bytes \<Rightarrow> bool" where
  "mechanism_loop m start =
     (let word = takeWhile (\<lambda>b. b \<noteq> 0x20) start; rest = dropWhile (\<lambda>b. b \<noteq> 0x20) start in
      if m = word then True
      else if rest = [] then False
      else mechanism_loop m (tl rest))"
  by auto
termination
proof (relation "measure (\<lambda>(_, start). length start)")
  fix m start word rest :: bytes
  assume "rest = dropWhile (\<lambda>b. b \<noteq> 0x20) start" "\<not> rest = []"
  then have "length (tl rest) < length rest" "length rest \<le> length start"
    by (auto simp: length_dropWhile_le)
  then show "((m, tl rest), (m, start)) \<in> measure (\<lambda>(_, start). length start)" by simp
qed simp

declare mechanism_loop.simps [simp del]

definition sasl_mechanism_in_list :: "bytes \<Rightarrow> amqp_sasl_method_enum \<Rightarrow> amqp_status + bool" where
  "sasl_mechanism_in_list available m =
     (case sasl_method_name m of
        Inl e \<Rightarrow> Inl e
      | Inr name \<Rightarrow> Inr (available \<noteq> [] \<and> mechanism_loop name available))"

text \<open>An empty block is never granted, so an empty identity counts as a lack of memory.\<close>

definition sasl_response :: "(nat \<Rightarrow> bool) \<Rightarrow> amqp_sasl_method_enum \<Rightarrow> bytes list \<Rightarrow> amqp_status + bytes" where
  "sasl_response al m args =
     (case (m, args) of
        (AMQP_SASL_METHOD_PLAIN, username # password # _) \<Rightarrow>
          if al (length username + length password + 2) then Inr (0 # username @ 0 # password)
          else Inl AMQP_STATUS_NO_MEMORY
      | (AMQP_SASL_METHOD_EXTERNAL, identity # _) \<Rightarrow>
          if identity \<noteq> [] \<and> al (length identity) then Inr identity else Inl AMQP_STATUS_NO_MEMORY
      | (AMQP_SASL_METHOD_UNDEFINED, _) \<Rightarrow> Inl Amqp_Abort
      | _ \<Rightarrow> Inl Undefined_Behaviour)"

section \<open>Merging properties\<close>

fun set_entry :: "amqp_table \<Rightarrow> bytes \<Rightarrow> amqp_field_value \<Rightarrow> amqp_table" where
  "set_entry [] key v = []"
| "set_entry ((k, u) # es) key v = (if k = key then (k, v) # es else (k, u) # set_entry es key v)"

text \<open>Where both values of a key are tables, the entry of \<open>base\<close> is looked up and taken for a table.\<close>

function merge_tables :: "(nat \<Rightarrow> bool) \<Rightarrow> amqp_table \<Rightarrow> amqp_table \<Rightarrow> amqp_status + amqp_table"
  and merge_entries ::
    "(nat \<Rightarrow> bool) \<Rightarrow> amqp_table \<Rightarrow> amqp_table \<Rightarrow> amqp_table \<Rightarrow> amqp_status + amqp_table"
where
  "merge_tables al base add =
     (if length base + length add = 0 \<or> \<not> al (SIZEOF_TABLE_ENTRY * (length base + length add))
      then Inl AMQP_STATUS_NO_MEMORY
      else
        case merge_entries al base base add of
          Inl e \<Rightarrow> Inl e
        | Inr temp_result \<Rightarrow> amqp_table_clone al temp_result)"
| "merge_entries al base temp [] = Inr temp"
| "merge_entries al base temp ((key, v) # add) =
     (case amqp_table_get_entry_by_key temp key of
        None \<Rightarrow> merge_entries al base (temp @ [(key, v)]) add
      | Some e \<Rightarrow>
          (case v of
             FTable t \<Rightarrow>
               (case snd e of
                  FTable _ \<Rightarrow>
                    (case amqp_table_get_entry_by_key base key of
                       Some (_, FTable bt) \<Rightarrow>
                         (case merge_tables al bt t of
                            Inl err \<Rightarrow> Inl err
                          | Inr m \<Rightarrow> merge_entries al base (set_entry temp key (FTable m)) add)
                     | _ \<Rightarrow> Inl Undefined_Behaviour)
                | _ \<Rightarrow> merge_entries al base (set_entry temp key v) add)
           | _ \<Rightarrow> merge_entries al base (set_entry temp key v) add))"
  by pat_completeness auto
termination
  by (relation "measures [\<lambda>x. case x of Inl (al, base, add) \<Rightarrow> size_list (size_prod (\<lambda>_. 0) size) add
                                     | Inr (al, base, temp, add) \<Rightarrow> size_list (size_prod (\<lambda>_. 0) size) add,
                          \<lambda>x. case x of Inl _ \<Rightarrow> 1 | Inr _ \<Rightarrow> 0]") auto

definition amqp_merge_capabilities ::
  "(nat \<Rightarrow> bool) \<Rightarrow> amqp_table \<Rightarrow> amqp_table option \<Rightarrow> amqp_status + amqp_table"
where
  "amqp_merge_capabilities al base add =
     (case add of None \<Rightarrow> amqp_table_clone al base | Some add \<Rightarrow> merge_tables al base add)"

section \<open>The handshake\<close>

definition UINT16_MAX :: int where "UINT16_MAX = 65535"

definition protocol_header_bytes :: bytes where
  "protocol_header_bytes = lit ''AMQP'' @ [0, 0, 9, 1]"

text \<open>When nothing could be sent in time, the number of bytes is the same as \<open>AMQP_STATUS_OK\<close>.\<close>

definition send_header_inner :: "'w net \<Rightarrow> nat \<Rightarrow> amqp_time \<Rightarrow> ('w, unit) run" where
  "send_header_inner N fuel deadline =
     bindE (amqp_try_send N fuel protocol_header_bytes deadline AMQP_SF_NONE) (\<lambda>res.
     if length protocol_header_bytes = res then returnE ()
     else if res = 0 then returnE ()
     else throwE (Amqp_Other_Status (int res)))"

definition amqp_send_header :: "'w net \<Rightarrow> nat \<Rightarrow> ('w, unit) run" where
  "amqp_send_header N fuel = send_header_inner N fuel amqp_time_infinite"

definition AMQP_VERSION_STRING :: bytes where "AMQP_VERSION_STRING = lit ''0.10.0-pre''"
definition AMQ_PLATFORM :: bytes where "AMQ_PLATFORM = lit ''Linux''"
definition AMQ_COPYRIGHT :: bytes where
  "AMQ_COPYRIGHT = lit ''Copyright (c) 2007-2014 VMWare Inc, Tony Garnock-Jones, and Alan Antonuk.''"

definition default_properties :: amqp_table where
  "default_properties =
     [amqp_table_construct_utf8_entry (lit ''product'') (lit ''rabbitmq-c''),
      amqp_table_construct_utf8_entry (lit ''version'') AMQP_VERSION_STRING,
      amqp_table_construct_utf8_entry (lit ''platform'') AMQ_PLATFORM,
      amqp_table_construct_utf8_entry (lit ''copyright'') AMQ_COPYRIGHT,
      amqp_table_construct_utf8_entry (lit ''information'') (lit ''See https://github.com/alanxz/rabbitmq-c''),
      amqp_table_construct_table_entry (lit ''capabilities'')
        [amqp_table_construct_bool_entry (lit ''authentication_failure_close'') 1,
         amqp_table_construct_bool_entry (lit ''exchange_exchange_bindings'') 1]]"

definition negotiate_channel_max :: "u16 \<Rightarrow> u16 \<Rightarrow> u16" where
  "negotiate_channel_max server client =
     (if server \<noteq> 0 \<and> (server < client \<or> client = 0) then server
      else if server = 0 \<and> client = 0 then word_of_int UINT16_MAX
      else client)"

definition negotiate_lower :: "'n::len word \<Rightarrow> 'n word \<Rightarrow> 'n word" where
  "negotiate_lower server client = (if server \<noteq> 0 \<and> server < client then server else client)"

definition connection_started ::
  "mem \<Rightarrow> amqp_connection_start_t \<Rightarrow> amqp_sasl_method_enum \<Rightarrow> unit conn_run"
where
  "connection_started M s sasl_method =
     (if version_major s \<noteq> 0 \<or> version_minor s \<noteq> 9 then throwE AMQP_STATUS_INCOMPATIBLE_AMQP_VERSION
      else
        bindE (lift_result (amqp_table_clone (m_al M) (server_properties s))) (\<lambda>props.
        bindE (modifyE (\<lambda>c. c\<lparr>c_server_properties := props\<rparr>)) (\<lambda>_.
        bindE (lift_result (sasl_mechanism_in_list (mechanisms s) sasl_method)) (\<lambda>found.
        if found then returnE () else throwE AMQP_STATUS_BROKER_UNSUPPORTED_SASL_METHOD))))"

definition start_ok ::
  "mem \<Rightarrow> amqp_table option \<Rightarrow> amqp_sasl_method_enum \<Rightarrow> bytes list \<Rightarrow> amqp_connection_start_ok_t conn_run"
where
  "start_ok M client_props sasl_method args =
     bindE (amqp_get_or_create_channel_pool M 0) (\<lambda>_.
     bindE (lift_result (sasl_response (m_al M) sasl_method args)) (\<lambda>response_bytes.
     bindE (lift_result (amqp_merge_capabilities (m_al M) default_properties client_props)) (\<lambda>props.
     bindE (modifyE (\<lambda>c. c\<lparr>c_client_properties := props\<rparr>)) (\<lambda>_.
     bindE (lift_result (sasl_method_name sasl_method)) (\<lambda>name.
     returnE \<lparr>amqp_connection_start_ok_t.client_properties = props,
              amqp_connection_start_ok_t.mechanism = name,
              amqp_connection_start_ok_t.response = response_bytes,
              amqp_connection_start_ok_t.locale = lit ''en_US''\<rparr>)))))"

definition release_buffers :: "unit conn_run" where
  "release_buffers c = (case amqp_release_buffers c of Inl e \<Rightarrow> (Inl e, c) | Inr _ \<Rightarrow> (Inr (), c))"

definition tune_and_open ::
  "'w net \<Rightarrow> mem \<Rightarrow> nat \<Rightarrow> bytes \<Rightarrow> u16 \<Rightarrow> u32 \<Rightarrow> u16 \<Rightarrow> amqp_time \<Rightarrow> amqp_connection_tune_t \<Rightarrow>
   ('w, amqp_rpc_reply) run"
where
  "tune_and_open N M fuel vhost client_channel_max client_frame_max client_heartbeat deadline s =
     (let chan_max = negotiate_channel_max (amqp_connection_tune_t.channel_max s) client_channel_max;
          fr_max = negotiate_lower (amqp_connection_tune_t.frame_max s) client_frame_max;
          hb = negotiate_lower (amqp_connection_tune_t.heartbeat s) client_heartbeat in
      bindE (outside (n_clock N)) (\<lambda>now.
      bindE (conn (amqp_tune_connection M now (uint chan_max) (uint fr_max) (uint hb))) (\<lambda>_.
      bindE (amqp_send_method_inner N M fuel 0
               (Connection_tune_ok \<lparr>amqp_connection_tune_ok_t.channel_max = chan_max,
                                     amqp_connection_tune_ok_t.frame_max = fr_max,
                                     amqp_connection_tune_ok_t.heartbeat = hb\<rparr>)
               AMQP_SF_NONE deadline) (\<lambda>_.
      bindE (conn release_buffers) (\<lambda>_.
      bindE (simple_rpc_inner N M fuel 0
               (Connection_open \<lparr>virtual_host = vhost, capabilities = [], insist = True\<rparr>)
               [AMQP_CONNECTION_OPEN_OK_METHOD] deadline) (\<lambda>result.
      returnE (case result of Reply_Normal _ \<Rightarrow> Reply_Normal None | _ \<Rightarrow> result)))))))"

definition handshake ::
  "'w net \<Rightarrow> mem \<Rightarrow> nat \<Rightarrow> bytes \<Rightarrow> u16 \<Rightarrow> u32 \<Rightarrow> u16 \<Rightarrow> amqp_table option \<Rightarrow> timeval option \<Rightarrow>
   amqp_sasl_method_enum \<Rightarrow> bytes list \<Rightarrow> ('w, amqp_rpc_reply) run"
where
  "handshake N M fuel vhost client_channel_max client_frame_max client_heartbeat client_props timeout sasl_method args =
     bindE (outside (n_clock N)) (\<lambda>now.
     bindE (conn (lift_result (amqp_time_from_now now timeout))) (\<lambda>deadline.
     bindE (send_header_inner N fuel deadline) (\<lambda>_.
     bindE (simple_wait_method_inner N M fuel 0 AMQP_CONNECTION_START_METHOD deadline) (\<lambda>m.
     case m of
       Connection_start s \<Rightarrow>
         bindE (conn (connection_started M s sasl_method)) (\<lambda>_.
         bindE (conn (start_ok M client_props sasl_method args)) (\<lambda>ok.
         bindE (amqp_send_method_inner N M fuel 0 (Connection_start_ok ok) AMQP_SF_NONE deadline) (\<lambda>_.
         bindE (conn release_buffers) (\<lambda>_.
         bindE (amqp_simple_wait_method_list N M fuel 0
                  [AMQP_CONNECTION_TUNE_METHOD, AMQP_CONNECTION_CLOSE_METHOD] deadline) (\<lambda>m.
         case m of
           Connection_close _ \<Rightarrow> returnE (Reply_Server_Exception m)
         | Connection_tune s \<Rightarrow>
             tune_and_open N M fuel vhost client_channel_max client_frame_max client_heartbeat deadline s
         | _ \<Rightarrow> throwE Undefined_Behaviour)))))
     | _ \<Rightarrow> throwE Undefined_Behaviour))))"

definition amqp_login_inner ::
  "'w net \<Rightarrow> mem \<Rightarrow> nat \<Rightarrow> bytes \<Rightarrow> int \<Rightarrow> int \<Rightarrow> int \<Rightarrow> amqp_table option \<Rightarrow> timeval option \<Rightarrow>
   amqp_sasl_method_enum \<Rightarrow> bytes list \<Rightarrow> ('w, amqp_rpc_reply) run"
where
  "amqp_login_inner N M fuel vhost chan_max fr_max hb client_props timeout sasl_method args =
     (if chan_max < 0 \<or> chan_max > UINT16_MAX \<or> fr_max < 0 \<or> hb < 0 \<or> hb > UINT16_MAX
      then returnE (Reply_Library_Exception AMQP_STATUS_INVALID_PARAMETER)
      else
        bindE (catchE (handshake N M fuel vhost (word_of_int chan_max) (word_of_int fr_max) (word_of_int hb)
                         client_props timeout sasl_method args)) (\<lambda>res.
        case res of
          Inl e \<Rightarrow> bindE (socket_close N) (\<lambda>_. returnE (Reply_Library_Exception e))
        | Inr result \<Rightarrow> returnE result))"

definition amqp_login_with_properties ::
  "'w net \<Rightarrow> mem \<Rightarrow> nat \<Rightarrow> bytes \<Rightarrow> int \<Rightarrow> int \<Rightarrow> int \<Rightarrow> amqp_table option \<Rightarrow>
   amqp_sasl_method_enum \<Rightarrow> bytes list \<Rightarrow> ('w, amqp_rpc_reply) run"
where
  "amqp_login_with_properties N M fuel vhost chan_max fr_max hb client_props sasl_method args =
     bindE (getsE (\<lambda>(c, w). c_handshake_timeout c)) (\<lambda>timeout.
     amqp_login_inner N M fuel vhost chan_max fr_max hb client_props timeout sasl_method args)"

definition amqp_login ::
  "'w net \<Rightarrow> mem \<Rightarrow> nat \<Rightarrow> bytes \<Rightarrow> int \<Rightarrow> int \<Rightarrow> int \<Rightarrow> amqp_sasl_method_enum \<Rightarrow> bytes list \<Rightarrow>
   ('w, amqp_rpc_reply) run"
where
  "amqp_login N M fuel vhost chan_max fr_max hb sasl_method args =
     amqp_login_with_properties N M fuel vhost chan_max fr_max hb (Some []) sasl_method args"

end
