(* ===== verification/Amqp_Api.thy ===== *)
theory Amqp_Api
  imports Amqp_Login Ls_File
begin

text \<open>
  The calls a client makes: \<open>amqp_api.c\<close> and the remote procedure calls at the end of
  \<open>amqp_framing.c\<close> in \<open>src/src/rabbitmq-c\<close>.
\<close>

section \<open>Error strings\<close>

definition base_error_strings :: "string list" where
  "base_error_strings =
     [''operation completed successfully'', ''could not allocate memory'', ''invalid AMQP data'',
      ''unknown AMQP class id'', ''unknown AMQP method id'', ''hostname lookup failed'',
      ''incompatible AMQP version'', ''connection closed unexpectedly'', ''could not parse AMQP URL'',
      ''a socket error occurred'', ''invalid parameter'', ''table too large for buffer'',
      ''unexpected method received'', ''request timed out'', ''system timer has failed'',
      ''heartbeat timeout, connection closed'', ''unexpected protocol state'', ''socket is closed'',
      ''socket already open'', ''unsupported sasl method requested'', ''parameter value is unsupported'']"

definition tcp_error_strings :: "string list" where
  "tcp_error_strings = [''a socket error occurred'', ''socket library initialization failed'']"

definition ssl_error_strings :: "string list" where
  "ssl_error_strings =
     [''a SSL error occurred'', ''SSL hostname verification failed'', ''SSL peer cert verification failed'',
      ''SSL handshake failed'']"

definition unknown_error_string :: string where "unknown_error_string = ''(unknown error)''"

text \<open>The masks of the C code take the low bytes of the negated code.\<close>

definition amqp_error_string2 :: "int \<Rightarrow> string" where
  "amqp_error_string2 code =
     (let category = nat ((- code) div 256 mod 256); err = nat ((- code) mod 256) in
      if category = 0 then
        if err < length base_error_strings then base_error_strings ! err else unknown_error_string
      else if category = 1 then
        if err < length tcp_error_strings then tcp_error_strings ! err else unknown_error_string
      else if category = 2 then
        if err < length ssl_error_strings then ssl_error_strings ! err else unknown_error_string
      else unknown_error_string)"

definition amqp_error_string :: "int \<Rightarrow> string" where
  "amqp_error_string code = amqp_error_string2 (if code > 0 then - code else code)"

section \<open>Publishing\<close>

definition zero_properties :: amqp_basic_properties_t where
  "zero_properties =
     \<lparr>basic_flags_set = 0, content_type = [], content_encoding = [], headers = [], delivery_mode = 0,
      priority = 0, correlation_id = [], reply_to = [], expiration = [], message_id = [], timestamp = 0,
      type' = [], user_id = [], app_id = [], cluster_id = []\<rparr>"

text \<open>The body in pieces of at most \<open>usable\<close> bytes. With no room in a frame the loop never ends.\<close>

primrec send_body :: "'w net \<Rightarrow> mem \<Rightarrow> nat \<Rightarrow> u16 \<Rightarrow> nat \<Rightarrow> nat \<Rightarrow> bytes \<Rightarrow> ('w, unit) run" where
  "send_body N M fuel chan usable 0 body = throwE Out_Of_Fuel"
| "send_body N M fuel chan usable (Suc k) body =
     (if body = [] then returnE ()
      else
        bindE (amqp_send_frame_inner N M fuel \<lparr>frame_channel = chan, frame_payload = P_Body (take usable body)\<rparr>
                 (if length body \<ge> usable then AMQP_SF_MORE else AMQP_SF_NONE) amqp_time_infinite) (\<lambda>_.
        send_body N M fuel chan usable k (drop usable body)))"

definition recv_overdue :: "'w net \<Rightarrow> mem \<Rightarrow> nat \<Rightarrow> time_verdict \<Rightarrow> ('w, unit) run" where
  "recv_overdue N M fuel past =
     (case past of
        Timer_Failed \<Rightarrow> throwE AMQP_STATUS_TIMER_FAILURE
      | Past \<Rightarrow>
          bindE (catchE (amqp_try_recv N M fuel)) (\<lambda>res.
          case res of
            Inl e \<Rightarrow> throwE (if e = AMQP_STATUS_TIMEOUT then AMQP_STATUS_HEARTBEAT_TIMEOUT else e)
          | Inr _ \<Rightarrow> returnE ())
      | Not_Past \<Rightarrow> returnE ())"

definition amqp_basic_publish ::
  "'w net \<Rightarrow> mem \<Rightarrow> nat \<Rightarrow> u16 \<Rightarrow> bytes \<Rightarrow> bytes \<Rightarrow> bool \<Rightarrow> bool \<Rightarrow> amqp_basic_properties_t option \<Rightarrow>
   bytes \<Rightarrow> ('w, unit) run"
where
  "amqp_basic_publish N M fuel chan xchg key mand imm props body =
     bindE (getsE (\<lambda>(c, w). size_of_int (c_frame_max c - 8))) (\<lambda>usable.
     bindE (outside (n_clock N)) (\<lambda>now.
     bindE (getsE (\<lambda>(c, w). amqp_time_has_past now (c_next_recv c))) (\<lambda>past.
     bindE (recv_overdue N M fuel past) (\<lambda>_.
     bindE (amqp_send_method_inner N M fuel chan
              (Basic_publish \<lparr>amqp_basic_publish_t.ticket = 0, amqp_basic_publish_t.exchange = xchg,
                              amqp_basic_publish_t.routing_key = key, amqp_basic_publish_t.mandatory = mand,
                              amqp_basic_publish_t.immediate = imm\<rparr>)
              AMQP_SF_MORE amqp_time_infinite) (\<lambda>_.
     bindE (amqp_send_frame_inner N M fuel
              \<lparr>frame_channel = chan,
               frame_payload = P_Header AMQP_BASIC_CLASS (word_of_nat (length body))
                 (Basic_Properties (case props of None \<Rightarrow> zero_properties | Some p \<Rightarrow> p)) []\<rparr>
              (if 0 < length body then AMQP_SF_MORE else AMQP_SF_NONE) amqp_time_infinite) (\<lambda>_.
     send_body N M fuel chan usable (Suc (length body)) body))))))"

section \<open>Other calls\<close>

definition amqp_channel_close :: "'w net \<Rightarrow> mem \<Rightarrow> nat \<Rightarrow> u16 \<Rightarrow> int \<Rightarrow> ('w, amqp_rpc_reply) run" where
  "amqp_channel_close N M fuel chan code =
     (if code < 0 \<or> code > UINT16_MAX then returnE (Reply_Library_Exception AMQP_STATUS_INVALID_PARAMETER)
      else
        amqp_simple_rpc N M fuel chan
          (Channel_close \<lparr>amqp_channel_close_t.reply_code = word_of_int code,
                          amqp_channel_close_t.reply_text = dec_nat (nat code),
                          amqp_channel_close_t.class_id = 0, amqp_channel_close_t.method_id = 0\<rparr>)
          [AMQP_CHANNEL_CLOSE_OK_METHOD])"

definition amqp_connection_close :: "'w net \<Rightarrow> mem \<Rightarrow> nat \<Rightarrow> int \<Rightarrow> ('w, amqp_rpc_reply) run" where
  "amqp_connection_close N M fuel code =
     (if code < 0 \<or> code > UINT16_MAX then returnE (Reply_Library_Exception AMQP_STATUS_INVALID_PARAMETER)
      else
        amqp_simple_rpc N M fuel 0
          (Connection_close \<lparr>amqp_connection_close_t.reply_code = word_of_int code,
                             amqp_connection_close_t.reply_text = dec_nat (nat code),
                             amqp_connection_close_t.class_id = 0, amqp_connection_close_t.method_id = 0\<rparr>)
          [AMQP_CONNECTION_CLOSE_OK_METHOD])"

definition amqp_basic_ack :: "'w net \<Rightarrow> mem \<Rightarrow> nat \<Rightarrow> u16 \<Rightarrow> u64 \<Rightarrow> bool \<Rightarrow> ('w, unit) run" where
  "amqp_basic_ack N M fuel chan a_delivery_tag a_multiple =
     amqp_send_method N M fuel chan
       (Basic_ack \<lparr>amqp_basic_ack_t.delivery_tag = a_delivery_tag, amqp_basic_ack_t.multiple = a_multiple\<rparr>)"

definition amqp_basic_get :: "'w net \<Rightarrow> mem \<Rightarrow> nat \<Rightarrow> u16 \<Rightarrow> bytes \<Rightarrow> bool \<Rightarrow> ('w, amqp_rpc_reply) run" where
  "amqp_basic_get N M fuel chan a_queue a_no_ack =
     bindE (amqp_simple_rpc N M fuel chan
              (Basic_get \<lparr>amqp_basic_get_t.ticket = 0, amqp_basic_get_t.queue = a_queue,
                          amqp_basic_get_t.no_ack = a_no_ack\<rparr>)
              [AMQP_BASIC_GET_OK_METHOD, AMQP_BASIC_GET_EMPTY_METHOD]) (\<lambda>reply.
     bindE (conn (modifyE (\<lambda>c. c\<lparr>c_result := reply\<rparr>))) (\<lambda>_.
     returnE reply))"

definition amqp_basic_reject :: "'w net \<Rightarrow> mem \<Rightarrow> nat \<Rightarrow> u16 \<Rightarrow> u64 \<Rightarrow> bool \<Rightarrow> ('w, unit) run" where
  "amqp_basic_reject N M fuel chan a_delivery_tag a_requeue =
     amqp_send_method N M fuel chan
       (Basic_reject \<lparr>amqp_basic_reject_t.delivery_tag = a_delivery_tag,
                      amqp_basic_reject_t.requeue = a_requeue\<rparr>)"

definition amqp_basic_nack :: "'w net \<Rightarrow> mem \<Rightarrow> nat \<Rightarrow> u16 \<Rightarrow> u64 \<Rightarrow> bool \<Rightarrow> bool \<Rightarrow> ('w, unit) run" where
  "amqp_basic_nack N M fuel chan a_delivery_tag a_multiple a_requeue =
     amqp_send_method N M fuel chan
       (Basic_nack \<lparr>amqp_basic_nack_t.delivery_tag = a_delivery_tag,
                    amqp_basic_nack_t.multiple = a_multiple, amqp_basic_nack_t.requeue = a_requeue\<rparr>)"

definition timeout_ok :: "timeval option \<Rightarrow> bool" where
  "timeout_ok timeout \<longleftrightarrow> (case timeout of None \<Rightarrow> True | Some tv \<Rightarrow> \<not> (tv_sec tv < 0 \<or> tv_usec tv < 0))"

definition amqp_set_handshake_timeout :: "timeval option \<Rightarrow> unit conn_run" where
  "amqp_set_handshake_timeout timeout =
     (if timeout_ok timeout then modifyE (\<lambda>c. c\<lparr>c_handshake_timeout := timeout\<rparr>)
      else throwE AMQP_STATUS_INVALID_PARAMETER)"

definition amqp_set_rpc_timeout :: "timeval option \<Rightarrow> unit conn_run" where
  "amqp_set_rpc_timeout timeout =
     (if timeout_ok timeout then modifyE (\<lambda>c. c\<lparr>c_rpc_timeout := timeout\<rparr>)
      else throwE AMQP_STATUS_INVALID_PARAMETER)"

section \<open>Remote procedure calls\<close>

definition amqp_channel_open ::
  "'w net \<Rightarrow> mem \<Rightarrow> nat \<Rightarrow> u16 \<Rightarrow> ('w, amqp_method option) run"
where
  "amqp_channel_open N M fuel chan =
     amqp_simple_rpc_decoded N M fuel chan
       (Channel_open
           \<lparr>amqp_channel_open_t.out_of_band = []\<rparr>) AMQP_CHANNEL_OPEN_OK_METHOD"

definition amqp_channel_flow ::
  "'w net \<Rightarrow> mem \<Rightarrow> nat \<Rightarrow> u16 \<Rightarrow> bool \<Rightarrow> ('w, amqp_method option) run"
where
  "amqp_channel_flow N M fuel chan a_active =
     amqp_simple_rpc_decoded N M fuel chan
       (Channel_flow
           \<lparr>amqp_channel_flow_t.active = a_active\<rparr>) AMQP_CHANNEL_FLOW_OK_METHOD"

definition amqp_exchange_declare ::
  "'w net \<Rightarrow> mem \<Rightarrow> nat \<Rightarrow> u16 \<Rightarrow> bytes \<Rightarrow> bytes \<Rightarrow> bool \<Rightarrow> bool \<Rightarrow> bool \<Rightarrow> bool \<Rightarrow> amqp_table \<Rightarrow> ('w, amqp_method option) run"
where
  "amqp_exchange_declare N M fuel chan a_exchange a_type a_passive a_durable a_auto_delete a_internal a_arguments =
     amqp_simple_rpc_decoded N M fuel chan
       (Exchange_declare
           \<lparr>amqp_exchange_declare_t.ticket = 0,
            amqp_exchange_declare_t.exchange = a_exchange,
            amqp_exchange_declare_t.type' = a_type,
            amqp_exchange_declare_t.passive = a_passive,
            amqp_exchange_declare_t.durable = a_durable,
            amqp_exchange_declare_t.auto_delete = a_auto_delete,
            amqp_exchange_declare_t.internal = a_internal,
            amqp_exchange_declare_t.nowait = False,
            amqp_exchange_declare_t.arguments = a_arguments\<rparr>) AMQP_EXCHANGE_DECLARE_OK_METHOD"

definition amqp_exchange_delete ::
  "'w net \<Rightarrow> mem \<Rightarrow> nat \<Rightarrow> u16 \<Rightarrow> bytes \<Rightarrow> bool \<Rightarrow> ('w, amqp_method option) run"
where
  "amqp_exchange_delete N M fuel chan a_exchange a_if_unused =
     amqp_simple_rpc_decoded N M fuel chan
       (Exchange_delete
           \<lparr>amqp_exchange_delete_t.ticket = 0,
            amqp_exchange_delete_t.exchange = a_exchange,
            amqp_exchange_delete_t.if_unused = a_if_unused,
            amqp_exchange_delete_t.nowait = False\<rparr>) AMQP_EXCHANGE_DELETE_OK_METHOD"

definition amqp_exchange_bind ::
  "'w net \<Rightarrow> mem \<Rightarrow> nat \<Rightarrow> u16 \<Rightarrow> bytes \<Rightarrow> bytes \<Rightarrow> bytes \<Rightarrow> amqp_table \<Rightarrow> ('w, amqp_method option) run"
where
  "amqp_exchange_bind N M fuel chan a_destination a_source a_routing_key a_arguments =
     amqp_simple_rpc_decoded N M fuel chan
       (Exchange_bind
           \<lparr>amqp_exchange_bind_t.ticket = 0,
            amqp_exchange_bind_t.destination = a_destination,
            amqp_exchange_bind_t.source = a_source,
            amqp_exchange_bind_t.routing_key = a_routing_key,
            amqp_exchange_bind_t.nowait = False,
            amqp_exchange_bind_t.arguments = a_arguments\<rparr>) AMQP_EXCHANGE_BIND_OK_METHOD"

definition amqp_exchange_unbind ::
  "'w net \<Rightarrow> mem \<Rightarrow> nat \<Rightarrow> u16 \<Rightarrow> bytes \<Rightarrow> bytes \<Rightarrow> bytes \<Rightarrow> amqp_table \<Rightarrow> ('w, amqp_method option) run"
where
  "amqp_exchange_unbind N M fuel chan a_destination a_source a_routing_key a_arguments =
     amqp_simple_rpc_decoded N M fuel chan
       (Exchange_unbind
           \<lparr>amqp_exchange_unbind_t.ticket = 0,
            amqp_exchange_unbind_t.destination = a_destination,
            amqp_exchange_unbind_t.source = a_source,
            amqp_exchange_unbind_t.routing_key = a_routing_key,
            amqp_exchange_unbind_t.nowait = False,
            amqp_exchange_unbind_t.arguments = a_arguments\<rparr>) AMQP_EXCHANGE_UNBIND_OK_METHOD"

definition amqp_queue_declare ::
  "'w net \<Rightarrow> mem \<Rightarrow> nat \<Rightarrow> u16 \<Rightarrow> bytes \<Rightarrow> bool \<Rightarrow> bool \<Rightarrow> bool \<Rightarrow> bool \<Rightarrow> amqp_table \<Rightarrow> ('w, amqp_method option) run"
where
  "amqp_queue_declare N M fuel chan a_queue a_passive a_durable a_exclusive a_auto_delete a_arguments =
     amqp_simple_rpc_decoded N M fuel chan
       (Queue_declare
           \<lparr>amqp_queue_declare_t.ticket = 0,
            amqp_queue_declare_t.queue = a_queue,
            amqp_queue_declare_t.passive = a_passive,
            amqp_queue_declare_t.durable = a_durable,
            amqp_queue_declare_t.exclusive = a_exclusive,
            amqp_queue_declare_t.auto_delete = a_auto_delete,
            amqp_queue_declare_t.nowait = False,
            amqp_queue_declare_t.arguments = a_arguments\<rparr>) AMQP_QUEUE_DECLARE_OK_METHOD"

definition amqp_queue_bind ::
  "'w net \<Rightarrow> mem \<Rightarrow> nat \<Rightarrow> u16 \<Rightarrow> bytes \<Rightarrow> bytes \<Rightarrow> bytes \<Rightarrow> amqp_table \<Rightarrow> ('w, amqp_method option) run"
where
  "amqp_queue_bind N M fuel chan a_queue a_exchange a_routing_key a_arguments =
     amqp_simple_rpc_decoded N M fuel chan
       (Queue_bind
           \<lparr>amqp_queue_bind_t.ticket = 0,
            amqp_queue_bind_t.queue = a_queue,
            amqp_queue_bind_t.exchange = a_exchange,
            amqp_queue_bind_t.routing_key = a_routing_key,
            amqp_queue_bind_t.nowait = False,
            amqp_queue_bind_t.arguments = a_arguments\<rparr>) AMQP_QUEUE_BIND_OK_METHOD"

definition amqp_queue_purge ::
  "'w net \<Rightarrow> mem \<Rightarrow> nat \<Rightarrow> u16 \<Rightarrow> bytes \<Rightarrow> ('w, amqp_method option) run"
where
  "amqp_queue_purge N M fuel chan a_queue =
     amqp_simple_rpc_decoded N M fuel chan
       (Queue_purge
           \<lparr>amqp_queue_purge_t.ticket = 0,
            amqp_queue_purge_t.queue = a_queue,
            amqp_queue_purge_t.nowait = False\<rparr>) AMQP_QUEUE_PURGE_OK_METHOD"

definition amqp_queue_delete ::
  "'w net \<Rightarrow> mem \<Rightarrow> nat \<Rightarrow> u16 \<Rightarrow> bytes \<Rightarrow> bool \<Rightarrow> bool \<Rightarrow> ('w, amqp_method option) run"
where
  "amqp_queue_delete N M fuel chan a_queue a_if_unused a_if_empty =
     amqp_simple_rpc_decoded N M fuel chan
       (Queue_delete
           \<lparr>amqp_queue_delete_t.ticket = 0,
            amqp_queue_delete_t.queue = a_queue,
            amqp_queue_delete_t.if_unused = a_if_unused,
            amqp_queue_delete_t.if_empty = a_if_empty,
            amqp_queue_delete_t.nowait = False\<rparr>) AMQP_QUEUE_DELETE_OK_METHOD"

definition amqp_queue_unbind ::
  "'w net \<Rightarrow> mem \<Rightarrow> nat \<Rightarrow> u16 \<Rightarrow> bytes \<Rightarrow> bytes \<Rightarrow> bytes \<Rightarrow> amqp_table \<Rightarrow> ('w, amqp_method option) run"
where
  "amqp_queue_unbind N M fuel chan a_queue a_exchange a_routing_key a_arguments =
     amqp_simple_rpc_decoded N M fuel chan
       (Queue_unbind
           \<lparr>amqp_queue_unbind_t.ticket = 0,
            amqp_queue_unbind_t.queue = a_queue,
            amqp_queue_unbind_t.exchange = a_exchange,
            amqp_queue_unbind_t.routing_key = a_routing_key,
            amqp_queue_unbind_t.arguments = a_arguments\<rparr>) AMQP_QUEUE_UNBIND_OK_METHOD"

definition amqp_basic_qos ::
  "'w net \<Rightarrow> mem \<Rightarrow> nat \<Rightarrow> u16 \<Rightarrow> u32 \<Rightarrow> u16 \<Rightarrow> bool \<Rightarrow> ('w, amqp_method option) run"
where
  "amqp_basic_qos N M fuel chan a_prefetch_size a_prefetch_count a_global =
     amqp_simple_rpc_decoded N M fuel chan
       (Basic_qos
           \<lparr>amqp_basic_qos_t.prefetch_size = a_prefetch_size,
            amqp_basic_qos_t.prefetch_count = a_prefetch_count,
            amqp_basic_qos_t.global = a_global\<rparr>) AMQP_BASIC_QOS_OK_METHOD"

definition amqp_basic_consume ::
  "'w net \<Rightarrow> mem \<Rightarrow> nat \<Rightarrow> u16 \<Rightarrow> bytes \<Rightarrow> bytes \<Rightarrow> bool \<Rightarrow> bool \<Rightarrow> bool \<Rightarrow> amqp_table \<Rightarrow> ('w, amqp_method option) run"
where
  "amqp_basic_consume N M fuel chan a_queue a_consumer_tag a_no_local a_no_ack a_exclusive a_arguments =
     amqp_simple_rpc_decoded N M fuel chan
       (Basic_consume
           \<lparr>amqp_basic_consume_t.ticket = 0,
            amqp_basic_consume_t.queue = a_queue,
            amqp_basic_consume_t.consumer_tag = a_consumer_tag,
            amqp_basic_consume_t.no_local = a_no_local,
            amqp_basic_consume_t.no_ack = a_no_ack,
            amqp_basic_consume_t.exclusive = a_exclusive,
            amqp_basic_consume_t.nowait = False,
            amqp_basic_consume_t.arguments = a_arguments\<rparr>) AMQP_BASIC_CONSUME_OK_METHOD"

definition amqp_basic_cancel ::
  "'w net \<Rightarrow> mem \<Rightarrow> nat \<Rightarrow> u16 \<Rightarrow> bytes \<Rightarrow> ('w, amqp_method option) run"
where
  "amqp_basic_cancel N M fuel chan a_consumer_tag =
     amqp_simple_rpc_decoded N M fuel chan
       (Basic_cancel
           \<lparr>amqp_basic_cancel_t.consumer_tag = a_consumer_tag,
            amqp_basic_cancel_t.nowait = False\<rparr>) AMQP_BASIC_CANCEL_OK_METHOD"

definition amqp_basic_recover ::
  "'w net \<Rightarrow> mem \<Rightarrow> nat \<Rightarrow> u16 \<Rightarrow> bool \<Rightarrow> ('w, amqp_method option) run"
where
  "amqp_basic_recover N M fuel chan a_requeue =
     amqp_simple_rpc_decoded N M fuel chan
       (Basic_recover
           \<lparr>amqp_basic_recover_t.requeue = a_requeue\<rparr>) AMQP_BASIC_RECOVER_OK_METHOD"

definition amqp_tx_select ::
  "'w net \<Rightarrow> mem \<Rightarrow> nat \<Rightarrow> u16 \<Rightarrow> ('w, amqp_method option) run"
where
  "amqp_tx_select N M fuel chan =
     amqp_simple_rpc_decoded N M fuel chan
       Tx_select AMQP_TX_SELECT_OK_METHOD"

definition amqp_tx_commit ::
  "'w net \<Rightarrow> mem \<Rightarrow> nat \<Rightarrow> u16 \<Rightarrow> ('w, amqp_method option) run"
where
  "amqp_tx_commit N M fuel chan =
     amqp_simple_rpc_decoded N M fuel chan
       Tx_commit AMQP_TX_COMMIT_OK_METHOD"

definition amqp_tx_rollback ::
  "'w net \<Rightarrow> mem \<Rightarrow> nat \<Rightarrow> u16 \<Rightarrow> ('w, amqp_method option) run"
where
  "amqp_tx_rollback N M fuel chan =
     amqp_simple_rpc_decoded N M fuel chan
       Tx_rollback AMQP_TX_ROLLBACK_OK_METHOD"

definition amqp_confirm_select ::
  "'w net \<Rightarrow> mem \<Rightarrow> nat \<Rightarrow> u16 \<Rightarrow> ('w, amqp_method option) run"
where
  "amqp_confirm_select N M fuel chan =
     amqp_simple_rpc_decoded N M fuel chan
       (Confirm_select
           \<lparr>amqp_confirm_select_t.nowait = False\<rparr>) AMQP_CONFIRM_SELECT_OK_METHOD"

end
