(* ===== verification/Amqp_Stream.thy ===== *)
theory Amqp_Stream
  imports Amqp_Socket
begin

text \<open>
  What arrives at a connection: the frames that are queued do not depend on how the socket cuts the
  stream into pieces.
\<close>

section \<open>The socket buffer\<close>

definition buffered :: "amqp_conn \<Rightarrow> bytes" where
  "buffered c = take (c_sock_limit c - c_sock_offset c) (drop (c_sock_offset c) (c_sock_buffer c))"

definition buffer_ok :: "amqp_conn \<Rightarrow> bool" where
  "buffer_ok c \<longleftrightarrow> c_sock_offset c \<le> c_sock_limit c \<and> c_sock_limit c \<le> length (c_sock_buffer c)"

lemma data_in_buffer: "buffer_ok c \<Longrightarrow> amqp_data_in_buffer c \<longleftrightarrow> buffered c \<noteq> []"
  by (auto simp: buffer_ok_def amqp_data_in_buffer_def buffered_def)

lemma consume_frame:
  assumes "amqp_handle_input M (buffered c) c = (Inr (n, f), c')" "same_rest c c'" "n \<le> length (buffered c)" "buffer_ok c"
  obtains c'' where "consume_one_frame M c = (Inr f, c'')" "c'' = c'\<lparr>c_sock_offset := c_sock_offset c + n\<rparr>"
    "buffered c'' = drop n (buffered c)" "buffer_ok c''"
proof
  let ?c = "c'\<lparr>c_sock_offset := c_sock_offset c + n\<rparr>"
  have s: "c_sock_buffer c' = c_sock_buffer c" "c_sock_limit c' = c_sock_limit c" "c_sock_offset c' = c_sock_offset c"
    using assms(2) by (simp_all add: same_rest_def)
  show "consume_one_frame M c = (Inr f, ?c)"
    using assms(1) s by (simp add: consume_one_frame_def buffered_def bindE_def)
  have n: "n \<le> c_sock_limit c - c_sock_offset c" using assms(3) by (simp add: buffered_def)
  show "buffered ?c = drop n (buffered c)" using s by (simp add: buffered_def drop_take add.commute)
  show "buffer_ok ?c" using s n assms(4) by (auto simp: buffer_ok_def)
qed (rule refl)

lemma queue_frame:
  assumes "mem_ok M"
  obtains c' where "amqp_queue_frame M f c = (Inr (), c')"
    "c' = c\<lparr>c_pools := c_pools c', c_queued := c_queued c @ [f]\<rparr>"
proof -
  obtain c1 where c1: "amqp_get_or_create_channel_pool M (frame_channel f) c = (Inr (), c1)"
      "c1 = c\<lparr>c_pools := c_pools c1\<rparr>"
    using get_pool [OF assms] by metis
  have q: "c_queued c1 = c_queued c" by (subst c1(2)) simp
  show ?thesis
  proof (rule that [of "c1\<lparr>c_queued := c_queued c @ [f]\<rparr>"])
    show "amqp_queue_frame M f c = (Inr (), c1\<lparr>c_queued := c_queued c @ [f]\<rparr>)"
      using c1(1) assms q by (simp add: amqp_queue_frame_def amqp_create_link_for_frame_def bindE_def mem_ok_def)
    show "c1\<lparr>c_queued := c_queued c @ [f]\<rparr> =
        c\<lparr>c_pools := c_pools (c1\<lparr>c_queued := c_queued c @ [f]\<rparr>), c_queued := c_queued c @ [f]\<rparr>"
      by (subst c1(2)) simp
  qed
qed

section \<open>Queueing what arrives\<close>

text \<open>The connection has taken in the part \<open>p\<close> of the first of the frames \<open>fbs\<close> that are still to come.\<close>

definition pending :: "amqp_conn \<Rightarrow> bytes \<Rightarrow> bytes list \<Rightarrow> bool" where
  "pending c p fbs \<longleftrightarrow> (case fbs of [] \<Rightarrow> p = [] \<and> idle c | fb # _ \<Rightarrow> partial c fb p)"

definition complete_frames :: "amqp_frame_t list \<Rightarrow> amqp_frame_t list" where
  "complete_frames fs = filter (\<lambda>f. frame_type (frame_payload f) \<noteq> 0) fs"

lemma complete_frames_simps [simp]:
  "complete_frames [] = []"
  "complete_frames (f # fs) = (if frame_type (frame_payload f) \<noteq> 0 then f # complete_frames fs else complete_frames fs)"
  "complete_frames (fs @ gs) = complete_frames fs @ complete_frames gs"
  by (simp_all add: complete_frames_def)

lemma no_frame_type [simp]: "frame_type (frame_payload no_frame) = 0"
  by (simp add: no_frame_def)

lemma pending_idle: "idle c \<Longrightarrow> \<forall>fb \<in> set fbs. 8 \<le> length fb \<Longrightarrow> pending c [] fbs"
  by (auto simp: pending_def idle_partial split: list.split)

lemma partial_update:
  "partial (c\<lparr>c_sock_offset := n\<rparr>) fb p = partial c fb p"
  by (simp add: partial_def in_header_def in_block_def)

lemma idle_updates [simp]:
  "idle (c\<lparr>c_sock_offset := n\<rparr>) = idle c"
  "idle (c\<lparr>c_pools := ps, c_queued := q\<rparr>) = idle c"
  by (simp_all add: idle_def)

text \<open>What stays as it is while frames are queued.\<close>

definition stream_rest :: "amqp_conn \<Rightarrow> amqp_conn \<Rightarrow> bool" where
  "stream_rest c c' \<longleftrightarrow>
     c_frame_max c' = c_frame_max c \<and> c_sock_buffer c' = c_sock_buffer c \<and> c_sock_limit c' = c_sock_limit c \<and>
     c_outbound c' = c_outbound c"

lemma stream_rest_trans: "stream_rest c d \<Longrightarrow> stream_rest d e \<Longrightarrow> stream_rest c e"
  by (simp add: stream_rest_def)

lemma incoming_length: "list_all2 (incoming M) fbs fs \<Longrightarrow> \<forall>fb \<in> set fbs. 8 \<le> length fb"
  by (induction rule: list_all2_induct) (auto simp: incoming_def)

text \<open>One round of the loop: either the data run out within a frame, or a frame is complete.\<close>

lemma queue_round_more:
  assumes M: "mem_ok M" and f: "incoming M fb f" and max: "length fb \<le> size_of_int (c_frame_max c)"
    and c: "partial c fb p" "buffer_ok c" "buffered c \<noteq> []"
    and d: "length p + length (buffered c) < length fb" "p @ buffered c = take (length p + length (buffered c)) fb"
  obtains c' where "queue_input M (Suc (Suc fuel)) c = (Inr (), c')" "partial c' fb (p @ buffered c)" "buffered c' = []"
    "c_queued c' = c_queued c" "stream_rest c c'" "buffer_ok c'"
proof -
  obtain c1 where c1: "amqp_handle_input M (buffered c) c = (Inr (length (buffered c), no_frame), c1)"
      "partial c1 fb (p @ buffered c)" "same_rest c c1"
    by (rule input_more [OF M f max c(1,3) d])
  obtain c2 where c2: "consume_one_frame M c = (Inr no_frame, c2)"
      "c2 = c1\<lparr>c_sock_offset := c_sock_offset c + length (buffered c)\<rparr>" "buffered c2 = []" "buffer_ok c2"
    using consume_frame [OF c1(1,3) order_refl c(2)] by auto
  show ?thesis
  proof (rule that [of c2])
    show "queue_input M (Suc (Suc fuel)) c = (Inr (), c2)"
      using c c2(1,3,4) by (simp add: bindE_def data_in_buffer)
    show "partial c2 fb (p @ buffered c)" using c1(2) c2(2) by (simp add: partial_update)
    show "c_queued c2 = c_queued c" "stream_rest c c2"
      using c1(3) c2(2) by (simp_all add: same_rest_def stream_rest_def)
  qed (use c2 in auto)
qed

lemma queue_round_complete:
  assumes M: "mem_ok M" and f: "incoming M fb f" and max: "length fb \<le> size_of_int (c_frame_max c)"
    and c: "partial c fb p" "buffer_ok c"
    and d: "take (length fb - length p) (buffered c) = drop (length p) fb" "length fb \<le> length p + length (buffered c)"
  obtains c' where "queue_input M (Suc fuel) c = queue_input M fuel c'" "idle c'"
    "buffered c' = drop (length fb - length p) (buffered c)" "c_queued c' = c_queued c @ complete_frames [f]"
    "stream_rest c c'" "buffer_ok c'"
proof -
  have p: "length p < length fb" using c(1) by (simp add: partial_def)
  then have ne: "buffered c \<noteq> []" using d(2) by auto
  obtain c1 where c1: "amqp_handle_input M (buffered c) c = (Inr (length fb - length p, f), c1)" "idle c1" "same_rest c c1"
    by (rule input_complete [OF M f max c(1) d])
  obtain c2 where c2: "consume_one_frame M c = (Inr f, c2)"
      "c2 = c1\<lparr>c_sock_offset := c_sock_offset c + (length fb - length p)\<rparr>"
      "buffered c2 = drop (length fb - length p) (buffered c)" "buffer_ok c2"
    using consume_frame [OF c1(1,3) _ c(2)] d(2) by (metis add.commute le_diff_conv)
  have i: "idle c2" using c1(2) c2(2) by simp
  have r: "stream_rest c c2" "c_queued c2 = c_queued c"
    using c1(3) c2(2) by (simp_all add: same_rest_def stream_rest_def)
  show ?thesis
  proof (cases "frame_type (frame_payload f) = 0")
    case True
    then show ?thesis
      using that [of c2] c(2) ne c2 i r by (simp add: bindE_def data_in_buffer)
  next
    case False
    obtain c3 where c3: "amqp_queue_frame M f c2 = (Inr (), c3)"
        "c3 = c2\<lparr>c_pools := c_pools c3, c_queued := c_queued c2 @ [f]\<rparr>"
      by (rule queue_frame [OF M])
    have eq: "idle c3 = idle c2" "buffered c3 = buffered c2" "c_queued c3 = c_queued c2 @ [f]" "stream_rest c2 c3"
        "buffer_ok c3 = buffer_ok c2"
      by (subst c3(2); simp add: buffered_def stream_rest_def buffer_ok_def)+
    show ?thesis
    proof (rule that [of c3])
      show "queue_input M (Suc fuel) c = queue_input M fuel c3"
        using False c(2) ne c2(1) c3(1) by (simp add: bindE_def data_in_buffer)
      show "stream_rest c c3" using r(1) eq(4) by (rule stream_rest_trans)
    qed (use eq i c2 r False in simp_all)
  qed
qed

text \<open>All the data in the buffer are used up; the frames that they complete are queued.\<close>

lemma queue_input_stream:
  assumes "mem_ok M" "list_all2 (incoming M) fbs fs" "\<forall>fb \<in> set fbs. length fb \<le> size_of_int (c_frame_max c)"
    and "pending c p fbs" "buffer_ok c" "p @ buffered c @ rest = concat fbs" "length (buffered c) < fuel"
  shows "\<exists>c' p' fbs' fs1 fs2. queue_input M fuel c = (Inr (), c') \<and> fs = fs1 @ fs2 \<and> list_all2 (incoming M) fbs' fs2 \<and>
    set fbs' \<subseteq> set fbs \<and> c_queued c' = c_queued c @ complete_frames fs1 \<and> pending c' p' fbs' \<and> p' @ rest = concat fbs' \<and>
    stream_rest c c'"
  using assms
proof (induction fuel arbitrary: c p fbs fs)
  case (Suc fuel)
  show ?case
  proof (cases "buffered c = []")
    case True
    then have "queue_input M (Suc fuel) c = (Inr (), c)" using Suc.prems(5) by (simp add: data_in_buffer)
    then show ?thesis
      using Suc.prems True by (intro exI [of _ c] exI [of _ p] exI [of _ fbs] exI [of _ "[]"] exI [of _ fs])
        (simp add: stream_rest_def)
  next
    case ne: False
    have "fbs \<noteq> []" using Suc.prems(6) ne by auto
    then obtain fb fbs1 f fs1 where l: "fbs = fb # fbs1" "fs = f # fs1" "incoming M fb f" "list_all2 (incoming M) fbs1 fs1"
      using Suc.prems(2) by (cases fbs; cases fs) auto
    have p: "partial c fb p" and max: "length fb \<le> size_of_int (c_frame_max c)"
      using Suc.prems(3,4) l(1) by (simp_all add: pending_def)
    have s: "p @ buffered c @ rest = fb @ concat fbs1" using Suc.prems(6) l(1) by simp
    have lp: "length p < length fb" "p = take (length p) fb" using p by (simp_all add: partial_def)
    show ?thesis
    proof (cases "length p + length (buffered c) < length fb")
      case True
      have "p @ buffered c = take (length p + length (buffered c)) fb"
        using arg_cong [OF s, of "take (length p + length (buffered c))"] True by simp
      moreover obtain k where k: "fuel = Suc k" using Suc.prems(7) ne by (cases fuel) auto
      ultimately obtain c' where c': "queue_input M (Suc (Suc k)) c = (Inr (), c')" "partial c' fb (p @ buffered c)"
          "c_queued c' = c_queued c" "stream_rest c c'"
        using queue_round_more [OF Suc.prems(1) l(3) max p Suc.prems(5) ne True] by metis
      then show ?thesis
        using Suc.prems(2) l(1,2) s k
        by (intro exI [of _ c'] exI [of _ "p @ buffered c"] exI [of _ fbs] exI [of _ "[]"] exI [of _ fs])
          (simp add: pending_def del: queue_input.simps)
    next
      case False
      then have le: "length fb \<le> length p + length (buffered c)" by simp
      have t: "take (length fb - length p) (buffered c) = drop (length p) fb"
      proof -
        have "take (length fb) (p @ buffered c @ rest) = fb" using s by simp
        then have "p @ take (length fb - length p) (buffered c) = fb" using lp(1) le by simp
        then show ?thesis by (metis append_eq_conv_conj)
      qed
      obtain c' where c': "queue_input M (Suc fuel) c = queue_input M fuel c'" "idle c'"
          "buffered c' = drop (length fb - length p) (buffered c)" "c_queued c' = c_queued c @ complete_frames [f]"
          "stream_rest c c'" "buffer_ok c'"
        by (rule queue_round_complete [OF Suc.prems(1) l(3) max p Suc.prems(5) t le])
      have "[] @ buffered c' @ rest = concat fbs1"
        using arg_cong [OF s, of "drop (length fb)"] c'(3) lp(1) le by simp
      moreover have "pending c' [] fbs1" using c'(2) incoming_length [OF l(4)] by (rule pending_idle)
      moreover have "\<forall>fb \<in> set fbs1. length fb \<le> size_of_int (c_frame_max c')"
        using Suc.prems(3) c'(5) l(1) by (simp add: stream_rest_def)
      moreover have "length (buffered c') < fuel" using c'(3) lp(1) le Suc.prems(7) ne [folded length_greater_0_conv] by simp
      ultimately obtain d p' fbs' gs1 gs2 where *: "queue_input M fuel c' = (Inr (), d)" "fs1 = gs1 @ gs2"
          "list_all2 (incoming M) fbs' gs2" "set fbs' \<subseteq> set fbs1" "c_queued d = c_queued c' @ complete_frames gs1"
          "pending d p' fbs'" "p' @ rest = concat fbs'" "stream_rest c' d"
        using Suc.IH [OF Suc.prems(1) l(4) _ _ c'(6)] by blast
      show ?thesis
        using * c'(1,4) l stream_rest_trans [OF c'(5) *(8)]
        by (intro exI [of _ d] exI [of _ p'] exI [of _ fbs'] exI [of _ "f # gs1"] exI [of _ gs2])
          (auto simp del: queue_input.simps)
    qed
  qed
qed simp

section \<open>Streams\<close>

text \<open>Each piece that the socket delivers is put into the socket buffer and then queued, as
  \<open>recv_with_timeout\<close> and the loop of \<open>amqp_try_recv\<close> do in turns.\<close>

primrec arrive :: "mem \<Rightarrow> bytes list \<Rightarrow> unit conn_run" where
  "arrive M [] = returnE ()"
| "arrive M (d # ds) =
     bindE (modifyE (received d)) (\<lambda>_.
     bindE (getsE c_sock_limit) (\<lambda>limit.
     bindE (queue_input M (Suc limit)) (\<lambda>_. arrive M ds)))"

lemma received_facts:
  assumes "length d \<le> length (c_sock_buffer c)"
  shows "buffered (received d c) = d" "buffer_ok (received d c)" "c_sock_limit (received d c) = length d"
    "length (c_sock_buffer (received d c)) = length (c_sock_buffer c)" "c_frame_max (received d c) = c_frame_max c"
    "c_queued (received d c) = c_queued c" "pending (received d c) p fbs = pending c p fbs"
  using assms
  by (auto simp: received_def buffered_def buffer_ok_def write_at_def pending_def partial_def idle_def in_header_def
      in_block_def split: list.split)

lemma arrive_stream:
  assumes "mem_ok M" "list_all2 (incoming M) fbs fs" "\<forall>fb \<in> set fbs. length fb \<le> size_of_int (c_frame_max c)"
    and "pending c p fbs" "\<forall>d \<in> set ds. length d \<le> length (c_sock_buffer c)" "p @ concat ds = concat fbs"
  shows "\<exists>c'. arrive M ds c = (Inr (), c') \<and> c_queued c' = c_queued c @ complete_frames fs \<and> idle c'"
  using assms
proof (induction ds arbitrary: c p fbs fs)
  case Nil
  have "fbs = []"
  proof (rule ccontr)
    assume "fbs \<noteq> []"
    then obtain fb fbs' where "fbs = fb # fbs'" by (cases fbs) auto
    moreover have "length p < length fb" using Nil.prems(4) calculation by (simp add: pending_def partial_def)
    moreover have "p = fb @ concat fbs'" using Nil.prems(6) calculation by simp
    ultimately show False by simp
  qed
  then show ?case using Nil.prems by (simp add: pending_def)
next
  case (Cons d ds)
  let ?c = "received d c"
  have d: "length d \<le> length (c_sock_buffer c)" using Cons.prems(5) by simp
  have "p @ buffered ?c @ concat ds = concat fbs" "length (buffered ?c) < Suc (length d)"
    using Cons.prems(6) received_facts(1) [OF d] by simp_all
  then obtain c' p' fbs' fs1 fs2 where *: "queue_input M (Suc (length d)) ?c = (Inr (), c')" "fs = fs1 @ fs2"
      "list_all2 (incoming M) fbs' fs2" "set fbs' \<subseteq> set fbs" "c_queued c' = c_queued c @ complete_frames fs1"
      "pending c' p' fbs'" "p' @ concat ds = concat fbs'" "stream_rest ?c c'"
    using queue_input_stream [OF Cons.prems(1,2), of ?c p "concat ds" "Suc (length d)"] Cons.prems(3,4) received_facts [OF d]
    by metis
  have "\<forall>fb \<in> set fbs'. length fb \<le> size_of_int (c_frame_max c')"
      "\<forall>d \<in> set ds. length d \<le> length (c_sock_buffer c')"
    using Cons.prems(3,5) *(4,8) received_facts [OF d] by (auto simp: stream_rest_def)
  then obtain e where "arrive M ds c' = (Inr (), e)" "c_queued e = c_queued c' @ complete_frames fs2" "idle e"
    using Cons.IH [OF Cons.prems(1) *(3) _ *(6) _ *(7)] by blast
  then show ?case
    using *(1,2,5) received_facts(3) [OF d] by (simp add: bindE_def del: queue_input.simps)
qed

end
