(* ===== verification/Amqp_Transport.thy ===== *)
theory Amqp_Transport
  imports Amqp_Api Amqp_Stream
begin

text \<open>
  What is put on the wire. \<open>sent\<close> observes the bytes that the socket has taken so far;
  \<open>net_ok sent N\<close> says that a send appends the part it reports and nothing else is written.
  A frame that is reported as sent is on the wire as a whole, and a message is its method frame, its
  header frame and the pieces of its body, in this order.
\<close>

definition net_ok :: "('w \<Rightarrow> bytes) \<Rightarrow> 'w net \<Rightarrow> bool" where
  "net_ok sent N \<longleftrightarrow>
     (\<forall>w. sent (snd (n_clock N w)) = sent w) \<and> (\<forall>n w. sent (snd (n_recv N n w)) = sent w) \<and>
     (\<forall>e t w. sent (snd (n_poll N e t w)) = sent w) \<and> (\<forall>w. sent (n_close N w) = sent w) \<and>
     (\<forall>buf fl w res w'. n_send N buf fl w = (res, w') \<longrightarrow>
        (case res of Done n \<Rightarrow> n \<le> length buf \<and> sent w' = sent w @ take n buf | _ \<Rightarrow> sent w' = sent w))"

lemma net_ok_send:
  assumes "net_ok sent N" "n_send N buf fl w = (res, w')"
  shows "case res of Done n \<Rightarrow> n \<le> length buf \<and> sent w' = sent w @ take n buf | _ \<Rightarrow> sent w' = sent w"
  using assms unfolding net_ok_def by (elim conjE) (drule spec | drule (1) mp | assumption)+

section \<open>Computations that write nothing\<close>

definition still :: "('s \<Rightarrow> 'o) \<Rightarrow> ('s, 'e, 'a) est \<Rightarrow> bool" where
  "still f m \<longleftrightarrow> (\<forall>s. f (snd (m s)) = f s)"

named_theorems still_rules

lemma still_basic [still_rules]:
  "still f (returnE x)" "still f (throwE e)" "still f (getsE g)"
  by (simp_all add: still_def)

lemma still_bind [still_rules]: "still f m \<Longrightarrow> (\<And>x. still f (g x)) \<Longrightarrow> still f (bindE m g)"
  by (auto simp: still_def bindE_def case_prod_beta split: sum.split)

lemma still_if [still_rules]: "still f m \<Longrightarrow> still f m' \<Longrightarrow> still f (if b then m else m')"
  by simp

lemma still_let [still_rules]: "still f (g x) \<Longrightarrow> still f (let y = x in g y)"
  by simp

lemma still_cases [still_rules]:
  "(\<And>x. still f (l x)) \<Longrightarrow> (\<And>y. still f (r y)) \<Longrightarrow> still f (case z of Inl x \<Rightarrow> l x | Inr y \<Rightarrow> r y)"
  "still f (g (fst q) (snd q)) \<Longrightarrow> still f (case q of (x, y) \<Rightarrow> g x y)"
  "still f m1 \<Longrightarrow> still f m2 \<Longrightarrow> still f m3 \<Longrightarrow> still f m4 \<Longrightarrow>
     still f (case pr of Poll_Ready \<Rightarrow> m1 | Poll_Timeout \<Rightarrow> m2 | Poll_Interrupted \<Rightarrow> m3 | Poll_Error \<Rightarrow> m4)"
  "(\<And>x. still f (d x)) \<Longrightarrow> still f m1 \<Longrightarrow> still f m2 \<Longrightarrow> (\<And>e. still f (m5 e)) \<Longrightarrow>
     still f (case io of Done x \<Rightarrow> d x | Need_Read \<Rightarrow> m1 | Need_Write \<Rightarrow> m2 | Io_Error e \<Rightarrow> m5 e)"
  "still f m1 \<Longrightarrow> still f m2 \<Longrightarrow> still f m3 \<Longrightarrow> still f m4 \<Longrightarrow>
     still f (case st of CONNECTION_STATE_IDLE \<Rightarrow> m1 | CONNECTION_STATE_INITIAL \<Rightarrow> m2 | CONNECTION_STATE_HEADER \<Rightarrow> m3
              | CONNECTION_STATE_BODY \<Rightarrow> m4)"
  by (auto split: sum.split prod.split poll_result.split io.split amqp_connection_state_enum.split)

lemma still_modify: "(\<And>s. f (h s) = f s) \<Longrightarrow> still f (modifyE h)"
  by (simp add: still_def)

lemma still_catch [still_rules]: "still f m \<Longrightarrow> still f (catchE m)"
  by (auto simp: still_def catchE_def case_prod_beta split: sum.split)

lemma still_lift [still_rules]: "still f (lift_result r)"
  by (auto simp: lift_result_def still_def split: sum.split)

lemma still_conn: "still g m \<Longrightarrow> (\<And>c c' w. g c' = g c \<Longrightarrow> f (c', w) = f (c, w)) \<Longrightarrow> still f (conn m)"
  by (simp add: still_def conn_def case_prod_beta)

lemma still_outside: "(\<And>c w. f (c, snd (h w)) = f (c, w)) \<Longrightarrow> still f (outside h)"
  by (simp add: still_def outside_def case_prod_beta)

text \<open>What the connection keeps while it takes in frames.\<close>

definition tuned :: "amqp_conn \<Rightarrow> int \<times> bytes" where
  "tuned c = (c_frame_max c, c_outbound c)"

lemma tuned_updates [simp]:
  "tuned (c\<lparr>c_pools := a\<rparr>) = tuned c" "tuned (c\<lparr>c_state := s\<rparr>) = tuned c" "tuned (c\<lparr>c_target_size := n\<rparr>) = tuned c"
  "tuned (c\<lparr>c_inbound := i\<rparr>) = tuned c" "tuned (c\<lparr>c_inbound_offset := n\<rparr>) = tuned c"
  "tuned (c\<lparr>c_header_buffer := b\<rparr>) = tuned c" "tuned (c\<lparr>c_sock_offset := n\<rparr>) = tuned c"
  "tuned (c\<lparr>c_queued := q\<rparr>) = tuned c" "tuned (c\<lparr>c_next_recv := t\<rparr>) = tuned c" "tuned (c\<lparr>c_next_send := t\<rparr>) = tuned c"
  "tuned (return_to_idle c) = tuned c" "tuned (set_inbound_bytes b c) = tuned c" "tuned (received d c) = tuned c"
  by (simp_all add: tuned_def return_to_idle_def set_inbound_bytes_def received_def split: inbound.split)

lemma still_consume_data [still_rules]: "still tuned (consume_data d)"
  by (auto simp: still_def consume_data_def Let_def)

lemma still_get_pool [still_rules]: "still tuned (amqp_get_or_create_channel_pool M chan)"
  unfolding amqp_get_or_create_channel_pool_def by (intro still_rules still_modify) simp

lemma still_handle_body [still_rules]: "still tuned (handle_body M n)"
  unfolding handle_body_def by (intro still_rules still_modify) simp

lemma still_handle_header [still_rules]: "still tuned (handle_header M n d)"
  unfolding handle_header_def by (intro still_rules still_modify) simp_all

lemma still_handle_input [still_rules]: "still tuned (amqp_handle_input M d)"
  unfolding amqp_handle_input_def by (intro still_rules still_modify) simp_all

lemma still_consume_one_frame [still_rules]: "still tuned (consume_one_frame M)"
  unfolding consume_one_frame_def by (intro still_rules still_modify) simp

lemma still_queue_frame [still_rules]: "still tuned (amqp_queue_frame M f)"
  unfolding amqp_queue_frame_def amqp_create_link_for_frame_def by (intro still_rules still_modify) simp

lemma still_queue_input [still_rules]: "still tuned (queue_input M fuel)"
proof (induction fuel)
  case (Suc fuel)
  then show ?case unfolding queue_input.simps by (intro still_rules)
qed (simp add: still_def)

text \<open>What has been sent, and the connection's tuning.\<close>

definition on_wire :: "('w \<Rightarrow> bytes) \<Rightarrow> amqp_conn \<times> 'w \<Rightarrow> bytes \<times> int \<times> bytes" where
  "on_wire sent s = (sent (snd s), tuned (fst s))"

lemma still_wire_conn [still_rules]: "still tuned m \<Longrightarrow> still (on_wire sent) (conn m)"
  by (erule still_conn) (simp add: on_wire_def)

lemma still_wire_outside:
  assumes "net_ok sent N"
  shows "still (on_wire sent) (outside (n_clock N))" "still (on_wire sent) (outside (n_recv N n))"
    "still (on_wire sent) (outside (n_poll N e t))" "still (on_wire sent) (socket_close N)"
  unfolding socket_close_def using assms by (auto intro!: still_outside simp: net_ok_def on_wire_def)

lemma still_poll:
  assumes "net_ok sent N"
  shows "still (on_wire sent) (amqp_poll N fuel event deadline)"
proof (induction fuel)
  case (Suc fuel)
  then show ?case unfolding amqp_poll.simps by (intro still_rules still_wire_outside assms)
qed (simp add: still_def)

lemma still_do_poll: "net_ok sent N \<Longrightarrow> still (on_wire sent) (do_poll N fuel res deadline)"
  unfolding do_poll_def by (intro still_rules still_poll)

lemma still_recv:
  assumes "net_ok sent N"
  shows "still (on_wire sent) (recv_with_timeout N fuel timeout)"
proof (induction fuel)
  case (Suc fuel)
  then show ?case
    unfolding recv_with_timeout.simps
    by (intro still_rules still_wire_outside still_do_poll still_modify assms) simp_all
qed (simp add: still_def)

lemma still_try_recv: "net_ok sent N \<Longrightarrow> still (on_wire sent) (amqp_try_recv N M fuel)"
  unfolding amqp_try_recv_def by (intro still_rules still_recv)

section \<open>Sending\<close>

definition advances :: "('w \<Rightarrow> bytes) \<Rightarrow> bytes \<Rightarrow> amqp_conn \<times> 'w \<Rightarrow> amqp_conn \<times> 'w \<Rightarrow> bool" where
  "advances sent v s s' \<longleftrightarrow> sent (snd s') = sent (snd s) @ v \<and> tuned (fst s') = tuned (fst s)"

lemma advances_trans: "advances sent u s t \<Longrightarrow> advances sent v t x \<Longrightarrow> advances sent (u @ v) s x"
  by (simp add: advances_def)

lemma still_advances: "still (on_wire sent) m \<Longrightarrow> m s = (r, s') \<Longrightarrow> advances sent [] s s'"
  by (drule still_def [THEN iffD1, THEN spec [of _ s]]) (simp add: advances_def on_wire_def)

lemma advances_after: "advances sent [] s t \<Longrightarrow> advances sent v t x \<Longrightarrow> advances sent v s x"
  using advances_trans [of sent "[]"] by simp

lemma advances_refl [simp]: "advances sent [] s s"
  by (simp add: advances_def)

text \<open>Of the bytes that are to be sent, exactly as many as are reported are on the wire.\<close>

lemma try_send_loop_sent:
  assumes N: "net_ok sent N" and "try_send_loop N fuel len left deadline flags s = (r, s')"
  shows "\<exists>k \<le> length left. advances sent (take k left) s s' \<and> (\<forall>n. r = Inr n \<longrightarrow> n = len + k)"
  using assms(2)
proof (induction fuel arbitrary: len left s)
  case 0
  then show ?case by (intro exI [of _ 0]) (auto simp: throwE_def)
next
  case (Suc fuel)
  obtain c w where s: "s = (c, w)" by fastforce
  obtain res w1 where send: "n_send N left flags w = (res, w1)" by fastforce
  let ?wait = "bindE (catchE (do_poll N fuel res deadline)) (\<lambda>r.
       case r of
         Inr _ \<Rightarrow> try_send_loop N fuel len left deadline flags
       | Inl e \<Rightarrow> if e = AMQP_STATUS_TIMEOUT then returnE len else throwE e)"
  have wait: ?case if w: "?wait (c, w1) = (r, s')" and same: "sent w1 = sent w"
  proof -
    obtain q t where q: "catchE (do_poll N fuel res deadline) (c, w1) = (q, t)" by (metis surj_pair)
    have "still (on_wire sent) (catchE (do_poll N fuel res deadline))"
      using N by (intro still_rules still_do_poll)
    then have "advances sent [] (c, w1) t" using q by (rule still_advances)
    then have adv: "advances sent [] s t" using same s by (simp add: advances_def)
    consider (again) u where "q = Inr (Inr u)" | (stop) "t = s'" "\<forall>n. r = Inr n \<longrightarrow> n = len"
      using w q by (auto simp: bindE_def split: sum.splits if_splits)
    then show ?case
    proof cases
      case again
      then have "try_send_loop N fuel len left deadline flags t = (r, s')" using w q by (simp add: bindE_def)
      from Suc.IH [OF this] show ?thesis using adv advances_after by blast
    next
      case stop
      then show ?thesis using adv by (intro exI [of _ 0]) auto
    qed
  qed
  have laws: "case res of Done n \<Rightarrow> n \<le> length left \<and> sent w1 = sent w @ take n left | _ \<Rightarrow> sent w1 = sent w"
    using N send by (rule net_ok_send)
  have out: "outside (n_send N left flags) (c, w) = (Inr res, (c, w1))" using send by (simp add: outside_def)
  have run: "(case res of
          Done n \<Rightarrow>
            if 0 < n then
              if n = length left then returnE (len + n)
              else if length left < n then throwE Undefined_Behaviour
              else try_send_loop N fuel (len + n) (drop n left) deadline flags
            else ?wait
        | _ \<Rightarrow> ?wait) (c, w1) = (r, s')"
    using Suc.prems unfolding s try_send_loop.simps Let_def bindE_Inr [where m = "outside (n_send N left flags)", OF out] .
  show ?case
  proof (cases "\<exists>n. res = Done n \<and> 0 < n")
    case True
    then obtain n where n: "res = Done n" "0 < n" by blast
    then have adv: "advances sent (take n left) s (c, w1)" and le: "n \<le> length left"
      using laws s by (simp_all add: advances_def)
    show ?thesis
    proof (cases "n = length left")
      case True
      then show ?thesis using run n adv by (intro exI [of _ n]) auto
    next
      case False
      then have "try_send_loop N fuel (len + n) (drop n left) deadline flags (c, w1) = (r, s')"
        using run n le by simp
      from Suc.IH [OF this] obtain k where k: "k \<le> length (drop n left)"
          "advances sent (take k (drop n left)) (c, w1) s'" "\<forall>m. r = Inr m \<longrightarrow> m = len + n + k"
        by blast
      then show ?thesis
        using advances_trans [OF adv k(2)] le by (intro exI [of _ "n + k"]) (auto simp: take_add)
    qed
  next
    case False
    then show ?thesis using wait run laws by (auto split: io.splits)
  qed
qed

lemma send_frame_loop_sent:
  assumes N: "net_ok sent N" and "send_frame_loop N M fuel encoded flags deadline s = (Inr u, s')"
  shows "advances sent encoded s s'"
  using assms(2)
proof (induction fuel arbitrary: encoded s)
  case (Suc fuel)
  let ?next = "case s of (c, w) \<Rightarrow> amqp_time_first deadline (c_next_recv c)"
  obtain n t where n: "amqp_try_send N fuel encoded ?next flags s = (Inr n, t)"
    and rest: "(if length encoded \<noteq> n then
       if amqp_time_equal ?next deadline then throwE AMQP_STATUS_TIMEOUT
       else
         bindE (catchE (amqp_try_recv N M fuel)) (\<lambda>r.
         case r of
           Inl e \<Rightarrow> throwE (if e = AMQP_STATUS_TIMEOUT then AMQP_STATUS_HEARTBEAT_TIMEOUT else e)
         | Inr _ \<Rightarrow> send_frame_loop N M fuel (drop n encoded) flags deadline)
     else
       bindE (outside (n_clock N)) (\<lambda>now.
       bindE (getsE (\<lambda>(c, w). amqp_heartbeat_send c)) (\<lambda>hb.
       bindE (conn (lift_result (amqp_time_s_from_now now hb))) (\<lambda>t.
       conn (modifyE (\<lambda>c. c\<lparr>c_next_send := t\<rparr>)))))) t = (Inr u, s')"
    using Suc.prems unfolding send_frame_loop.simps bindE_getsE by (rule bindE_InrE)
  obtain k where k: "advances sent (take k encoded) s t" "n = k" "k \<le> length encoded"
    using try_send_loop_sent [OF N n [unfolded amqp_try_send_def]] by auto
  show ?case
  proof (cases "length encoded = n")
    case True
    have "still (on_wire sent) (bindE (outside (n_clock N)) (\<lambda>now.
       bindE (getsE (\<lambda>(c, w). amqp_heartbeat_send c)) (\<lambda>hb.
       bindE (conn (lift_result (amqp_time_s_from_now now hb))) (\<lambda>t.
       conn (modifyE (\<lambda>c. c\<lparr>c_next_send := t\<rparr>))))))"
      by (intro still_rules still_wire_outside still_modify N) simp
    from still_advances [OF this] rest True have "advances sent [] t s'" by auto
    then show ?thesis using advances_trans [OF k(1)] k(2) True by fastforce
  next
    case False
    then obtain x y where x: "catchE (amqp_try_recv N M fuel) t = (Inr (Inr x), y)"
        "send_frame_loop N M fuel (drop n encoded) flags deadline y = (Inr u, s')"
      using rest by (auto elim!: bindE_InrE split: if_splits sum.splits)
    have "still (on_wire sent) (catchE (amqp_try_recv N M fuel))"
      using N by (intro still_rules still_try_recv)
    then have "advances sent [] t y" using x(1) by (rule still_advances)
    then have "advances sent (drop n encoded) t s'" using Suc.IH [OF x(2)] by (rule advances_after)
    then show ?thesis using advances_trans [OF k(1)] k(2) by fastforce
  qed
qed simp

text \<open>The length of the outbound buffer does not change when a frame is encoded into it.\<close>

definition goes_out :: "('w \<Rightarrow> bytes) \<Rightarrow> bytes \<Rightarrow> amqp_conn \<times> 'w \<Rightarrow> amqp_conn \<times> 'w \<Rightarrow> bool" where
  "goes_out sent v s s' \<longleftrightarrow>
     sent (snd s') = sent (snd s) @ v \<and> c_frame_max (fst s') = c_frame_max (fst s) \<and>
     length (c_outbound (fst s')) = length (c_outbound (fst s))"

lemma goes_out_trans: "goes_out sent u s t \<Longrightarrow> goes_out sent v t x \<Longrightarrow> goes_out sent (u @ v) s x"
  by (simp add: goes_out_def)

lemma advances_goes_out: "advances sent v s s' \<Longrightarrow> goes_out sent v s s'"
  by (simp add: advances_def goes_out_def tuned_def)

lemma send_frame_sent:
  assumes N: "net_ok sent N" and p: "carries al block p v q"
    and "amqp_send_frame_inner N M fuel \<lparr>frame_channel = chan, frame_payload = p\<rparr> flags deadline s = (Inr u, s')"
  shows "goes_out sent (frame_bytes (frame_type p) chan v) s s' \<and> 8 + length v \<le> length (c_outbound (fst s))"
proof -
  let ?f = "\<lparr>frame_channel = chan, frame_payload = p\<rparr>"
  obtain c w where s: "s = (c, w)" by fastforce
  obtain enc t where enc: "conn (encode_outbound ?f) s = (Inr enc, t)"
      "send_frame_loop N M fuel enc flags deadline t = (Inr u, s')"
    using assms(3) unfolding amqp_send_frame_inner_def by (rule bindE_InrE)
  obtain len buf where b: "amqp_frame_to_bytes ?f (c_outbound c) = (Inr len, buf)"
      "enc = take len buf" "t = (c\<lparr>c_outbound := buf\<rparr>, w)"
    using enc(1) s by (auto simp: conn_def encode_outbound_def split: prod.splits sum.splits)
  have fits: "8 + length v \<le> length (c_outbound c)" using frame_fits [OF p b(1)] .
  have "enc = frame_bytes (frame_type p) chan v" "length buf = length (c_outbound c)"
    using frame_written [OF p fits, of chan] b fits by auto
  moreover have "advances sent enc t s'" using N enc(2) by (rule send_frame_loop_sent)
  ultimately show ?thesis using fits s b(3) by (auto simp: advances_def goes_out_def tuned_def)
qed

section \<open>Publishing\<close>

text \<open>The pieces of a body.\<close>

function pieces :: "nat \<Rightarrow> bytes \<Rightarrow> bytes list" where
  "pieces n body = (if n = 0 \<or> body = [] then [] else take n body # pieces n (drop n body))"
  by auto
termination by (relation "measure (\<lambda>(n, body). length body)") auto

declare pieces.simps [simp del]

lemma concat_pieces: "0 < n \<Longrightarrow> concat (pieces n body) = body"
proof (induction n body rule: pieces.induct)
  case (1 n body)
  then show ?case using pieces.simps [of n body] by (cases "body = []") simp_all
qed

lemma length_pieces: "x \<in> set (pieces n body) \<Longrightarrow> 0 < length x \<and> length x \<le> n"
proof (induction n body rule: pieces.induct)
  case (1 n body)
  then show ?case using pieces.simps [of n body] by (auto split: if_splits)
qed

lemma send_body_sent:
  assumes N: "net_ok sent N" and "send_body N M fuel chan usable k body s = (Inr u, s')"
  shows "goes_out sent (concat (map (frame_bytes 3 chan) (pieces usable body))) s s'"
  using assms(2)
proof (induction k arbitrary: body s)
  case (Suc k)
  show ?case
  proof (cases "body = []")
    case True
    then show ?thesis using Suc.prems by (simp add: pieces.simps goes_out_def)
  next
    case False
    obtain x t where x: "amqp_send_frame_inner N M fuel \<lparr>frame_channel = chan, frame_payload = P_Body (take usable body)\<rparr>
          (if length body \<ge> usable then AMQP_SF_MORE else AMQP_SF_NONE) amqp_time_infinite s = (Inr x, t)"
        "send_body N M fuel chan usable k (drop usable body) t = (Inr u, s')"
      using Suc.prems False unfolding send_body.simps by (auto elim!: bindE_InrE)
    have first: "goes_out sent (frame_bytes 3 chan (take usable body)) s t"
      using send_frame_sent [OF N carries.body x(1)] by simp
    show ?thesis
    proof (cases "usable = 0")
      case True
      have "send_body N M fuel chan 0 k body t \<noteq> (Inr u, s')" for t
        using False by (induction k arbitrary: t) (auto simp: bindE_def split: prod.splits sum.splits)
      then show ?thesis using x(2) True by simp
    next
      case nz: False
      then have "pieces usable body = take usable body # pieces usable (drop usable body)"
        using False by (simp add: pieces.simps)
      then show ?thesis using goes_out_trans [OF first Suc.IH [OF x(2)]] by simp
    qed
  qed
qed simp

definition publish_method :: "bytes \<Rightarrow> bytes \<Rightarrow> bool \<Rightarrow> bool \<Rightarrow> amqp_method" where
  "publish_method xchg key mand imm =
     Basic_publish \<lparr>amqp_basic_publish_t.ticket = 0, amqp_basic_publish_t.exchange = xchg,
                    amqp_basic_publish_t.routing_key = key, amqp_basic_publish_t.mandatory = mand,
                    amqp_basic_publish_t.immediate = imm\<rparr>"

definition publish_header :: "amqp_basic_properties_t option \<Rightarrow> bytes \<Rightarrow> amqp_payload" where
  "publish_header props body =
     P_Header AMQP_BASIC_CLASS (word_of_nat (length body))
       (Basic_Properties (case props of None \<Rightarrow> zero_properties | Some p \<Rightarrow> p)) []"

lemma still_recv_overdue: "net_ok sent N \<Longrightarrow> still (on_wire sent) (recv_overdue N M fuel past)"
  unfolding recv_overdue_def
  by (cases past; simp only: time_verdict.case; intro still_rules still_try_recv)

lemma publish_sent:
  assumes N: "net_ok sent N"
    and m: "carries al block (P_Method (publish_method xchg key mand imm)) vm qm"
    and h: "carries al block (publish_header props body) vh qh"
    and run: "amqp_basic_publish N M fuel chan xchg key mand imm props body s = (Inr u, s')"
  shows "goes_out sent (frame_bytes 1 chan vm @ frame_bytes 2 chan vh @
      concat (map (frame_bytes 3 chan) (pieces (size_of_int (c_frame_max (fst s) - 8)) body))) s s'
    \<and> 8 + length vm \<le> length (c_outbound (fst s)) \<and> 8 + length vh \<le> length (c_outbound (fst s))"
proof -
  let ?usable = "size_of_int (c_frame_max (fst s) - 8)"
  obtain now t1 x2 t2 x3 t3 x4 t4 where 1: "outside (n_clock N) s = (Inr now, t1)"
    and 2: "recv_overdue N M fuel (amqp_time_has_past now (c_next_recv (fst t1))) t1 = (Inr x2, t2)"
    and 3: "amqp_send_frame_inner N M fuel \<lparr>frame_channel = chan, frame_payload = P_Method (publish_method xchg key mand imm)\<rparr>
              AMQP_SF_MORE amqp_time_infinite t2 = (Inr x3, t3)"
    and 4: "amqp_send_frame_inner N M fuel \<lparr>frame_channel = chan, frame_payload = publish_header props body\<rparr>
              (if 0 < length body then AMQP_SF_MORE else AMQP_SF_NONE) amqp_time_infinite t3 = (Inr x4, t4)"
    and 5: "send_body N M fuel chan ?usable (Suc (length body)) body t4 = (Inr u, s')"
    using run
    unfolding amqp_basic_publish_def amqp_send_method_inner_def publish_method_def [symmetric] publish_header_def [symmetric]
      bindE_getsE case_prod_beta
    by (elim bindE_InrE) (rule that)
  have "advances sent [] s t1" using still_wire_outside(1) [OF N] 1 by (rule still_advances)
  moreover have "advances sent [] t1 t2" using still_recv_overdue [OF N] 2 by (rule still_advances)
  ultimately have a: "goes_out sent [] s t2" by (rule advances_goes_out [OF advances_after])
  have b: "goes_out sent (frame_bytes 1 chan vm) t2 t3" "8 + length vm \<le> length (c_outbound (fst t2))"
    using send_frame_sent [OF N m 3] by simp_all
  have c: "goes_out sent (frame_bytes 2 chan vh) t3 t4" "8 + length vh \<le> length (c_outbound (fst t3))"
    using send_frame_sent [OF N h 4] by (simp_all add: publish_header_def)
  have d: "goes_out sent (concat (map (frame_bytes 3 chan) (pieces ?usable body))) t4 s'"
    using send_body_sent [OF N 5] .
  show ?thesis
    using goes_out_trans [OF a goes_out_trans [OF b(1) goes_out_trans [OF c(1) d]]] a b c by (simp add: goes_out_def)
qed

text \<open>The frames that a receiver sees.\<close>

definition published_frames :: "u16 \<Rightarrow> amqp_method \<Rightarrow> amqp_payload \<Rightarrow> bytes list \<Rightarrow> amqp_frame_t list" where
  "published_frames chan m h bodies =
     \<lparr>frame_channel = chan, frame_payload = P_Method m\<rparr> # \<lparr>frame_channel = chan, frame_payload = h\<rparr> #
     map (\<lambda>b. \<lparr>frame_channel = chan, frame_payload = P_Body b\<rparr>) bodies"

lemma complete_bodies:
  "complete_frames (map (\<lambda>b. \<lparr>frame_channel = chan, frame_payload = P_Body b\<rparr>) bs) =
     map (\<lambda>b. \<lparr>frame_channel = chan, frame_payload = P_Body b\<rparr>) bs"
  by (induction bs) simp_all

lemma bodies_incoming:
  assumes "\<forall>b \<in> set bs. length b < 2 ^ 32 - 8"
  shows "list_all2 (incoming M) (map (frame_bytes 3 chan) bs) (map (\<lambda>b. \<lparr>frame_channel = chan, frame_payload = P_Body b\<rparr>) bs)"
  using assms carried_incoming [OF carries.body, of _ M chan] by (auto simp: list_all2_map1 list_all2_map2 list.rel_refl_strong)

lemma publish_arrives:
  assumes "mem_ok M" "idle d" "\<forall>x \<in> set ds. length x \<le> length (c_sock_buffer d)"
    and m: "carries (m_al M) (m_block M) (P_Method m) vm (P_Method m)"
    and h: "carries (m_al M) (m_block M) h vh qh" "frame_type h = 2"
    and ds: "concat ds = frame_bytes 1 chan vm @ frame_bytes 2 chan vh @ concat (map (frame_bytes 3 chan) bs)"
    and len: "\<forall>v \<in> set (vm # vh # bs). 8 + length v \<le> size_of_int (c_frame_max d) \<and> length v < 2 ^ 32 - 8"
  shows "\<exists>d'. arrive M ds d = (Inr (), d') \<and> c_queued d' = c_queued d @ published_frames chan m qh bs \<and> idle d'"
proof -
  have q: "frame_type qh = 2" using h by (auto elim: carries_cases)
  let ?fbs = "frame_bytes 1 chan vm # frame_bytes 2 chan vh # map (frame_bytes 3 chan) bs"
  have "list_all2 (incoming M) ?fbs (published_frames chan m qh bs)"
    using len carried_incoming [OF m, of chan] carried_incoming [OF h(1), of chan] h(2) bodies_incoming [of bs M chan]
    by (simp add: published_frames_def)
  moreover have "\<forall>fb \<in> set ?fbs. length fb \<le> size_of_int (c_frame_max d)"
    using len by (auto simp: add.commute)
  moreover have "pending d [] ?fbs" using assms(2) by (intro pending_idle) auto
  moreover have "[] @ concat ds = concat ?fbs" using ds by simp
  moreover have "complete_frames (published_frames chan m qh bs) = published_frames chan m qh bs"
    using q by (simp add: published_frames_def complete_bodies)
  ultimately show ?thesis using arrive_stream [OF assms(1) _ _ _ assms(3)] by metis
qed

section \<open>Success\<close>

text \<open>A socket that takes at least a byte of whatever it is given. With heartbeats off, no time limit
  plays a role, and a message whose frames fit is sent.\<close>

definition eager :: "'w net \<Rightarrow> bool" where
  "eager N \<longleftrightarrow> (\<forall>buf fl w. buf \<noteq> [] \<longrightarrow> (\<exists>k. fst (n_send N buf fl w) = Done k \<and> 0 < k \<and> k \<le> length buf))"

lemma try_send_runs:
  assumes "eager N" "left \<noteq> []" "length left \<le> fuel"
  shows "\<exists>w'. try_send_loop N fuel len left deadline flags (c, w) = (Inr (len + length left), (c, w'))"
  using assms(2,3)
proof (induction fuel arbitrary: len left w)
  case (Suc fuel)
  obtain k w1 where k: "n_send N left flags w = (Done k, w1)" "0 < k" "k \<le> length left"
    using assms(1) Suc.prems(1) unfolding eager_def by (metis prod.collapse)
  have out: "outside (n_send N left flags) (c, w) = (Inr (Done k), (c, w1))" using k(1) by (simp add: outside_def)
  show ?case
  proof (cases "k = length left")
    case True
    then show ?thesis using out k by (simp add: bindE_def)
  next
    case False
    then have ne: "drop k left \<noteq> []" "length (drop k left) \<le> fuel" using k Suc.prems by auto
    obtain w2 where "try_send_loop N fuel (len + k) (drop k left) deadline flags (c, w1) = (Inr (len + k + length (drop k left)), (c, w2))"
      using Suc.IH [OF ne, of "len + k" w1] by blast
    then show ?thesis using out k False by (simp add: bindE_def)
  qed
qed simp

definition calm :: "amqp_conn \<Rightarrow> bool" where
  "calm c \<longleftrightarrow> c_heartbeat c = 0 \<and> c_next_recv c = amqp_time_infinite"

lemma send_frame_runs:
  assumes N: "eager N" and p: "carries al block p v q" and len: "8 + length v \<le> length (c_outbound c)"
    and c: "calm c" and fuel: "length v + 8 < fuel"
  shows "\<exists>c' w'. amqp_send_frame_inner N M fuel \<lparr>frame_channel = chan, frame_payload = p\<rparr> flags deadline (c, w) = (Inr (), (c', w')) \<and>
    calm c' \<and> length (c_outbound c') = length (c_outbound c) \<and> c_frame_max c' = c_frame_max c"
proof -
  let ?fb = "frame_bytes (frame_type p) chan v"
  let ?c = "c\<lparr>c_outbound := ?fb @ drop (length v + 8) (c_outbound c)\<rparr>"
  have enc: "conn (encode_outbound \<lparr>frame_channel = chan, frame_payload = p\<rparr>) (c, w) = (Inr ?fb, (?c, w))"
    using frame_written [OF p len, of chan] by (simp add: conn_def encode_outbound_def)
  obtain k where k: "fuel = Suc k" "length ?fb \<le> k" using fuel by (cases fuel) auto
  have ne: "?fb \<noteq> []" by (simp add: frame_bytes_def)
  let ?t = "amqp_time_first deadline (c_next_recv ?c)"
  obtain w1 where "amqp_try_send N k ?fb ?t flags (?c, w) = (Inr (length ?fb), (?c, w1))"
    using try_send_runs [OF N ne k(2), of 0 ?t flags ?c w] by (auto simp: amqp_try_send_def)
  then have "send_frame_loop N M fuel ?fb flags deadline (?c, w) =
      (Inr (), (?c\<lparr>c_next_send := amqp_time_infinite\<rparr>, snd (n_clock N w1)))"
    using c unfolding k(1)
    by (simp add: bindE_def outside_def conn_def calm_def amqp_heartbeat_send_def amqp_time_s_from_now_def lift_result_def
        case_prod_beta)
  then show ?thesis
    using enc c len by (auto simp: amqp_send_frame_inner_def bindE_def calm_def)
qed

lemma send_body_runs:
  assumes N: "eager N" and u: "0 < usable" "8 + usable \<le> length (c_outbound c)" and c: "calm c"
    and fuel: "length (c_outbound c) < fuel" and k: "length body < k"
  shows "\<exists>c' w'. send_body N M fuel chan usable k body (c, w) = (Inr (), (c', w'))"
  using u(2) c fuel k
proof (induction k arbitrary: body c w)
  case (Suc k)
  show ?case
  proof (cases "body = []")
    case False
    let ?b = "take usable body"
    have "8 + length ?b \<le> length (c_outbound c)" "length ?b + 8 < fuel" using Suc.prems by auto
    then obtain c1 w1 where *: "amqp_send_frame_inner N M fuel \<lparr>frame_channel = chan, frame_payload = P_Body ?b\<rparr>
        (if length body \<ge> usable then AMQP_SF_MORE else AMQP_SF_NONE) amqp_time_infinite (c, w) = (Inr (), (c1, w1))"
        "calm c1" "length (c_outbound c1) = length (c_outbound c)"
      using send_frame_runs [OF N carries.body _ Suc.prems(2)] by blast
    have "length (drop usable body) < k" using Suc.prems(4) u(1) False by (cases body) auto
    then show ?thesis
      using Suc.IH [of c1 "drop usable body" w1] Suc.prems * False by (auto simp: bindE_def)
  qed simp
qed simp

lemma publish_runs:
  assumes N: "eager N" and c: "calm c" "int (length (c_outbound c)) = c_frame_max c" "8 < c_frame_max c" "c_frame_max c < 2 ^ 31"
    and fuel: "length (c_outbound c) < fuel"
    and m: "carries al block (P_Method (publish_method xchg key mand imm)) vm qm" "8 + length vm \<le> length (c_outbound c)"
    and h: "carries al block (publish_header props body) vh qh" "8 + length vh \<le> length (c_outbound c)"
  shows "\<exists>c' w'. amqp_basic_publish N M fuel chan xchg key mand imm props body (c, w) = (Inr (), (c', w'))"
proof -
  let ?w = "snd (n_clock N w)"
  have usable: "int (size_of_int (c_frame_max c - 8)) = c_frame_max c - 8" using c by (simp add: size_of_int_def)
  have fm: "length vm + 8 < fuel" "length vh + 8 < fuel" using m(2) h(2) fuel by simp_all
  obtain c1 w1 where 1: "amqp_send_frame_inner N M fuel \<lparr>frame_channel = chan, frame_payload = P_Method (publish_method xchg key mand imm)\<rparr>
      AMQP_SF_MORE amqp_time_infinite (c, ?w) = (Inr (), (c1, w1))"
      "calm c1" "length (c_outbound c1) = length (c_outbound c)" "c_frame_max c1 = c_frame_max c"
    using send_frame_runs [OF N m c(1) fm(1)] by blast
  obtain c2 w2 where 2: "amqp_send_frame_inner N M fuel \<lparr>frame_channel = chan, frame_payload = publish_header props body\<rparr>
      (if 0 < length body then AMQP_SF_MORE else AMQP_SF_NONE) amqp_time_infinite (c1, w1) = (Inr (), (c2, w2))"
      "calm c2" "length (c_outbound c2) = length (c_outbound c)"
    using send_frame_runs [OF N h(1) _ 1(2) fm(2)] h(2) 1(3) by metis
  have "0 < size_of_int (c_frame_max c - 8)" "8 + size_of_int (c_frame_max c - 8) \<le> length (c_outbound c2)"
    using usable c 2(3) by linarith+
  then obtain c3 w3 where 3: "send_body N M fuel chan (size_of_int (c_frame_max c - 8)) (Suc (length body)) body (c2, w2) = (Inr (), (c3, w3))"
    using send_body_runs [OF N _ _ 2(2)] fuel 2(3) by (metis lessI)
  have "recv_overdue N M fuel (amqp_time_has_past (fst (n_clock N w)) (c_next_recv c)) (c, ?w) = (Inr (), (c, ?w))"
    using c(1) by (simp add: calm_def amqp_time_has_past_def recv_overdue_def)
  then show ?thesis
    using 1(1) 2(1) 3 unfolding publish_method_def publish_header_def
    by (simp add: amqp_basic_publish_def amqp_send_method_inner_def bindE_def outside_def case_prod_beta del: send_body.simps)
qed

end
