(* ===== verification/Spec2Isabelle.thy ===== *)
theory Spec2Isabelle
  imports Host_Runs Amqp_Transport
begin

text \<open>
  The inbox of LocalEGA: an SFTP server (the one of OpenSSH, patched) that tells a message broker
  about what users upload, remove and rename.

  \<^bold>\<open>The program.\<close> A client's packets arrive on the standard input of
  \<open>src/src/openssh/sftp-server.c\<close>. Its main loop puts them on an input queue, \<open>process\<close>
  takes one packet at a time and runs the handler of its type; the handler reads its arguments
  from the queue, makes system calls and puts one reply on the output queue. Open files and
  directories are entries of a handle table. Each file handle carries a running SHA-256 of what
  was written through it; when a file that was opened for an upload is closed,
  \<open>src/src/mq-notify.c\<close> publishes its digest, size and time over AMQP. Queues are the
  byte buffers of \<open>sshbuf.c\<close> and \<open>sshbuf-getput-basic.c\<close>.

  \<^bold>\<open>The theories.\<close>

  \<^item> \<open>Inbox_Prelude\<close>: types of bytes and words, the monad \<open>est\<close> of computations with
    state and errors, triples, invariants and simulations between two states. \<open>Evolution\<close>: a
    computation keeps an invariant and relates the states before and after by a preorder.
  \<^item> \<open>Wire\<close>: integers as bytes (\<open>misc.c\<close>).
  \<^item> \<open>Sshbuf\<close>, \<open>Sshbuf_Getput\<close>: the buffers, with their offsets, allocation and limits;
    \<open>Byte_Queue\<close>: what they promise, a queue of bytes with a capacity. The readers and
    writers refine those of the queue (\<open>sb_abs\<close>).
  \<^item> \<open>Match\<close>: wildcard patterns and comma-separated lists (\<open>match.c\<close>).
  \<^item> \<open>Sftp_Common\<close>, \<open>Ls_File\<close>: attributes and listings (\<open>sftp-common.c\<close>,
    \<open>strmode.c\<close>, \<open>fmt_scaled.c\<close>).
  \<^item> \<open>Sftp_Handles\<close>: the handle table of \<open>sftp-server.c\<close>.
  \<^item> \<open>Mq_Notify\<close>: connection, messages and publishing (\<open>mq-notify.c\<close>).
  \<^item> \<open>Sftp_Env\<close>: the state \<open>srv\<close> of the server (its global variables), its environment
    \<open>env\<close> and its replies; \<open>Sftp_Server\<close>: every request handler, the dispatcher
    \<open>process\<close> and the main loop.
  \<^item> \<open>Sftp_Evolution\<close>: one walk over all handlers, in a locale over the primitive steps;
    \<open>Sftp_Invariants\<close>: its instances for read-only mode, the session and the handle table;
    \<open>Sftp_Replies\<close>: framing and replies; \<open>Sftp_Total\<close>: well-formed requests are answered;
    \<open>Sftp_Notifications\<close>: what the broker is told; \<open>Sftp_Digest\<close>: the digests of open files
    are those of what was written.
  \<^item> \<open>Amqp_Codec\<close>: the integers and strings of AMQP (\<open>rabbitmq-c/amqp_private.h\<close>) and two
    calculi, \<open>reads\<close> for decoders and \<open>emits\<close> for encoders; \<open>Amqp_Table\<close>: field tables
    (\<open>amqp_table.c\<close>); \<open>Amqp_Methods\<close>, \<open>Amqp_Decode\<close>, \<open>Amqp_Encode\<close>, \<open>Amqp_Properties\<close>: the
    methods of the protocol and the properties of contents (\<open>amqp_framing.c\<close> and
    \<open>amqp_framing.h\<close>), decoded, encoded and taken back.
  \<^item> \<open>Amqp_Frames\<close>: frames and their bytes; \<open>Amqp_Time\<close>: deadlines (\<open>amqp_time.c\<close>);
    \<open>Amqp_Connection\<close>: the state of a connection and how frames are put together from what the
    socket delivers (\<open>amqp_connection.c\<close>); \<open>Amqp_Input\<close>: one frame in pieces;
    \<open>Amqp_Socket\<close>: sending, receiving, waiting and remote procedure calls (\<open>amqp_socket.c\<close>);
    \<open>Amqp_Stream\<close>: streams of frames in pieces; \<open>Amqp_Login\<close>: the handshake;
    \<open>Amqp_Api\<close>: the calls of a client (\<open>amqp_api.c\<close> and the end of \<open>amqp_framing.c\<close>);
    \<open>Amqp_Transport\<close>: what is on the wire after a call.
  \<^item> \<open>Host\<close>, \<open>Host_Runs\<close>: a concrete environment (files in memory, a broker that keeps
    what it is handed) that satisfies the assumptions, and runs of the server on it.

  \<^bold>\<open>Conventions.\<close> A C function that changes state is a computation on a record of that
  state; \<open>Inl\<close> is a failure, so \<open>fatal\<close>, \<open>exit\<close> and the use of a null pointer are values
  of the type \<open>halt\<close>. System calls, the hash function, the JSON printer and the AMQP client
  are fields of the environment; what is used of them is a hypothesis of the theorem that uses
  it. Memory is granted or refused by a parameter \<open>al\<close>. Machine integers are words of their
  width; lengths, which are bounded by the size of the buffers, are natural numbers.

  \<^bold>\<open>Fuel.\<close> The loop over a directory stream runs at most \<open>e_fuel\<close> times, a field of the
  environment, and the main loop any given number of rounds. The decoders of tables get the
  length of their input, which is enough: every round of their loops and every level of nesting
  uses up a byte. So does the loop that puts frames together. The loops that wait for the
  network get fuel from the caller; \<open>publishing_succeeds\<close> says how much a message needs.

  \<^bold>\<open>The network.\<close> The socket class, the clock and \<open>poll\<close> are a record \<open>net\<close> over a state of the
  outside. \<open>net_ok\<close> is what is used of it: a send appends the part that it reports, and nothing
  else is written. The handlers of \<open>mq-notify.c\<close> are modelled over the calls of the client as
  fields of the environment; the client itself is modelled apart from them.

  \<^bold>\<open>Not modelled.\<close> Logging; command-line options of the server; child buffers; the SSH
  daemon around the server; of the AMQP client the opening of sockets, TLS, consumers and URLs,
  and where the blocks of its pools lie.
\<close>

section \<open>The SFTP server\<close>

text \<open>
  C1. Every well-formed request is answered. The server has negotiated its version, its output
  queue has the room that the main loop waits for, and the broker is configured: then, for a
  packet at the front of the input queue whose type is known and whose arguments parse,
  \<open>process\<close> returns, having taken the packet off the input queue and put exactly one reply on
  the output queue, with the identifier of the request. No argument, no error of the file system
  and no failure of the broker makes it die or stay silent. Of the system it is used that
  failing calls set an error number, that results are no longer than they may be, and that
  directories end.
\<close>

theorem well_formed_request_answered:
  assumes "\<forall>n. e_al E n" and "errnos_set E" and "results_bounded E left"
    and "able s" and "room s" and "init_done s"
    and "type \<in> set request_types" and "request_ok type args"
    and "length args + 5 \<le> SFTP_MAX_MSG_LENGTH"
    and "sshbuf_ptr (iqueue s) = packet type rid args @ rest"
  shows "\<exists>body t. process E s = (Inr (), t) \<and> is_reply rid body \<and>
      sshbuf_ptr (oqueue t) = sshbuf_ptr (oqueue s) @ enc_string body \<and> sshbuf_ptr (iqueue t) = rest"
proof -
  have "responding E left" using assms(1,3) by (rule responding.intro)
  then obtain t where run: "process E s = (Inr (), t)"
    using responding.process_returns [OF _ assms(7,4-6,10,9,8)] by blast
  have "bufs_ok s" using assms(4) by (simp add: able_def)
  from replying.process_answers [OF replying.intro [OF assms(1,2)] this assms(7,9,10) run] run
  show ?thesis by blast
qed

theorem well_formed_request_answered_witness:
  "\<exists>body t. process host_env (host_srv False True stat_packet) = (Inr (), t) \<and> is_reply 7 body \<and>
      sshbuf_ptr (oqueue t) = sshbuf_ptr (oqueue (host_srv False True stat_packet)) @ enc_string body \<and>
      sshbuf_ptr (iqueue t) = []"
proof -
  have "init_done (host_srv False True stat_packet)" by (simp add: host_srv_def)
  from well_formed_request_answered [OF host_env_al host_errnos host_bounded host_srv_able host_srv_room this
      stat_packet_ok(1,3,2) stat_packet_ptr]
  show ?thesis .
qed

text \<open>
  C2. Every request is answered exactly once, under its own identifier. A complete packet of a
  known request type at the front of the input queue, on which \<open>process\<close> returns, puts one
  message on the output queue: a reply type, then the identifier of the request. The packet is
  taken off the input queue and what follows it stays. Of the system it is used that failing
  calls set an error number.
\<close>

theorem every_request_answered_once:
  assumes "\<forall>n. e_al E n" and "errnos_set E" and "bufs_ok s"
    and "type \<in> set request_types" and "length args + 5 \<le> SFTP_MAX_MSG_LENGTH"
    and "sshbuf_ptr (iqueue s) = packet type rid args @ rest"
    and "fst (process E s) = Inr ()"
  shows "(\<exists>body. is_reply rid body \<and>
      sshbuf_ptr (oqueue (snd (process E s))) = sshbuf_ptr (oqueue s) @ enc_string body) \<and>
    sshbuf_ptr (iqueue (snd (process E s))) = rest"
proof -
  have run: "process E s = (Inr (), snd (process E s))" using assms(7) by (simp add: prod_eq_iff)
  show ?thesis by (rule replying.process_answers [OF replying.intro [OF assms(1,2)] assms(3-6) run])
qed

theorem every_request_answered_once_witness:
  "(\<exists>body. is_reply 7 body \<and>
      sshbuf_ptr (oqueue (snd (process host_env (host_srv False True stat_packet)))) = enc_string body) \<and>
    sshbuf_ptr (iqueue (snd (process host_env (host_srv False True stat_packet)))) = []"
proof -
  have o: "sshbuf_ptr (oqueue (host_srv False True stat_packet)) = []"
    by (simp add: host_srv_def host_buf_ptr)
  from every_request_answered_once [OF host_env_al host_errnos host_srv_bufs stat_packet_ok(1,2)
      stat_packet_ptr stat_run] o
  show ?thesis by simp
qed

text \<open>
  C3. What is announced for an upload is the hash of what the client wrote. Where the digests of
  the handle table are in step with the writes (the invariant of the next property), closing a
  file that was opened for an upload publishes (if the broker can be reached) the SHA-256 of the
  data of all write requests on that handle since it was opened that the system accepted, one
  after the other in the order of the requests. Of the hash it is used that feeding it chunks is
  feeding it their concatenation.
\<close>

theorem announced_digest_is_of_the_written_data:
  assumes "digest_inv E fds wlog ro s" and "small (ht s)"
    and "\<And>chunks. e_sha_final E (foldl (e_sha_update E) (e_sha_init E) chunks) = sha (concat chunks)"
    and "records (e_amqp E) log"
    and "handle_is_ok i HANDLE_FILE (ht s)" and "h = handles (ht s) ! nat i" and "is_upload (h_flags h)"
    and "sys_fstat E (h_fd h) (os s) = (Inr st, w1)" and "sys_close E (h_fd h) w1 = (Inr (), w2)"
  shows "\<exists>m m' w'. mq_options s = Some m \<and>
     handle_close E i s =
       (Inr (Inr ()), s\<lparr>mq_options := Some m', os := w', ht := handle_unused i (ht s)\<rparr>) \<and>
     announced log (e_json E (upload_object (pw_name s) (h_name h) (sha (concat (wlog (os s) (h_fd h))))
        (sint (st_size st)) (sint (st_mtime st)))) m w2 m' w'"
  by (rule digest_announced [OF assms]) blast

theorem announced_digest_is_of_the_written_data_witness:
  "\<exists>m m' w'. mq_options (open_srv (O_WRONLY OR O_CREAT OR O_TRUNC)) = Some m \<and>
     announced ho_log (json_print (upload_object (lit ''jane'') (lit ''/a'') (concat [[1, 2], [3]]) 3 0))
       m ((host_start [])\<lparr>ho_next := 4, ho_writes := [(3, [1, 2]), (3, [3])]\<rparr>) m' w'"
proof -
  let ?f = "O_WRONLY OR O_CREAT OR O_TRUNC"
  have r: "records (e_amqp host_env) ho_log" using host_amqp_records by (simp add: host_env_def)
  have vals: "sint (st_size (host_stat [1, 2, 3])) = 3" "sint (st_mtime (host_stat [1, 2, 3])) = 0"
      "e_json host_env = json_print" "host_wlog (os (open_srv ?f)) 3 = [[1, 2], [3]]"
    by (simp_all add: host_stat_def host_env_def host_wlog_def open_srv_def)
  have up: "is_upload (h_flags (handles (ht (open_srv ?f)) ! nat 0))"
    unfolding open_srv_sel by (rule is_upload_flags)
  from announced_digest_is_of_the_written_data [OF open_srv_digest host_sha r open_srv_sel(1) refl up
      open_srv_close(1) open_srv_close(2)]
  show ?thesis unfolding open_srv_sel vals by blast
qed



text \<open>
  C5. A read-only server changes no file. Whatever the client sends, in any number of rounds of
  the main loop, and however the session ends, the file system as seen through \<open>obs\<close> is what
  it was. Of the system it is used that the calls which do not write leave \<open>obs\<close> alone, and
  that the message broker is not the file system.
\<close>

theorem readonly_changes_no_file:
  assumes "fs_readers_quiet E obs" and "amqp_quiet (e_amqp E) obs" and "readonly s"
  shows "obs (os (snd (main_loop E n s))) = obs (os s)"
proof -
  have "evolves (obs_is True obs (obs (os s))) anything (main_loop E n)"
    by (rule main_handlers.ev_main_loop [OF main_evolution.main [OF readonly_main_evolution [OF assms(1,2)]]])
  then show ?thesis using assms(3) by (simp add: evolves_def obs_is_def)
qed

theorem readonly_changes_no_file_witness:
  "ho_files (os (snd (main_loop host_env 3 (host_srv True True
      (packet SSH2_FXP_REMOVE 7 (enc_string (lit ''/a''))))))) = [(lit ''/a'', [1, 2, 3])]"
proof -
  have "readonly (host_srv True True v)" for v by (simp add: host_srv_def)
  from readonly_changes_no_file [OF host_readers_quiet host_amqp_quiet this, of 3]
  show ?thesis by (simp add: host_srv_def host_start_def)
qed



text \<open>
  C7. Nothing else that is closed is announced: where the flags of the handle are not those of
  an upload, or the descriptor cannot be closed, the result of the close is returned, the handle
  is freed and the broker is not contacted.
\<close>

theorem close_without_upload_is_quiet:
  assumes "handle_is_ok i HANDLE_FILE (ht s)"
    and "sys_fstat E (h_fd (handles (ht s) ! nat i)) (os s) = (fs, w1)"
    and "sys_close E (h_fd (handles (ht s) ! nat i)) w1 = (ret, w2)"
    and "is_upload (h_flags (handles (ht s) ! nat i)) \<Longrightarrow> ret \<noteq> Inr ()"
  shows "handle_close E i s = (Inr ret, s\<lparr>os := w2, ht := handle_unused i (ht s)\<rparr>)"
  using handle_close_quiet [OF assms(1) refl assms(2,3)] assms(4) by blast

theorem close_without_upload_is_quiet_witness:
  "mq_options (snd (handle_close host_env 0 (open_srv O_RDONLY))) = Some host_options \<and>
   ho_log (os (snd (handle_close host_env 0 (open_srv O_RDONLY)))) = []"
proof -
  have "\<not> is_upload (h_flags (handles (ht (open_srv O_RDONLY)) ! nat 0))"
    unfolding open_srv_sel by (rule is_upload_flags)
  from close_without_upload_is_quiet [OF open_srv_sel(1) open_srv_close(1) open_srv_close(2)] this
  have "handle_close host_env 0 (open_srv O_RDONLY) =
     (Inr (Inr ()), (open_srv O_RDONLY)\<lparr>os := (host_start [])\<lparr>ho_next := 4, ho_writes := [(3, [1, 2]), (3, [3])]\<rparr>,
        ht := handle_unused 0 (ht (open_srv O_RDONLY))\<rparr>)"
    by blast
  then show ?thesis by (simp add: open_srv_sel host_start_def)
qed

text \<open>
  C8. A packet is consumed exactly. When \<open>process\<close> returns, a complete packet has been taken
  off the front of the input queue, length field and all, however much of it its handler read;
  an incomplete packet is left where it is.
\<close>

theorem packets_consumed_exactly:
  assumes "\<forall>n. e_al E n" and "bufs_ok s" and "process E s = (Inr (), t)"
  shows "sshbuf_ptr (iqueue t) =
    (if complete (sshbuf_ptr (iqueue s))
     then drop (4 + msg_len_of (sshbuf_ptr (iqueue s))) (sshbuf_ptr (iqueue s))
     else sshbuf_ptr (iqueue s))"
  using assms by (rule process_consumes)

theorem packets_consumed_exactly_witness:
  "sshbuf_ptr (iqueue (snd (process host_env (host_srv False True stat_packet)))) = []"
proof -
  have "process host_env (host_srv False True stat_packet) =
      (Inr (), snd (process host_env (host_srv False True stat_packet)))"
    using stat_run by (simp add: prod_eq_iff)
  note c = packets_consumed_exactly [OF host_env_al host_srv_bufs this]
  from complete_packet [OF stat_packet_ok(2), of SSH2_FXP_STAT 7 "[]"] c show ?thesis
    unfolding stat_packet_ptr by (simp add: packet_def enc_string_def)
qed


text \<open>
  C10. The handle table stays well-formed through any sequence of requests: the free slots are
  exactly the chain from \<open>first_unused_handle\<close>, without repetition, the counter is the number
  of slots and there are fewer than \<open>2 ^ 31\<close> of them. The alternative is a table that has grown
  to \<open>2 ^ 31 - 1\<close> slots, beyond what its counters can tell.
\<close>

theorem handle_table_stays_well_formed:
  assumes "ht_wf (ht s)"
  shows "ht_wf (ht (snd (main_loop E n s))) \<or> 2 ^ 31 - 1 \<le> length (handles (ht (snd (main_loop E n s))))"
  using table.ev_main_loop [of "readonly s" E n] assms by (auto simp: evolves_def ht_inv_def ht_ok_def)

theorem handle_table_stays_well_formed_witness:
  "ht_wf (ht (snd (main_loop host_env 5 (host_srv False True
      (packet SSH2_FXP_OPENDIR 1 (enc_string (lit ''/''))))))) \<or>
   2 ^ 31 - 1 \<le> length (handles (ht (snd (main_loop host_env 5 (host_srv False True
      (packet SSH2_FXP_OPENDIR 1 (enc_string (lit ''/''))))))))"
proof (rule handle_table_stays_well_formed)
  show "ht_wf (ht (host_srv False True (packet SSH2_FXP_OPENDIR 1 (enc_string (lit ''/'')))))"
    using ht_init_wf by (simp add: host_srv_def)
qed

text \<open>
  C11. Which requests are permitted. A request is refused in read-only mode if it writes, if it
  is on the blacklist, or if there is a whitelist that it is not on; otherwise it is permitted.
  The items of a list are what stands between the commas, up to the first empty one and forty at
  most.
\<close>

theorem request_permitted_spec:
  assumes "h \<in> set (handlers_table E) \<union> set (extended_handlers E)"
  shows "request_permitted h s \<longleftrightarrow>
     \<not> (readonly s \<and> sh_does_write h) \<and>
     (\<forall>l. request_blacklist s = Some l \<longrightarrow> lit (sh_name h) \<notin> set (sproposals l)) \<and>
     (\<forall>l. request_whitelist s = Some l \<longrightarrow> lit (sh_name h) \<in> set (sproposals l))"
  using permitted_lists [OF handler_names [OF assms]] by blast

theorem request_permitted_spec_witness:
  "request_permitted (handler ''open'' SSH2_FXP_OPEN (process_open host_env) False)
     ((host_srv True True [])\<lparr>request_whitelist := Some (lit ''open,close'')\<rparr>)"
proof -
  have mem: "handler ''open'' SSH2_FXP_OPEN (process_open host_env) False
      \<in> set (handlers_table host_env) \<union> set (extended_handlers host_env)"
    by (simp add: handlers_table_def)
  have "lit ''open'' \<in> set (sproposals (lit ''open,close''))" by code_simp
  then show ?thesis
    unfolding request_permitted_spec [OF mem] by (simp add: handler_def host_srv_def)
qed

section \<open>Buffers and encodings\<close>

text \<open>
  C12. The buffers are byte queues. On a writable buffer, and with memory granted, each reader
  and writer does to the live bytes what the operation of the same name does to a queue of bytes
  with a capacity, with the same result or error, and leaves the buffer writable: offsets,
  packing and growing do not show. A string that does not fit leaves the queue as it was.
\<close>

theorem sshbuf_refines_byte_queue:
  assumes "\<forall>n. al n" and "sb_writable b"
  shows "sb_writable (snd (sshbuf_put_string al v b)) \<and>
      bq_put_string v (sb_abs b) = (fst (sshbuf_put_string al v b), sb_abs (snd (sshbuf_put_string al v b))) \<and>
    sb_writable (snd (sshbuf_put_u64 al x b)) \<and>
      bq_put (put_u64 x) (sb_abs b) = (fst (sshbuf_put_u64 al x b), sb_abs (snd (sshbuf_put_u64 al x b))) \<and>
    sb_writable (snd (sshbuf_get_string al b)) \<and>
      bq_get_string (sb_abs b) = (fst (sshbuf_get_string al b), sb_abs (snd (sshbuf_get_string al b))) \<and>
    sb_writable (snd (sshbuf_get_cstring al b)) \<and>
      bq_get_cstring (sb_abs b) = (fst (sshbuf_get_cstring al b), sb_abs (snd (sshbuf_get_cstring al b))) \<and>
    sb_writable (snd (sshbuf_get_u64 b)) \<and>
      bq_get_u64 (sb_abs b) = (fst (sshbuf_get_u64 b), sb_abs (snd (sshbuf_get_u64 b))) \<and>
    sb_writable (snd (sshbuf_consume n b)) \<and>
      bq_consume n (sb_abs b) = (fst (sshbuf_consume n b), sb_abs (snd (sshbuf_consume n b)))"
  by (intro conjI sim_run [OF sshbuf_put_string_sim [OF assms(1)] assms(2)]
      sim_run [OF sshbuf_put_u64_sim [OF assms(1)] assms(2)]
      sim_run [OF sb_rw.get_string [OF assms(1)] assms(2)]
      sim_run [OF sb_rw.get_cstring [OF assms(1)] assms(2)]
      sim_run [OF sb_rw.get_u64 assms(2)] sim_run [OF sshbuf_consume_sim assms(2)])

theorem sshbuf_refines_byte_queue_witness:
  "bq_put_string [1, 2, 3] (sb_abs (host_buf [7])) =
     (fst (sshbuf_put_string (\<lambda>_. True) [1, 2, 3] (host_buf [7])),
      sb_abs (snd (sshbuf_put_string (\<lambda>_. True) [1, 2, 3] (host_buf [7]))))"
proof -
  have "sb_writable (host_buf [7])" using host_buf_writable by blast
  from sshbuf_refines_byte_queue [OF _ this, of "\<lambda>_. True" "[1, 2, 3]"] show ?thesis by simp
qed

text \<open>
  C13. A buffer is a queue of strings: strings put one after the other come out in the order
  they went in, unchanged, behind those that were in the buffer before and however often it is
  packed and grown, as long as they fit.
\<close>

theorem strings_come_out_in_order:
  assumes "\<forall>n. al n" and "sb_writable b" and "sshbuf_ptr b = concat (map enc_string us)"
    and "\<forall>v \<in> set (us @ vs). length v \<le> SSHBUF_SIZE_MAX - 4"
    and "length (concat (map enc_string (us @ vs))) \<le> sb_max_size b"
  shows "fst (bindE (forE vs (sshbuf_put_string al)) (\<lambda>_. get_strings al (length (us @ vs))) b) = Inr (us @ vs)"
  using assms by (rule strings_fifo)

theorem strings_come_out_in_order_witness:
  "fst (bindE (forE [[2, 3], []] (sshbuf_put_string (\<lambda>_. True)))
     (\<lambda>_. get_strings (\<lambda>_. True) (length ([[1 :: u8]] @ [[2, 3], []]))) (host_buf (enc_string [1]))) = Inr ([[1]] @ [[2, 3], []])"
proof (rule strings_come_out_in_order)
  show "sb_writable (host_buf (enc_string [1]))" using host_buf_writable by blast
  show "sshbuf_ptr (host_buf (enc_string [1])) = concat (map enc_string [[1]])"
    by (simp add: host_buf_ptr enc_string_def sshbuf_consts)
  have "sb_max_size (host_buf (enc_string [1])) = SSHBUF_SIZE_MAX" using host_buf_writable by blast
  then show "length (concat (map enc_string ([[1]] @ [[2, 3], []]))) \<le> sb_max_size (host_buf (enc_string [1]))"
    by (simp add: enc_string_def sshbuf_consts)
qed (simp_all add: sshbuf_consts)

text \<open>
  C14. Attributes survive the wire: what \<open>encode_attrib\<close> appends to a buffer,
  \<open>decode_attrib\<close> reads back, for attributes without extensions whose unused fields are zero.
\<close>

theorem attrib_roundtrip:
  assumes "\<forall>n. al n" and "sb_writable b" and "sshbuf_ptr b = []" and "32 \<le> sb_max_size b"
    and "attrib_normal a"
  shows "\<exists>b'. encode_attrib al a b = (Inr (), b') \<and> fst (decode_attrib al b') = Inr a"
proof -
  have "length (sshbuf_ptr b) + length (enc_attrib a) \<le> sb_max_size b"
    using assms(3,4) length_enc_attrib [of a] by simp
  from appendsD [OF appends_encode_attrib [OF assms(1)] assms(2) this]
  obtain b' where b': "encode_attrib al a b = (Inr (), b')" "sb_writable b'"
      "sshbuf_ptr b' = enc_attrib a @ []"
    using assms(3) by (metis append_Nil append_Nil2)
  obtain r c where run: "decode_attrib al b' = (r, c)" by fastforce
  have "bq_bytes (sb_abs b') = enc_attrib a @ []" using b'(3) by simp
  from takesD [OF takes_attrib [OF assms(5)] this] simD(2) [OF decode_attrib_sim [OF assms(1)] b'(2) run]
  have "r = Inr a" by simp
  then show ?thesis using b'(1) run by auto
qed

theorem attrib_roundtrip_witness:
  "\<exists>b'. encode_attrib (\<lambda>_. True) (stat_to_attrib (host_stat [1, 2, 3])) (host_buf []) = (Inr (), b') \<and>
        fst (decode_attrib (\<lambda>_. True) b') = Inr (stat_to_attrib (host_stat [1, 2, 3]))"
proof (rule attrib_roundtrip)
  show "sb_writable (host_buf [])" "32 \<le> sb_max_size (host_buf [])"
    using host_buf_writable [of "[]"] by (simp_all add: sshbuf_consts)
  show "sshbuf_ptr (host_buf []) = []" by (rule host_buf_ptr) simp
  show "attrib_normal (stat_to_attrib (host_stat [1, 2, 3]))"
    by (simp add: attrib_normal_def stat_to_attrib_def host_stat_def attr_flags)
qed simp

text \<open>
  C15. The digest in a message is 64 lower-case hexadecimal digits and determines the 32 bytes
  of the hash.
\<close>

theorem hexdigest_faithful:
  assumes "length d = MQ_CHECKSUM_SIZE" and "length e = MQ_CHECKSUM_SIZE"
  shows "length (hexdigest d) = 64 \<and> (\<forall>c \<in> set (hexdigest d). 48 \<le> c \<and> c \<le> 57 \<or> 97 \<le> c \<and> c \<le> 102) \<and>
    (hexdigest d = hexdigest e \<longleftrightarrow> d = e)"
  using hexdigest_digits [OF assms(1)] hexdigest_inj [OF assms] by simp

theorem hexdigest_faithful_witness:
  "length (hexdigest (replicate 32 0xAB)) = 64 \<and> hexdigest (replicate 32 0xAB) \<noteq> hexdigest (replicate 32 0xBA)"
  using hexdigest_faithful [of "replicate 32 0xAB" "replicate 32 0xBA"]
  by (simp add: MQ_CHECKSUM_SIZE_def)

section \<open>Patterns\<close>

text \<open>
  C16. \<open>match_pattern\<close> accepts only strings that fit the pattern: \<open>?\<close> stands for one
  character, an asterisk for any number of characters, every other character for itself. For a
  pattern without two asterisks in a row it accepts all of them.
\<close>

theorem match_pattern_is_glob:
  "(match_pattern s p \<longrightarrow> glob p s) \<and> (\<not> double_star p \<longrightarrow> match_pattern s p = glob p s)"
  using match_sound_aux(1) [of s p] match_complete_aux(1) [of p s] by blast

theorem match_pattern_is_glob_witness:
  "match_pattern (lit ''host.example'') (lit ''h*.ex?mple'') = glob (lit ''h*.ex?mple'') (lit ''host.example'')"
proof -
  have "\<not> double_star (lit ''h*.ex?mple'')" by code_simp
  with match_pattern_is_glob [of "lit ''host.example''" "lit ''h*.ex?mple''"] show ?thesis by blast
qed

text \<open>
  C17. A list of patterns: if a negated one matches the result is -1, else it is 1 or 0 according
  to whether another one matches; the order does not matter. This is for lists whose items are
  shorter than the internal buffer.
\<close>

theorem match_pattern_list_verdict:
  assumes "\<forall>t \<in> set (list_tokens pat). length t < SUB_MAX"
  shows "match_pattern_list s pat dolower =
    (if \<exists>t \<in> set (list_tokens pat). fst (pattern_item t) \<and> sub_hit s dolower (snd (pattern_item t)) then -1
     else if \<exists>t \<in> set (list_tokens pat). \<not> fst (pattern_item t) \<and> sub_hit s dolower (snd (pattern_item t)) then 1
     else 0)"
  using pattern_list_loop_verdict [OF assms, of s dolower False]
  by (simp add: match_pattern_list_def list_verdict_def del: pattern_list_loop.simps)

theorem match_pattern_list_verdict_witness:
  "match_pattern_list (lit ''bad.org'') (lit ''*.org,!bad*'') False = -1"
proof -
  have "\<forall>t \<in> set (list_tokens (lit ''*.org,!bad*'')). length t < SUB_MAX" by code_simp
  moreover have "\<exists>t \<in> set (list_tokens (lit ''*.org,!bad*'')).
      fst (pattern_item t) \<and> sub_hit (lit ''bad.org'') False (snd (pattern_item t))" by code_simp
  ultimately show ?thesis by (simp only: match_pattern_list_verdict if_True)
qed

text \<open>
  C18. The filters of algorithm lists keep the items of the proposal, in their order, that match
  the filter (whitelist) or do not (blacklist). This is for proposals without empty items.
\<close>

theorem filters_keep_the_order:
  assumes "al (length proposal + 1)" and "[] \<notin> set (strsep_all proposal)"
  shows "match_filter_whitelist al proposal flt =
      Some (join (filter (\<lambda>t. match_pattern_list t flt False = 1) (strsep_all proposal))) \<and>
    match_filter_blacklist al proposal flt =
      Some (join (filter (\<lambda>t. match_pattern_list t flt False \<noteq> 1) (strsep_all proposal)))"
proof -
  have k: "filter_keeps flt b = (\<lambda>t. (match_pattern_list t flt False = 1) = (\<not> b))" for b
    by (rule ext) (simp add: filter_keeps_def)
  show ?thesis
    using filter_list_join [where al = al, OF assms, of flt]
    by (simp add: match_filter_whitelist_def match_filter_blacklist_def k)
qed

theorem filters_keep_the_order_witness:
  "match_filter_blacklist (\<lambda>_. True) (lit ''a1,b2,a3'') (lit ''b*'') = Some (lit ''a1,a3'')"
proof -
  have "[] \<notin> set (strsep_all (lit ''a1,b2,a3''))" by code_simp
  from filters_keep_the_order [OF _ this, of "\<lambda>_. True" "lit ''b*''"]
  have "match_filter_blacklist (\<lambda>_. True) (lit ''a1,b2,a3'') (lit ''b*'') =
      Some (join (filter (\<lambda>t. match_pattern_list t (lit ''b*'') False \<noteq> 1) (strsep_all (lit ''a1,b2,a3''))))"
    by simp
  moreover have "join (filter (\<lambda>t. match_pattern_list t (lit ''b*'') False \<noteq> 1)
      (strsep_all (lit ''a1,b2,a3''))) = lit ''a1,a3''" by code_simp
  ultimately show ?thesis by simp
qed

section \<open>Handles and listings\<close>

text \<open>
  C19. Handles of open files do not get mixed up. A new handle is one that no open file has; it
  and its string denote the new file and every other open file keeps its handle.
\<close>

theorem new_handle_is_fresh:
  assumes "ht_wf t" and "use \<noteq> HANDLE_UNUSED" and "length (handles t) < 2 ^ 31 - 1"
  shows "\<exists>i h t'. handle_new fresh use name fd flags dirp t = (i, t') \<and> ht_wf t' \<and>
     ht_live t i = None \<and> ht_live t' = (ht_live t)(i \<mapsto> h) \<and>
     h_use h = use \<and> h_name h = name \<and> h_fd h = fd \<and> h_flags h = flags \<and>
     handle_from_string (handle_to_string i) t' = i"
proof -
  obtain i h t' where n: "handle_new fresh use name fd flags dirp t = (i, t')" "ht_wf t'"
      "ht_live t i = None" "ht_live t' = (ht_live t)(i \<mapsto> h)"
      "h_use h = use" "h_name h = name" "h_fd h = fd" "h_flags h = flags"
    by (rule handle_new_spec [OF assms]) blast
  moreover have "ht_live t' i = Some h" using n(4) by simp
  from handle_string_roundtrip [OF n(2) this] have "handle_from_string (handle_to_string i) t' = i" .
  ultimately show ?thesis by blast
qed

theorem new_handle_is_fresh_witness:
  "\<exists>i h t'. handle_new host_handle HANDLE_FILE (lit ''/b'') 5 0 None (ht_init :: bytes htab) = (i, t') \<and>
     ht_wf t' \<and> ht_live t' = (ht_live ht_init)(i \<mapsto> h) \<and> handle_from_string (handle_to_string i) t' = i"
  using new_handle_is_fresh [OF ht_init_wf, of HANDLE_FILE host_handle "lit ''/b''" 5 0 None]
  by (auto simp: ht_init_def)


section \<open>The broker protocol\<close>

text \<open>
  C21. Methods survive the wire. A method of any kind whose strings and tables fit their length
  fields has an encoding of some length: \<open>amqp_encode_method\<close> writes it to the front of a buffer
  and returns its length if the buffer is that long, and fails otherwise; and what it writes
  is what \<open>amqp_decode_method\<close> turns back into the method, all arguments unchanged. Of the pool it
  is used that it grants memory.
\<close>

theorem methods_survive_the_wire:
  assumes "\<forall>n. al n" and "method_ok m"
  shows "\<exists>v.
      (length v \<le> length buf \<longrightarrow>
         amqp_encode_method (method_number m) m buf = (Inr (length v), v @ drop (length v) buf)) \<and>
      (length buf < length v \<longrightarrow>
         (\<exists>err buf'. amqp_encode_method (method_number m) m buf = (Inl err, buf'))) \<and>
      amqp_decode_method al (method_number m) v = Inr m"
proof -
  have al: "\<And>n. al n" using assms(1) by simp
  obtain v where "\<forall>buf. if length v \<le> length buf
       then amqp_encode_method (method_number m) m buf = (Inr (length v), v @ drop (length v) buf)
       else \<exists>err buf'. amqp_encode_method (method_number m) m buf = (Inl err, buf')"
    "amqp_decode_method al (method_number m) v = Inr m"
    by (rule encode_method_decoded [where al = al, OF al assms(2)])
  then show ?thesis by (intro exI [of _ v]) (auto split: if_splits)
qed

theorem methods_survive_the_wire_witness:
  "amqp_encode_method AMQP_CHANNEL_OPEN_METHOD (Channel_open \<lparr>out_of_band = [7, 9]\<rparr>) [0, 0, 0, 0] =
      (Inr 3, [2, 7, 9, 0]) \<and>
    amqp_decode_method (\<lambda>_. True) AMQP_CHANNEL_OPEN_METHOD [2, 7, 9] = Inr (Channel_open \<lparr>out_of_band = [7, 9]\<rparr>)"
proof -
  let ?m = "Channel_open \<lparr>out_of_band = [7, 9]\<rparr>"
  have ok: "\<forall>n. (\<lambda>_ :: nat. True) n" "method_ok ?m" by (simp_all add: short_ok_def)
  have e: "amqp_encode_method AMQP_CHANNEL_OPEN_METHOD ?m [0, 0, 0, 0] = (Inr 3, [2, 7, 9, 0])" by code_simp
  obtain v where v: "length v \<le> length [0 :: u8, 0, 0, 0] \<longrightarrow> amqp_encode_method AMQP_CHANNEL_OPEN_METHOD ?m [0, 0, 0, 0] =
        (Inr (length v), v @ drop (length v) [0, 0, 0, 0])"
      "length [0 :: u8, 0, 0, 0] < length v \<longrightarrow> (\<exists>err buf'. amqp_encode_method AMQP_CHANNEL_OPEN_METHOD ?m [0, 0, 0, 0] = (Inl err, buf'))"
    and d: "amqp_decode_method (\<lambda>_. True) AMQP_CHANNEL_OPEN_METHOD v = Inr ?m"
    using methods_survive_the_wire [OF ok, of "[0, 0, 0, 0]"] unfolding method_number.simps by blast
  have "length v \<le> 4" using v(2) e by (cases "length v \<le> 4") auto
  then have "length v = 3" "v @ drop (length v) [0, 0, 0, 0] = [2, 7, 9, 0]" using v(1) e by auto
  then have "v = [2, 7, 9]" by (cases v; cases "tl v"; cases "tl (tl v)") auto
  then show ?thesis using e d by simp
qed

text \<open>
  C22. Content properties survive the wire. \<open>amqp_encode_properties\<close> writes the flags and the fields
  whose flag is set, and \<open>amqp_decode_properties\<close> gives them back; the other fields of the decoded
  structure are what the memory it was allocated in holds. The flags fit one word, strings and
  headers fit their length fields, and the class is that of the properties.
\<close>

theorem properties_survive_the_wire:
  assumes "\<forall>n. al n" and "properties_ok p" and "class_ok cls p"
  shows "\<exists>v.
      (length v \<le> length buf \<longrightarrow>
         amqp_encode_properties cls p buf = (Inr (length v), v @ drop (length v) buf)) \<and>
      (length buf < length v \<longrightarrow> (\<exists>err buf'. amqp_encode_properties cls p buf = (Inl err, buf'))) \<and>
      amqp_decode_properties al block cls v = Inr (decoded_properties block p)"
proof -
  have al: "\<And>n. al n" using assms(1) by simp
  obtain v where "\<forall>buf. if length v \<le> length buf
       then amqp_encode_properties cls p buf = (Inr (length v), v @ drop (length v) buf)
       else \<exists>err buf'. amqp_encode_properties cls p buf = (Inl err, buf')"
    "amqp_decode_properties al block cls v = Inr (decoded_properties block p)"
    by (rule encode_properties_decoded [where al = al and block = block, OF al assms(2,3)])
  then show ?thesis by (intro exI [of _ v]) (auto split: if_splits)
qed

theorem properties_survive_the_wire_witness:
  "amqp_encode_properties 10 (Flags_Only 6) [0, 0, 0] = (Inr 2, [0, 6, 0]) \<and>
    (\<forall>block. amqp_decode_properties (\<lambda>_. True) block 10 [0, 6] = Inr (Flags_Only 6))"
proof (intro conjI allI)
  show e: "amqp_encode_properties 10 (Flags_Only 6) [0, 0, 0] = (Inr 2, [0, 6, 0])" by code_simp
  fix block
  have ok: "\<forall>n. (\<lambda>_ :: nat. True) n" "properties_ok (Flags_Only 6)" "class_ok 10 (Flags_Only 6)"
    by (simp_all add: flags_ok_def class_ok_def plain_classes_def)
  obtain v where v: "length v \<le> length [0 :: u8, 0, 0] \<longrightarrow> amqp_encode_properties 10 (Flags_Only 6) [0, 0, 0] =
        (Inr (length v), v @ drop (length v) [0, 0, 0])"
      "length [0 :: u8, 0, 0] < length v \<longrightarrow> (\<exists>err buf'. amqp_encode_properties 10 (Flags_Only 6) [0, 0, 0] = (Inl err, buf'))"
    and d: "amqp_decode_properties (\<lambda>_. True) block 10 v = Inr (Flags_Only 6)"
    using properties_survive_the_wire [OF ok, of "[0, 0, 0]" block] unfolding decoded_properties.simps by blast
  have "length v \<le> 3" using v(2) e by (cases "length v \<le> 3") auto
  then have "length v = 2" "v @ drop (length v) [0, 0, 0] = [0, 6, 0]" using v(1) e by auto
  then have "v = [0, 6]" by (cases v; cases "tl v") auto
  then show "amqp_decode_properties (\<lambda>_. True) block 10 [0, 6] = Inr (Flags_Only 6)" using d by simp
qed

text \<open>
  C23. Tables survive the wire, nested tables and arrays included. Where a table's keys, strings and
  blocks fit their length fields, \<open>amqp_encode_table\<close> writes it into a buffer that has the room, and
  \<open>amqp_decode_table\<close> reads the same table from there and stops where the encoder stopped.
\<close>

theorem tables_survive_the_wire:
  assumes "\<forall>n. al n" and "table_ok es" and "off + length (table_bytes es) \<le> length buf"
  shows "\<exists>buf'. amqp_encode_table es (buf, off) = (Inr (), (buf', off + length (table_bytes es))) \<and>
      amqp_decode_table al buf' off = (Inr es, off + length (table_bytes es))"
proof -
  have al: "\<And>n. al n" using assms(1) by simp
  have "known_value v" if "(k, v) \<in> set es" for k v
    using assms(2) that by (auto simp: table_ok_def intro: value_ok_known)
  then have "amqp_encode_table es (buf, off) =
      (Inr (), (write_at buf off (table_bytes es), off + length (table_bytes es)))"
    using assms(3) by (intro emits_fit [OF emits_table]) auto
  moreover have "amqp_decode_table al (write_at buf off (table_bytes es)) off = (Inr es, off + length (table_bytes es))"
    using readsD [OF reads_table [where al = al, OF al assms(2)], of "take off buf"] assms(3) by (simp add: write_at_def min_absorb2)
  ultimately show ?thesis by blast
qed

theorem tables_survive_the_wire_witness:
  "\<exists>buf'. amqp_encode_table [([97], FTable [([98], FArray [FBoolean 1, FVoid])])] (replicate 64 0, 3) = (Inr (), (buf', 24)) \<and>
      amqp_decode_table (\<lambda>_. True) buf' 3 = (Inr [([97], FTable [([98], FArray [FBoolean 1, FVoid])])], 24)"
proof -
  have l: "length (table_bytes [([97], FTable [([98], FArray [FBoolean 1, FVoid])])]) = 21" by code_simp
  show ?thesis
    using tables_survive_the_wire [of "\<lambda>_. True" "[([97], FTable [([98], FArray [FBoolean 1, FVoid])])]" 3 "replicate 64 0"] l
    by (simp add: table_ok_def sized_bytes_def entry_bytes_def)
qed

text \<open>
  C24. Decoding a table ends. Whatever the bytes are, and wherever in them it starts,
  \<open>amqp_decode_table\<close> returns a table or an error of its own: the fuel it is given, the number of
  the bytes, is never used up, by the loops or by the nesting of tables and arrays.
\<close>

theorem table_decoding_ends:
  "fst (amqp_decode_table al enc off) \<noteq> Inl Out_Of_Fuel"
  using table_decoder_ends [of al enc off] by (simp add: prod_eq_iff)


text \<open>A socket that takes five bytes at a time, a memory that grants everything, and a connection with
  small frames.\<close>

definition sample_net :: "bytes net" where
  "sample_net = \<lparr>n_clock = (\<lambda>w. (5, w)), n_send = (\<lambda>b fl w. (Done (min 5 (length b)), w @ take (min 5 (length b)) b)),
     n_recv = (\<lambda>n w. (Need_Read, w)), n_poll = (\<lambda>e t w. (Poll_Timeout, w)), n_open = (\<lambda>w. True), n_close = (\<lambda>w. w)\<rparr>"

definition sample_mem :: mem where
  "sample_mem = \<lparr>m_al = (\<lambda>n. True), m_fresh = (\<lambda>n. replicate n 0), m_block = zero_properties\<rparr>"

definition sample_conn :: amqp_conn where
  "sample_conn = zero_connection\<lparr>c_frame_max := 24, c_outbound := replicate 24 0, c_next_recv := amqp_time_infinite,
     c_next_send := amqp_time_infinite, c_inbound := In_Header, c_target_size := 7, c_sock_buffer := replicate 32 0\<rparr>"

lemma sample_facts:
  "net_ok id sample_net" "eager sample_net" "mem_ok sample_mem" "idle sample_conn" "calm sample_conn"
  "c_frame_max sample_conn = 24" "length (c_outbound sample_conn) = 24" "length (c_sock_buffer sample_conn) = 32"
  "c_queued sample_conn = []"
  by (simp_all add: net_ok_def eager_def sample_net_def mem_ok_def sample_mem_def idle_def calm_def sample_conn_def zero_connection_def)

lemma sample_encoded:
  "fst (amqp_frame_to_bytes \<lparr>frame_channel = 1, frame_payload = P_Method (publish_method [101] [107] False True)\<rparr>
     (c_outbound sample_conn)) = Inr 19"
  "fst (amqp_frame_to_bytes \<lparr>frame_channel = 1, frame_payload = publish_header None (replicate 18 7)\<rparr>
     (c_outbound sample_conn)) = Inr 22"
  by code_simp+

lemma zero_properties_ok: "basic_ok zero_properties"
  by (simp add: basic_ok_def flags_ok_def zero_properties_def short_ok_def table_ok_def has_def)

text \<open>The sample connection sends a message.\<close>

lemma publish_fits:
  assumes N: "eager N" and c: "calm c" "int (length (c_outbound c)) = c_frame_max c" "8 < c_frame_max c" "c_frame_max c < 2 ^ 31"
    and fuel: "length (c_outbound c) < fuel"
    and short: "length xchg < 256" "length key < 256"
    and props: "basic_ok (case props of None \<Rightarrow> zero_properties | Some p \<Rightarrow> p)"
    and m: "fst (amqp_frame_to_bytes \<lparr>frame_channel = chan, frame_payload = P_Method (publish_method xchg key mand imm)\<rparr>
      (c_outbound c)) = Inr n"
    and h: "fst (amqp_frame_to_bytes \<lparr>frame_channel = chan, frame_payload = publish_header props body\<rparr> (c_outbound c)) = Inr n'"
  shows "fst (amqp_basic_publish N M fuel chan xchg key mand imm props body (c, w)) = Inr ()"
proof -
  let ?m = "publish_method xchg key mand imm" and ?h = "publish_header props body" and ?al = "\<lambda>n :: nat. True"
  have "payload_ok (P_Method ?m)" using short by (simp add: publish_method_def short_ok_def)
  then obtain vm qm where vm: "carries ?al zero_properties (P_Method ?m) vm qm" by (rule payload_carried [where al = ?al, OF TrueI])
  have "payload_ok ?h" using props by (simp add: publish_header_def class_ok_def)
  then obtain vh qh where vh: "carries ?al zero_properties ?h vh qh" by (rule payload_carried [where al = ?al, OF TrueI])
  have "8 + length vm \<le> length (c_outbound c)" "8 + length vh \<le> length (c_outbound c)"
    using frame_fits [OF vm] frame_fits [OF vh] m h by (metis prod.collapse)+
  then show ?thesis using publish_runs [OF N c fuel vm _ vh, of M chan w] by fastforce
qed

lemma sample_published:
  "fst (amqp_basic_publish sample_net sample_mem 40 1 [101] [107] False True None (replicate 18 7) (sample_conn, [])) = Inr ()"
  using publish_fits [OF sample_facts(2,5) _ _ _ _ _ _ _ sample_encoded, of 40] sample_facts zero_properties_ok by simp

text \<open>
  C25. A published message arrives as it was sent. When \<open>amqp_basic_publish\<close> reports success over a
  socket that takes the bytes it says it takes, the bytes it has written, cut into pieces of any
  size that fit the receiver's socket buffer, are put together by the receiver
  (\<open>amqp_handle_input\<close> in the loop of \<open>amqp_try_recv\<close>) into the method frame, the header frame with
  the length and the properties of the message, and body frames whose concatenation is the body;
  partial sends, interrupted polls and frames that come in meanwhile make no difference.
\<close>

theorem published_message_arrives:
  assumes N: "net_ok sent N"
    and run: "amqp_basic_publish N M fuel chan xchg key mand imm props body (c, w) = (Inr u, (c', w'))"
    and short: "length xchg < 256" "length key < 256"
    and props: "basic_ok (case props of None \<Rightarrow> zero_properties | Some p \<Rightarrow> p)"
    and c: "int (length (c_outbound c)) = c_frame_max c" "8 < c_frame_max c" "c_frame_max c \<le> c_frame_max d"
    and d: "mem_ok M'" "idle d" "c_frame_max d < 2 ^ 31" "list_all (\<lambda>x. length x \<le> length (c_sock_buffer d)) ds"
    and wire: "sent w' = sent w @ concat ds"
  shows "\<exists>d' raw bodies. arrive M' ds d = (Inr (), d') \<and> idle d' \<and> concat bodies = body \<and>
    c_queued d' = c_queued d @ published_frames chan (publish_method xchg key mand imm)
      (P_Header AMQP_BASIC_CLASS (word_of_nat (length body))
         (Basic_Properties (present (case props of None \<Rightarrow> zero_properties | Some p \<Rightarrow> p) (m_block M'))) raw) bodies"
proof -
  have al: "\<And>n. m_al M' n" using d(1) by (simp add: mem_ok_def)
  let ?m = "publish_method xchg key mand imm" and ?h = "publish_header props body"
  have "payload_ok (P_Method ?m)" using short by (simp add: publish_method_def short_ok_def)
  then obtain vm qm where m: "carries (m_al M') (m_block M') (P_Method ?m) vm qm" by (rule payload_carried [where al = "m_al M'", OF al])
  have "payload_ok ?h" using props by (simp add: publish_header_def class_ok_def)
  then obtain vh qh where h: "carries (m_al M') (m_block M') ?h vh qh" by (rule payload_carried [where al = "m_al M'", OF al])
  have qm: "qm = P_Method ?m" using m by (auto elim: carries_cases)
  obtain raw where qh: "qh = P_Header AMQP_BASIC_CLASS (word_of_nat (length body))
         (Basic_Properties (present (case props of None \<Rightarrow> zero_properties | Some p \<Rightarrow> p) (m_block M'))) raw"
    using h by (auto simp: publish_header_def elim: carries_cases)
  define usable where "usable = size_of_int (c_frame_max c - 8)"
  have usable: "int usable = c_frame_max c - 8" using c d(3) by (simp add: usable_def size_of_int_def)
  have max: "int (size_of_int (c_frame_max d)) = c_frame_max d" using c d(3) by (simp add: size_of_int_def)
  let ?bs = "pieces usable body"
  have sent: "sent w' = sent w @ frame_bytes 1 chan vm @ frame_bytes 2 chan vh @ concat (map (frame_bytes 3 chan) ?bs)"
    and fits: "8 + length vm \<le> length (c_outbound c)" "8 + length vh \<le> length (c_outbound c)"
    using publish_sent [OF N m h run] by (simp_all add: goes_out_def usable_def)
  have "length b \<le> usable" if "b \<in> set ?bs" for b using length_pieces [OF that] by simp
  then have "\<forall>v \<in> set (vm # vh # ?bs). 8 + length v \<le> size_of_int (c_frame_max d) \<and> length v < 2 ^ 32 - 8"
    using fits c d(3) usable max by fastforce
  moreover have "concat ds = frame_bytes 1 chan vm @ frame_bytes 2 chan vh @ concat (map (frame_bytes 3 chan) ?bs)"
    using sent wire by simp
  moreover have "\<forall>x \<in> set ds. length x \<le> length (c_sock_buffer d)" using d(4) by (simp add: list_all_iff)
  moreover have "frame_type ?h = 2" by (simp add: publish_header_def)
  ultimately obtain d' where "arrive M' ds d = (Inr (), d')" "c_queued d' = c_queued d @ published_frames chan ?m qh ?bs" "idle d'"
    using publish_arrives [OF d(1,2) _ m [unfolded qm] h] by blast
  moreover have "concat ?bs = body" using usable c(2) by (intro concat_pieces) simp
  ultimately show ?thesis unfolding qh by blast
qed

theorem published_message_arrives_witness:
  "let run = amqp_basic_publish sample_net sample_mem 40 1 [101] [107] False True None (replicate 18 7) (sample_conn, []) in
   fst run = Inr () \<and>
   (\<exists>d' raw bodies. arrive sample_mem (map (\<lambda>b. [b]) (snd (snd run))) sample_conn = (Inr (), d') \<and> idle d' \<and>
      concat bodies = replicate 18 7 \<and>
      c_queued d' = published_frames 1 (publish_method [101] [107] False True)
        (P_Header AMQP_BASIC_CLASS 18 (Basic_Properties (present zero_properties zero_properties)) raw) bodies)"
proof -
  let ?run = "amqp_basic_publish sample_net sample_mem 40 1 [101] [107] False True None (replicate 18 7) (sample_conn, [])"
  obtain c' w' where run: "?run = (Inr (), (c', w'))" using sample_published by (metis prod.collapse)
  show ?thesis
    using published_message_arrives [OF sample_facts(1) run, of sample_conn sample_mem "map (\<lambda>b. [b]) w'"] run
      sample_facts zero_properties_ok
    by (simp add: list_all_iff sample_mem_def)
qed

text \<open>
  C26. Publishing succeeds. With heartbeats off, over a socket that takes at least one byte of whatever
  it is given, \<open>amqp_basic_publish\<close> returns \<open>AMQP_STATUS_OK\<close> for every message whose method frame and
  header frame fit into the outbound buffer, however long its body is; one unit of fuel more than
  the buffer has bytes is enough for each frame.
\<close>

theorem publishing_succeeds:
  assumes "eager N" and "calm c" and "int (length (c_outbound c)) = c_frame_max c"
    and "8 < c_frame_max c" and "c_frame_max c < 2 ^ 31" and "length (c_outbound c) < fuel"
    and "length xchg < 256" and "length key < 256" and "basic_ok (case props of None \<Rightarrow> zero_properties | Some p \<Rightarrow> p)"
    and "fst (amqp_frame_to_bytes \<lparr>frame_channel = chan, frame_payload = P_Method (publish_method xchg key mand imm)\<rparr>
      (c_outbound c)) = Inr n"
    and "fst (amqp_frame_to_bytes \<lparr>frame_channel = chan, frame_payload = publish_header props body\<rparr> (c_outbound c)) = Inr n'"
  shows "fst (amqp_basic_publish N M fuel chan xchg key mand imm props body (c, w)) = Inr ()"
  using publish_fits [OF assms] .

theorem publishing_succeeds_witness:
  "fst (amqp_basic_publish sample_net sample_mem 25 1 [101] [107] False True None (replicate 18 7) (sample_conn, [3])) = Inr ()"
  using publishing_succeeds [OF sample_facts(2,5) _ _ _ _ _ _ _ sample_encoded, of 25] sample_facts zero_properties_ok by simp

text \<open>
  C27. How the stream is cut makes no difference. Whatever pieces the socket delivers a sequence of
  frames in, \<open>consume_one_frame\<close> and \<open>amqp_handle_input\<close> put the same frames together, every one is
  queued once, in the order of the stream, and the connection is idle again at the end. The pieces
  fit the socket buffer, and no frame is longer than \<open>frame_max\<close>.
\<close>

theorem frames_arrive_however_cut:
  assumes "mem_ok M" and "idle c" and "list_all2 (incoming M) fbs fs"
    and "list_all (\<lambda>fb. length fb \<le> size_of_int (c_frame_max c)) fbs"
    and "list_all (\<lambda>d. length d \<le> length (c_sock_buffer c)) ds" and "concat ds = concat fbs"
  shows "\<exists>c'. arrive M ds c = (Inr (), c') \<and> c_queued c' = c_queued c @ complete_frames fs \<and> idle c'"
proof (rule arrive_stream [OF assms(1,3)])
  show "pending c [] fbs" using assms(2) incoming_length [OF assms(3)] by (rule pending_idle)
qed (use assms in \<open>simp_all add: list_all_iff\<close>)

theorem frames_arrive_however_cut_witness:
  "\<exists>c'. arrive sample_mem [[8, 0], [0, 0, 0, 0, 0, 0xCE, 3, 0, 5, 0, 0], [0, 2, 1, 2, 0xCE]] sample_conn = (Inr (), c') \<and>
     c_queued c' = [\<lparr>frame_channel = 0, frame_payload = P_Heartbeat\<rparr>, \<lparr>frame_channel = 5, frame_payload = P_Body [1, 2]\<rparr>] \<and> idle c'"
proof -
  let ?fbs = "[frame_bytes 8 0 [], frame_bytes 3 5 [1, 2]]"
    and ?fs = "[\<lparr>frame_channel = 0, frame_payload = P_Heartbeat\<rparr>, \<lparr>frame_channel = 5, frame_payload = P_Body [1, 2]\<rparr>]"
  have in1: "list_all2 (incoming sample_mem) ?fbs ?fs"
    using carried_incoming [OF carries.heartbeat, of sample_mem 0] carried_incoming [OF carries.body, of "[1, 2]" sample_mem 5] by simp
  have bytes: "frame_bytes 8 0 [] = [8, 0, 0, 0, 0, 0, 0, 0xCE]" "frame_bytes 3 5 [1, 2] = [3, 0, 5, 0, 0, 0, 2, 1, 2, 0xCE]"
    by code_simp+
  show ?thesis
    using frames_arrive_however_cut [OF sample_facts(3,4) in1, of "[[8, 0], [0, 0, 0, 0, 0, 0xCE, 3, 0, 5, 0, 0], [0, 2, 1, 2, 0xCE]]"]
      sample_facts bytes by (simp add: size_of_int_def)
qed

end
